(* ===== verification/Prelude.thy ===== *)
theory Prelude
  imports Main "HOL-Library.AList"
begin

section \<open>Shared vocabulary of the development\<close>

text \<open>
  What every component theory uses: the collections of facts the proofs share, Go's maps as
  association lists, Go's interface values with the reflective nil test, and the option
  runner that the three constructors of the program (\<open>backend.NewServices\<close>,
  \<open>openai.NewHandler\<close>, \<open>aiservershell.New\<close>) have in common.

  A Go map is an association list with distinct keys whose list order is the order in which
  a \<open>range\<close> loop visits it.  Go leaves that order unspecified, so a theorem about every
  such list is a theorem about every iteration order.
\<close>

named_theorems go_simps \<open>evaluation of the Go library functions\<close>
named_theorems model_defs \<open>definitions of the component operations\<close>

type_synonym ('k, 'v) gomap = "('k \<times> 'v) list"

subsection \<open>Sums as results\<close>

lemma sum_case_Inr_iff [simp]:
  "(case r of Inl e \<Rightarrow> Inl e | Inr x \<Rightarrow> f x) = Inr y \<longleftrightarrow> (\<exists>x. r = Inr x \<and> f x = Inr y)"
  by (cases r) auto

lemma Ex_Inr_Not_Inl: "(\<exists>x. r = Inr x) \<longleftrightarrow> \<not> (\<exists>e. r = Inl e)"
  by (cases r) auto

subsection \<open>Interface values\<close>

text \<open>The kinds of Go's \<open>reflect\<close> package that the code distinguishes, and a dynamic value:
  its kind, whether it is the nil value of a kind that has one, and what it stands for.\<close>

datatype go_kind =
    KBool | KInt | KString | KFloat | KArray | KStruct | KUnsafePointer
  | KChan | KFunc | KInterface | KMap | KPointer | KSlice

datatype 'a iface = NilInterface | Dynamic go_kind bool 'a

fun kind_IsNil_applies :: "go_kind \<Rightarrow> bool" where
  "kind_IsNil_applies KChan = True"
| "kind_IsNil_applies KFunc = True"
| "kind_IsNil_applies KInterface = True"
| "kind_IsNil_applies KMap = True"
| "kind_IsNil_applies KPointer = True"
| "kind_IsNil_applies KSlice = True"
| "kind_IsNil_applies _ = False"

fun isNilInterface :: "'a iface \<Rightarrow> bool" where
  "isNilInterface NilInterface = True"
| "isNilInterface (Dynamic kind null value) = (kind_IsNil_applies kind \<and> null)"

lemma isNilInterface_False_D: "\<not> isNilInterface v \<Longrightarrow> v \<noteq> NilInterface"
  by (cases v) auto

subsection \<open>Running options\<close>

text \<open>
  Each constructor of the program runs a variadic list of options over a configuration:
  \<open>None\<close> is a nil option, which is an error; the first error stops the loop.
\<close>

fun run_options :: "'e \<Rightarrow> ('c \<Rightarrow> 'e + 'c) option list \<Rightarrow> 'c \<Rightarrow> 'e + 'c" where
  "run_options nil_error [] c = Inr c"
| "run_options nil_error (None # os) c = Inl nil_error"
| "run_options nil_error (Some f # os) c =
     (case f c of Inl e \<Rightarrow> Inl e | Inr c' \<Rightarrow> run_options nil_error os c')"

lemma run_options_append:
  "run_options e (xs @ ys) c =
     (case run_options e xs c of Inl err \<Rightarrow> Inl err | Inr c' \<Rightarrow> run_options e ys c')"
  by (induction e xs c rule: run_options.induct) (auto split: sum.splits)

text \<open>An invariant every option keeps holds of the final configuration.\<close>

lemma run_options_invariant:
  assumes "run_options e os c = Inr c'" and "I c"
    and "\<And>f a b. Some f \<in> set os \<Longrightarrow> f a = Inr b \<Longrightarrow> I a \<Longrightarrow> I b"
  shows "I c'"
  using assms
proof (induction e os c rule: run_options.induct)
  case (3 e f os c)
  from "3.prems"(1) obtain d where d: "f c = Inr d" and run: "run_options e os d = Inr c'"
    by auto
  have "I d" using "3.prems"(3)[of f c d] d "3.prems"(2) by simp
  with "3.IH"[OF d run] "3.prems"(3) show ?case by auto
qed auto

lemma run_options_None: "None \<in> set os \<Longrightarrow> \<exists>err. run_options e os c = Inl err"
  by (induction e os c rule: run_options.induct) (auto split: sum.splits)

subsection \<open>Association lists\<close>

lemma map_of_update [simp]: "map_of (AList.update k v m) = (map_of m)(k \<mapsto> v)"
  by (rule update_conv')

lemma set_update_subset: "set (AList.update k v m) \<subseteq> insert (k, v) (set m)"
  by (induction m) auto

lemma map_of_filter_key: "map_of (filter (\<lambda>(k, v). P k) m) k = (if P k then map_of m k else None)"
  by (induction m) auto

end
