(* ===== verification/Registry.thy ===== *)
theory Registry
  imports Prelude
begin

section \<open>Registration interfaces\<close>

text \<open>
  The contract that the option functions of \<open>backend/services.go\<close> and \<open>server.go\<close>
  share: each registers one value in one slot of a configuration, refuses an inadmissible
  value and refuses a slot that is taken.  The client is the constructor's option loop; its
  correctness (when it succeeds, and what a lookup returns afterwards) is proved here once.
\<close>

locale registration =
  fixes slot :: "'r \<Rightarrow> 'k"
    and admit :: "'r \<Rightarrow> bool"
    and put :: "'r \<Rightarrow> 'c \<Rightarrow> 'e + 'c"
    and get :: "'c \<Rightarrow> 'k \<Rightarrow> 'r option"
  assumes put_ok: "admit r \<Longrightarrow> get c (slot r) = None \<Longrightarrow> \<exists>c'. put r c = Inr c'"
    and put_admit: "put r c = Inr c' \<Longrightarrow> admit r"
    and put_fresh: "put r c = Inr c' \<Longrightarrow> get c (slot r) = None"
    and put_get: "put r c = Inr c' \<Longrightarrow> get c' k = (if k = slot r then Some r else get c k)"
begin

lemma run_ok_iff:
  "(\<exists>c'. run_options e (map (\<lambda>r. Some (put r)) rs) c = Inr c') \<longleftrightarrow>
     (\<forall>r\<in>set rs. admit r \<and> get c (slot r) = None) \<and> distinct (map slot rs)"
proof (induction rs arbitrary: c)
  case (Cons r rs)
  show ?case
  proof (cases "put r c")
    case (Inl err)
    then have "\<not> (admit r \<and> get c (slot r) = None)"
      using put_ok[of r c] by auto
    then show ?thesis using Inl by auto
  next
    case (Inr d)
    note put_admit[OF Inr] put_fresh[OF Inr]
    moreover have "(\<forall>x\<in>set rs. admit x \<and> get d (slot x) = None) \<longleftrightarrow>
        (\<forall>x\<in>set rs. admit x \<and> get c (slot x) = None \<and> slot x \<noteq> slot r)"
      using put_get[OF Inr] by auto
    ultimately show ?thesis using Inr Cons.IH[of d] by (simp add: image_iff) metis
  qed
qed simp

lemma run_get:
  assumes "run_options e (map (\<lambda>r. Some (put r)) rs) c = Inr c'"
  shows "get c' k = (case find (\<lambda>r. slot r = k) rs of Some r \<Rightarrow> Some r | None \<Rightarrow> get c k)"
  using assms
proof (induction rs arbitrary: c)
  case (Cons r rs)
  from Cons.prems obtain d where d: "put r c = Inr d"
    and run: "run_options e (map (\<lambda>r. Some (put r)) rs) d = Inr c'" by auto
  have "distinct (map slot (r # rs))"
    using run_ok_iff[of e "r # rs" c] Cons.prems by auto
  then have "slot r = k \<Longrightarrow> find (\<lambda>x. slot x = k) rs = None"
    by (auto simp: find_None_iff image_iff)
  with Cons.IH[OF run] put_get[OF d, of k] show ?case
    by (auto split: option.splits)
qed simp

lemma run_admissible:
  "run_options e (map (\<lambda>r. Some (put r)) rs) c = Inr c' \<Longrightarrow> r \<in> set rs \<Longrightarrow> admit r"
  using run_ok_iff[of e rs c] by auto

end

text \<open>
  The weaker contract of every constructor of the program: options that keep an invariant of the
  configuration, run from one that has it.
\<close>

locale configuration =
  fixes apply_option :: "'o \<Rightarrow> 'c \<Rightarrow> 'e + 'c"
    and start :: 'c
    and ok :: "'c \<Rightarrow> bool"
  assumes start_ok: "ok start"
    and option_ok: "apply_option o' c = Inr c' \<Longrightarrow> ok c \<Longrightarrow> ok c'"
begin

lemma run_ok:
  assumes "run_options e (map (map_option apply_option) os) start = Inr c"
  shows "ok c"
  using assms start_ok
proof (rule run_options_invariant[where I = ok])
  fix f a b
  assume "Some f \<in> set (map (map_option apply_option) os)" "f a = Inr b" "ok a"
  moreover then obtain x where "f = apply_option x" by (auto simp: map_option_case split: option.splits)
  ultimately show "ok b" using option_ok by blast
qed

lemma run_no_nil: "run_options e (map (map_option apply_option) os) start = Inr c \<Longrightarrow> None \<notin> set os"
  using run_options_None[of "map (map_option apply_option) os" e start] by force

end

end
