(* ===== verification/Go_Strings.thy ===== *)
theory Go_Strings
  imports Prelude
begin

section \<open>Go's byte strings: strings, net/textproto, net/url\<close>

text \<open>
  The functions of Go's standard library that the source calls on strings.  A Go string is a
  sequence of bytes that is read as UTF-8 where a function works on runes, so the rune-based
  functions recognise the multi-byte sequences that matter for them:
  \<^item> \<open>TrimSpace\<close> strips every encoding of a rune with \<open>unicode.IsSpace\<close>;
  \<^item> \<open>EqualFold s t\<close> is exact for every byte string \<open>s\<close> and every ASCII \<open>t\<close>, which is how the
    source calls it: the two runes outside ASCII that fold to an ASCII letter are U+017F (s)
    and U+212A (k);
  \<^item> \<open>ToLower\<close> maps ASCII letters and the two runes outside ASCII whose lower case is an ASCII
    letter (U+0130 to i, U+212A to k), and keeps other bytes; the source only compares its
    result with ASCII literals, which other runes cannot match.
\<close>

subsection \<open>Bytes\<close>

abbreviation byte_val :: "char \<Rightarrow> nat" where
  "byte_val c \<equiv> of_char c"

definition lower_byte :: "char \<Rightarrow> char" where
  "lower_byte c = (if 65 \<le> byte_val c \<and> byte_val c \<le> 90 then char_of (byte_val c + 32) else c)"

definition upper_byte :: "char \<Rightarrow> char" where
  "upper_byte c = (if 97 \<le> byte_val c \<and> byte_val c \<le> 122 then char_of (byte_val c - 32) else c)"

definition ascii :: "char \<Rightarrow> bool" where
  "ascii c \<longleftrightarrow> byte_val c < 128"

lemma byte_val_lower: "byte_val (lower_byte c) =
    (if 65 \<le> byte_val c \<and> byte_val c \<le> 90 then byte_val c + 32 else byte_val c)"
  by (simp add: lower_byte_def)

lemma byte_val_upper: "byte_val (upper_byte c) =
    (if 97 \<le> byte_val c \<and> byte_val c \<le> 122 then byte_val c - 32 else byte_val c)"
  by (auto simp: upper_byte_def)

lemma char_eq_byte_val: "c = d \<longleftrightarrow> byte_val c = byte_val d"
  by simp

lemma lower_lower [simp]: "lower_byte (lower_byte c) = lower_byte c"
  by (simp add: char_eq_byte_val byte_val_lower del: of_char_eq_iff)

lemma lower_upper [simp]: "lower_byte (upper_byte c) = lower_byte c"
  by (auto simp: char_eq_byte_val byte_val_lower byte_val_upper simp del: of_char_eq_iff)

lemma ascii_lower [simp]: "ascii (lower_byte c) = ascii c"
  by (auto simp: ascii_def byte_val_lower)

lemma ascii_upper [simp]: "ascii (upper_byte c) = ascii c"
  by (auto simp: ascii_def byte_val_upper)

subsection \<open>Prefixes, search and splitting\<close>

definition HasPrefix :: "string \<Rightarrow> string \<Rightarrow> bool" where
  "HasPrefix s p \<longleftrightarrow> take (length p) s = p"

fun Contains :: "string \<Rightarrow> string \<Rightarrow> bool" where
  "Contains [] p = (p = [])"
| "Contains (c # s) p = (HasPrefix (c # s) p \<or> Contains s p)"

definition TrimSuffix :: "string \<Rightarrow> string \<Rightarrow> string" where
  "TrimSuffix s q =
    (if length q \<le> length s \<and> drop (length s - length q) s = q then take (length s - length q) s
     else s)"

definition CutPrefix :: "string \<Rightarrow> string \<Rightarrow> string \<times> bool" where
  "CutPrefix s p = (if HasPrefix s p then (drop (length p) s, True) else (s, False))"

text \<open>\<open>strings.Cut\<close> and \<open>strings.Split\<close> with a one-byte separator.\<close>

fun Cut :: "string \<Rightarrow> char \<Rightarrow> string \<times> string \<times> bool" where
  "Cut [] sep = ([], [], False)"
| "Cut (c # s) sep =
     (if c = sep then ([], s, True) else (case Cut s sep of (a, b, f) \<Rightarrow> (c # a, b, f)))"

fun Split :: "string \<Rightarrow> char \<Rightarrow> string list" where
  "Split [] sep = [[]]"
| "Split (c # s) sep =
     (if c = sep then [] # Split s sep
      else (case Split s sep of l # ls \<Rightarrow> (c # l) # ls | [] \<Rightarrow> [[c]]))"

lemma HasPrefix_append [simp]: "HasPrefix (p @ s) p"
  by (simp add: HasPrefix_def)

lemma HasPrefix_iff: "HasPrefix s p \<longleftrightarrow> (\<exists>r. s = p @ r)"
  by (metis HasPrefix_append HasPrefix_def append_take_drop_id)

lemma HasPrefix_Nil [simp]: "HasPrefix s []"
  by (simp add: HasPrefix_def)

lemma Contains_iff: "Contains s p \<longleftrightarrow> (\<exists>a b. s = a @ p @ b)"
proof (induction s)
  case (Cons c s)
  have "(\<exists>a b. c # s = a @ p @ b) \<longleftrightarrow> (\<exists>b. c # s = p @ b) \<or> (\<exists>a b. s = a @ p @ b)"
    by (auto simp: Cons_eq_append_conv)
  then show ?case by (simp add: Cons.IH HasPrefix_iff)
qed auto

lemma Split_not_Nil [simp]: "Split s sep \<noteq> []"
  by (induction s) (auto split: list.splits)

lemma Split_concat:
  "concat (map (\<lambda>l. l @ [sep]) (Split s sep)) = s @ [sep]"
  by (induction s) (auto split: list.splits)

lemma Split_no_sep: "l \<in> set (Split s sep) \<Longrightarrow> sep \<notin> set l"
  by (induction s arbitrary: l) (auto split: list.splits if_splits)

lemma Split_append_sep:
  "sep \<notin> set l \<Longrightarrow> Split (l @ sep # s) sep = l # Split s sep"
  by (induction l) auto

lemma Split_no_sep_id: "sep \<notin> set l \<Longrightarrow> Split l sep = [l]"
  by (induction l) auto

lemma Cut_not_found: "sep \<notin> set s \<Longrightarrow> Cut s sep = (s, [], False)"
  by (induction s) auto

lemma Cut_found: "sep \<notin> set a \<Longrightarrow> Cut (a @ sep # b) sep = (a, b, True)"
  by (induction a) auto

subsection \<open>Comparison\<close>

text \<open>Go's \<open><\<close> on strings: bytewise lexicographic.\<close>

fun string_less :: "string \<Rightarrow> string \<Rightarrow> bool" where
  "string_less [] t = (t \<noteq> [])"
| "string_less (a # s) [] = False"
| "string_less (a # s) (b # t) = (if a = b then string_less s t else byte_val a < byte_val b)"

lemma string_less_irrefl [simp]: "\<not> string_less s s"
  by (induction s) auto

lemma string_less_trans: "string_less r s \<Longrightarrow> string_less s t \<Longrightarrow> string_less r t"
proof (induction r s arbitrary: t rule: string_less.induct)
  case (3 a r b s)
  then show ?case
    by (cases t) (auto split: if_splits simp: less_trans)
next
  case (1 s)
  then show ?case by (cases s; cases t) auto
qed simp

lemma string_less_linear: "string_less s t \<or> s = t \<or> string_less t s"
proof (induction s t rule: string_less.induct)
  case (3 a s b t)
  then show ?case by (auto simp: char_eq_byte_val simp del: of_char_eq_iff)
qed auto

subsection \<open>Case folding\<close>

function (sequential) ToLower :: "string \<Rightarrow> string" where
  "ToLower [] = []"
| "ToLower (c # s) =
     (if HasPrefix (c # s) [CHR 0xC4, CHR 0xB0] then CHR ''i'' # ToLower (drop 1 s)
      else if HasPrefix (c # s) [CHR 0xE2, CHR 0x84, CHR 0xAA] then CHR ''k'' # ToLower (drop 2 s)
      else lower_byte c # ToLower s)"
  by pat_completeness auto
termination
  by (relation "measure length") auto

function (sequential) EqualFold :: "string \<Rightarrow> string \<Rightarrow> bool" where
  "EqualFold [] t = (t = [])"
| "EqualFold (a # s) [] = False"
| "EqualFold (a # s) (c # t) =
     (if ascii a then lower_byte a = lower_byte c \<and> EqualFold s t
      else if HasPrefix (a # s) [CHR 0xC5, CHR 0xBF] \<and> lower_byte c = CHR ''s''
        then EqualFold (drop 1 s) t
      else if HasPrefix (a # s) [CHR 0xE2, CHR 0x84, CHR 0xAA] \<and> lower_byte c = CHR ''k''
        then EqualFold (drop 2 s) t
      else False)"
  by pat_completeness auto
termination
  by (relation "measure (length \<circ> fst)") auto

lemma EqualFold_ascii:
  "list_all ascii s \<Longrightarrow> EqualFold s t \<longleftrightarrow> map lower_byte s = map lower_byte t"
  by (induction s t rule: EqualFold.induct) auto

lemma EqualFold_refl: "list_all ascii s \<Longrightarrow> EqualFold s s"
  by (simp add: EqualFold_ascii)

subsection \<open>White space\<close>

text \<open>The UTF-8 encodings of the runes with \<open>unicode.IsSpace\<close>.\<close>

definition space_runes :: "string list" where
  "space_runes =
    [[CHR 0x09], [CHR 0x0A], [CHR 0x0B], [CHR 0x0C], [CHR 0x0D], [CHR 0x20],
     [CHR 0xC2, CHR 0x85], [CHR 0xC2, CHR 0xA0], [CHR 0xE1, CHR 0x9A, CHR 0x80],
     [CHR 0xE2, CHR 0x80, CHR 0x80], [CHR 0xE2, CHR 0x80, CHR 0x81],
     [CHR 0xE2, CHR 0x80, CHR 0x82], [CHR 0xE2, CHR 0x80, CHR 0x83],
     [CHR 0xE2, CHR 0x80, CHR 0x84], [CHR 0xE2, CHR 0x80, CHR 0x85],
     [CHR 0xE2, CHR 0x80, CHR 0x86], [CHR 0xE2, CHR 0x80, CHR 0x87],
     [CHR 0xE2, CHR 0x80, CHR 0x88], [CHR 0xE2, CHR 0x80, CHR 0x89],
     [CHR 0xE2, CHR 0x80, CHR 0x8A], [CHR 0xE2, CHR 0x80, CHR 0xA8],
     [CHR 0xE2, CHR 0x80, CHR 0xA9], [CHR 0xE2, CHR 0x80, CHR 0xAF],
     [CHR 0xE2, CHR 0x81, CHR 0x9F], [CHR 0xE3, CHR 0x80, CHR 0x80]]"

function trim_left :: "string list \<Rightarrow> string \<Rightarrow> string" where
  "trim_left seqs s =
    (case find (\<lambda>q. q \<noteq> [] \<and> HasPrefix s q) seqs of
       None \<Rightarrow> s
     | Some q \<Rightarrow> trim_left seqs (drop (length q) s))"
  by pat_completeness auto
termination
proof (relation "measure (length \<circ> snd)", goal_cases)
  case (2 seqs s q)
  then have "q \<noteq> []" "HasPrefix s q" by (auto simp: find_Some_iff)
  then show ?case by (auto simp: HasPrefix_iff)
qed simp

declare trim_left.simps [simp del]

definition TrimSpace :: "string \<Rightarrow> string" where
  "TrimSpace s = rev (trim_left (map rev space_runes) (rev (trim_left space_runes s)))"

lemma trim_left_suffix: "\<exists>p. s = p @ trim_left seqs s"
proof (induction seqs s rule: trim_left.induct)
  case (1 seqs s)
  show ?case
  proof (cases "find (\<lambda>q. q \<noteq> [] \<and> HasPrefix s q) seqs")
    case None
    then show ?thesis by (simp add: trim_left.simps[of seqs s])
  next
    case (Some q)
    then have "HasPrefix s q" by (auto simp: find_Some_iff)
    then have "s = q @ drop (length q) s" by (auto simp: HasPrefix_iff)
    moreover obtain p where "drop (length q) s = p @ trim_left seqs (drop (length q) s)"
      using "1.IH"[OF Some] by blast
    ultimately have "s = (q @ p) @ trim_left seqs (drop (length q) s)" by simp
    moreover have "trim_left seqs s = trim_left seqs (drop (length q) s)"
      using Some by (simp add: trim_left.simps[of seqs s])
    ultimately show ?thesis by metis
  qed
qed

lemma set_trim_left: "set (trim_left seqs s) \<subseteq> set s"
  by (metis Un_iff set_append subsetI trim_left_suffix)

lemma set_TrimSpace: "set (TrimSpace s) \<subseteq> set s"
  using set_trim_left[of "map rev space_runes" "rev (trim_left space_runes s)"]
    set_trim_left[of space_runes s]
  by (auto simp: TrimSpace_def)

subsection \<open>Query strings (net/url)\<close>

definition hex_val :: "char \<Rightarrow> nat option" where
  "hex_val c =
    (let n = byte_val c in
     if 48 \<le> n \<and> n \<le> 57 then Some (n - 48)
     else if 97 \<le> n \<and> n \<le> 102 then Some (n - 87)
     else if 65 \<le> n \<and> n \<le> 70 then Some (n - 55)
     else None)"

fun QueryUnescape :: "string \<Rightarrow> string option" where
  "QueryUnescape [] = Some []"
| "QueryUnescape (c # s) =
     (if c = CHR ''%'' then
        (case s of
           h # l # r \<Rightarrow>
             (case (hex_val h, hex_val l) of
                (Some a, Some b) \<Rightarrow> map_option ((#) (char_of (16 * a + b))) (QueryUnescape r)
              | _ \<Rightarrow> None)
         | _ \<Rightarrow> None)
      else map_option ((#) (if c = CHR ''+'' then CHR '' '' else c)) (QueryUnescape s))"

text \<open>\<open>url.ParseQuery\<close>: the values and whether any part was malformed.\<close>

fun parse_query_parts :: "string list \<Rightarrow> (string, string list) gomap \<Rightarrow> (string, string list) gomap \<times> bool" where
  "parse_query_parts [] m = (m, False)"
| "parse_query_parts (part # parts) m =
     (if CHR '';'' \<in> set part then (fst (parse_query_parts parts m), True)
      else if part = [] then parse_query_parts parts m
      else (case Cut part (CHR ''='') of (k, v, _) \<Rightarrow>
        (case (QueryUnescape k, QueryUnescape v) of
           (Some key, Some value) \<Rightarrow>
             parse_query_parts parts
               (AList.update key ((case map_of m key of Some vs \<Rightarrow> vs | None \<Rightarrow> []) @ [value]) m)
         | _ \<Rightarrow> (fst (parse_query_parts parts m), True))))"

definition ParseQuery :: "string \<Rightarrow> (string, string list) gomap \<times> bool" where
  "ParseQuery query = parse_query_parts (Split query (CHR ''&'')) []"

definition Values_Get :: "(string, string list) gomap \<Rightarrow> string \<Rightarrow> string" where
  "Values_Get q k = (case map_of q k of Some (v # _) \<Rightarrow> v | _ \<Rightarrow> [])"

subsection \<open>Header names and header maps (net/textproto, net/http)\<close>

definition validHeaderFieldByte :: "char \<Rightarrow> bool" where
  "validHeaderFieldByte c \<longleftrightarrow>
    (let n = byte_val c in
       48 \<le> n \<and> n \<le> 57 \<or> 65 \<le> n \<and> n \<le> 90 \<or> 97 \<le> n \<and> n \<le> 122 \<or>
       List.member ''!#$%&*+-.^_|~'' c \<or> n = 39 \<or> n = 96)"

fun canonical_bytes :: "bool \<Rightarrow> string \<Rightarrow> string" where
  "canonical_bytes upper [] = []"
| "canonical_bytes upper (c # s) =
     (if upper then upper_byte c else lower_byte c) # canonical_bytes (c = CHR ''-'') s"

definition CanonicalHeaderKey :: "string \<Rightarrow> string" where
  "CanonicalHeaderKey s = (if list_all validHeaderFieldByte s then canonical_bytes True s else s)"

lemma validHeaderFieldByte_ascii: "validHeaderFieldByte c \<Longrightarrow> ascii c"
  by (auto simp: validHeaderFieldByte_def ascii_def Let_def)

lemma canonical_bytes_lower: "map lower_byte (canonical_bytes u s) = map lower_byte s"
  by (induction u s rule: canonical_bytes.induct) auto

lemma canonical_bytes_ascii: "list_all ascii (canonical_bytes u s) = list_all ascii s"
  by (induction u s rule: canonical_bytes.induct) auto

text \<open>Canonicalising a header name never changes which names it folds to.\<close>

lemma EqualFold_CanonicalHeaderKey [simp]:
  "EqualFold (CanonicalHeaderKey k) t = EqualFold k t"
proof (cases "list_all validHeaderFieldByte k")
  case True
  then have "list_all ascii k"
    by (auto simp: list_all_iff validHeaderFieldByte_ascii)
  then show ?thesis
    using True by (simp add: CanonicalHeaderKey_def EqualFold_ascii canonical_bytes_ascii
        canonical_bytes_lower)
qed (simp add: CanonicalHeaderKey_def)

definition Header_Values :: "(string, string list) gomap \<Rightarrow> string \<Rightarrow> string list" where
  "Header_Values h k = (case map_of h (CanonicalHeaderKey k) of Some vs \<Rightarrow> vs | None \<Rightarrow> [])"

definition Header_Get :: "(string, string list) gomap \<Rightarrow> string \<Rightarrow> string" where
  "Header_Get h k = (case Header_Values h k of v # _ \<Rightarrow> v | [] \<Rightarrow> '''')"

definition Header_Set :: "(string, string list) gomap \<Rightarrow> string \<Rightarrow> string \<Rightarrow> (string, string list) gomap" where
  "Header_Set h k v = AList.update (CanonicalHeaderKey k) [v] h"

definition Header_Add :: "(string, string list) gomap \<Rightarrow> string \<Rightarrow> string \<Rightarrow> (string, string list) gomap" where
  "Header_Add h k v = AList.update (CanonicalHeaderKey k) (Header_Values h k @ [v]) h"

lemma Header_Get_Set_same [simp]: "Header_Get (Header_Set h k v) k = v"
  by (simp add: Header_Get_def Header_Values_def Header_Set_def)

lemma Header_Get_Set_other:
  "CanonicalHeaderKey k \<noteq> CanonicalHeaderKey j \<Longrightarrow> Header_Get (Header_Set h k v) j = Header_Get h j"
  by (simp add: Header_Get_def Header_Values_def Header_Set_def)

end
