(* ===== verification/Json.thy ===== *)
theory Json
  imports Go_Strings "HOL-Library.Char_ord" "HOL-Library.List_Lexorder"
begin

section \<open>encoding/json: values and encoding\<close>

text \<open>
  Decoded JSON as Go's \<open>any\<close> holds it: \<open>nil\<close>, \<open>bool\<close>, \<open>float64\<close>, \<open>string\<close>, \<open>[]any\<close> and
  \<open>map[string]any\<close>.  A \<open>float64\<close> is represented by the shortest decimal text that
  \<open>json.Marshal\<close> prints for it, which determines it.  An object is a Go map (distinct keys, in
  some iteration order); \<open>json.Marshal\<close> prints its members sorted by key.
\<close>

datatype json =
    JNull
  | JBool bool
  | JNumber string
  | JString string
  | JArray "json list"
  | JObject "(string \<times> json) list"

subsection \<open>UTF-8\<close>

definition byte_in :: "nat \<Rightarrow> nat \<Rightarrow> char \<Rightarrow> bool" where
  "byte_in lo hi c \<longleftrightarrow> lo \<le> byte_val c \<and> byte_val c \<le> hi"

text \<open>The number of bytes of the valid UTF-8 sequence a string starts with, 0 when it starts
  with an invalid byte (which Go decodes as U+FFFD of width 1).\<close>

fun rune_width :: "string \<Rightarrow> nat" where
  "rune_width [] = 0"
| "rune_width (a # s) =
     (if ascii a then 1
      else if byte_in 0xC2 0xDF a then
        (case s of b # _ \<Rightarrow> if byte_in 0x80 0xBF b then 2 else 0 | _ \<Rightarrow> 0)
      else if byte_in 0xE0 0xEF a then
        (case s of b # c # _ \<Rightarrow>
           if byte_in (if byte_val a = 0xE0 then 0xA0 else 0x80)
                      (if byte_val a = 0xED then 0x9F else 0xBF) b \<and> byte_in 0x80 0xBF c
           then 3 else 0 | _ \<Rightarrow> 0)
      else if byte_in 0xF0 0xF4 a then
        (case s of b # c # d # _ \<Rightarrow>
           if byte_in (if byte_val a = 0xF0 then 0x90 else 0x80)
                      (if byte_val a = 0xF4 then 0x8F else 0xBF) b \<and>
              byte_in 0x80 0xBF c \<and> byte_in 0x80 0xBF d
           then 4 else 0 | _ \<Rightarrow> 0)
      else 0)"

lemma rune_width_le: "rune_width s \<le> length s"
  by (cases s) (auto split: list.splits)

subsection \<open>Encoding strings\<close>

definition hex_digit :: "nat \<Rightarrow> char" where
  "hex_digit n = ''0123456789abcdef'' ! n"

text \<open>One ASCII byte inside a quoted string, with HTML escaping on (the default).\<close>

definition escape_byte :: "char \<Rightarrow> string" where
  "escape_byte c =
    (if c = CHR 0x5C \<or> c = CHR 0x22 then [CHR 0x5C, c]
     else if c = CHR 0x08 then [CHR 0x5C, CHR ''b'']
     else if c = CHR 0x0C then [CHR 0x5C, CHR ''f'']
     else if c = CHR 0x0A then [CHR 0x5C, CHR ''n'']
     else if c = CHR 0x0D then [CHR 0x5C, CHR ''r'']
     else if c = CHR 0x09 then [CHR 0x5C, CHR ''t'']
     else if byte_val c < 32 \<or> c = CHR ''<'' \<or> c = CHR ''>'' \<or> c = CHR ''&'' then
       [CHR 0x5C, CHR ''u'', CHR ''0'', CHR ''0'', hex_digit (byte_val c div 16),
        hex_digit (byte_val c mod 16)]
     else [c])"

function escape_string :: "string \<Rightarrow> string" where
  "escape_string s =
    (case s of
       [] \<Rightarrow> []
     | c # r \<Rightarrow>
         if ascii c then escape_byte c @ escape_string r
         else if rune_width s = 0 then CHR 0x5C # ''ufffd'' @ escape_string r
         else if HasPrefix s [CHR 0xE2, CHR 0x80, CHR 0xA8] then
           CHR 0x5C # ''u2028'' @ escape_string (drop 3 s)
         else if HasPrefix s [CHR 0xE2, CHR 0x80, CHR 0xA9] then
           CHR 0x5C # ''u2029'' @ escape_string (drop 3 s)
         else take (rune_width s) s @ escape_string (drop (rune_width s) s))"
  by pat_completeness auto
termination
  by (relation "measure length") auto

declare escape_string.simps [simp del]

definition encode_string :: "string \<Rightarrow> string" where
  "encode_string s = CHR 0x22 # escape_string s @ [CHR 0x22]"

subsection \<open>Encoding values\<close>

fun join_with :: "string \<Rightarrow> string list \<Rightarrow> string" where
  "join_with sep [] = []"
| "join_with sep [x] = x"
| "join_with sep (x # y # xs) = x @ sep @ join_with sep (y # xs)"

definition encode_members :: "(string \<times> string) list \<Rightarrow> string" where
  "encode_members ms =
     ''{'' @ join_with '','' (map (\<lambda>(k, v). encode_string k @ '':'' @ v) ms) @ ''}''"

fun Marshal :: "json \<Rightarrow> string" where
  "Marshal JNull = ''null''"
| "Marshal (JBool b) = (if b then ''true'' else ''false'')"
| "Marshal (JNumber n) = n"
| "Marshal (JString s) = encode_string s"
| "Marshal (JArray vs) = ''['' @ join_with '','' (map Marshal vs) @ '']''"
| "Marshal (JObject ms) =
     encode_members (sort_key fst (map (\<lambda>(k, v). (k, Marshal v)) ms))"

text \<open>\<open>strconv.Itoa\<close>.\<close>

function nat_digits :: "nat \<Rightarrow> string" where
  "nat_digits n = (if n < 10 then [char_of (48 + n)] else nat_digits (n div 10) @ [char_of (48 + n mod 10)])"
  by pat_completeness auto
termination
  by (relation "measure id") auto

declare nat_digits.simps [simp del]

definition Itoa :: "int \<Rightarrow> string" where
  "Itoa i = (if i < 0 then CHR ''-'' # nat_digits (nat (- i)) else nat_digits (nat i))"

end
