(* ===== verification/Go_Path.thy ===== *)
theory Go_Path
  imports Go_Strings Json
begin

section \<open>path.Clean\<close>

text \<open>
  \<open>path.Clean\<close> by elements: empty and \<open>.\<close> elements vanish, \<open>..\<close> removes the element before it, is
  dropped at the root and kept in front of a relative path.  The facts cover rooted paths, which
  are all the source cleans.
\<close>

definition clean_step :: "bool \<Rightarrow> string \<Rightarrow> string list \<Rightarrow> string list" where
  "clean_step rooted element stack =
    (if element = [] \<or> element = ''.'' then stack
     else if element = ''..'' then
       (if stack \<noteq> [] \<and> last stack \<noteq> ''..'' then butlast stack
        else if rooted then stack else stack @ [element])
     else stack @ [element])"

definition clean_elements :: "bool \<Rightarrow> string \<Rightarrow> string list" where
  "clean_elements rooted s = fold (clean_step rooted) (Split s (CHR ''/'')) []"

definition Clean :: "string \<Rightarrow> string" where
  "Clean s =
    (let rooted = HasPrefix s ''/''; elements = clean_elements rooted s
     in if rooted then ''/'' @ join_with ''/'' elements
        else if elements = [] then ''.'' else join_with ''/'' elements)"

text \<open>A proper path element.\<close>

definition proper_element :: "string \<Rightarrow> bool" where
  "proper_element e \<longleftrightarrow> e \<noteq> [] \<and> e \<noteq> ''.'' \<and> e \<noteq> ''..'' \<and> CHR ''/'' \<notin> set e"

lemma clean_step_proper:
  assumes "list_all proper_element stack" and "CHR ''/'' \<notin> set element"
  shows "list_all proper_element (clean_step True element stack)"
proof -
  have "list_all proper_element (butlast stack)"
    using assms(1) by (metis append_butlast_last_id butlast.simps(1) list_all_append)
  then show ?thesis using assms by (simp add: clean_step_def proper_element_def)
qed

lemma clean_elements_proper: "list_all proper_element (clean_elements True s)"
proof -
  have "list_all proper_element (fold (clean_step True) es stack)"
    if "\<forall>e\<in>set es. CHR ''/'' \<notin> set e" "list_all proper_element stack" for es stack
    using that by (induction es arbitrary: stack) (auto simp: clean_step_proper)
  then show ?thesis
    unfolding clean_elements_def using Split_no_sep by (metis list_all_iff empty_iff empty_set)
qed

text \<open>The two forms of a cleaned rooted path.\<close>

lemma Clean_rooted:
  assumes "HasPrefix s ''/''"
  obtains es where "Clean s = ''/'' @ join_with ''/'' es" "list_all proper_element es"
  using assms clean_elements_proper by (auto simp: Clean_def Let_def)

lemma join_with_last: "es \<noteq> [] \<Longrightarrow> \<exists>p. join_with sep es = p @ last es"
proof (induction sep es rule: join_with.induct)
  case (3 sep x y xs)
  then obtain p where "join_with sep (y # xs) = p @ last (y # xs)" by auto
  then show ?case by (intro exI[of _ "x @ sep @ p"]) simp
qed auto

lemma TrimSuffix_last: "t = [] \<or> last t \<noteq> c \<Longrightarrow> TrimSuffix t [c] = t"
  by (cases t rule: rev_cases) (auto simp: TrimSuffix_def)

lemma proper_path_no_trailing_slash:
  assumes "list_all proper_element es" and "es \<noteq> []"
  shows "TrimSuffix (''/'' @ join_with ''/'' es) ''/'' = ''/'' @ join_with ''/'' es"
proof -
  obtain p where p: "join_with ''/'' es = p @ last es"
    using join_with_last[OF assms(2)] by blast
  have "proper_element (last es)" using assms by (simp add: list_all_iff)
  then have "last es \<noteq> []" "last (last es) \<noteq> CHR ''/''"
    by (auto simp: proper_element_def) (metis last_in_set)
  then have "last (''/'' @ join_with ''/'' es) \<noteq> CHR ''/''" by (simp add: p)
  then show ?thesis by (intro TrimSuffix_last) simp
qed

end
