(* ===== verification/Backend_Types.thy ===== *)
theory Backend_Types
  imports Prelude
begin

section \<open>The protocol-neutral contract: package backend, data types\<close>

text \<open>
  The data of \<open>src/backend\<close>: capabilities, error kinds, requests, responses, events and the
  error values that cross the boundary between an application backend and the shell.
  Go strings and byte slices are \<open>string\<close> (a list of bytes).  A Go \<open>int\<close> that the code
  only compares and prints is an \<open>int\<close>.
\<close>

subsection \<open>Capabilities (capability.go)\<close>

type_synonym capability = string

definition CapabilityResponses :: capability where "CapabilityResponses = ''responses''"
definition CapabilityChat :: capability where "CapabilityChat = ''chat''"
definition CapabilityCompletions :: capability where "CapabilityCompletions = ''completions''"
definition CapabilityEmbeddings :: capability where "CapabilityEmbeddings = ''embeddings''"
definition CapabilityAudio :: capability where "CapabilityAudio = ''audio''"
definition CapabilityImages :: capability where "CapabilityImages = ''images''"
definition CapabilityVideos :: capability where "CapabilityVideos = ''videos''"
definition CapabilityModerations :: capability where "CapabilityModerations = ''moderations''"
definition CapabilityModels :: capability where "CapabilityModels = ''models''"
definition CapabilityFiles :: capability where "CapabilityFiles = ''files''"
definition CapabilityUploads :: capability where "CapabilityUploads = ''uploads''"
definition CapabilityBatches :: capability where "CapabilityBatches = ''batches''"
definition CapabilityAssistants :: capability where "CapabilityAssistants = ''assistants''"
definition CapabilityVectorStores :: capability where "CapabilityVectorStores = ''vector_stores''"
definition CapabilityFineTuning :: capability where "CapabilityFineTuning = ''fine_tuning''"
definition CapabilityEvals :: capability where "CapabilityEvals = ''evals''"
definition CapabilityContainers :: capability where "CapabilityContainers = ''containers''"
definition CapabilitySkills :: capability where "CapabilitySkills = ''skills''"
definition CapabilityChatKit :: capability where "CapabilityChatKit = ''chatkit''"
definition CapabilityOrganization :: capability where "CapabilityOrganization = ''organization''"
definition CapabilityConversations :: capability where "CapabilityConversations = ''conversations''"
definition CapabilityRealtime :: capability where "CapabilityRealtime = ''realtime''"

lemmas capability_defs =
  CapabilityResponses_def CapabilityChat_def CapabilityCompletions_def CapabilityEmbeddings_def
  CapabilityAudio_def CapabilityImages_def CapabilityVideos_def CapabilityModerations_def
  CapabilityModels_def CapabilityFiles_def CapabilityUploads_def CapabilityBatches_def
  CapabilityAssistants_def CapabilityVectorStores_def CapabilityFineTuning_def
  CapabilityEvals_def CapabilityContainers_def CapabilitySkills_def CapabilityChatKit_def
  CapabilityOrganization_def CapabilityConversations_def CapabilityRealtime_def

definition Capabilities :: "capability list" where
  "Capabilities =
    [CapabilityResponses, CapabilityChat, CapabilityCompletions, CapabilityEmbeddings,
     CapabilityAudio, CapabilityImages, CapabilityVideos, CapabilityModerations,
     CapabilityModels, CapabilityFiles, CapabilityUploads, CapabilityBatches,
     CapabilityAssistants, CapabilityVectorStores, CapabilityFineTuning, CapabilityEvals,
     CapabilityContainers, CapabilitySkills, CapabilityChatKit, CapabilityOrganization,
     CapabilityConversations, CapabilityRealtime]"

subsection \<open>Session surfaces (realtime.go)\<close>

type_synonym session_surface = string

definition SessionRealtime :: session_surface where "SessionRealtime = ''realtime''"
definition SessionResponsesSocket :: session_surface where "SessionResponsesSocket = ''responses_websocket''"

lemma session_surfaces_differ [simp]:
  "SessionRealtime \<noteq> SessionResponsesSocket" "SessionResponsesSocket \<noteq> SessionRealtime"
  by (simp_all add: SessionRealtime_def SessionResponsesSocket_def)

subsection \<open>Errors (errors.go)\<close>

type_synonym error_kind = string

definition ErrorInvalid :: error_kind where "ErrorInvalid = ''invalid_request_error''"
definition ErrorUnauthorized :: error_kind where "ErrorUnauthorized = ''authentication_error''"
definition ErrorForbidden :: error_kind where "ErrorForbidden = ''permission_error''"
definition ErrorNotFound :: error_kind where "ErrorNotFound = ''not_found_error''"
definition ErrorConflict :: error_kind where "ErrorConflict = ''conflict_error''"
definition ErrorRateLimit :: error_kind where "ErrorRateLimit = ''rate_limit_error''"
definition ErrorUnsupported :: error_kind where "ErrorUnsupported = ''unsupported_error''"
definition ErrorTimeout :: error_kind where "ErrorTimeout = ''timeout_error''"
definition ErrorCanceled :: error_kind where "ErrorCanceled = ''canceled_error''"
definition ErrorUnavailable :: error_kind where "ErrorUnavailable = ''service_unavailable_error''"
definition ErrorInternal :: error_kind where "ErrorInternal = ''server_error''"

lemmas error_kind_defs =
  ErrorInvalid_def ErrorUnauthorized_def ErrorForbidden_def ErrorNotFound_def
  ErrorConflict_def ErrorRateLimit_def ErrorUnsupported_def ErrorTimeout_def
  ErrorCanceled_def ErrorUnavailable_def ErrorInternal_def

text \<open>
  \<open>backend.Error\<close> and the error values the shell inspects.  \<open>BackendPtr None\<close> is a typed nil
  \<open>*backend.Error\<close> stored in an \<open>error\<close>; \<open>Plain\<close> is an error with no wrapped cause;
  \<open>Wrapping\<close> is \<open>fmt.Errorf\<close> with \<open>%w\<close>; \<open>Joined\<close> is \<open>errors.Join\<close>; \<open>ProtocolFailure\<close> is the
  WebSocket handler's own error and \<open>CloseFrame\<close> a peer's close status.
\<close>

datatype backend_error = Error
    (Kind: error_kind) (Code: string) (Param: string) (Message: string)
    (RetryAfter: int) (Cause: "go_error option")
  and go_error =
    BackendPtr "backend_error option"
  | Plain string
  | Wrapping string go_error
  | Joined "go_error list"
  | ContextCanceled
  | DeadlineExceeded
  | ProtocolFailure string
  | CloseFrame int

fun Error_Error :: "backend_error option \<Rightarrow> string" where
  "Error_Error None = ''<nil>''"
| "Error_Error (Some e) = (if Message e \<noteq> '''' then Message e else ''backend '' @ Kind e)"

text \<open>\<open>Unwrap\<close> reads a field through the pointer: \<open>None\<close> is the nil dereference.\<close>

fun Error_Unwrap :: "backend_error option \<Rightarrow> go_error option option" where
  "Error_Unwrap None = None"
| "Error_Unwrap (Some e) = Some (Cause e)"

abbreviation new_error :: "error_kind \<Rightarrow> string \<Rightarrow> backend_error" where
  "new_error kind message \<equiv> Error kind '''' '''' message 0 None"

text \<open>\<open>errors.As\<close> with a \<open>**backend.Error\<close> target walks the chain and stops at the first
  \<open>*backend.Error\<close>, a typed nil one included.\<close>

fun errors_As_backend :: "go_error \<Rightarrow> backend_error option option"
  and errors_As_list :: "go_error list \<Rightarrow> backend_error option option" where
  "errors_As_backend (BackendPtr p) = Some p"
| "errors_As_backend (Wrapping m e) = errors_As_backend e"
| "errors_As_backend (Joined es) = errors_As_list es"
| "errors_As_backend (Plain m) = None"
| "errors_As_backend ContextCanceled = None"
| "errors_As_backend DeadlineExceeded = None"
| "errors_As_backend (ProtocolFailure m) = None"
| "errors_As_backend (CloseFrame c) = None"
| "errors_As_list [] = None"
| "errors_As_list (e # es) =
     (case errors_As_backend e of Some p \<Rightarrow> Some p | None \<Rightarrow> errors_As_list es)"

subsection \<open>Requests, responses, events\<close>

type_synonym header = "(string, string list) gomap"

record metadata =
  RequestID :: string
  CallerID :: string
  Protocol :: string
  Extensions :: header

record input =
  MediaType :: string
  JSON :: string
  Bytes :: string

record request =
  Capability :: capability
  Operation :: string
  Metadata :: metadata
  Parameters :: "(string, string) gomap"
  Input :: input

record event =
  Type :: string
  ID :: string
  Data :: string

record session_request =
  Surface :: session_surface
  SessionMetadata :: metadata
  SessionParameters :: "(string, string) gomap"

text \<open>
  \<open>'b\<close> is what a response body yields and \<open>'t\<close> what a stream yields; both are Go
  interface values, so that nil and typed nil ones are told apart.
\<close>

record ('b, 't) response =
  StatusCode :: int
  ResponseMetadata :: header
  ResponseMediaType :: string
  ResponseJSON :: string
  Body :: "'b iface"
  Stream :: "'t iface"

end
