(* ===== verification/Http.thy ===== *)
theory Http
  imports Backend_Types Json
begin

section \<open>net/http: the response writer\<close>

text \<open>
  What the handlers see of a connection: the header map they edit, the status line and header
  snapshot once they are committed, the informational statuses sent before, and the body bytes.
  \<open>WriteHeader\<close> follows the server of \<open>net/http\<close>: the first final status wins, a status from
  100 to 199 other than 101 is sent as an informational response and commits nothing, and a
  \<open>Write\<close> with no status yet commits 200.  A status that allows no body drops the bytes.
  Every status the source passes is between 100 and 599, where \<open>WriteHeader\<close> does not panic.
\<close>

record writer =
  w_header :: header
  w_committed :: "(int \<times> header) option"
  w_informational :: "int list"
  w_body :: string

definition fresh_writer :: writer where
  "fresh_writer = \<lparr>w_header = [], w_committed = None, w_informational = [], w_body = []\<rparr>"

definition WriteHeader :: "writer \<Rightarrow> int \<Rightarrow> writer" where
  "WriteHeader w status =
    (if w_committed w \<noteq> None then w
     else if 100 \<le> status \<and> status \<le> 199 \<and> status \<noteq> 101 then
       w\<lparr>w_informational := w_informational w @ [status]\<rparr>
     else w\<lparr>w_committed := Some (status, w_header w)\<rparr>)"

definition bodyAllowedForStatus :: "int \<Rightarrow> bool" where
  "bodyAllowedForStatus status \<longleftrightarrow> \<not> (100 \<le> status \<and> status \<le> 199 \<or> status = 204 \<or> status = 304)"

definition Write :: "writer \<Rightarrow> string \<Rightarrow> writer" where
  "Write w data =
    (let w' = (if w_committed w = None then w\<lparr>w_committed := Some (200, w_header w)\<rparr> else w)
     in case w_committed w' of
          Some (status, _) \<Rightarrow> if bodyAllowedForStatus status then w'\<lparr>w_body := w_body w' @ data\<rparr> else w'
        | None \<Rightarrow> w')"

definition set_header :: "string \<Rightarrow> string \<Rightarrow> writer \<Rightarrow> writer" where
  "set_header k v w = w\<lparr>w_header := Header_Set (w_header w) k v\<rparr>"

text \<open>What the client receives: the server commits 200 for a handler that wrote nothing.\<close>

definition response_status :: "writer \<Rightarrow> int" where
  "response_status w = (case w_committed w of Some (status, _) \<Rightarrow> status | None \<Rightarrow> 200)"

definition response_header :: "writer \<Rightarrow> header" where
  "response_header w = (case w_committed w of Some (_, h) \<Rightarrow> h | None \<Rightarrow> w_header w)"

lemma set_header_simps [simp]:
  "w_committed (set_header k v w) = w_committed w"
  "w_informational (set_header k v w) = w_informational w"
  "w_body (set_header k v w) = w_body w"
  by (simp_all add: set_header_def)

lemma WriteHeader_final:
  "w_committed w = None \<Longrightarrow> 200 \<le> status \<Longrightarrow>
     w_committed (WriteHeader w status) = Some (status, w_header w)"
  by (simp add: WriteHeader_def)

lemma Write_committed:
  "w_committed w = Some (status, h) \<Longrightarrow> bodyAllowedForStatus status \<Longrightarrow>
     Write w data = w\<lparr>w_body := w_body w @ data\<rparr>"
  by (simp add: Write_def)

lemma w_committed_Write [simp]:
  "w_committed w = Some c \<Longrightarrow> w_committed (Write w data) = Some c"
  by (cases c) (simp add: Write_def)

lemma w_body_WriteHeader [simp]: "w_body (WriteHeader w status) = w_body w"
  by (simp add: WriteHeader_def)

lemma w_header_WriteHeader [simp]: "w_header (WriteHeader w status) = w_header w"
  by (simp add: WriteHeader_def)

end
