(* ===== verification/Contract.thy ===== *)
theory Contract
  imports Http "HOL-Library.Word"
begin

section \<open>Requests and the internal configuration: openai/internal/contract\<close>

text \<open>
  The part of an \<open>http.Request\<close> the handlers read.  \<open>BodyError = Some n\<close> says that reading the
  body fails after \<open>n\<close> bytes.  \<open>MaxBodyBytes\<close> is an \<open>int64\<close>, kept at its width because the
  REST handler adds one to it.
\<close>

type_synonym int64 = "64 word"

record http_request =
  req_Method :: string
  req_Path :: string
  req_Query :: "(string, string list) gomap"
  req_Header :: header
  req_Body :: string
  req_BodyError :: "nat option"

type_synonym Authenticate_fun = "http_request \<Rightarrow> string \<Rightarrow> go_error + string"

record config =
  BasePath :: string
  MaxBodyBytes :: int64
  OriginPatterns :: "string list"
  Validate :: bool
  Authenticate :: Authenticate_fun

text \<open>\<open>newRequestID\<close> of both handlers: twelve random bytes in hexadecimal, or a fixed name when the
  random source fails.\<close>

definition hex_EncodeToString :: "string \<Rightarrow> string" where
  "hex_EncodeToString bytes =
    concat (map (\<lambda>b. [hex_digit (byte_val b div 16), hex_digit (byte_val b mod 16)]) bytes)"

definition newRequestID :: "string option \<Rightarrow> string" where
  "newRequestID random =
    (case random of None \<Rightarrow> ''req_unknown'' | Some bytes \<Rightarrow> ''req_'' @ hex_EncodeToString bytes)"

text \<open>The identifier both handlers use: the client's, or a new one.\<close>

definition request_id :: "http_request \<Rightarrow> string option \<Rightarrow> string" where
  "request_id req random =
    (if Header_Get (req_Header req) ''X-Request-Id'' = [] then newRequestID random
     else Header_Get (req_Header req) ''X-Request-Id'')"

end
