(* ===== verification/Openai_Options.thy ===== *)
theory Openai_Options
  imports Registry Go_Path Contract
begin

section \<open>Options and authentication: openai/options.go, openai/auth.go\<close>

text \<open>
  The settings of the OpenAI handler, the option functions that change them and the credential an
  authenticator is given.  An authenticator is an interface value over a function from the
  credential to an error or a principal.
\<close>

record credential =
  Token :: string
  Source :: string
  CredentialRequestID :: string

record principal =
  PrincipalID :: string

type_synonym authenticator = "credential \<Rightarrow> go_error + principal"

record settings =
  basePath :: string
  maxBodyBytes :: int64
  originPatterns :: "string list"
  authenticator :: "authenticator iface"
  validate :: bool

datatype openai_error =
    OpenaiNilOption
  | BasePathNotAbsolute
  | BasePathRoot
  | LimitNotPositive
  | NilAuthenticator
  | EmptyOriginPattern
  | ProfileError go_error

type_synonym openai_step = "settings \<Rightarrow> openai_error + settings"

definition defaultMaxBodyBytes :: int64 where
  "defaultMaxBodyBytes = push_bit 20 32"

definition WithBasePath :: "string \<Rightarrow> openai_step" where
  "WithBasePath path s =
    (if path = [] \<or> \<not> HasPrefix path ''/'' then Inl BasePathNotAbsolute
     else
       (let cleaned = Clean path
        in if cleaned = ''.'' \<or> cleaned = ''/'' then Inl BasePathRoot
           else Inr (s\<lparr>basePath := TrimSuffix cleaned ''/''\<rparr>)))"

definition WithMaxBodyBytes :: "int64 \<Rightarrow> openai_step" where
  "WithMaxBodyBytes limit s =
    (if sint limit \<le> 0 then Inl LimitNotPositive else Inr (s\<lparr>maxBodyBytes := limit\<rparr>))"

definition isNil :: "'a iface \<Rightarrow> bool" where
  "isNil value =
    (case value of NilInterface \<Rightarrow> True | Dynamic kind null _ \<Rightarrow> kind_IsNil_applies kind \<and> null)"

definition WithAuthenticator :: "authenticator iface \<Rightarrow> openai_step" where
  "WithAuthenticator a s =
    (if isNil a then Inl NilAuthenticator else Inr (s\<lparr>authenticator := a\<rparr>))"

definition WithOriginPatterns :: "string list \<Rightarrow> openai_step" where
  "WithOriginPatterns patterns s =
    (if list_ex (\<lambda>p. TrimSpace p = []) patterns then Inl EmptyOriginPattern
     else Inr (s\<lparr>originPatterns := patterns\<rparr>))"

definition WithoutSchemaValidation :: openai_step where
  "WithoutSchemaValidation s = Inr (s\<lparr>validate := False\<rparr>)"

definition default_settings :: settings where
  "default_settings =
    \<lparr>basePath = ''/v1'', maxBodyBytes = defaultMaxBodyBytes, originPatterns = [],
     authenticator = NilInterface, validate = True\<rparr>"

subsection \<open>The options as data\<close>

datatype openai_option =
    BasePathOption string
  | MaxBodyOption int64
  | AuthenticatorOption "authenticator iface"
  | OriginOption "string list"
  | NoValidationOption

fun apply_option :: "openai_option \<Rightarrow> openai_step" where
  "apply_option (BasePathOption p) = WithBasePath p"
| "apply_option (MaxBodyOption n) = WithMaxBodyBytes n"
| "apply_option (AuthenticatorOption a) = WithAuthenticator a"
| "apply_option (OriginOption ps) = WithOriginPatterns ps"
| "apply_option NoValidationOption = WithoutSchemaValidation"

definition run_settings :: "openai_option option list \<Rightarrow> openai_error + settings" where
  "run_settings os = run_options OpenaiNilOption (map (map_option apply_option) os) default_settings"

subsection \<open>What every accepted configuration satisfies\<close>

definition settings_ok :: "settings \<Rightarrow> bool" where
  "settings_ok s \<longleftrightarrow>
    (\<exists>es. es \<noteq> [] \<and> list_all proper_element es \<and> basePath s = ''/'' @ join_with ''/'' es) \<and>
    0 < sint (maxBodyBytes s) \<and>
    list_all (\<lambda>p. TrimSpace p \<noteq> []) (originPatterns s) \<and>
    (authenticator s = NilInterface \<or> \<not> isNil (authenticator s))"

lemma settings_ok_default: "settings_ok default_settings"
proof -
  have "\<exists>es. es \<noteq> [] \<and> list_all proper_element es \<and> ''/v1'' = ''/'' @ join_with ''/'' es"
    by (rule exI[of _ "[''v1'']"]) (simp add: proper_element_def)
  moreover have "0 < sint defaultMaxBodyBytes" by code_simp
  ultimately show ?thesis by (simp add: settings_ok_def default_settings_def)
qed

lemma settings_ok_base:
  assumes "WithBasePath p s = Inr s'" and "settings_ok s"
  shows "settings_ok s'"
proof -
  have pre: "HasPrefix p ''/''" and nonroot: "Clean p \<noteq> ''/''" and s': "s' = s\<lparr>basePath := TrimSuffix (Clean p) ''/''\<rparr>"
    using assms(1) by (auto simp: WithBasePath_def Let_def split: if_splits)
  obtain es where clean: "Clean p = ''/'' @ join_with ''/'' es" and es: "list_all proper_element es"
    using Clean_rooted[OF pre] by blast
  have "es \<noteq> []" using nonroot clean by auto
  then have "TrimSuffix (Clean p) ''/'' = ''/'' @ join_with ''/'' es"
    using proper_path_no_trailing_slash[OF es] by (simp add: clean)
  then show ?thesis using assms(2) es \<open>es \<noteq> []\<close> by (auto simp: settings_ok_def s')
qed

lemma settings_ok_step: "apply_option opt s = Inr s' \<Longrightarrow> settings_ok s \<Longrightarrow> settings_ok s'"
proof (cases opt)
  case (BasePathOption p)
  then show "apply_option opt s = Inr s' \<Longrightarrow> settings_ok s \<Longrightarrow> settings_ok s'"
    using settings_ok_base by simp
qed (auto simp: settings_ok_def WithMaxBodyBytes_def WithAuthenticator_def WithOriginPatterns_def
    WithoutSchemaValidation_def list_ex_iff list_all_iff split: if_splits)

interpretation openai_config: configuration apply_option default_settings settings_ok
  by unfold_locales (rule settings_ok_default, rule settings_ok_step)

lemma run_settings_ok: "run_settings os = Inr s \<Longrightarrow> settings_ok s"
  unfolding run_settings_def by (rule openai_config.run_ok)

end
