(* ===== verification/Backend_Services.thy ===== *)
theory Backend_Services
  imports Backend_Types Registry
begin

section \<open>The backend registry: backend/services.go\<close>

text \<open>
  \<open>NewServices\<close> runs the options over a mutable \<open>serviceConfig\<close> and freezes the result;
  \<open>HandlerFor\<close> and \<open>SessionFor\<close> read it.  The error strings of the source are the
  constructors of \<open>services_error\<close>.  An application handler is an interface value over an
  arbitrary type \<open>'h\<close>, a session backend over \<open>'s\<close>.
\<close>

datatype services_error =
    NilOption
  | NilDefaultHandler
  | DefaultHandlerAlreadyRegistered
  | UnknownCapability capability
  | NilHandlerFor capability
  | CapabilityAlreadyRegistered capability
  | UnknownSessionSurface session_surface
  | NilSessionBackend session_surface
  | SessionAlreadyRegistered session_surface

record ('h, 's) serviceConfig =
  cfg_defaultHandler :: "'h iface"
  cfg_handlers :: "(capability, 'h iface) gomap"
  cfg_sessions :: "(session_surface, 's iface) gomap"

record ('h, 's) services =
  defaultHandler :: "'h iface"
  handlers :: "(capability, 'h iface) gomap"
  sessions :: "(session_surface, 's iface) gomap"

type_synonym ('h, 's) services_step =
  "('h, 's) serviceConfig \<Rightarrow> services_error + ('h, 's) serviceConfig"

type_synonym ('h, 's) services_option =
  "('h, 's) services_step option"

definition validCapability :: "capability \<Rightarrow> bool" where
  "validCapability candidate = List.member Capabilities candidate"

definition WithHandler :: "'h iface \<Rightarrow> ('h, 's) services_step" where
  "WithHandler handler cfg =
    (if isNilInterface handler then Inl NilDefaultHandler
     else if (case cfg_defaultHandler cfg of NilInterface \<Rightarrow> False | Dynamic _ _ _ \<Rightarrow> True)
       then Inl DefaultHandlerAlreadyRegistered
     else Inr (cfg\<lparr>cfg_defaultHandler := handler\<rparr>))"

definition WithCapability ::
  "capability \<Rightarrow> 'h iface \<Rightarrow> ('h, 's) services_step" where
  "WithCapability capability handler cfg =
    (if \<not> validCapability capability then Inl (UnknownCapability capability)
     else if isNilInterface handler then Inl (NilHandlerFor capability)
     else if map_of (cfg_handlers cfg) capability \<noteq> None
       then Inl (CapabilityAlreadyRegistered capability)
     else Inr (cfg\<lparr>cfg_handlers := AList.update capability handler (cfg_handlers cfg)\<rparr>))"

definition WithSession ::
  "session_surface \<Rightarrow> 's iface \<Rightarrow> ('h, 's) services_step" where
  "WithSession surface service cfg =
    (if surface \<noteq> SessionRealtime \<and> surface \<noteq> SessionResponsesSocket
       then Inl (UnknownSessionSurface surface)
     else if isNilInterface service then Inl (NilSessionBackend surface)
     else if map_of (cfg_sessions cfg) surface \<noteq> None then Inl (SessionAlreadyRegistered surface)
     else Inr (cfg\<lparr>cfg_sessions := AList.update surface service (cfg_sessions cfg)\<rparr>))"

definition WithResponses :: "'h iface \<Rightarrow> ('h, 's) services_step" where "WithResponses h = WithCapability CapabilityResponses h"
definition WithChat :: "'h iface \<Rightarrow> ('h, 's) services_step" where "WithChat h = WithCapability CapabilityChat h"
definition WithCompletions :: "'h iface \<Rightarrow> ('h, 's) services_step" where "WithCompletions h = WithCapability CapabilityCompletions h"
definition WithEmbeddings :: "'h iface \<Rightarrow> ('h, 's) services_step" where "WithEmbeddings h = WithCapability CapabilityEmbeddings h"
definition WithAudio :: "'h iface \<Rightarrow> ('h, 's) services_step" where "WithAudio h = WithCapability CapabilityAudio h"
definition WithImages :: "'h iface \<Rightarrow> ('h, 's) services_step" where "WithImages h = WithCapability CapabilityImages h"
definition WithVideos :: "'h iface \<Rightarrow> ('h, 's) services_step" where "WithVideos h = WithCapability CapabilityVideos h"
definition WithModerations :: "'h iface \<Rightarrow> ('h, 's) services_step" where "WithModerations h = WithCapability CapabilityModerations h"
definition WithModels :: "'h iface \<Rightarrow> ('h, 's) services_step" where "WithModels h = WithCapability CapabilityModels h"
definition WithFiles :: "'h iface \<Rightarrow> ('h, 's) services_step" where "WithFiles h = WithCapability CapabilityFiles h"
definition WithUploads :: "'h iface \<Rightarrow> ('h, 's) services_step" where "WithUploads h = WithCapability CapabilityUploads h"
definition WithBatches :: "'h iface \<Rightarrow> ('h, 's) services_step" where "WithBatches h = WithCapability CapabilityBatches h"
definition WithAssistants :: "'h iface \<Rightarrow> ('h, 's) services_step" where "WithAssistants h = WithCapability CapabilityAssistants h"
definition WithVectorStores :: "'h iface \<Rightarrow> ('h, 's) services_step" where "WithVectorStores h = WithCapability CapabilityVectorStores h"
definition WithFineTuning :: "'h iface \<Rightarrow> ('h, 's) services_step" where "WithFineTuning h = WithCapability CapabilityFineTuning h"
definition WithEvals :: "'h iface \<Rightarrow> ('h, 's) services_step" where "WithEvals h = WithCapability CapabilityEvals h"
definition WithContainers :: "'h iface \<Rightarrow> ('h, 's) services_step" where "WithContainers h = WithCapability CapabilityContainers h"
definition WithSkills :: "'h iface \<Rightarrow> ('h, 's) services_step" where "WithSkills h = WithCapability CapabilitySkills h"
definition WithChatKit :: "'h iface \<Rightarrow> ('h, 's) services_step" where "WithChatKit h = WithCapability CapabilityChatKit h"
definition WithOrganization :: "'h iface \<Rightarrow> ('h, 's) services_step" where "WithOrganization h = WithCapability CapabilityOrganization h"
definition WithConversations :: "'h iface \<Rightarrow> ('h, 's) services_step" where "WithConversations h = WithCapability CapabilityConversations h"
definition WithRealtime :: "'s iface \<Rightarrow> ('h, 's) services_step" where
  "WithRealtime service = WithSession SessionRealtime service"
definition WithResponsesWebSocket :: "'s iface \<Rightarrow> ('h, 's) services_step" where
  "WithResponsesWebSocket service = WithSession SessionResponsesSocket service"

definition NewServices :: "('h, 's) services_option list \<Rightarrow> services_error + ('h, 's) services" where
  "NewServices options =
    (case run_options NilOption options
        \<lparr>cfg_defaultHandler = NilInterface, cfg_handlers = [], cfg_sessions = []\<rparr> of
       Inl err \<Rightarrow> Inl err
     | Inr cfg \<Rightarrow>
         Inr \<lparr>defaultHandler = cfg_defaultHandler cfg,
              handlers = cfg_handlers cfg, sessions = cfg_sessions cfg\<rparr>)"

definition HandlerFor :: "('h, 's) services \<Rightarrow> capability \<Rightarrow> 'h iface \<times> bool" where
  "HandlerFor s capability =
    (case map_of (handlers s) capability of
       Some handler \<Rightarrow> (handler, True)
     | None \<Rightarrow>
         (defaultHandler s,
          case defaultHandler s of NilInterface \<Rightarrow> False | Dynamic _ _ _ \<Rightarrow> True))"

definition SessionFor :: "('h, 's) services \<Rightarrow> session_surface \<Rightarrow> 's iface \<times> bool" where
  "SessionFor s surface =
    (case map_of (sessions s) surface of
       Some service \<Rightarrow> (service, True)
     | None \<Rightarrow> (NilInterface, False))"

lemmas services_option_defs = WithHandler_def WithCapability_def WithSession_def

subsection \<open>Abstract registrations\<close>

text \<open>
  A registration is what one option of the package asks for, its slot is the place it takes.
  The specification of the registry is a partial map from slots to registrations.
\<close>

datatype ('h, 's) registration_of =
    RegDefault "'h iface"
  | RegCapability capability "'h iface"
  | RegSession session_surface "'s iface"

datatype slot = DefaultSlot | CapabilitySlot capability | SessionSlot session_surface

fun reg_slot :: "('h, 's) registration_of \<Rightarrow> slot" where
  "reg_slot (RegDefault h) = DefaultSlot"
| "reg_slot (RegCapability c h) = CapabilitySlot c"
| "reg_slot (RegSession s b) = SessionSlot s"

fun reg_admissible :: "('h, 's) registration_of \<Rightarrow> bool" where
  "reg_admissible (RegDefault h) = (\<not> isNilInterface h)"
| "reg_admissible (RegCapability c h) = (c \<in> set Capabilities \<and> \<not> isNilInterface h)"
| "reg_admissible (RegSession s b) =
     (s \<in> {SessionRealtime, SessionResponsesSocket} \<and> \<not> isNilInterface b)"

fun reg_option :: "('h, 's) registration_of \<Rightarrow> ('h, 's) services_step" where
  "reg_option (RegDefault h) = WithHandler h"
| "reg_option (RegCapability c h) = WithCapability c h"
| "reg_option (RegSession s b) = WithSession s b"

fun reg_at :: "('h, 's) serviceConfig \<Rightarrow> slot \<Rightarrow> ('h, 's) registration_of option" where
  "reg_at cfg DefaultSlot =
     (case cfg_defaultHandler cfg of
        NilInterface \<Rightarrow> None | Dynamic k n v \<Rightarrow> Some (RegDefault (Dynamic k n v)))"
| "reg_at cfg (CapabilitySlot c) = map_option (RegCapability c) (map_of (cfg_handlers cfg) c)"
| "reg_at cfg (SessionSlot s) = map_option (RegSession s) (map_of (cfg_sessions cfg) s)"

lemma validCapability_iff: "validCapability c \<longleftrightarrow> c \<in> set Capabilities"
  by (simp add: validCapability_def)

interpretation services_reg: registration reg_slot reg_admissible reg_option reg_at
proof
  fix r :: "('h, 's) registration_of" and c :: "('h, 's) serviceConfig"
  show "\<exists>c'. reg_option r c = Inr c'" if "reg_admissible r" "reg_at c (reg_slot r) = None"
    using that by (cases r) (auto simp: services_option_defs validCapability_iff split: iface.splits)
next
  fix r :: "('h, 's) registration_of" and c c' :: "('h, 's) serviceConfig"
  assume ok: "reg_option r c = Inr c'"
  show "reg_admissible r"
    using ok by (cases r) (auto simp: services_option_defs validCapability_iff split: if_splits)
  show "reg_at c (reg_slot r) = None"
    using ok by (cases r) (auto simp: services_option_defs split: if_splits iface.splits)
  show "reg_at c' k = (if k = reg_slot r then Some r else reg_at c k)" for k
    using ok by (cases r; cases k)
      (auto simp: services_option_defs split: if_splits iface.splits)
qed

subsection \<open>What the registry promises\<close>

abbreviation registrations_of :: "('h, 's) registration_of list \<Rightarrow> ('h, 's) services_option list" where
  "registrations_of rs \<equiv> map (\<lambda>r. Some (reg_option r)) rs"

text \<open>The specification of a lookup: the explicit registration, else the default one.\<close>

definition spec_handler :: "('h, 's) registration_of list \<Rightarrow> capability \<Rightarrow> 'h iface \<times> bool" where
  "spec_handler rs c =
    (case find (\<lambda>r. reg_slot r = CapabilitySlot c) rs of
       Some (RegCapability _ h) \<Rightarrow> (h, True)
     | _ \<Rightarrow> (case find (\<lambda>r. reg_slot r = DefaultSlot) rs of
               Some (RegDefault h) \<Rightarrow> (h, True)
             | _ \<Rightarrow> (NilInterface, False)))"

definition spec_session :: "('h, 's) registration_of list \<Rightarrow> session_surface \<Rightarrow> 's iface \<times> bool" where
  "spec_session rs s =
    (case find (\<lambda>r. reg_slot r = SessionSlot s) rs of
       Some (RegSession _ b) \<Rightarrow> (b, True)
     | _ \<Rightarrow> (NilInterface, False))"

lemma reg_at_initial:
  "reg_at \<lparr>cfg_defaultHandler = NilInterface, cfg_handlers = [], cfg_sessions = []\<rparr> k = None"
  by (cases k) auto

text \<open>The frozen registry and the specification's slots agree.\<close>

lemma NewServices_slots:
  fixes rs :: "('h, 's) registration_of list"
  assumes "NewServices (registrations_of rs) = Inr s"
  obtains cfg :: "('h, 's) serviceConfig" where
    "\<And>k. reg_at cfg k = find (\<lambda>r. reg_slot r = k) rs" "list_all reg_admissible rs"
    "defaultHandler s = cfg_defaultHandler cfg" "handlers s = cfg_handlers cfg"
    "sessions s = cfg_sessions cfg"
proof -
  obtain cfg where run: "run_options NilOption (registrations_of rs)
      \<lparr>cfg_defaultHandler = NilInterface, cfg_handlers = [], cfg_sessions = []\<rparr> = Inr cfg"
    and s: "defaultHandler s = cfg_defaultHandler cfg" "handlers s = cfg_handlers cfg"
      "sessions s = cfg_sessions cfg"
    using assms by (auto simp: NewServices_def)
  have "reg_at cfg k = find (\<lambda>r. reg_slot r = k) rs" for k
    using services_reg.run_get[OF run, of k]
    by (simp add: reg_at_initial split: option.splits)
  moreover have "list_all reg_admissible rs"
    using services_reg.run_admissible[OF run] by (simp add: list_all_iff)
  ultimately show thesis using that s by blast
qed

text \<open>\<open>NewServices\<close> accepts a list of registrations exactly when each one is admissible (a
  known capability or session surface and a value that is neither nil nor a typed nil) and no
  slot is used twice; every other list is an error.\<close>

theorem NewServices_accepts_iff:
  "(\<exists>s. NewServices (registrations_of rs) = Inr s) \<longleftrightarrow>
     list_all reg_admissible rs \<and> distinct (map reg_slot rs)"
proof -
  let ?c = "\<lparr>cfg_defaultHandler = NilInterface, cfg_handlers = [], cfg_sessions = []\<rparr>
    :: ('a, 'b) serviceConfig"
  have "(\<exists>s. NewServices (registrations_of rs) = Inr s) \<longleftrightarrow>
      (\<exists>c. run_options NilOption (registrations_of rs) ?c = Inr c)"
    by (auto simp: NewServices_def)
  then show ?thesis
    by (simp add: services_reg.run_ok_iff reg_at_initial list_all_iff)
qed

text \<open>C9: a registry refines its specification.  After \<open>NewServices\<close> accepts a list of
  registrations, \<open>HandlerFor\<close> returns for every capability the handler registered for it, else
  the default handler, else nothing, and \<open>SessionFor\<close> the backend registered for the surface.\<close>

theorem NewServices_refines:
  fixes rs :: "('h, 's) registration_of list"
  assumes "NewServices (registrations_of rs) = Inr s"
  shows "HandlerFor s c = spec_handler rs c \<and> SessionFor s f = spec_session rs f"
proof -
  obtain cfg :: "('h, 's) serviceConfig"
    where get: "\<And>k. reg_at cfg k = find (\<lambda>r. reg_slot r = k) rs"
    and s: "defaultHandler s = cfg_defaultHandler cfg" "handlers s = cfg_handlers cfg"
      "sessions s = cfg_sessions cfg"
    using NewServices_slots[OF assms] by blast
  show ?thesis
    by (auto simp: HandlerFor_def SessionFor_def spec_handler_def spec_session_def s get[symmetric]
        split: option.splits iface.splits)
qed

abbreviation sample_registrations :: "(nat, nat) registration_of list" where
  "sample_registrations \<equiv>
    [RegDefault (Dynamic KPointer False 1), RegCapability CapabilityChat (Dynamic KFunc False 2),
     RegSession SessionRealtime (Dynamic KStruct False 3)]"

lemma sample_services:
  "NewServices (registrations_of sample_registrations) =
     Inr \<lparr>defaultHandler = Dynamic KPointer False 1,
          handlers = [(CapabilityChat, Dynamic KFunc False 2)],
          sessions = [(SessionRealtime, Dynamic KStruct False 3)]\<rparr>"
  by (simp add: NewServices_def services_option_defs validCapability_def Capabilities_def)

theorem NewServices_refines_witness:
  "HandlerFor \<lparr>defaultHandler = Dynamic KPointer False 1,
       handlers = [(CapabilityChat, Dynamic KFunc False 2)],
       sessions = [(SessionRealtime, Dynamic KStruct False (3::nat))]\<rparr> CapabilityModels
     = (Dynamic KPointer False (1::nat), True)"
  using NewServices_refines[OF sample_services, of CapabilityModels SessionRealtime]
  by (simp add: spec_handler_def capability_defs)

lemma NewServices_callable:
  fixes rs :: "('h, 's) registration_of list"
  assumes "NewServices (registrations_of rs) = Inr s"
  shows "snd (HandlerFor s c) = (\<not> isNilInterface (fst (HandlerFor s c))) \<and>
         snd (SessionFor s f) = (\<not> isNilInterface (fst (SessionFor s f)))"
proof -
  obtain cfg :: "('h, 's) serviceConfig"
    where get: "\<And>k. reg_at cfg k = find (\<lambda>r. reg_slot r = k) rs"
    and adm: "list_all reg_admissible rs"
    and s: "defaultHandler s = cfg_defaultHandler cfg" "handlers s = cfg_handlers cfg"
      "sessions s = cfg_sessions cfg"
    using NewServices_slots[OF assms] by blast
  have adm_at: "reg_admissible r" if "reg_at cfg k = Some r" for k r
    using that adm unfolding get by (auto simp: find_Some_iff list_all_length)
  show ?thesis
    using adm_at[of DefaultSlot] adm_at[of "CapabilitySlot c"] adm_at[of "SessionSlot f"]
    by (auto simp: HandlerFor_def SessionFor_def s split: option.splits iface.splits)
qed

text \<open>What a lookup hands out can be called.  When \<open>HandlerFor\<close> or \<open>SessionFor\<close> reports
  success on a registry that \<open>NewServices\<close> built, the value is neither nil nor a typed nil, and
  an unregistered surface is reported as absent.\<close>

theorem NewServices_lookups_callable:
  fixes rs :: "('h, 's) registration_of list"
  assumes "NewServices (registrations_of rs) = Inr s"
  shows "snd (HandlerFor s c) = (\<not> isNilInterface (fst (HandlerFor s c))) \<and>
         snd (SessionFor s f) = (\<not> isNilInterface (fst (SessionFor s f)))"
  by (rule NewServices_callable[OF assms])

theorem NewServices_lookups_callable_witness:
  "snd (SessionFor \<lparr>defaultHandler = Dynamic KPointer False (1::nat),
       handlers = [(CapabilityChat, Dynamic KFunc False 2)],
       sessions = [(SessionRealtime, Dynamic KStruct False (3::nat))]\<rparr> SessionResponsesSocket)
     = False"
  using NewServices_lookups_callable[OF sample_services, of CapabilityChat SessionResponsesSocket]
  by (simp add: SessionFor_def)

end
