(* ===== verification/Rest_Errors.thy ===== *)
theory Rest_Errors
  imports Http
begin

section \<open>OpenAI-shaped errors: openai/internal/rest/errors.go\<close>

text \<open>
  The translation of backend failures into HTTP.  \<open>writeErrorStatus\<close> fills in a missing kind
  and message through the pointer it was given, sets the headers, commits the status and writes
  the error envelope.  A nil \<open>*backend.Error\<close> is dereferenced by \<open>errorStatus\<close>: the result
  \<open>None\<close> is that panic.
\<close>

definition errorStatus :: "backend_error \<Rightarrow> int" where
  "errorStatus err =
    (if Kind err = ErrorInvalid then 400
     else if Kind err = ErrorUnauthorized then 401
     else if Kind err = ErrorForbidden then 403
     else if Kind err = ErrorNotFound then 404
     else if Kind err = ErrorConflict then 409
     else if Kind err = ErrorRateLimit then 429
     else if Kind err = ErrorUnsupported then 501
     else if Kind err = ErrorTimeout then 408
     else if Kind err = ErrorCanceled then 499
     else if Kind err = ErrorUnavailable then 503
     else 500)"

record errorObject =
  eo_Message :: string
  eo_Type :: error_kind
  eo_Param :: "string option"
  eo_Code :: "string option"

definition errorEnvelope :: "errorObject \<Rightarrow> string" where
  "errorEnvelope e =
    encode_members
      [(''error'',
        encode_members
          [(''message'', encode_string (eo_Message e)), (''type'', encode_string (eo_Type e)),
           (''param'', case eo_Param e of Some p \<Rightarrow> encode_string p | None \<Rightarrow> ''null''),
           (''code'', case eo_Code e of Some c \<Rightarrow> encode_string c | None \<Rightarrow> ''null'')])]"

definition fill_error :: "backend_error \<Rightarrow> backend_error" where
  "fill_error err =
    Error (if Kind err = '''' then ErrorInternal else Kind err) (Code err) (Param err)
      (if Message err = '''' then ''The request could not be completed.'' else Message err)
      (RetryAfter err) (Cause err)"

definition error_object :: "backend_error \<Rightarrow> errorObject" where
  "error_object err =
    \<lparr>eo_Message = Message err, eo_Type = Kind err,
     eo_Param = (if Param err \<noteq> '''' then Some (Param err) else None),
     eo_Code = (if Code err \<noteq> '''' then Some (Code err) else None)\<rparr>"

definition error_headers :: "writer \<Rightarrow> string \<Rightarrow> int \<Rightarrow> writer" where
  "error_headers w requestID retryAfter =
    set_header ''X-Request-Id'' requestID
      (set_header ''Content-Type'' ''application/json''
        (if retryAfter > 0 then set_header ''Retry-After'' (Itoa retryAfter) w else w))"

definition writeErrorStatus :: "writer \<Rightarrow> string \<Rightarrow> int \<Rightarrow> backend_error \<Rightarrow> writer" where
  "writeErrorStatus w requestID status backendError =
    Write (WriteHeader (error_headers w requestID (RetryAfter (fill_error backendError))) status)
      (errorEnvelope (error_object (fill_error backendError)) @ [CHR 0x0A])"

definition writeError :: "writer \<Rightarrow> string \<Rightarrow> backend_error option \<Rightarrow> writer option" where
  "writeError w requestID backendError =
    (case backendError of
       None \<Rightarrow> None
     | Some err \<Rightarrow> Some (writeErrorStatus w requestID (errorStatus err) err))"

definition writeBackendError :: "writer \<Rightarrow> string \<Rightarrow> go_error \<Rightarrow> writer option" where
  "writeBackendError w requestID err =
    (case errors_As_backend err of
       Some backendError \<Rightarrow> writeError w requestID backendError
     | None \<Rightarrow>
         writeError w requestID
           (Some (new_error ErrorInternal ''The server encountered an internal error.'')))"

subsection \<open>Facts\<close>

lemma errorStatus_range: "400 \<le> errorStatus e \<and> errorStatus e \<le> 503"
  by (simp add: errorStatus_def)

lemma Kind_fill [simp]: "Kind (fill_error e) = (if Kind e = '''' then ErrorInternal else Kind e)"
  and Message_fill [simp]: "Message (fill_error e) =
    (if Message e = '''' then ''The request could not be completed.'' else Message e)"
  and Code_fill [simp]: "Code (fill_error e) = Code e"
  and Param_fill [simp]: "Param (fill_error e) = Param e"
  and RetryAfter_fill [simp]: "RetryAfter (fill_error e) = RetryAfter e"
  by (simp_all add: fill_error_def)

lemma canonical_names [simp]:
  "CanonicalHeaderKey ''Content-Type'' = ''Content-Type''"
  "CanonicalHeaderKey ''X-Request-Id'' = ''X-Request-Id''"
  "CanonicalHeaderKey ''Retry-After'' = ''Retry-After''"
  by code_simp+

lemma error_headers_simps [simp]:
  "w_committed (error_headers w rid n) = w_committed w"
  "w_body (error_headers w rid n) = w_body w"
  "Header_Get (w_header (error_headers w rid n)) ''Content-Type'' = ''application/json''"
  "Header_Get (w_header (error_headers w rid n)) ''X-Request-Id'' = rid"
  by (simp_all add: error_headers_def set_header_def Header_Get_Set_other)

text \<open>What an error response looks like on a connection with nothing committed yet.\<close>

lemma writeErrorStatus_eq:
  assumes "w_committed w = None" and "200 \<le> status" and "bodyAllowedForStatus status"
  shows "writeErrorStatus w rid status err =
    (let h = error_headers w rid (RetryAfter err)
     in h\<lparr>w_committed := Some (status, w_header h),
          w_body := w_body w @ errorEnvelope (error_object (fill_error err)) @ [CHR 0x0A]\<rparr>)"
  using assms by (simp add: writeErrorStatus_def Let_def WriteHeader_def Write_def)

lemma writeErrorStatus_committed:
  assumes "w_committed w = None" and "200 \<le> status" and "bodyAllowedForStatus status"
  shows "response_status (writeErrorStatus w rid status err) = status"
    and "Header_Get (response_header (writeErrorStatus w rid status err)) ''Content-Type''
           = ''application/json''"
    and "Header_Get (response_header (writeErrorStatus w rid status err)) ''X-Request-Id'' = rid"
    and "w_body (writeErrorStatus w rid status err) =
           w_body w @ errorEnvelope (error_object (fill_error err)) @ [CHR 0x0A]"
  by (simp_all add: writeErrorStatus_eq[OF assms] Let_def response_status_def response_header_def)

text \<open>The response depends on the serialised fields only.\<close>

definition error_fields :: "backend_error \<Rightarrow> error_kind \<times> string \<times> string \<times> string \<times> int" where
  "error_fields e = (Kind e, Code e, Param e, Message e, RetryAfter e)"

lemma writeErrorStatus_fields:
  assumes "error_fields e1 = error_fields e2"
  shows "writeErrorStatus w rid status e1 = writeErrorStatus w rid status e2"
    and "errorStatus e1 = errorStatus e2"
proof -
  have "error_object (fill_error e1) = error_object (fill_error e2)"
    using assms by (simp add: error_object_def error_fields_def)
  then show "writeErrorStatus w rid status e1 = writeErrorStatus w rid status e2"
    using assms by (simp add: writeErrorStatus_def error_fields_def)
  show "errorStatus e1 = errorStatus e2"
    using assms by (simp only: errorStatus_def error_fields_def prod.inject)
qed

text \<open>C19: error responses carry nothing but the safe fields.  Two backend failures whose error
  chains resolve to backend errors with equal kind, code, param, message and retry delay (their
  causes and wrappers may differ), or which both hold no backend error at all, produce the same
  response.\<close>

theorem writeBackendError_no_leak:
  assumes "map_option (map_option error_fields) (errors_As_backend err1) =
           map_option (map_option error_fields) (errors_As_backend err2)"
  shows "writeBackendError w rid err1 = writeBackendError w rid err2"
proof (cases "errors_As_backend err1")
  case None
  then show ?thesis using assms by (simp add: writeBackendError_def)
next
  case (Some p1)
  then obtain p2 where p2: "errors_As_backend err2 = Some p2"
    and eq: "map_option error_fields p1 = map_option error_fields p2"
    using assms by (cases "errors_As_backend err2") auto
  have "writeError w rid p1 = writeError w rid p2"
  proof (cases p1)
    case (Some e1)
    with eq obtain e2 where e2: "p2 = Some e2" and fields: "error_fields e1 = error_fields e2"
      by (cases p2) auto
    then show ?thesis
      using Some writeErrorStatus_fields(2)[OF fields] writeErrorStatus_fields(1)[OF fields]
      by (simp add: writeError_def)
  qed (use eq in simp)
  with Some p2 show ?thesis by (simp add: writeBackendError_def)
qed

theorem writeBackendError_no_leak_witness:
  "writeBackendError fresh_writer ''r'' (Plain ''password=hunter2'') =
   writeBackendError fresh_writer ''r'' (Wrapping ''dial'' (Plain ''10.0.0.1''))"
  by (rule writeBackendError_no_leak) simp



end
