(* ===== verification/Rest_Stream.thy ===== *)
theory Rest_Stream
  imports Rest_Errors
begin

section \<open>Server-sent events: openai/internal/rest/stream.go\<close>

text \<open>
  \<open>writeSSE\<close> loops over a \<open>select\<close> between the request context and the stream's channel.  What
  the select takes in each round is an input of the model: the context is done, the channel is
  closed, or an event arrives, with the outcome of flushing its frame (\<open>Some n\<close>: the
  connection failed after \<open>n\<close> bytes of it).  A status that allows no body makes every flush fail.
  The result is the writer and whether the call
  returned; a call that has used up its rounds is still waiting.  The deferred \<open>stream.Close\<close>
  runs exactly when the call returns.
\<close>

datatype sse_select =
    CtxDone
  | EventsClosed
  | EventReceived event "nat option"

definition sanitizeSSE :: "string \<Rightarrow> string" where
  "sanitizeSSE value = filter (\<lambda>c. c \<noteq> CHR 0x0D \<and> c \<noteq> CHR 0x0A) value"

definition sse_data :: "event \<Rightarrow> string" where
  "sse_data event =
    (if Data event = [] then Marshal (JObject [(''type'', JString (Type event))]) else Data event)"

definition sse_frame :: "event \<Rightarrow> string" where
  "sse_frame event =
    (if ID event \<noteq> '''' then ''id: '' @ sanitizeSSE (ID event) @ [CHR 0x0A] else []) @
    (if Type event \<noteq> '''' then ''event: '' @ sanitizeSSE (Type event) @ [CHR 0x0A] else []) @
    concat (map (\<lambda>line. ''data: '' @ line @ [CHR 0x0A]) (Split (sse_data event) (CHR 0x0A))) @
    [CHR 0x0A]"

fun sse_loop :: "writer \<Rightarrow> sse_select list \<Rightarrow> writer \<times> bool" where
  "sse_loop w [] = (w, False)"
| "sse_loop w (CtxDone # rounds) = (w, True)"
| "sse_loop w (EventsClosed # rounds) = (w, True)"
| "sse_loop w (EventReceived event None # rounds) =
     (if bodyAllowedForStatus (response_status w) then sse_loop (Write w (sse_frame event)) rounds
      else (w, True))"
| "sse_loop w (EventReceived event (Some n) # rounds) = (Write w (take n (sse_frame event)), True)"

definition sse_headers :: "writer \<Rightarrow> writer" where
  "sse_headers w =
    set_header ''Connection'' ''keep-alive''
      (set_header ''Cache-Control'' ''no-cache''
        (set_header ''Content-Type'' ''text/event-stream'' w))"

definition writeSSE :: "writer \<Rightarrow> bool \<Rightarrow> string \<Rightarrow> int \<Rightarrow> sse_select list \<Rightarrow> writer \<times> bool" where
  "writeSSE w flushable requestID status rounds =
    (if \<not> flushable then
       (writeErrorStatus w requestID 500
          (new_error ErrorInternal ''Streaming is not supported by this server.''), True)
     else sse_loop (WriteHeader (sse_headers w) status) rounds)"

subsection \<open>A reference reader of the event stream format\<close>

text \<open>
  The event stream interpretation of the HTML standard, which SDK clients implement: lines end
  in CR LF, LF or CR; an unfinished last line is dropped; an empty line dispatches the event if
  its data buffer is not empty; one leading space of a value is removed.  A dispatched event is
  its type buffer, the last event id and its data without the final line feed.
\<close>

function (sequential) sse_lines :: "string \<Rightarrow> string \<Rightarrow> string list" where
  "sse_lines cur [] = []"
| "sse_lines cur (c # s) =
     (if c = CHR 0x0A then cur # sse_lines [] s
      else if c = CHR 0x0D then
        cur # sse_lines [] (case s of d # r \<Rightarrow> if d = CHR 0x0A then r else s | [] \<Rightarrow> [])
      else sse_lines (cur @ [c]) s)"
  by pat_completeness auto
termination
  by (relation "measure (length \<circ> snd)") (auto split: list.splits)

record sse_state =
  st_type :: string
  st_id :: string
  st_data :: string

definition field_value :: "string \<Rightarrow> string" where
  "field_value v = (case v of c # r \<Rightarrow> if c = CHR '' '' then r else v | [] \<Rightarrow> [])"

definition sse_field :: "sse_state \<Rightarrow> string \<Rightarrow> sse_state" where
  "sse_field st line =
    (case Cut line (CHR '':'') of (name, rest, found) \<Rightarrow>
       (let value = field_value rest in
        if name = ''event'' then st\<lparr>st_type := value\<rparr>
        else if name = ''data'' then st\<lparr>st_data := st_data st @ value @ [CHR 0x0A]\<rparr>
        else if name = ''id'' \<and> CHR 0x00 \<notin> set value then st\<lparr>st_id := value\<rparr>
        else st))"

fun sse_read :: "sse_state \<Rightarrow> string list \<Rightarrow> (string \<times> string \<times> string) list" where
  "sse_read st [] = []"
| "sse_read st (line # ls) =
     (if line = [] then
        (if st_data st = [] then sse_read (st\<lparr>st_type := []\<rparr>) ls
         else (st_type st, st_id st, butlast (st_data st)) #
              sse_read (st\<lparr>st_type := [], st_data := []\<rparr>) ls)
      else sse_read (sse_field st line) ls)"

definition sse_parse :: "string \<Rightarrow> (string \<times> string \<times> string) list" where
  "sse_parse body = sse_read \<lparr>st_type = [], st_id = [], st_data = []\<rparr> (sse_lines [] body)"

text \<open>What a client should see of a list of backend events.\<close>

fun sse_expected :: "string \<Rightarrow> event list \<Rightarrow> (string \<times> string \<times> string) list" where
  "sse_expected lid [] = []"
| "sse_expected lid (e # es) =
     (let lid' = (if ID e \<noteq> '''' then sanitizeSSE (ID e) else lid)
      in (sanitizeSSE (Type e), lid', sse_data e) # sse_expected lid' es)"

subsection \<open>Framing round trip\<close>

lemma sse_lines_line:
  "CHR 0x0A \<notin> set l \<Longrightarrow> CHR 0x0D \<notin> set l \<Longrightarrow>
     sse_lines cur (l @ CHR 0x0A # s) = (cur @ l) # sse_lines [] s"
  by (induction l arbitrary: cur) auto

lemma sanitizeSSE_clean [simp]:
  "CHR 0x0A \<notin> set (sanitizeSSE v)" "CHR 0x0D \<notin> set (sanitizeSSE v)"
  by (auto simp: sanitizeSSE_def)

lemma set_Split_subset: "l \<in> set (Split s sep) \<Longrightarrow> set l \<subseteq> set s"
  by (induction s arbitrary: l) (auto split: list.splits if_splits, blast+)

lemma sse_lines_data:
  assumes "\<And>l. l \<in> set ls \<Longrightarrow> CHR 0x0A \<notin> set l \<and> CHR 0x0D \<notin> set l"
  shows "sse_lines [] (concat (map (\<lambda>line. ''data: '' @ line @ [CHR 0x0A]) ls) @ s) =
         map (\<lambda>line. ''data: '' @ line) ls @ sse_lines [] s"
  using assms
proof (induction ls)
  case (Cons l ls)
  have "CHR 0x0A \<notin> set (''data: '' @ l)" "CHR 0x0D \<notin> set (''data: '' @ l)"
    using Cons.prems[of l] by auto
  then have "sse_lines [] ((''data: '' @ l) @ CHR 0x0A #
        (concat (map (\<lambda>line. ''data: '' @ line @ [CHR 0x0A]) ls) @ s)) =
      (''data: '' @ l) # sse_lines [] (concat (map (\<lambda>line. ''data: '' @ line @ [CHR 0x0A]) ls) @ s)"
    using sse_lines_line by fastforce
  then show ?case using Cons by simp
qed simp

definition data_lines :: "event \<Rightarrow> string list" where
  "data_lines event = map (\<lambda>line. ''data: '' @ line) (Split (sse_data event) (CHR 0x0A))"

definition frame_lines :: "event \<Rightarrow> string list" where
  "frame_lines event =
    (if ID event \<noteq> '''' then [''id: '' @ sanitizeSSE (ID event)] else []) @
    (if Type event \<noteq> '''' then [''event: '' @ sanitizeSSE (Type event)] else []) @
    data_lines event @ [[]]"

lemma sse_lines_frame:
  assumes "CHR 0x0D \<notin> set (sse_data event)"
  shows "sse_lines [] (sse_frame event @ s) = frame_lines event @ sse_lines [] s"
proof -
  have data: "sse_lines [] (concat (map (\<lambda>line. ''data: '' @ line @ [CHR 0x0A])
        (Split (sse_data event) (CHR 0x0A))) @ [CHR 0x0A] @ s) =
      map (\<lambda>line. ''data: '' @ line) (Split (sse_data event) (CHR 0x0A)) @ [] # sse_lines [] s"
    using assms set_Split_subset Split_no_sep by (subst sse_lines_data) fastforce+
  have field: "sse_lines [] (p @ sanitizeSSE v @ CHR 0x0A # t) = (p @ sanitizeSSE v) # sse_lines [] t"
    if "CHR 0x0A \<notin> set p" "CHR 0x0D \<notin> set p" for p v t
    using sse_lines_line[of "p @ sanitizeSSE v" "[]" t] that by simp
  show ?thesis
    using data field[of "''id: ''"] field[of "''event: ''"]
    by (simp add: sse_frame_def frame_lines_def data_lines_def)
qed

lemma sse_field_eqs:
  "sse_field st (''id: '' @ v) = (if CHR 0x00 \<in> set v then st else st\<lparr>st_id := v\<rparr>)"
  "sse_field st (''event: '' @ v) = st\<lparr>st_type := v\<rparr>"
  "sse_field st (''data: '' @ v) = st\<lparr>st_data := st_data st @ v @ [CHR 0x0A]\<rparr>"
  by (simp_all add: sse_field_def field_value_def)

lemma sse_read_data:
  "sse_read st (map (\<lambda>line. ''data: '' @ line) ls @ rest) =
   sse_read (st\<lparr>st_data := st_data st @ concat (map (\<lambda>l. l @ [CHR 0x0A]) ls)\<rparr>) rest"
proof (induction ls arbitrary: st)
  case (Cons l ls)
  then show ?case using sse_field_eqs(3)[of st l] by simp
qed simp

lemma sse_data_nonempty: "sse_data e \<noteq> []"
  by (simp add: sse_data_def encode_members_def)

lemma sse_read_frame:
  assumes "st_data st = []" and "st_type st = []" and "CHR 0x00 \<notin> set (ID e)"
  shows "sse_read st (frame_lines e @ rest) =
    (let lid = (if ID e \<noteq> '''' then sanitizeSSE (ID e) else st_id st)
     in (sanitizeSSE (Type e), lid, sse_data e) # sse_read (st\<lparr>st_id := lid\<rparr>) rest)"
proof -
  have nul: "CHR 0x00 \<notin> set (sanitizeSSE (ID e))"
    using assms(3) by (auto simp: sanitizeSSE_def)
  have read_data: "sse_read t (data_lines e @ [] # rest) =
      (st_type t, st_id t, sse_data e) # sse_read (t\<lparr>st_type := [], st_data := []\<rparr>) rest"
    if "st_data t = []" for t
    using that unfolding data_lines_def by (subst sse_read_data) (simp add: Split_concat)
  have empty_type: "Type e = '''' \<Longrightarrow> sanitizeSSE (Type e) = []"
    by (simp add: sanitizeSSE_def)
  show ?thesis
    using assms(1,2) nul sse_field_eqs(1)[of _ "sanitizeSSE (ID e)"]
      sse_field_eqs(2)[of _ "sanitizeSSE (Type e)"] empty_type
    by (cases st) (simp add: frame_lines_def Let_def read_data)
qed

lemma sse_read_frames:
  assumes "list_all (\<lambda>e. CHR 0x0D \<notin> set (sse_data e) \<and> CHR 0x00 \<notin> set (ID e)) es"
    and "st_data st = []" and "st_type st = []"
  shows "sse_read st (sse_lines [] (concat (map sse_frame es))) = sse_expected (st_id st) es"
  using assms
proof (induction es arbitrary: st)
  case (Cons e es)
  then have "CHR 0x0D \<notin> set (sse_data e)" "CHR 0x00 \<notin> set (ID e)" by simp_all
  then show ?case
    using Cons.prems Cons.IH[of "st\<lparr>st_id := (if ID e \<noteq> '''' then sanitizeSSE (ID e) else st_id st)\<rparr>"]
    by (simp add: sse_lines_frame sse_read_frame Let_def)
qed simp

subsection \<open>Properties\<close>

lemma sse_loop_body:
  assumes "w_committed w = Some (status, h)" and "bodyAllowedForStatus status"
  shows "sse_loop w (map (\<lambda>e. EventReceived e None) es @ rounds) =
         sse_loop (w\<lparr>w_body := w_body w @ concat (map sse_frame es)\<rparr>) rounds"
  using assms
  by (induction es arbitrary: w) (simp_all add: Write_committed response_status_def)

text \<open>The rounds after which the call returns, for a response of a given status.\<close>

fun sse_ends :: "int \<Rightarrow> sse_select \<Rightarrow> bool" where
  "sse_ends status (EventReceived event None) = (\<not> bodyAllowedForStatus status)"
| "sse_ends status _ = True"

lemma response_status_Write [simp]: "response_status (Write w data) = response_status w"
  by (auto simp: response_status_def Write_def Let_def split: option.splits)

lemma sse_loop_returns: "snd (sse_loop w rounds) \<longleftrightarrow> list_ex (sse_ends (response_status w)) rounds"
  by (induction w rounds rule: sse_loop.induct) auto

text \<open>C38: when \<open>writeSSE\<close> returns.  The call comes back, and so closes the stream, exactly when the
  connection cannot flush or some round of its select ends it: the request context is done, the
  event channel is closed, or a frame could not be flushed (which is every frame for a status
  without a body).  As long as events keep coming and are flushed it keeps serving them.\<close>

theorem writeSSE_returns_iff:
  "snd (writeSSE w flushable rid status rounds) \<longleftrightarrow>
     \<not> flushable \<or> list_ex (sse_ends (response_status (WriteHeader (sse_headers w) status))) rounds"
  by (simp add: writeSSE_def sse_loop_returns)

theorem writeSSE_returns_iff_witness:
  "snd (writeSSE fresh_writer True ''r'' 204
      [EventReceived \<lparr>Type = ''delta'', ID = [], Data = []\<rparr> None]) \<and>
   \<not> snd (writeSSE fresh_writer True ''r'' 200
      [EventReceived \<lparr>Type = ''delta'', ID = [], Data = []\<rparr> None])"
  using writeSSE_returns_iff[of fresh_writer True "''r''" 204
      "[EventReceived \<lparr>Type = ''delta'', ID = [], Data = []\<rparr> None]"]
    writeSSE_returns_iff[of fresh_writer True "''r''" 200
      "[EventReceived \<lparr>Type = ''delta'', ID = [], Data = []\<rparr> None]"]
  by (simp add: response_status_def WriteHeader_def sse_headers_def fresh_writer_def set_header_def
      bodyAllowedForStatus_def)

lemma writeSSE_reads_back:
  assumes "list_all (\<lambda>e. CHR 0x0D \<notin> set (sse_data e) \<and> CHR 0x00 \<notin> set (ID e)) es"
    and "w_committed w = None" and "w_body w = []"
    and "200 \<le> status" and "bodyAllowedForStatus status"
  shows "\<exists>w'. writeSSE w True rid status (map (\<lambda>e. EventReceived e None) es @ [EventsClosed])
           = (w', True) \<and> response_status w' = status \<and> sse_parse (w_body w') = sse_expected [] es"
proof -
  let ?w = "WriteHeader (sse_headers w) status"
  have committed: "w_committed ?w = Some (status, w_header (sse_headers w))"
    using assms(2,4) by (intro WriteHeader_final) (simp_all add: sse_headers_def)
  have body: "w_body ?w = []"
    using assms(3) by (simp add: sse_headers_def)
  show ?thesis
    using committed body assms(1,5) sse_loop_body[OF committed assms(5), of es "[EventsClosed]"]
    by (simp add: writeSSE_def response_status_def sse_parse_def sse_read_frames)
qed

text \<open>C13: the SSE encoding round-trips.  When a backend stream delivers events whose data holds no
  carriage return and whose ids hold no NUL, and then closes, the call returns and a
  standard-conforming reader of the response body recovers exactly those events: each type and
  id without line breaks, each data payload unchanged, in order, with no event added or lost.\<close>

theorem writeSSE_roundtrip:
  assumes "list_all (\<lambda>e. CHR 0x0D \<notin> set (sse_data e) \<and> CHR 0x00 \<notin> set (ID e)) es"
    and "w_committed w = None" and "w_body w = []"
    and "200 \<le> status" and "bodyAllowedForStatus status"
  shows "\<exists>w'. writeSSE w True rid status (map (\<lambda>e. EventReceived e None) es @ [EventsClosed])
           = (w', True) \<and> response_status w' = status \<and> sse_parse (w_body w') = sse_expected [] es"
  by (rule writeSSE_reads_back[OF assms])

abbreviation sample_events :: "event list" where
  "sample_events \<equiv>
    [\<lparr>Type = ''delta'', ID = ''event'' @ [CHR 0x0A] @ ''1'', Data = ''{'' @ [CHR 0x0A] @ ''}''\<rparr>,
     \<lparr>Type = ''done'', ID = [], Data = ''{}''\<rparr>]"

theorem writeSSE_roundtrip_witness:
  "\<exists>w'. writeSSE fresh_writer True ''r'' 200
          (map (\<lambda>e. EventReceived e None) sample_events @ [EventsClosed]) = (w', True) \<and>
        response_status w' = 200 \<and>
        sse_parse (w_body w') =
          [(''delta'', ''event1'', ''{'' @ [CHR 0x0A] @ ''}''), (''done'', ''event1'', ''{}'')]"
  using writeSSE_roundtrip[of sample_events fresh_writer 200 "''r''"]
  by (simp add: sse_data_def fresh_writer_def bodyAllowedForStatus_def sanitizeSSE_def Let_def)

text \<open>A carriage return in an event's data escapes its frame.  \<open>sanitizeSSE\<close> strips both line
  break bytes from ids and types, but data is split at line feeds only, and readers end a line at
  a carriage return too.  So a payload with a bare carriage return (legal white space in raw
  JSON) is not delivered as sent: the reader sees the bytes after it as a field of its own.\<close>

theorem sse_data_carriage_return_injects:
  "sse_parse (sse_frame \<lparr>Type = ''safe'', ID = [], Data = ''{}'' @ [CHR 0x0D] @ ''event: forged''\<rparr>)
     = [(''forged'', [], ''{}'')]"
  by (simp add: sse_frame_def sse_data_def sanitizeSSE_def sse_parse_def sse_field_def field_value_def)

end
