(* ===== verification/Profile_Tables.thy ===== *)
theory Profile_Tables
  imports Main
begin

section \<open>The frozen profile: openai/internal/profile/profile.gen.go\<close>

text \<open>
  The generated tables of the OpenAI M1 profile, entry by entry: \<open>Operations\<close> (288 method and
  path pairs, grouped here by the first path segment) and \<open>Events\<close> (121 WebSocket event
  discriminators, grouped by surface and direction).  \<open>compressedSpecBase64\<close>, the embedded
  OpenAPI document, is not reproduced.
\<close>

record operation =
  Method :: string
  Path :: string
  OperationID :: string
  OpCapability :: string
  RequestMedia :: "string list"
  ResponseMedia :: "string list"
  SuccessStatus :: int

record profile_event =
  EvSurface :: string
  EvDirection :: string
  EvType :: string

definition frozen ::
  "string \<Rightarrow> string \<Rightarrow> string \<Rightarrow> string \<Rightarrow> string list \<Rightarrow> string list \<Rightarrow> int \<Rightarrow> operation" where
  "frozen method path operationID capability requestMedia responseMedia status =
    \<lparr>Method = method, Path = path, OperationID = operationID, OpCapability = capability,
     RequestMedia = requestMedia, ResponseMedia = responseMedia, SuccessStatus = status\<rparr>"

definition SpecPathCount :: nat where "SpecPathCount = 182"
definition SpecOperationCount :: nat where "SpecOperationCount = 288"

subsection \<open>Operations\<close>

definition operations_assistants :: "operation list" where
  "operations_assistants =
    [frozen ''GET'' ''/assistants'' ''listAssistants'' ''assistants'' [] [''application/json''] 200,
     frozen ''POST'' ''/assistants'' ''createAssistant'' ''assistants'' [''application/json''] [''application/json''] 200,
     frozen ''DELETE'' ''/assistants/{assistant_id}'' ''deleteAssistant'' ''assistants'' [] [''application/json''] 200,
     frozen ''GET'' ''/assistants/{assistant_id}'' ''getAssistant'' ''assistants'' [] [''application/json''] 200,
     frozen ''POST'' ''/assistants/{assistant_id}'' ''modifyAssistant'' ''assistants'' [''application/json''] [''application/json''] 200]"

definition operations_audio :: "operation list" where
  "operations_audio =
    [frozen ''POST'' ''/audio/speech'' ''createSpeech'' ''audio'' [''application/json''] [''application/octet-stream'', ''text/event-stream''] 200,
     frozen ''POST'' ''/audio/transcriptions'' ''createTranscription'' ''audio'' [''multipart/form-data''] [''application/json'', ''text/event-stream''] 200,
     frozen ''POST'' ''/audio/translations'' ''createTranslation'' ''audio'' [''multipart/form-data''] [''application/json''] 200,
     frozen ''GET'' ''/audio/voice_consents'' ''listVoiceConsents'' ''audio'' [] [''application/json''] 200,
     frozen ''POST'' ''/audio/voice_consents'' ''createVoiceConsent'' ''audio'' [''multipart/form-data''] [''application/json''] 200,
     frozen ''DELETE'' ''/audio/voice_consents/{consent_id}'' ''deleteVoiceConsent'' ''audio'' [] [''application/json''] 200,
     frozen ''GET'' ''/audio/voice_consents/{consent_id}'' ''getVoiceConsent'' ''audio'' [] [''application/json''] 200,
     frozen ''POST'' ''/audio/voice_consents/{consent_id}'' ''updateVoiceConsent'' ''audio'' [''application/json''] [''application/json''] 200,
     frozen ''POST'' ''/audio/voices'' ''createVoice'' ''audio'' [''multipart/form-data''] [''application/json''] 200]"

definition operations_batches :: "operation list" where
  "operations_batches =
    [frozen ''GET'' ''/batches'' ''listBatches'' ''batches'' [] [''application/json''] 200,
     frozen ''POST'' ''/batches'' ''createBatch'' ''batches'' [''application/json''] [''application/json''] 200,
     frozen ''GET'' ''/batches/{batch_id}'' ''retrieveBatch'' ''batches'' [] [''application/json''] 200,
     frozen ''POST'' ''/batches/{batch_id}/cancel'' ''cancelBatch'' ''batches'' [] [''application/json''] 200]"

definition operations_chat :: "operation list" where
  "operations_chat =
    [frozen ''GET'' ''/chat/completions'' ''listChatCompletions'' ''chat'' [] [''application/json''] 200,
     frozen ''POST'' ''/chat/completions'' ''createChatCompletion'' ''chat'' [''application/json''] [''application/json'', ''text/event-stream''] 200,
     frozen ''DELETE'' ''/chat/completions/{completion_id}'' ''deleteChatCompletion'' ''chat'' [] [''application/json''] 200,
     frozen ''GET'' ''/chat/completions/{completion_id}'' ''getChatCompletion'' ''chat'' [] [''application/json''] 200,
     frozen ''POST'' ''/chat/completions/{completion_id}'' ''updateChatCompletion'' ''chat'' [''application/json''] [''application/json''] 200,
     frozen ''GET'' ''/chat/completions/{completion_id}/messages'' ''getChatCompletionMessages'' ''chat'' [] [''application/json''] 200]"

definition operations_chatkit :: "operation list" where
  "operations_chatkit =
    [frozen ''POST'' ''/chatkit/sessions'' ''CreateChatSessionMethod'' ''chatkit'' [''application/json''] [''application/json''] 200,
     frozen ''POST'' ''/chatkit/sessions/{session_id}/cancel'' ''CancelChatSessionMethod'' ''chatkit'' [] [''application/json''] 200,
     frozen ''GET'' ''/chatkit/threads'' ''ListThreadsMethod'' ''chatkit'' [] [''application/json''] 200,
     frozen ''DELETE'' ''/chatkit/threads/{thread_id}'' ''DeleteThreadMethod'' ''chatkit'' [] [''application/json''] 200,
     frozen ''GET'' ''/chatkit/threads/{thread_id}'' ''GetThreadMethod'' ''chatkit'' [] [''application/json''] 200,
     frozen ''GET'' ''/chatkit/threads/{thread_id}/items'' ''ListThreadItemsMethod'' ''chatkit'' [] [''application/json''] 200]"

definition operations_completions :: "operation list" where
  "operations_completions =
    [frozen ''POST'' ''/completions'' ''createCompletion'' ''completions'' [''application/json''] [''application/json''] 200]"

definition operations_containers :: "operation list" where
  "operations_containers =
    [frozen ''GET'' ''/containers'' ''ListContainers'' ''containers'' [] [''application/json''] 200,
     frozen ''POST'' ''/containers'' ''CreateContainer'' ''containers'' [''application/json''] [''application/json''] 200,
     frozen ''DELETE'' ''/containers/{container_id}'' ''DeleteContainer'' ''containers'' [] [] 200,
     frozen ''GET'' ''/containers/{container_id}'' ''RetrieveContainer'' ''containers'' [] [''application/json''] 200,
     frozen ''GET'' ''/containers/{container_id}/files'' ''ListContainerFiles'' ''containers'' [] [''application/json''] 200,
     frozen ''POST'' ''/containers/{container_id}/files'' ''CreateContainerFile'' ''containers'' [''application/json'', ''multipart/form-data''] [''application/json''] 200,
     frozen ''DELETE'' ''/containers/{container_id}/files/{file_id}'' ''DeleteContainerFile'' ''containers'' [] [] 200,
     frozen ''GET'' ''/containers/{container_id}/files/{file_id}'' ''RetrieveContainerFile'' ''containers'' [] [''application/json''] 200,
     frozen ''GET'' ''/containers/{container_id}/files/{file_id}/content'' ''RetrieveContainerFileContent'' ''containers'' [] [] 200]"

definition operations_content_provenance_checks :: "operation list" where
  "operations_content_provenance_checks =
    [frozen ''POST'' ''/content_provenance_checks'' ''Createcontentprovenancecheck'' ''moderations'' [''multipart/form-data''] [''application/json''] 200]"

definition operations_conversations :: "operation list" where
  "operations_conversations =
    [frozen ''POST'' ''/conversations'' ''createConversation'' ''conversations'' [''application/json''] [''application/json''] 200,
     frozen ''DELETE'' ''/conversations/{conversation_id}'' ''deleteConversation'' ''conversations'' [] [''application/json''] 200,
     frozen ''GET'' ''/conversations/{conversation_id}'' ''getConversation'' ''conversations'' [] [''application/json''] 200,
     frozen ''POST'' ''/conversations/{conversation_id}'' ''updateConversation'' ''conversations'' [''application/json''] [''application/json''] 200,
     frozen ''GET'' ''/conversations/{conversation_id}/items'' ''listConversationItems'' ''conversations'' [] [''application/json''] 200,
     frozen ''POST'' ''/conversations/{conversation_id}/items'' ''createConversationItems'' ''conversations'' [''application/json''] [''application/json''] 200,
     frozen ''DELETE'' ''/conversations/{conversation_id}/items/{item_id}'' ''deleteConversationItem'' ''conversations'' [] [''application/json''] 200,
     frozen ''GET'' ''/conversations/{conversation_id}/items/{item_id}'' ''getConversationItem'' ''conversations'' [] [''application/json''] 200]"

definition operations_embeddings :: "operation list" where
  "operations_embeddings =
    [frozen ''POST'' ''/embeddings'' ''createEmbedding'' ''embeddings'' [''application/json''] [''application/json''] 200]"

definition operations_evals :: "operation list" where
  "operations_evals =
    [frozen ''GET'' ''/evals'' ''listEvals'' ''evals'' [] [''application/json''] 200,
     frozen ''POST'' ''/evals'' ''createEval'' ''evals'' [''application/json''] [''application/json''] 201,
     frozen ''DELETE'' ''/evals/{eval_id}'' ''deleteEval'' ''evals'' [] [''application/json''] 200,
     frozen ''GET'' ''/evals/{eval_id}'' ''getEval'' ''evals'' [] [''application/json''] 200,
     frozen ''POST'' ''/evals/{eval_id}'' ''updateEval'' ''evals'' [''application/json''] [''application/json''] 200,
     frozen ''GET'' ''/evals/{eval_id}/runs'' ''getEvalRuns'' ''evals'' [] [''application/json''] 200,
     frozen ''POST'' ''/evals/{eval_id}/runs'' ''createEvalRun'' ''evals'' [''application/json''] [''application/json''] 201,
     frozen ''DELETE'' ''/evals/{eval_id}/runs/{run_id}'' ''deleteEvalRun'' ''evals'' [] [''application/json''] 200,
     frozen ''GET'' ''/evals/{eval_id}/runs/{run_id}'' ''getEvalRun'' ''evals'' [] [''application/json''] 200,
     frozen ''POST'' ''/evals/{eval_id}/runs/{run_id}'' ''cancelEvalRun'' ''evals'' [] [''application/json''] 200,
     frozen ''GET'' ''/evals/{eval_id}/runs/{run_id}/output_items'' ''getEvalRunOutputItems'' ''evals'' [] [''application/json''] 200,
     frozen ''GET'' ''/evals/{eval_id}/runs/{run_id}/output_items/{output_item_id}'' ''getEvalRunOutputItem'' ''evals'' [] [''application/json''] 200]"

definition operations_files :: "operation list" where
  "operations_files =
    [frozen ''GET'' ''/files'' ''listFiles'' ''files'' [] [''application/json''] 200,
     frozen ''POST'' ''/files'' ''createFile'' ''files'' [''multipart/form-data''] [''application/json''] 200,
     frozen ''DELETE'' ''/files/{file_id}'' ''deleteFile'' ''files'' [] [''application/json''] 200,
     frozen ''GET'' ''/files/{file_id}'' ''retrieveFile'' ''files'' [] [''application/json''] 200,
     frozen ''GET'' ''/files/{file_id}/content'' ''downloadFile'' ''files'' [] [''application/json''] 200]"

definition operations_fine_tuning :: "operation list" where
  "operations_fine_tuning =
    [frozen ''POST'' ''/fine_tuning/alpha/graders/run'' ''runGrader'' ''fine_tuning'' [''application/json''] [''application/json''] 200,
     frozen ''POST'' ''/fine_tuning/alpha/graders/validate'' ''validateGrader'' ''fine_tuning'' [''application/json''] [''application/json''] 200,
     frozen ''GET'' ''/fine_tuning/checkpoints/{fine_tuned_model_checkpoint}/permissions'' ''listFineTuningCheckpointPermissions'' ''fine_tuning'' [] [''application/json''] 200,
     frozen ''POST'' ''/fine_tuning/checkpoints/{fine_tuned_model_checkpoint}/permissions'' ''createFineTuningCheckpointPermission'' ''fine_tuning'' [''application/json''] [''application/json''] 200,
     frozen ''DELETE'' ''/fine_tuning/checkpoints/{fine_tuned_model_checkpoint}/permissions/{permission_id}'' ''deleteFineTuningCheckpointPermission'' ''fine_tuning'' [] [''application/json''] 200,
     frozen ''GET'' ''/fine_tuning/jobs'' ''listPaginatedFineTuningJobs'' ''fine_tuning'' [] [''application/json''] 200,
     frozen ''POST'' ''/fine_tuning/jobs'' ''createFineTuningJob'' ''fine_tuning'' [''application/json''] [''application/json''] 200,
     frozen ''GET'' ''/fine_tuning/jobs/{fine_tuning_job_id}'' ''retrieveFineTuningJob'' ''fine_tuning'' [] [''application/json''] 200,
     frozen ''POST'' ''/fine_tuning/jobs/{fine_tuning_job_id}/cancel'' ''cancelFineTuningJob'' ''fine_tuning'' [] [''application/json''] 200,
     frozen ''GET'' ''/fine_tuning/jobs/{fine_tuning_job_id}/checkpoints'' ''listFineTuningJobCheckpoints'' ''fine_tuning'' [] [''application/json''] 200,
     frozen ''GET'' ''/fine_tuning/jobs/{fine_tuning_job_id}/events'' ''listFineTuningEvents'' ''fine_tuning'' [] [''application/json''] 200,
     frozen ''POST'' ''/fine_tuning/jobs/{fine_tuning_job_id}/pause'' ''pauseFineTuningJob'' ''fine_tuning'' [] [''application/json''] 200,
     frozen ''POST'' ''/fine_tuning/jobs/{fine_tuning_job_id}/resume'' ''resumeFineTuningJob'' ''fine_tuning'' [] [''application/json''] 200]"

definition operations_images :: "operation list" where
  "operations_images =
    [frozen ''POST'' ''/images/edits'' ''createImageEdit'' ''images'' [''application/json'', ''multipart/form-data''] [''application/json'', ''text/event-stream''] 200,
     frozen ''POST'' ''/images/generations'' ''createImage'' ''images'' [''application/json''] [''application/json'', ''text/event-stream''] 200,
     frozen ''POST'' ''/images/variations'' ''createImageVariation'' ''images'' [''multipart/form-data''] [''application/json''] 200]"

definition operations_models :: "operation list" where
  "operations_models =
    [frozen ''GET'' ''/models'' ''listModels'' ''models'' [] [''application/json''] 200,
     frozen ''DELETE'' ''/models/{model}'' ''deleteModel'' ''models'' [] [''application/json''] 200,
     frozen ''GET'' ''/models/{model}'' ''retrieveModel'' ''models'' [] [''application/json''] 200]"

definition operations_moderations :: "operation list" where
  "operations_moderations =
    [frozen ''POST'' ''/moderations'' ''createModeration'' ''moderations'' [''application/json''] [''application/json''] 200]"

definition operations_organization :: "operation list" where
  "operations_organization =
    [frozen ''GET'' ''/organization/admin_api_keys'' ''admin-api-keys-list'' ''organization'' [] [''application/json''] 200,
     frozen ''POST'' ''/organization/admin_api_keys'' ''admin-api-keys-create'' ''organization'' [''application/json''] [''application/json''] 200,
     frozen ''DELETE'' ''/organization/admin_api_keys/{key_id}'' ''admin-api-keys-delete'' ''organization'' [] [''application/json''] 200,
     frozen ''GET'' ''/organization/admin_api_keys/{key_id}'' ''admin-api-keys-get'' ''organization'' [] [''application/json''] 200,
     frozen ''GET'' ''/organization/audit_logs'' ''list-audit-logs'' ''organization'' [] [''application/json''] 200,
     frozen ''GET'' ''/organization/certificates'' ''listOrganizationCertificates'' ''organization'' [] [''application/json''] 200,
     frozen ''POST'' ''/organization/certificates'' ''uploadCertificate'' ''organization'' [''application/json''] [''application/json''] 200,
     frozen ''POST'' ''/organization/certificates/activate'' ''activateOrganizationCertificates'' ''organization'' [''application/json''] [''application/json''] 200,
     frozen ''POST'' ''/organization/certificates/deactivate'' ''deactivateOrganizationCertificates'' ''organization'' [''application/json''] [''application/json''] 200,
     frozen ''DELETE'' ''/organization/certificates/{certificate_id}'' ''deleteCertificate'' ''organization'' [] [''application/json''] 200,
     frozen ''GET'' ''/organization/certificates/{certificate_id}'' ''getCertificate'' ''organization'' [] [''application/json''] 200,
     frozen ''POST'' ''/organization/certificates/{certificate_id}'' ''modifyCertificate'' ''organization'' [''application/json''] [''application/json''] 200,
     frozen ''GET'' ''/organization/costs'' ''usage-costs'' ''organization'' [] [''application/json''] 200,
     frozen ''GET'' ''/organization/data_retention'' ''retrieve-organization-data-retention'' ''organization'' [] [''application/json''] 200,
     frozen ''POST'' ''/organization/data_retention'' ''update-organization-data-retention'' ''organization'' [''application/json''] [''application/json''] 200,
     frozen ''GET'' ''/organization/groups'' ''list-groups'' ''organization'' [] [''application/json''] 200,
     frozen ''POST'' ''/organization/groups'' ''create-group'' ''organization'' [''application/json''] [''application/json''] 200,
     frozen ''DELETE'' ''/organization/groups/{group_id}'' ''delete-group'' ''organization'' [] [''application/json''] 200,
     frozen ''GET'' ''/organization/groups/{group_id}'' ''retrieve-group'' ''organization'' [] [''application/json''] 200,
     frozen ''POST'' ''/organization/groups/{group_id}'' ''update-group'' ''organization'' [''application/json''] [''application/json''] 200,
     frozen ''GET'' ''/organization/groups/{group_id}/roles'' ''list-group-role-assignments'' ''organization'' [] [''application/json''] 200,
     frozen ''POST'' ''/organization/groups/{group_id}/roles'' ''assign-group-role'' ''organization'' [''application/json''] [''application/json''] 200,
     frozen ''DELETE'' ''/organization/groups/{group_id}/roles/{role_id}'' ''unassign-group-role'' ''organization'' [] [''application/json''] 200,
     frozen ''GET'' ''/organization/groups/{group_id}/roles/{role_id}'' ''retrieve-group-role'' ''organization'' [] [''application/json''] 200,
     frozen ''GET'' ''/organization/groups/{group_id}/users'' ''list-group-users'' ''organization'' [] [''application/json''] 200,
     frozen ''POST'' ''/organization/groups/{group_id}/users'' ''add-group-user'' ''organization'' [''application/json''] [''application/json''] 200,
     frozen ''DELETE'' ''/organization/groups/{group_id}/users/{user_id}'' ''remove-group-user'' ''organization'' [] [''application/json''] 200,
     frozen ''GET'' ''/organization/groups/{group_id}/users/{user_id}'' ''retrieve-group-user'' ''organization'' [] [''application/json''] 200,
     frozen ''GET'' ''/organization/invites'' ''list-invites'' ''organization'' [] [''application/json''] 200,
     frozen ''POST'' ''/organization/invites'' ''inviteUser'' ''organization'' [''application/json''] [''application/json''] 200,
     frozen ''DELETE'' ''/organization/invites/{invite_id}'' ''delete-invite'' ''organization'' [] [''application/json''] 200,
     frozen ''GET'' ''/organization/invites/{invite_id}'' ''retrieve-invite'' ''organization'' [] [''application/json''] 200]"

definition operations_organization_projects :: "operation list" where
  "operations_organization_projects =
    [frozen ''GET'' ''/organization/projects'' ''list-projects'' ''organization'' [] [''application/json''] 200,
     frozen ''POST'' ''/organization/projects'' ''create-project'' ''organization'' [''application/json''] [''application/json''] 200,
     frozen ''GET'' ''/organization/projects/{project_id}'' ''retrieve-project'' ''organization'' [] [''application/json''] 200,
     frozen ''POST'' ''/organization/projects/{project_id}'' ''modify-project'' ''organization'' [''application/json''] [''application/json''] 200,
     frozen ''GET'' ''/organization/projects/{project_id}/api_keys'' ''list-project-api-keys'' ''organization'' [] [''application/json''] 200,
     frozen ''DELETE'' ''/organization/projects/{project_id}/api_keys/{api_key_id}'' ''delete-project-api-key'' ''organization'' [] [''application/json''] 200,
     frozen ''GET'' ''/organization/projects/{project_id}/api_keys/{api_key_id}'' ''retrieve-project-api-key'' ''organization'' [] [''application/json''] 200,
     frozen ''POST'' ''/organization/projects/{project_id}/archive'' ''archive-project'' ''organization'' [] [''application/json''] 200,
     frozen ''GET'' ''/organization/projects/{project_id}/certificates'' ''listProjectCertificates'' ''organization'' [] [''application/json''] 200,
     frozen ''POST'' ''/organization/projects/{project_id}/certificates/activate'' ''activateProjectCertificates'' ''organization'' [''application/json''] [''application/json''] 200,
     frozen ''POST'' ''/organization/projects/{project_id}/certificates/deactivate'' ''deactivateProjectCertificates'' ''organization'' [''application/json''] [''application/json''] 200,
     frozen ''GET'' ''/organization/projects/{project_id}/data_retention'' ''retrieve-project-data-retention'' ''organization'' [] [''application/json''] 200,
     frozen ''POST'' ''/organization/projects/{project_id}/data_retention'' ''update-project-data-retention'' ''organization'' [''application/json''] [''application/json''] 200,
     frozen ''GET'' ''/organization/projects/{project_id}/groups'' ''list-project-groups'' ''organization'' [] [''application/json''] 200,
     frozen ''POST'' ''/organization/projects/{project_id}/groups'' ''add-project-group'' ''organization'' [''application/json''] [''application/json''] 200,
     frozen ''DELETE'' ''/organization/projects/{project_id}/groups/{group_id}'' ''remove-project-group'' ''organization'' [] [''application/json''] 200,
     frozen ''GET'' ''/organization/projects/{project_id}/groups/{group_id}'' ''retrieve-project-group'' ''organization'' [] [''application/json''] 200,
     frozen ''GET'' ''/organization/projects/{project_id}/hosted_tool_permissions'' ''retrieve-project-hosted-tool-permissions'' ''organization'' [] [''application/json''] 200,
     frozen ''POST'' ''/organization/projects/{project_id}/hosted_tool_permissions'' ''update-project-hosted-tool-permissions'' ''organization'' [''application/json''] [''application/json''] 200,
     frozen ''DELETE'' ''/organization/projects/{project_id}/model_permissions'' ''delete-project-model-permissions'' ''organization'' [] [''application/json''] 200,
     frozen ''GET'' ''/organization/projects/{project_id}/model_permissions'' ''retrieve-project-model-permissions'' ''organization'' [] [''application/json''] 200,
     frozen ''POST'' ''/organization/projects/{project_id}/model_permissions'' ''update-project-model-permissions'' ''organization'' [''application/json''] [''application/json''] 200,
     frozen ''GET'' ''/organization/projects/{project_id}/rate_limits'' ''list-project-rate-limits'' ''organization'' [] [''application/json''] 200,
     frozen ''POST'' ''/organization/projects/{project_id}/rate_limits/{rate_limit_id}'' ''update-project-rate-limits'' ''organization'' [''application/json''] [''application/json''] 200,
     frozen ''GET'' ''/organization/projects/{project_id}/service_accounts'' ''list-project-service-accounts'' ''organization'' [] [''application/json''] 200,
     frozen ''POST'' ''/organization/projects/{project_id}/service_accounts'' ''create-project-service-account'' ''organization'' [''application/json''] [''application/json''] 200,
     frozen ''DELETE'' ''/organization/projects/{project_id}/service_accounts/{service_account_id}'' ''delete-project-service-account'' ''organization'' [] [''application/json''] 200,
     frozen ''GET'' ''/organization/projects/{project_id}/service_accounts/{service_account_id}'' ''retrieve-project-service-account'' ''organization'' [] [''application/json''] 200,
     frozen ''POST'' ''/organization/projects/{project_id}/service_accounts/{service_account_id}'' ''update-project-service-account'' ''organization'' [''application/json''] [''application/json''] 200,
     frozen ''POST'' ''/organization/projects/{project_id}/service_accounts/{service_account_id}/api_keys'' ''CreateanAPIkeyforaserviceaccount'' ''organization'' [''application/json''] [''application/json''] 200,
     frozen ''GET'' ''/organization/projects/{project_id}/spend_alerts'' ''list-project-spend-alerts'' ''organization'' [] [''application/json''] 200,
     frozen ''POST'' ''/organization/projects/{project_id}/spend_alerts'' ''create-project-spend-alert'' ''organization'' [''application/json''] [''application/json''] 200,
     frozen ''DELETE'' ''/organization/projects/{project_id}/spend_alerts/{alert_id}'' ''delete-project-spend-alert'' ''organization'' [] [''application/json''] 200,
     frozen ''GET'' ''/organization/projects/{project_id}/spend_alerts/{alert_id}'' ''retrieve-project-spend-alert'' ''organization'' [] [''application/json''] 200,
     frozen ''POST'' ''/organization/projects/{project_id}/spend_alerts/{alert_id}'' ''update-project-spend-alert'' ''organization'' [''application/json''] [''application/json''] 200,
     frozen ''DELETE'' ''/organization/projects/{project_id}/spend_limit'' ''Deleteprojectspendlimit'' ''organization'' [] [''application/json''] 200,
     frozen ''GET'' ''/organization/projects/{project_id}/spend_limit'' ''Getprojectspendlimit'' ''organization'' [] [''application/json''] 200,
     frozen ''POST'' ''/organization/projects/{project_id}/spend_limit'' ''Updateprojectspendlimit'' ''organization'' [''application/json''] [''application/json''] 200,
     frozen ''GET'' ''/organization/projects/{project_id}/users'' ''list-project-users'' ''organization'' [] [''application/json''] 200,
     frozen ''POST'' ''/organization/projects/{project_id}/users'' ''create-project-user'' ''organization'' [''application/json''] [''application/json''] 200,
     frozen ''DELETE'' ''/organization/projects/{project_id}/users/{user_id}'' ''delete-project-user'' ''organization'' [] [''application/json''] 200,
     frozen ''GET'' ''/organization/projects/{project_id}/users/{user_id}'' ''retrieve-project-user'' ''organization'' [] [''application/json''] 200,
     frozen ''POST'' ''/organization/projects/{project_id}/users/{user_id}'' ''modify-project-user'' ''organization'' [''application/json''] [''application/json''] 200]"

definition operations_organization_rest :: "operation list" where
  "operations_organization_rest =
    [frozen ''GET'' ''/organization/roles'' ''list-roles'' ''organization'' [] [''application/json''] 200,
     frozen ''POST'' ''/organization/roles'' ''create-role'' ''organization'' [''application/json''] [''application/json''] 200,
     frozen ''DELETE'' ''/organization/roles/{role_id}'' ''delete-role'' ''organization'' [] [''application/json''] 200,
     frozen ''GET'' ''/organization/roles/{role_id}'' ''retrieve-role'' ''organization'' [] [''application/json''] 200,
     frozen ''POST'' ''/organization/roles/{role_id}'' ''update-role'' ''organization'' [''application/json''] [''application/json''] 200,
     frozen ''GET'' ''/organization/spend_alerts'' ''list-organization-spend-alerts'' ''organization'' [] [''application/json''] 200,
     frozen ''POST'' ''/organization/spend_alerts'' ''create-organization-spend-alert'' ''organization'' [''application/json''] [''application/json''] 200,
     frozen ''DELETE'' ''/organization/spend_alerts/{alert_id}'' ''delete-organization-spend-alert'' ''organization'' [] [''application/json''] 200,
     frozen ''GET'' ''/organization/spend_alerts/{alert_id}'' ''retrieve-organization-spend-alert'' ''organization'' [] [''application/json''] 200,
     frozen ''POST'' ''/organization/spend_alerts/{alert_id}'' ''update-organization-spend-alert'' ''organization'' [''application/json''] [''application/json''] 200,
     frozen ''DELETE'' ''/organization/spend_limit'' ''Deleteorganizationspendlimit'' ''organization'' [] [''application/json''] 200,
     frozen ''GET'' ''/organization/spend_limit'' ''Getorganizationspendlimit'' ''organization'' [] [''application/json''] 200,
     frozen ''POST'' ''/organization/spend_limit'' ''Updateorganizationspendlimit'' ''organization'' [''application/json''] [''application/json''] 200,
     frozen ''GET'' ''/organization/usage/audio_speeches'' ''usage-audio-speeches'' ''organization'' [] [''application/json''] 200,
     frozen ''GET'' ''/organization/usage/audio_transcriptions'' ''usage-audio-transcriptions'' ''organization'' [] [''application/json''] 200,
     frozen ''GET'' ''/organization/usage/code_interpreter_sessions'' ''usage-code-interpreter-sessions'' ''organization'' [] [''application/json''] 200,
     frozen ''GET'' ''/organization/usage/completions'' ''usage-completions'' ''organization'' [] [''application/json''] 200,
     frozen ''GET'' ''/organization/usage/embeddings'' ''usage-embeddings'' ''organization'' [] [''application/json''] 200,
     frozen ''GET'' ''/organization/usage/file_search_calls'' ''usage-file-search-calls'' ''organization'' [] [''application/json''] 200,
     frozen ''GET'' ''/organization/usage/images'' ''usage-images'' ''organization'' [] [''application/json''] 200,
     frozen ''GET'' ''/organization/usage/moderations'' ''usage-moderations'' ''organization'' [] [''application/json''] 200,
     frozen ''GET'' ''/organization/usage/vector_stores'' ''usage-vector-stores'' ''organization'' [] [''application/json''] 200,
     frozen ''GET'' ''/organization/usage/web_search_calls'' ''usage-web-search-calls'' ''organization'' [] [''application/json''] 200,
     frozen ''GET'' ''/organization/users'' ''list-users'' ''organization'' [] [''application/json''] 200,
     frozen ''DELETE'' ''/organization/users/{user_id}'' ''delete-user'' ''organization'' [] [''application/json''] 200,
     frozen ''GET'' ''/organization/users/{user_id}'' ''retrieve-user'' ''organization'' [] [''application/json''] 200,
     frozen ''POST'' ''/organization/users/{user_id}'' ''modify-user'' ''organization'' [''application/json''] [''application/json''] 200,
     frozen ''GET'' ''/organization/users/{user_id}/roles'' ''list-user-role-assignments'' ''organization'' [] [''application/json''] 200,
     frozen ''POST'' ''/organization/users/{user_id}/roles'' ''assign-user-role'' ''organization'' [''application/json''] [''application/json''] 200,
     frozen ''DELETE'' ''/organization/users/{user_id}/roles/{role_id}'' ''unassign-user-role'' ''organization'' [] [''application/json''] 200,
     frozen ''GET'' ''/organization/users/{user_id}/roles/{role_id}'' ''retrieve-user-role'' ''organization'' [] [''application/json''] 200]"

definition operations_projects :: "operation list" where
  "operations_projects =
    [frozen ''GET'' ''/projects/{project_id}/groups/{group_id}/roles'' ''list-project-group-role-assignments'' ''organization'' [] [''application/json''] 200,
     frozen ''POST'' ''/projects/{project_id}/groups/{group_id}/roles'' ''assign-project-group-role'' ''organization'' [''application/json''] [''application/json''] 200,
     frozen ''DELETE'' ''/projects/{project_id}/groups/{group_id}/roles/{role_id}'' ''unassign-project-group-role'' ''organization'' [] [''application/json''] 200,
     frozen ''GET'' ''/projects/{project_id}/groups/{group_id}/roles/{role_id}'' ''retrieve-project-group-role'' ''organization'' [] [''application/json''] 200,
     frozen ''GET'' ''/projects/{project_id}/roles'' ''list-project-roles'' ''organization'' [] [''application/json''] 200,
     frozen ''POST'' ''/projects/{project_id}/roles'' ''create-project-role'' ''organization'' [''application/json''] [''application/json''] 200,
     frozen ''DELETE'' ''/projects/{project_id}/roles/{role_id}'' ''delete-project-role'' ''organization'' [] [''application/json''] 200,
     frozen ''GET'' ''/projects/{project_id}/roles/{role_id}'' ''retrieve-project-role'' ''organization'' [] [''application/json''] 200,
     frozen ''POST'' ''/projects/{project_id}/roles/{role_id}'' ''update-project-role'' ''organization'' [''application/json''] [''application/json''] 200,
     frozen ''GET'' ''/projects/{project_id}/users/{user_id}/roles'' ''list-project-user-role-assignments'' ''organization'' [] [''application/json''] 200,
     frozen ''POST'' ''/projects/{project_id}/users/{user_id}/roles'' ''assign-project-user-role'' ''organization'' [''application/json''] [''application/json''] 200,
     frozen ''DELETE'' ''/projects/{project_id}/users/{user_id}/roles/{role_id}'' ''unassign-project-user-role'' ''organization'' [] [''application/json''] 200,
     frozen ''GET'' ''/projects/{project_id}/users/{user_id}/roles/{role_id}'' ''retrieve-project-user-role'' ''organization'' [] [''application/json''] 200]"

definition operations_realtime :: "operation list" where
  "operations_realtime =
    [frozen ''POST'' ''/realtime/calls'' ''create-realtime-call'' ''realtime'' [''application/sdp'', ''multipart/form-data''] [''application/sdp''] 201,
     frozen ''POST'' ''/realtime/calls/{call_id}/accept'' ''accept-realtime-call'' ''realtime'' [''application/json''] [] 200,
     frozen ''POST'' ''/realtime/calls/{call_id}/hangup'' ''hangup-realtime-call'' ''realtime'' [] [] 200,
     frozen ''POST'' ''/realtime/calls/{call_id}/refer'' ''refer-realtime-call'' ''realtime'' [''application/json''] [] 200,
     frozen ''POST'' ''/realtime/calls/{call_id}/reject'' ''reject-realtime-call'' ''realtime'' [''application/json''] [] 200,
     frozen ''POST'' ''/realtime/client_secrets'' ''create-realtime-client-secret'' ''realtime'' [''application/json''] [''application/json''] 200,
     frozen ''POST'' ''/realtime/sessions'' ''create-realtime-session'' ''realtime'' [''application/json''] [''application/json''] 200,
     frozen ''POST'' ''/realtime/transcription_sessions'' ''create-realtime-transcription-session'' ''realtime'' [''application/json''] [''application/json''] 200,
     frozen ''POST'' ''/realtime/translations/client_secrets'' ''create-realtime-translation-client-secret'' ''realtime'' [''application/json''] [''application/json''] 200]"

definition operations_responses :: "operation list" where
  "operations_responses =
    [frozen ''POST'' ''/responses'' ''createResponse'' ''responses'' [''application/json''] [''application/json'', ''text/event-stream''] 200,
     frozen ''POST'' ''/responses/compact'' ''Compactconversation'' ''responses'' [''application/json''] [''application/json''] 200,
     frozen ''POST'' ''/responses/compact?beta=true'' ''beta_Compactconversation'' ''responses'' [''application/json''] [''application/json''] 200,
     frozen ''POST'' ''/responses/input_tokens'' ''Getinputtokencounts'' ''responses'' [''application/json''] [''application/json''] 200,
     frozen ''POST'' ''/responses/input_tokens?beta=true'' ''beta_Getinputtokencounts'' ''responses'' [''application/json''] [''application/json''] 200,
     frozen ''DELETE'' ''/responses/{response_id}'' ''deleteResponse'' ''responses'' [] [''application/json''] 200,
     frozen ''GET'' ''/responses/{response_id}'' ''getResponse'' ''responses'' [] [''application/json''] 200,
     frozen ''POST'' ''/responses/{response_id}/cancel'' ''cancelResponse'' ''responses'' [] [''application/json''] 200,
     frozen ''POST'' ''/responses/{response_id}/cancel?beta=true'' ''beta_cancelResponse'' ''responses'' [] [''application/json''] 200,
     frozen ''GET'' ''/responses/{response_id}/input_items'' ''listInputItems'' ''responses'' [] [''application/json''] 200,
     frozen ''GET'' ''/responses/{response_id}/input_items?beta=true'' ''beta_listInputItems'' ''responses'' [] [''application/json''] 200,
     frozen ''DELETE'' ''/responses/{response_id}?beta=true'' ''beta_deleteResponse'' ''responses'' [] [''application/json''] 200,
     frozen ''GET'' ''/responses/{response_id}?beta=true'' ''beta_getResponse'' ''responses'' [] [''application/json''] 200,
     frozen ''POST'' ''/responses?beta=true'' ''beta_createResponse'' ''responses'' [''application/json''] [''application/json'', ''text/event-stream''] 200]"

definition operations_skills :: "operation list" where
  "operations_skills =
    [frozen ''GET'' ''/skills'' ''ListSkills'' ''skills'' [] [''application/json''] 200,
     frozen ''POST'' ''/skills'' ''CreateSkill'' ''skills'' [''application/json'', ''multipart/form-data''] [''application/json''] 200,
     frozen ''DELETE'' ''/skills/{skill_id}'' ''DeleteSkill'' ''skills'' [] [''application/json''] 200,
     frozen ''GET'' ''/skills/{skill_id}'' ''GetSkill'' ''skills'' [] [''application/json''] 200,
     frozen ''POST'' ''/skills/{skill_id}'' ''UpdateSkillDefaultVersion'' ''skills'' [''application/json''] [''application/json''] 200,
     frozen ''GET'' ''/skills/{skill_id}/content'' ''GetSkillContent'' ''skills'' [] [''application/json'', ''application/zip''] 200,
     frozen ''GET'' ''/skills/{skill_id}/versions'' ''ListSkillVersions'' ''skills'' [] [''application/json''] 200,
     frozen ''POST'' ''/skills/{skill_id}/versions'' ''CreateSkillVersion'' ''skills'' [''application/json'', ''multipart/form-data''] [''application/json''] 200,
     frozen ''DELETE'' ''/skills/{skill_id}/versions/{version}'' ''DeleteSkillVersion'' ''skills'' [] [''application/json''] 200,
     frozen ''GET'' ''/skills/{skill_id}/versions/{version}'' ''GetSkillVersion'' ''skills'' [] [''application/json''] 200,
     frozen ''GET'' ''/skills/{skill_id}/versions/{version}/content'' ''GetSkillVersionContent'' ''skills'' [] [''application/json'', ''application/zip''] 200]"

definition operations_threads :: "operation list" where
  "operations_threads =
    [frozen ''POST'' ''/threads'' ''createThread'' ''assistants'' [''application/json''] [''application/json''] 200,
     frozen ''POST'' ''/threads/runs'' ''createThreadAndRun'' ''assistants'' [''application/json''] [''application/json''] 200,
     frozen ''DELETE'' ''/threads/{thread_id}'' ''deleteThread'' ''assistants'' [] [''application/json''] 200,
     frozen ''GET'' ''/threads/{thread_id}'' ''getThread'' ''assistants'' [] [''application/json''] 200,
     frozen ''POST'' ''/threads/{thread_id}'' ''modifyThread'' ''assistants'' [''application/json''] [''application/json''] 200,
     frozen ''GET'' ''/threads/{thread_id}/messages'' ''listMessages'' ''assistants'' [] [''application/json''] 200,
     frozen ''POST'' ''/threads/{thread_id}/messages'' ''createMessage'' ''assistants'' [''application/json''] [''application/json''] 200,
     frozen ''DELETE'' ''/threads/{thread_id}/messages/{message_id}'' ''deleteMessage'' ''assistants'' [] [''application/json''] 200,
     frozen ''GET'' ''/threads/{thread_id}/messages/{message_id}'' ''getMessage'' ''assistants'' [] [''application/json''] 200,
     frozen ''POST'' ''/threads/{thread_id}/messages/{message_id}'' ''modifyMessage'' ''assistants'' [''application/json''] [''application/json''] 200,
     frozen ''GET'' ''/threads/{thread_id}/runs'' ''listRuns'' ''assistants'' [] [''application/json''] 200,
     frozen ''POST'' ''/threads/{thread_id}/runs'' ''createRun'' ''assistants'' [''application/json''] [''application/json''] 200,
     frozen ''GET'' ''/threads/{thread_id}/runs/{run_id}'' ''getRun'' ''assistants'' [] [''application/json''] 200,
     frozen ''POST'' ''/threads/{thread_id}/runs/{run_id}'' ''modifyRun'' ''assistants'' [''application/json''] [''application/json''] 200,
     frozen ''POST'' ''/threads/{thread_id}/runs/{run_id}/cancel'' ''cancelRun'' ''assistants'' [] [''application/json''] 200,
     frozen ''GET'' ''/threads/{thread_id}/runs/{run_id}/steps'' ''listRunSteps'' ''assistants'' [] [''application/json''] 200,
     frozen ''GET'' ''/threads/{thread_id}/runs/{run_id}/steps/{step_id}'' ''getRunStep'' ''assistants'' [] [''application/json''] 200,
     frozen ''POST'' ''/threads/{thread_id}/runs/{run_id}/submit_tool_outputs'' ''submitToolOuputsToRun'' ''assistants'' [''application/json''] [''application/json''] 200]"

definition operations_uploads :: "operation list" where
  "operations_uploads =
    [frozen ''POST'' ''/uploads'' ''createUpload'' ''uploads'' [''application/json''] [''application/json''] 200,
     frozen ''POST'' ''/uploads/{upload_id}/cancel'' ''cancelUpload'' ''uploads'' [] [''application/json''] 200,
     frozen ''POST'' ''/uploads/{upload_id}/complete'' ''completeUpload'' ''uploads'' [''application/json''] [''application/json''] 200,
     frozen ''POST'' ''/uploads/{upload_id}/parts'' ''addUploadPart'' ''uploads'' [''multipart/form-data''] [''application/json''] 200]"

definition operations_vector_stores :: "operation list" where
  "operations_vector_stores =
    [frozen ''GET'' ''/vector_stores'' ''listVectorStores'' ''vector_stores'' [] [''application/json''] 200,
     frozen ''POST'' ''/vector_stores'' ''createVectorStore'' ''vector_stores'' [''application/json''] [''application/json''] 200,
     frozen ''DELETE'' ''/vector_stores/{vector_store_id}'' ''deleteVectorStore'' ''vector_stores'' [] [''application/json''] 200,
     frozen ''GET'' ''/vector_stores/{vector_store_id}'' ''getVectorStore'' ''vector_stores'' [] [''application/json''] 200,
     frozen ''POST'' ''/vector_stores/{vector_store_id}'' ''modifyVectorStore'' ''vector_stores'' [''application/json''] [''application/json''] 200,
     frozen ''POST'' ''/vector_stores/{vector_store_id}/file_batches'' ''createVectorStoreFileBatch'' ''vector_stores'' [''application/json''] [''application/json''] 200,
     frozen ''GET'' ''/vector_stores/{vector_store_id}/file_batches/{batch_id}'' ''getVectorStoreFileBatch'' ''vector_stores'' [] [''application/json''] 200,
     frozen ''POST'' ''/vector_stores/{vector_store_id}/file_batches/{batch_id}/cancel'' ''cancelVectorStoreFileBatch'' ''vector_stores'' [] [''application/json''] 200,
     frozen ''GET'' ''/vector_stores/{vector_store_id}/file_batches/{batch_id}/files'' ''listFilesInVectorStoreBatch'' ''vector_stores'' [] [''application/json''] 200,
     frozen ''GET'' ''/vector_stores/{vector_store_id}/files'' ''listVectorStoreFiles'' ''vector_stores'' [] [''application/json''] 200,
     frozen ''POST'' ''/vector_stores/{vector_store_id}/files'' ''createVectorStoreFile'' ''vector_stores'' [''application/json''] [''application/json''] 200,
     frozen ''DELETE'' ''/vector_stores/{vector_store_id}/files/{file_id}'' ''deleteVectorStoreFile'' ''vector_stores'' [] [''application/json''] 200,
     frozen ''GET'' ''/vector_stores/{vector_store_id}/files/{file_id}'' ''getVectorStoreFile'' ''vector_stores'' [] [''application/json''] 200,
     frozen ''POST'' ''/vector_stores/{vector_store_id}/files/{file_id}'' ''updateVectorStoreFileAttributes'' ''vector_stores'' [''application/json''] [''application/json''] 200,
     frozen ''GET'' ''/vector_stores/{vector_store_id}/files/{file_id}/content'' ''retrieveVectorStoreFileContent'' ''vector_stores'' [] [''application/json''] 200,
     frozen ''POST'' ''/vector_stores/{vector_store_id}/search'' ''searchVectorStore'' ''vector_stores'' [''application/json''] [''application/json''] 200]"

definition operations_videos :: "operation list" where
  "operations_videos =
    [frozen ''GET'' ''/videos'' ''ListVideos'' ''videos'' [] [''application/json''] 200,
     frozen ''POST'' ''/videos'' ''createVideo'' ''videos'' [''application/json'', ''multipart/form-data''] [''application/json''] 200,
     frozen ''POST'' ''/videos/characters'' ''CreateVideoCharacter'' ''videos'' [''multipart/form-data''] [''application/json''] 200,
     frozen ''GET'' ''/videos/characters/{character_id}'' ''GetVideoCharacter'' ''videos'' [] [''application/json''] 200,
     frozen ''POST'' ''/videos/edits'' ''CreateVideoEdit'' ''videos'' [''application/json'', ''multipart/form-data''] [''application/json''] 200,
     frozen ''POST'' ''/videos/extensions'' ''CreateVideoExtend'' ''videos'' [''application/json'', ''multipart/form-data''] [''application/json''] 200,
     frozen ''DELETE'' ''/videos/{video_id}'' ''DeleteVideo'' ''videos'' [] [''application/json''] 200,
     frozen ''GET'' ''/videos/{video_id}'' ''GetVideo'' ''videos'' [] [''application/json''] 200,
     frozen ''GET'' ''/videos/{video_id}/content'' ''RetrieveVideoContent'' ''videos'' [] [''application/json'', ''image/webp'', ''video/mp4''] 200,
     frozen ''POST'' ''/videos/{video_id}/remix'' ''CreateVideoRemix'' ''videos'' [''application/json'', ''multipart/form-data''] [''application/json''] 200]"

definition Operations :: "operation list" where
  "Operations =
    operations_assistants @
     operations_audio @
     operations_batches @
     operations_chat @
     operations_chatkit @
     operations_completions @
     operations_containers @
     operations_content_provenance_checks @
     operations_conversations @
     operations_embeddings @
     operations_evals @
     operations_files @
     operations_fine_tuning @
     operations_images @
     operations_models @
     operations_moderations @
     operations_organization @
     operations_organization_projects @
     operations_organization_rest @
     operations_projects @
     operations_realtime @
     operations_responses @
     operations_skills @
     operations_threads @
     operations_uploads @
     operations_vector_stores @
     operations_videos"

lemmas operation_tables =
  operations_assistants_def operations_audio_def operations_batches_def operations_chat_def operations_chatkit_def operations_completions_def operations_containers_def operations_content_provenance_checks_def operations_conversations_def operations_embeddings_def operations_evals_def operations_files_def operations_fine_tuning_def operations_images_def operations_models_def operations_moderations_def operations_organization_def operations_organization_projects_def operations_organization_rest_def operations_projects_def operations_realtime_def operations_responses_def operations_skills_def operations_threads_def operations_uploads_def operations_vector_stores_def operations_videos_def

subsection \<open>Events\<close>

definition events_realtime_client :: "string list" where
  "events_realtime_client =
    [''conversation.item.create'',
     ''conversation.item.delete'',
     ''conversation.item.retrieve'',
     ''conversation.item.truncate'',
     ''input_audio_buffer.append'',
     ''input_audio_buffer.clear'',
     ''input_audio_buffer.commit'',
     ''output_audio_buffer.clear'',
     ''response.cancel'',
     ''response.create'',
     ''session.update'']"

definition events_realtime_server :: "string list" where
  "events_realtime_server =
    [''conversation.created'',
     ''conversation.item.added'',
     ''conversation.item.created'',
     ''conversation.item.deleted'',
     ''conversation.item.done'',
     ''conversation.item.input_audio_transcription.completed'',
     ''conversation.item.input_audio_transcription.delta'',
     ''conversation.item.input_audio_transcription.failed'',
     ''conversation.item.input_audio_transcription.segment'',
     ''conversation.item.retrieved'',
     ''conversation.item.truncated'',
     ''error'',
     ''input_audio_buffer.cleared'',
     ''input_audio_buffer.committed'',
     ''input_audio_buffer.dtmf_event_received'',
     ''input_audio_buffer.speech_started'',
     ''input_audio_buffer.speech_stopped'',
     ''input_audio_buffer.timeout_triggered'',
     ''mcp_list_tools.completed'',
     ''mcp_list_tools.failed'',
     ''mcp_list_tools.in_progress'',
     ''output_audio_buffer.cleared'',
     ''output_audio_buffer.started'',
     ''output_audio_buffer.stopped'',
     ''rate_limits.updated'',
     ''response.content_part.added'',
     ''response.content_part.done'',
     ''response.created'',
     ''response.done'',
     ''response.function_call_arguments.delta'',
     ''response.function_call_arguments.done'',
     ''response.mcp_call.completed'',
     ''response.mcp_call.failed'',
     ''response.mcp_call.in_progress'',
     ''response.mcp_call_arguments.delta'',
     ''response.mcp_call_arguments.done'',
     ''response.output_audio.delta'',
     ''response.output_audio.done'',
     ''response.output_audio_transcript.delta'',
     ''response.output_audio_transcript.done'',
     ''response.output_item.added'',
     ''response.output_item.done'',
     ''response.output_text.delta'',
     ''response.output_text.done'',
     ''session.created'',
     ''session.updated'']"

definition events_realtime_translation_client :: "string list" where
  "events_realtime_translation_client =
    [''session.close'',
     ''session.input_audio_buffer.append'',
     ''session.update'']"

definition events_realtime_translation_server :: "string list" where
  "events_realtime_translation_server =
    [''error'',
     ''session.closed'',
     ''session.created'',
     ''session.input_transcript.delta'',
     ''session.output_audio.delta'',
     ''session.output_transcript.delta'',
     ''session.updated'']"

definition events_responses_websocket_client :: "string list" where
  "events_responses_websocket_client =
    [''response.create'']"

definition events_responses_websocket_server :: "string list" where
  "events_responses_websocket_server =
    [''error'',
     ''response.audio.delta'',
     ''response.audio.done'',
     ''response.audio.transcript.delta'',
     ''response.audio.transcript.done'',
     ''response.code_interpreter_call.completed'',
     ''response.code_interpreter_call.in_progress'',
     ''response.code_interpreter_call.interpreting'',
     ''response.code_interpreter_call_code.delta'',
     ''response.code_interpreter_call_code.done'',
     ''response.completed'',
     ''response.content_part.added'',
     ''response.content_part.done'',
     ''response.created'',
     ''response.custom_tool_call_input.delta'',
     ''response.custom_tool_call_input.done'',
     ''response.failed'',
     ''response.file_search_call.completed'',
     ''response.file_search_call.in_progress'',
     ''response.file_search_call.searching'',
     ''response.function_call_arguments.delta'',
     ''response.function_call_arguments.done'',
     ''response.image_generation_call.completed'',
     ''response.image_generation_call.generating'',
     ''response.image_generation_call.in_progress'',
     ''response.image_generation_call.partial_image'',
     ''response.in_progress'',
     ''response.incomplete'',
     ''response.mcp_call.completed'',
     ''response.mcp_call.failed'',
     ''response.mcp_call.in_progress'',
     ''response.mcp_call_arguments.delta'',
     ''response.mcp_call_arguments.done'',
     ''response.mcp_list_tools.completed'',
     ''response.mcp_list_tools.failed'',
     ''response.mcp_list_tools.in_progress'',
     ''response.output_item.added'',
     ''response.output_item.done'',
     ''response.output_text.annotation.added'',
     ''response.output_text.delta'',
     ''response.output_text.done'',
     ''response.queued'',
     ''response.reasoning_summary_part.added'',
     ''response.reasoning_summary_part.done'',
     ''response.reasoning_summary_text.delta'',
     ''response.reasoning_summary_text.done'',
     ''response.reasoning_text.delta'',
     ''response.reasoning_text.done'',
     ''response.refusal.delta'',
     ''response.refusal.done'',
     ''response.web_search_call.completed'',
     ''response.web_search_call.in_progress'',
     ''response.web_search_call.searching'']"

definition Events :: "profile_event list" where
  "Events =
    map (\<lambda>t. \<lparr>EvSurface = ''realtime'', EvDirection = ''client'', EvType = t\<rparr>) events_realtime_client @
     map (\<lambda>t. \<lparr>EvSurface = ''realtime'', EvDirection = ''server'', EvType = t\<rparr>) events_realtime_server @
     map (\<lambda>t. \<lparr>EvSurface = ''realtime_translation'', EvDirection = ''client'', EvType = t\<rparr>) events_realtime_translation_client @
     map (\<lambda>t. \<lparr>EvSurface = ''realtime_translation'', EvDirection = ''server'', EvType = t\<rparr>) events_realtime_translation_server @
     map (\<lambda>t. \<lparr>EvSurface = ''responses_websocket'', EvDirection = ''client'', EvType = t\<rparr>) events_responses_websocket_client @
     map (\<lambda>t. \<lparr>EvSurface = ''responses_websocket'', EvDirection = ''server'', EvType = t\<rparr>) events_responses_websocket_server"

lemmas event_tables =
  events_realtime_client_def events_realtime_server_def events_realtime_translation_client_def events_realtime_translation_server_def events_responses_websocket_client_def events_responses_websocket_server_def

end
