(* ===== verification/Profile.thy ===== *)
theory Profile
  imports Profile_Tables Go_Strings Backend_Types
begin

section \<open>Lookups in the frozen profile: openai/internal/profile/profile.go\<close>

text \<open>
  \<open>OperationByID\<close>, \<open>OperationForRoute\<close> and \<open>EventAllowed\<close>.  The once-initialised lookup maps are
  functions of the tables.
\<close>

definition operationsByID :: "operation list \<Rightarrow> (string, operation) gomap" where
  "operationsByID ops = fold (\<lambda>op m. AList.update (OperationID op) op m) ops []"

definition OperationByID :: "string \<Rightarrow> operation option" where
  "OperationByID i = map_of (operationsByID Operations) i"

definition query_matches :: "(string, string list) gomap \<Rightarrow> (string, string list) gomap \<Rightarrow> bool" where
  "query_matches required query =
    list_all (\<lambda>(key, expected). expected \<noteq> [] \<and> Values_Get query key = last expected) required"

fun route_scan ::
  "operation list \<Rightarrow> string \<Rightarrow> string \<Rightarrow> (string, string list) gomap \<Rightarrow> operation option \<Rightarrow> operation option" where
  "route_scan [] method routePath query fallback = fallback"
| "route_scan (op # ops) method routePath query fallback =
     (case Cut (Path op) (CHR ''?'') of (operationPath, rawQuery, _) \<Rightarrow>
        if Method op \<noteq> method \<or> operationPath \<noteq> routePath
          then route_scan ops method routePath query fallback
        else if rawQuery = [] then route_scan ops method routePath query (Some op)
        else (case ParseQuery rawQuery of (required, err) \<Rightarrow>
          if err then route_scan ops method routePath query fallback
          else if query_matches required query then Some op
          else route_scan ops method routePath query fallback))"

definition OperationForRoute ::
  "string \<Rightarrow> string \<Rightarrow> (string, string list) gomap \<Rightarrow> operation option" where
  "OperationForRoute method routePath query = route_scan Operations method routePath query None"

definition event_key :: "string \<Rightarrow> string \<Rightarrow> string \<Rightarrow> string" where
  "event_key surface direction eventType =
    surface @ [CHR 0x00] @ direction @ [CHR 0x00] @ eventType"

definition eventSet :: "string set" where
  "eventSet = set (map (\<lambda>e. event_key (EvSurface e) (EvDirection e) (EvType e)) Events)"

definition EventAllowed :: "string \<Rightarrow> string \<Rightarrow> string \<Rightarrow> bool" where
  "EventAllowed surface direction eventType \<longleftrightarrow> event_key surface direction eventType \<in> eventSet"

subsection \<open>The order of the table\<close>

text \<open>The generator sorts the operations by path and then by method; the comparison is the one
  of its \<open>sort.Slice\<close>.\<close>

definition operation_less :: "operation \<Rightarrow> operation \<Rightarrow> bool" where
  "operation_less a b =
    (if Path a = Path b then string_less (Method a) (Method b) else string_less (Path a) (Path b))"

lemma operation_less_trans: "transp operation_less"
  by (rule transpI) (auto simp: operation_less_def split: if_splits
      dest: string_less_trans)

lemma operation_less_irrefl [simp]: "\<not> operation_less a a"
  by (simp add: operation_less_def)

definition route_parts :: "operation \<Rightarrow> string \<times> string \<times> string" where
  "route_parts op = (case Cut (Path op) (CHR ''?'') of (p, q, _) \<Rightarrow> (Method op, p, q))"

text \<open>What each entry of the table satisfies on its own.\<close>

definition entry_ok :: "operation \<Rightarrow> bool" where
  "entry_ok op \<longleftrightarrow>
    List.member Capabilities (OpCapability op) \<and>
    (case Cut (Path op) (CHR ''?'') of (p, q, f) \<Rightarrow> (if f then q = ''beta=true'' else True)) \<and>
    200 \<le> SuccessStatus op \<and> SuccessStatus op < 300 \<and> OperationID op \<noteq> []"

fun block_ok :: "operation list \<Rightarrow> operation list \<Rightarrow> bool" where
  "block_ok prev block \<longleftrightarrow>
    block \<noteq> [] \<and> list_all entry_ok block \<and> successively operation_less block \<and>
    (prev = [] \<or> operation_less (last prev) (hd block))"

fun blocks_ok :: "operation list \<Rightarrow> operation list list \<Rightarrow> bool" where
  "blocks_ok prev [] = True"
| "blocks_ok prev (b # bs) = (block_ok prev b \<and> blocks_ok b bs)"

lemma blocks_ok_concat:
  "blocks_ok prev bs \<Longrightarrow> list_all entry_ok (concat bs) \<and> successively operation_less (concat bs) \<and>
     (prev = [] \<or> concat bs = [] \<or> operation_less (last prev) (hd (concat bs)))"
proof (induction prev bs rule: blocks_ok.induct)
  case (2 prev b bs)
  then have IH: "list_all entry_ok (concat bs)" "successively operation_less (concat bs)"
    "concat bs = [] \<or> operation_less (last b) (hd (concat bs))" by auto
  with "2.prems" show ?case by (auto simp: successively_append_iff)
qed simp

lemma block_assistants: "block_ok [] operations_assistants"
  by code_simp

lemma block_audio: "block_ok operations_assistants operations_audio"
  by code_simp

lemma block_batches: "block_ok operations_audio operations_batches"
  by code_simp

lemma block_chat: "block_ok operations_batches operations_chat"
  by code_simp

lemma block_chatkit: "block_ok operations_chat operations_chatkit"
  by code_simp

lemma block_completions: "block_ok operations_chatkit operations_completions"
  by code_simp

lemma block_containers: "block_ok operations_completions operations_containers"
  by code_simp

lemma block_content_provenance_checks: "block_ok operations_containers operations_content_provenance_checks"
  by code_simp

lemma block_conversations: "block_ok operations_content_provenance_checks operations_conversations"
  by code_simp

lemma block_embeddings: "block_ok operations_conversations operations_embeddings"
  by code_simp

lemma block_evals: "block_ok operations_embeddings operations_evals"
  by code_simp

lemma block_files: "block_ok operations_evals operations_files"
  by code_simp

lemma block_fine_tuning: "block_ok operations_files operations_fine_tuning"
  by code_simp

lemma block_images: "block_ok operations_fine_tuning operations_images"
  by code_simp

lemma block_models: "block_ok operations_images operations_models"
  by code_simp

lemma block_moderations: "block_ok operations_models operations_moderations"
  by code_simp

lemma block_organization: "block_ok operations_moderations operations_organization"
  by code_simp

lemma block_organization_projects: "block_ok operations_organization operations_organization_projects"
  by code_simp

lemma block_organization_rest: "block_ok operations_organization_projects operations_organization_rest"
  by code_simp

lemma block_projects: "block_ok operations_organization_rest operations_projects"
  by code_simp

lemma block_realtime: "block_ok operations_projects operations_realtime"
  by code_simp

lemma block_responses: "block_ok operations_realtime operations_responses"
  by code_simp

lemma block_skills: "block_ok operations_responses operations_skills"
  by code_simp

lemma block_threads: "block_ok operations_skills operations_threads"
  by code_simp

lemma block_uploads: "block_ok operations_threads operations_uploads"
  by code_simp

lemma block_vector_stores: "block_ok operations_uploads operations_vector_stores"
  by code_simp

lemma block_videos: "block_ok operations_vector_stores operations_videos"
  by code_simp

lemmas table_blocks =
  block_assistants block_audio block_batches block_chat block_chatkit block_completions block_containers block_content_provenance_checks block_conversations block_embeddings block_evals block_files block_fine_tuning block_images block_models block_moderations block_organization block_organization_projects block_organization_rest block_projects block_realtime block_responses block_skills block_threads block_uploads block_vector_stores block_videos

lemma Operations_entries: "list_all entry_ok Operations"
  and Operations_sorted: "successively operation_less Operations"
proof -
  have "blocks_ok []
      [operations_assistants, operations_audio, operations_batches, operations_chat,
       operations_chatkit, operations_completions, operations_containers,
       operations_content_provenance_checks, operations_conversations, operations_embeddings,
       operations_evals, operations_files, operations_fine_tuning, operations_images,
       operations_models, operations_moderations, operations_organization,
       operations_organization_projects, operations_organization_rest, operations_projects,
       operations_realtime, operations_responses, operations_skills, operations_threads,
       operations_uploads, operations_vector_stores, operations_videos]"
    by (simp add: table_blocks del: block_ok.simps)
  then show "list_all entry_ok Operations" "successively operation_less Operations"
    using blocks_ok_concat by (fastforce simp: Operations_def)+
qed

end
