(* ===== verification/Profile_Route.thy ===== *)
theory Profile_Route
  imports Profile
begin

section \<open>Resolving operations and events\<close>

text \<open>
  What the profile lookups promise, from the facts about the tables that theory \<open>Profile\<close>
  evaluates: a route and query select the beta variant exactly when the query asks for it and
  the route has one, every frozen operation resolves to itself, and no event type supplied by a
  client can pass for an entry of another surface or direction.
\<close>

lemma Cut_parts:
  "Cut s sep = (p, q, f) \<Longrightarrow> s = (if f then p @ sep # q else p) \<and> sep \<notin> set p \<and> (\<not> f \<longrightarrow> q = [])"
  by (induction s arbitrary: p) (auto split: if_splits prod.splits)

lemma beta_query: "ParseQuery ''beta=true'' = ([(''beta'', [''true''])], False)"
  by code_simp

lemma entry_ok_cases:
  assumes "entry_ok op"
  obtains (base) "CHR ''?'' \<notin> set (Path op)" "Cut (Path op) (CHR ''?'') = (Path op, [], False)"
  | (beta) p where "CHR ''?'' \<notin> set p" "Path op = p @ ''?beta=true''"
      "Cut (Path op) (CHR ''?'') = (p, ''beta=true'', True)"
proof -
  obtain p q f where cut: "Cut (Path op) (CHR ''?'') = (p, q, f)" by (cases "Cut (Path op) (CHR ''?'')")
  show thesis
    using Cut_parts[OF cut] cut assms base beta by (cases f) (auto simp: entry_ok_def)
qed

definition find_operation :: "operation list \<Rightarrow> string \<Rightarrow> string \<Rightarrow> operation option" where
  "find_operation ops method path = find (\<lambda>op. Method op = method \<and> Path op = path) ops"

lemma find_operation_Cons [simp]:
  "find_operation (op # ops) method path =
    (if Method op = method \<and> Path op = path then Some op else find_operation ops method path)"
  by (simp add: find_operation_def)

lemma find_operation_None:
  "(Method op, Path op) \<notin> (\<lambda>x. (Method x, Path x)) ` set ops \<Longrightarrow>
     find_operation ops (Method op) (Path op) = None"
  by (auto simp: find_operation_def find_None_iff image_iff)

text \<open>The scan in terms of two lookups.\<close>

lemma route_scan_spec:
  assumes "list_all entry_ok ops" and "distinct (map (\<lambda>x. (Method x, Path x)) ops)"
    and "CHR ''?'' \<notin> set path"
  shows "route_scan ops method path query fallback =
    (case (if Values_Get query ''beta'' = ''true''
           then find_operation ops method (path @ ''?beta=true'') else None) of
       Some op \<Rightarrow> Some op
     | None \<Rightarrow> (case find_operation ops method path of Some op \<Rightarrow> Some op | None \<Rightarrow> fallback))"
  using assms
proof (induction ops arbitrary: fallback)
  case (Cons op ops)
  then have IH: "route_scan ops method path query fb =
    (case (if Values_Get query ''beta'' = ''true''
           then find_operation ops method (path @ ''?beta=true'') else None) of
       Some op \<Rightarrow> Some op
     | None \<Rightarrow> (case find_operation ops method path of Some op \<Rightarrow> Some op | None \<Rightarrow> fb))" for fb
    by simp
  have fresh: "find_operation ops (Method op) (Path op) = None"
    using Cons.prems(2) by (intro find_operation_None) auto
  have "entry_ok op" using Cons.prems(1) by simp
  then show ?case
  proof (cases rule: entry_ok_cases)
    case base
    then have "Path op \<noteq> path @ ''?beta=true''" by auto
    then show ?thesis using base fresh IH
      by (auto split: option.splits)
  next
    case (beta p)
    then have "Path op \<noteq> path" using Cons.prems(3) by auto
    moreover have "p = path \<longleftrightarrow> Path op = path @ ''?beta=true''" using beta(2) by simp
    ultimately show ?thesis using beta(3) IH
      by (auto simp: beta_query query_matches_def split: option.splits)
  qed
qed (simp add: find_operation_def)

lemma Operations_routes_distinct: "distinct (map (\<lambda>x. (Method x, Path x)) Operations)"
proof -
  have "sorted_wrt operation_less Operations"
    using Operations_sorted operation_less_trans by (simp add: successively_conv_sorted_wrt)
  then have "sorted_wrt (\<lambda>a b. (Method a, Path a) \<noteq> (Method b, Path b)) Operations"
    by (rule sorted_wrt_mono_rel[rotated]) (auto simp: operation_less_def)
  then show ?thesis
    by (simp add: distinct_map distinct_conv_nth sorted_wrt_iff_nth_less inj_on_def in_set_conv_nth)
      (metis linorder_neqE_nat)
qed

lemma find_operation_in:
  "op \<in> set Operations \<Longrightarrow> find_operation Operations (Method op) (Path op) = Some op"
proof -
  assume op: "op \<in> set Operations"
  then obtain op' where f: "find_operation Operations (Method op) (Path op) = Some op'"
    by (cases "find_operation Operations (Method op) (Path op)")
      (auto simp: find_operation_def find_None_iff)
  then have "op' \<in> set Operations" "Method op' = Method op" "Path op' = Path op"
    by (auto simp: find_operation_def find_Some_iff)
  then have "op' = op"
    using Operations_routes_distinct op by (auto simp: distinct_map inj_on_def)
  then show ?thesis using f by simp
qed

lemma OperationForRoute_spec:
  assumes "CHR ''?'' \<notin> set path"
  shows "OperationForRoute method path query =
    (case (if Values_Get query ''beta'' = ''true''
           then find_operation Operations method (path @ ''?beta=true'') else None) of
       Some op \<Rightarrow> Some op
     | None \<Rightarrow> find_operation Operations method path)"
  using route_scan_spec[OF Operations_entries Operations_routes_distinct assms]
  by (simp add: OperationForRoute_def split: option.splits)

lemma route_scan_in:
  "route_scan ops method path query fallback = Some op \<Longrightarrow> op \<in> set ops \<or> fallback = Some op"
proof (induction ops arbitrary: fallback)
  case (Cons x ops)
  obtain p q f where "Cut (Path x) (CHR ''?'') = (p, q, f)" by (cases "Cut (Path x) (CHR ''?'')")
  then show ?case using Cons by (fastforce split: if_splits prod.splits)
qed simp

lemma OperationForRoute_frozen: "OperationForRoute method path query = Some op \<Longrightarrow> op \<in> set Operations"
  unfolding OperationForRoute_def by (drule route_scan_in) simp

lemma operationsByID_in:
  "map_of (fold (\<lambda>op m. AList.update (OperationID op) op m) ops m) i = Some op \<Longrightarrow>
     op \<in> set ops \<and> OperationID op = i \<or> map_of m i = Some op"
proof (induction ops arbitrary: m)
  case (Cons x ops)
  from Cons.IH[of "AList.update (OperationID x) x m"] Cons.prems show ?case
    by (auto split: if_splits)
qed simp

lemma OperationByID_frozen: "OperationByID i = Some op \<Longrightarrow> op \<in> set Operations \<and> OperationID op = i"
  unfolding OperationByID_def operationsByID_def by (drule operationsByID_in) simp

text \<open>\<open>OperationForRoute\<close> is equivalent to two table lookups.  For a path without a query part
  it returns the beta variant of the method and path when the query has beta set to true and the
  profile has that variant, else the plain operation of the method and path, else nothing.\<close>

theorem OperationForRoute_selects:
  assumes "CHR ''?'' \<notin> set path"
  shows "OperationForRoute method path query =
    (case (if Values_Get query ''beta'' = ''true''
           then find_operation Operations method (path @ ''?beta=true'') else None) of
       Some op \<Rightarrow> Some op
     | None \<Rightarrow> find_operation Operations method path)"
  by (rule OperationForRoute_spec[OF assms])

theorem OperationForRoute_selects_witness:
  "OperationForRoute ''POST'' ''/responses'' [(''beta'', [''true''])] =
     Some (frozen ''POST'' ''/responses?beta=true'' ''beta_createResponse'' ''responses''
       [''application/json''] [''application/json'', ''text/event-stream''] 200)"
  using OperationForRoute_selects[of "''/responses''" "''POST''" "[(''beta'', [''true''])]"]
    find_operation_in[of "frozen ''POST'' ''/responses?beta=true'' ''beta_createResponse''
      ''responses'' [''application/json''] [''application/json'', ''text/event-stream''] 200"]
  by (simp add: Values_Get_def Operations_def operations_responses_def frozen_def)

text \<open>C30: every frozen operation resolves to itself.  For each entry of the profile, looking up its
  method and path with the query parameters its path requires gives that entry back, and its
  capability is one that \<open>WithCapability\<close> accepts.\<close>

theorem OperationForRoute_complete:
  assumes "op \<in> set Operations"
  shows "(case Cut (Path op) (CHR ''?'') of (path, rawQuery, _) \<Rightarrow>
            OperationForRoute (Method op) path (fst (ParseQuery rawQuery)) = Some op) \<and>
         OpCapability op \<in> set Capabilities"
proof -
  have ok: "entry_ok op" using assms Operations_entries by (simp add: list_all_iff)
  from ok have "case Cut (Path op) (CHR ''?'') of (path, rawQuery, _) \<Rightarrow>
      OperationForRoute (Method op) path (fst (ParseQuery rawQuery)) = Some op"
  proof (cases rule: entry_ok_cases)
    case base
    then show ?thesis
      using OperationForRoute_spec[OF base(1)] find_operation_in[OF assms] by (simp add: ParseQuery_def Values_Get_def)
  next
    case (beta p)
    then show ?thesis
      using OperationForRoute_spec[OF beta(1)] find_operation_in[OF assms] by (simp add: beta_query Values_Get_def)
  qed
  then show ?thesis using ok by (simp add: entry_ok_def)
qed

theorem OperationForRoute_complete_witness:
  "OperationForRoute ''POST'' ''/embeddings'' [] =
     Some (frozen ''POST'' ''/embeddings'' ''createEmbedding'' ''embeddings''
       [''application/json''] [''application/json''] 200)"
  using OperationForRoute_complete[of "frozen ''POST'' ''/embeddings'' ''createEmbedding''
      ''embeddings'' [''application/json''] [''application/json''] 200"]
  by (simp add: Operations_def operations_embeddings_def frozen_def ParseQuery_def)

subsection \<open>Events\<close>

lemma append_sep_inject:
  "x \<notin> set a \<Longrightarrow> x \<notin> set a' \<Longrightarrow> a @ x # b = a' @ x # b' \<longleftrightarrow> a = a' \<and> b = b'"
proof (induction a arbitrary: a')
  case Nil
  then show ?case by (cases a') auto
next
  case (Cons c a)
  then show ?case by (cases a') auto
qed

lemma event_key_inject:
  assumes "CHR 0x00 \<notin> set s" "CHR 0x00 \<notin> set d" "CHR 0x00 \<notin> set s'" "CHR 0x00 \<notin> set d'"
  shows "event_key s d t = event_key s' d' t' \<longleftrightarrow> s = s' \<and> d = d' \<and> t = t'"
  using assms by (simp add: event_key_def append_sep_inject)

lemma Events_no_NUL:
  "e \<in> set Events \<Longrightarrow> CHR 0x00 \<notin> set (EvSurface e) \<and> CHR 0x00 \<notin> set (EvDirection e)"
  by (auto simp: Events_def)

lemma EventAllowed_iff:
  assumes "CHR 0x00 \<notin> set surface" and "CHR 0x00 \<notin> set direction"
  shows "EventAllowed surface direction eventType \<longleftrightarrow>
    \<lparr>EvSurface = surface, EvDirection = direction, EvType = eventType\<rparr> \<in> set Events"
proof -
  have "EventAllowed surface direction eventType \<longleftrightarrow>
      (\<exists>e\<in>set Events. EvSurface e = surface \<and> EvDirection e = direction \<and> EvType e = eventType)"
    using event_key_inject[OF assms] Events_no_NUL
    by (auto simp: EventAllowed_def eventSet_def)
  then show ?thesis
    by (metis (full_types) old.unit.exhaust profile_event.select_convs profile_event.surjective)
qed

text \<open>C29: event admission is exact.  For a surface and direction without NUL bytes, \<open>EventAllowed\<close>
  accepts an arbitrary event type, bytes chosen by a peer included, exactly when the frozen table
  has an entry with that surface, direction and type; the concatenated map keys never collide.\<close>

theorem EventAllowed_exact:
  assumes "CHR 0x00 \<notin> set surface" and "CHR 0x00 \<notin> set direction"
  shows "EventAllowed surface direction eventType \<longleftrightarrow>
    \<lparr>EvSurface = surface, EvDirection = direction, EvType = eventType\<rparr> \<in> set Events"
  by (rule EventAllowed_iff[OF assms])

theorem EventAllowed_exact_witness:
  "EventAllowed ''realtime_translation'' ''client'' ''session.close'' \<and>
   \<not> EventAllowed ''realtime'' ''client'' (''x'' @ [CHR 0x00] @ ''session.close'')"
  using EventAllowed_exact[of "''realtime_translation''" "''client''" "''session.close''"]
    EventAllowed_exact[of "''realtime''" "''client''" "''x'' @ [CHR 0x00] @ ''session.close''"]
  by (simp add: Events_def event_tables image_iff)

end
