(* ===== verification/Go_Mime.thy ===== *)
theory Go_Mime
  imports Go_Strings
begin

section \<open>mime.ParseMediaType\<close>

text \<open>
  The media type parser of Go's \<open>mime\<close> package, which the request decoder calls on the
  Content-Type header.  Only the media type and whether an error is returned are used by the
  source, so the parameters are kept just as far as the duplicate check needs them.
\<close>

definition isTSpecial :: "char \<Rightarrow> bool" where
  "isTSpecial c \<longleftrightarrow> List.member ''()<>@,;:/[]?='' c \<or> c = CHR 0x5C \<or> c = CHR 0x22"

definition isTokenChar :: "char \<Rightarrow> bool" where
  "isTokenChar c \<longleftrightarrow> 0x20 < byte_val c \<and> byte_val c < 0x7F \<and> \<not> isTSpecial c"

definition consumeToken :: "string \<Rightarrow> string \<times> string" where
  "consumeToken v = (takeWhile isTokenChar v, dropWhile isTokenChar v)"

text \<open>The inside of a quoted string: \<open>None\<close> for a line break or a missing end quote.\<close>

fun consume_quoted :: "string \<Rightarrow> (string \<times> string) option" where
  "consume_quoted [] = None"
| "consume_quoted (c # v) =
     (if c = CHR 0x22 then Some ([], v)
      else if c = CHR 0x5C \<and> v \<noteq> [] \<and> isTSpecial (hd v) then
        (case v of
           d # r \<Rightarrow> (case consume_quoted r of Some (a, b) \<Rightarrow> Some (d # a, b) | None \<Rightarrow> None)
         | [] \<Rightarrow> None)
      else if c = CHR 0x0D \<or> c = CHR 0x0A then None
      else (case consume_quoted v of Some (a, b) \<Rightarrow> Some (c # a, b) | None \<Rightarrow> None))"

definition consumeValue :: "string \<Rightarrow> string \<times> string" where
  "consumeValue v =
    (case v of
       [] \<Rightarrow> ([], [])
     | c # r \<Rightarrow>
         if c \<noteq> CHR 0x22 then consumeToken v
         else (case consume_quoted r of Some (a, b) \<Rightarrow> (a, b) | None \<Rightarrow> ([], v)))"

definition trim_space_left :: "string \<Rightarrow> string" where
  "trim_space_left v = trim_left space_runes v"

definition consumeMediaParam :: "string \<Rightarrow> (string \<times> string \<times> string) option" where
  "consumeMediaParam v =
    (let rest = trim_space_left v in
     if \<not> HasPrefix rest '';'' then None
     else (case consumeToken (trim_space_left (drop 1 rest)) of (param, rest1) \<Rightarrow>
       (let param = ToLower param; rest2 = trim_space_left rest1 in
        if param = [] then None
        else if \<not> HasPrefix rest2 ''='' then None
        else (let rest3 = trim_space_left (drop 1 rest2) in
          (case consumeValue rest3 of (value, rest4) \<Rightarrow>
             if value = [] \<and> rest4 = rest3 then None else Some (param, value, rest4))))))"

text \<open>The parameter loop; every round consumes at least the semicolon, so the length of the input
  bounds the number of rounds.  The result says whether \<open>ParseMediaType\<close> returns an error.\<close>

fun media_params_err :: "nat \<Rightarrow> string \<Rightarrow> (string, string) gomap \<Rightarrow> bool" where
  "media_params_err 0 v params = True"
| "media_params_err (Suc rounds) v params =
     (let v = trim_space_left v in
      if v = [] then False
      else (case consumeMediaParam v of
        None \<Rightarrow> TrimSpace v \<noteq> '';''
      | Some (key, value, rest) \<Rightarrow>
          (case map_of params key of
             Some value' \<Rightarrow> if value' \<noteq> value then True else media_params_err rounds rest params
           | None \<Rightarrow> media_params_err rounds rest ((key, value) # params))))"

definition checkMediaTypeDisposition :: "string \<Rightarrow> bool" where
  "checkMediaTypeDisposition s =
    (case consumeToken s of (typ, rest) \<Rightarrow>
       typ \<noteq> [] \<and>
       (rest = [] \<or>
        (hd rest = CHR ''/'' \<and>
         (case consumeToken (tl rest) of (subtype, rest') \<Rightarrow> subtype \<noteq> [] \<and> rest' = []))))"

text \<open>\<open>Some\<close> media type, or \<open>None\<close> when an error is returned.\<close>

definition ParseMediaType :: "string \<Rightarrow> string option" where
  "ParseMediaType v =
    (let base = fst (Cut v (CHR '';''));
         mediatype = TrimSpace (ToLower base);
         rest = drop (length base) v
     in if checkMediaTypeDisposition mediatype \<and> \<not> media_params_err (Suc (length rest)) rest []
        then Some mediatype else None)"

lemma consume_quoted_length: "consume_quoted v = Some (a, b) \<Longrightarrow> length b < length v"
  by (induction v arbitrary: a b rule: consume_quoted.induct)
    (fastforce split: if_splits option.splits list.splits)+

lemma consumeValue_length: "length (snd (consumeValue v)) \<le> length v"
  by (auto simp: consumeValue_def consumeToken_def length_dropWhile_le
      split: list.splits option.splits dest: consume_quoted_length intro: le_SucI)

lemma trim_space_left_length: "length (trim_space_left v) \<le> length v"
proof -
  obtain p where "v = p @ trim_space_left v"
    using trim_left_suffix[of v space_runes] by (auto simp: trim_space_left_def)
  then show ?thesis by (metis le_add2 length_append)
qed

text \<open>Each round shortens the input, so the bound on the rounds is never reached.\<close>

lemma consumeMediaParam_length:
  assumes "consumeMediaParam v = Some (key, value, rest)"
  shows "length rest < length v"
proof -
  define r1 where "r1 = trim_space_left v"
  define r2 where "r2 = dropWhile isTokenChar (trim_space_left (drop 1 r1))"
  define r3 where "r3 = trim_space_left (drop 1 (trim_space_left r2))"
  from assms have "HasPrefix r1 '';''" and rest: "rest = snd (consumeValue r3)"
    by (auto simp: consumeMediaParam_def consumeToken_def Let_def r1_def r2_def r3_def
        split: if_splits prod.splits)
  then have "r1 \<noteq> []" by (auto simp: HasPrefix_iff)
  have "length rest \<le> length r3" using rest consumeValue_length by simp
  also have "\<dots> \<le> length r2"
    using trim_space_left_length[of "drop 1 (trim_space_left r2)"] trim_space_left_length[of r2]
    by (simp add: r3_def)
  also have "\<dots> \<le> length (drop 1 r1)"
    using length_dropWhile_le[of isTokenChar "trim_space_left (drop 1 r1)"]
      trim_space_left_length[of "drop 1 r1"] by (simp add: r2_def)
  also have "\<dots> < length r1" using \<open>r1 \<noteq> []\<close> by (cases r1) auto
  also have "\<dots> \<le> length v" by (simp add: r1_def trim_space_left_length)
  finally show ?thesis .
qed

lemma media_params_err_rounds:
  "length v < n \<Longrightarrow> length v < m \<Longrightarrow> media_params_err n v ps = media_params_err m v ps"
proof (induction n arbitrary: m v ps)
  case (Suc n)
  then obtain m' where m: "m = Suc m'" by (cases m) auto
  define u where "u = trim_space_left v"
  have "length u \<le> length v" by (simp add: u_def trim_space_left_length)
  then have "media_params_err n rest qs = media_params_err m' rest qs"
    if "consumeMediaParam u = Some (key, value, rest)" for key "value" rest qs
    using consumeMediaParam_length[OF that] Suc.prems m by (intro Suc.IH) auto
  then show ?case
    unfolding m by (auto simp: Let_def u_def[symmetric] split: option.splits)
qed simp

end
