(* ===== verification/Rest_Handler.thy ===== *)
theory Rest_Handler
  imports Backend_Services Rest_Stream Profile_Route Go_Mime Contract
begin

section \<open>The REST handler: openai/internal/rest/handler.go\<close>

text \<open>
  \<open>ServeHTTP\<close> from the first header to the last byte.  The OpenAPI router and validator are third
  party code and come in as functions: \<open>FindRoute\<close> (in the handler), \<open>ValidateRequest\<close> and
  \<open>ValidateResponse\<close>, together with the random source and whether the connection can flush (in
  \<open>externals\<close>).  A backend handler is a function from the canonical request to an error or a
  response, whose body is the bytes it yields and whose stream is what the event loop's select
  takes, round by round.

  The outcome of a request is the response writer, the effects on the backend in order, and how
  the call ended: it returned, it is still waiting for the stream, or it panicked.
\<close>

datatype effect = BackendCalled request | StreamClosed | BodyClosed

datatype ending = Returned | Waiting | Panicked

record outcome =
  out_writer :: writer
  out_effects :: "effect list"
  out_ending :: ending

type_synonym backend_response = "(string, sse_select list) response"
type_synonym backend_handler = "request \<Rightarrow> go_error + backend_response"

subsection \<open>The OpenAPI document and its routes\<close>

text \<open>An operation of the loaded document, as far as the handler looks at it; \<open>'d\<close> stands for the
  path item, which only the validator reads.\<close>

record doc_operation =
  DocOperationID :: string
  HasRequestBody :: bool

record 'd route =
  RoutePath :: string
  RouteMethod :: string
  RoutePathItem :: 'd
  RouteOperation :: doc_operation

type_synonym 'd document = "(string, 'd \<times> (string, doc_operation) gomap) gomap"

datatype route_error = ErrMethodNotAllowed | ErrPathNotFound

record 'd validation_input =
  vi_Request :: http_request
  vi_PathParams :: "(string, string) gomap"
  vi_QueryParams :: "(string, string list) gomap"
  vi_Route :: "'d route"
  vi_RejectBody :: bool

record ('d, 's) rest_handler =
  rh_services :: "(backend_handler, 's) services"
  rh_FindRoute :: "http_request \<Rightarrow> route_error + ('d route \<times> (string, string) gomap)"
  rh_validationRoutes :: "(string, 'd route) gomap"
  rh_config :: config

record 'd externals =
  ext_ValidateRequest :: "'d validation_input \<Rightarrow> string option"
  ext_ValidateResponse :: "'d validation_input \<Rightarrow> int \<Rightarrow> header \<Rightarrow> string \<Rightarrow> string option"
  ext_random :: "string option"
  ext_flushable :: bool

definition validationRoutesByOperationID :: "'d document \<Rightarrow> (string, 'd route) gomap" where
  "validationRoutesByOperationID document =
    fold (\<lambda>(profilePath, pathItem, operations) routes.
        fold (\<lambda>(method, operation) routes.
            if DocOperationID operation = [] then routes
            else AList.update (DocOperationID operation)
              \<lparr>RoutePath = fst (Cut profilePath (CHR ''?'')), RouteMethod = method,
               RoutePathItem = pathItem, RouteOperation = operation\<rparr> routes)
          operations routes)
      document []"

definition rest_New ::
  "(backend_handler, 's) services \<Rightarrow> 'd document \<Rightarrow>
   (http_request \<Rightarrow> route_error + ('d route \<times> (string, string) gomap)) \<Rightarrow> config \<Rightarrow>
   ('d, 's) rest_handler" where
  "rest_New services document router cfg =
    \<lparr>rh_services = services, rh_FindRoute = router,
     rh_validationRoutes = validationRoutesByOperationID document, rh_config = cfg\<rparr>"

definition validationRoute :: "('d, 's) rest_handler \<Rightarrow> 'd route \<Rightarrow> operation \<Rightarrow> 'd route" where
  "validationRoute h matched op =
    (case map_of (rh_validationRoutes h) (OperationID op) of
       None \<Rightarrow> matched
     | Some indexed \<Rightarrow>
         matched\<lparr>RoutePath := RoutePath indexed, RoutePathItem := RoutePathItem indexed,
                 RouteOperation := RouteOperation indexed\<rparr>)"

subsection \<open>Building the backend request\<close>

definition input_of :: "string \<Rightarrow> string \<Rightarrow> input" where
  "input_of body contentType =
    (let mediaType = (case ParseMediaType contentType of Some m \<Rightarrow> m | None \<Rightarrow> contentType)
     in \<lparr>MediaType = mediaType,
         JSON = (if Contains mediaType ''json'' \<and> body \<noteq> [] then body else []),
         Bytes = body\<rparr>)"

definition query_value :: "string list \<Rightarrow> string" where
  "query_value values =
    (case values of [v] \<Rightarrow> Marshal (JString v) | _ \<Rightarrow> Marshal (JArray (map JString values)))"

definition parameters :: "(string, string) gomap \<Rightarrow> http_request \<Rightarrow> (string, string) gomap" where
  "parameters pathParams req =
    fold (\<lambda>(key, values). AList.update key (query_value values)) (req_Query req)
      (fold (\<lambda>(key, value). AList.update key (Marshal (JString value))) pathParams [])"

definition credential_header :: "string \<Rightarrow> bool" where
  "credential_header key \<longleftrightarrow>
    EqualFold key ''Authorization'' \<or> EqualFold key ''Cookie'' \<or> EqualFold key ''Sec-WebSocket-Protocol''"

definition safeHeaders :: "header \<Rightarrow> header" where
  "safeHeaders headers =
    fold (\<lambda>(key, values) result.
        if credential_header key then result
        else AList.update (CanonicalHeaderKey key) values result)
      headers []"

definition hopByHop :: "string \<Rightarrow> bool" where
  "hopByHop h =
    List.member
      [''Connection'', ''Keep-Alive'', ''Proxy-Authenticate'', ''Proxy-Authorization'', ''Te'',
       ''Trailer'', ''Transfer-Encoding'', ''Upgrade'']
      (CanonicalHeaderKey h)"

definition copySafeHeaders :: "header \<Rightarrow> header \<Rightarrow> header" where
  "copySafeHeaders target source =
    fold (\<lambda>(key, values) target.
        if hopByHop key \<or> EqualFold key ''Authorization'' \<or> EqualFold key ''Set-Cookie'' then target
        else fold (\<lambda>value target. Header_Add target key value) values target)
      source target"

definition nonNilInterface :: "'a iface \<Rightarrow> bool" where
  "nonNilInterface value =
    (case value of NilInterface \<Rightarrow> False
     | Dynamic kind null _ \<Rightarrow> if kind_IsNil_applies kind then \<not> null else True)"

definition closeResponse :: "backend_response \<Rightarrow> effect list" where
  "closeResponse response = (if nonNilInterface (Body response) then [BodyClosed] else [])"

definition responseModeCount :: "backend_response \<Rightarrow> nat" where
  "responseModeCount response =
    (if ResponseJSON response \<noteq> [] then 1 else 0) +
    (if nonNilInterface (Body response) then 1 else 0) +
    (if nonNilInterface (Stream response) then 1 else 0)"

definition routeErrorStatus :: "route_error \<Rightarrow> int" where
  "routeErrorStatus err = (case err of ErrMethodNotAllowed \<Rightarrow> 405 | ErrPathNotFound \<Rightarrow> 404)"

definition safeValidationMessage :: "string \<Rightarrow> string" where
  "safeValidationMessage err =
    ''Invalid request: '' @ take 500 (map (\<lambda>c. if c = CHR 0x0A then CHR '' '' else c) err)"

text \<open>\<open>io.ReadAll(io.LimitReader(request.Body, limit))\<close>: a limit that is not positive reads nothing,
  and an error of the body is seen only if it comes before the limit.\<close>

definition read_limited :: "http_request \<Rightarrow> int64 \<Rightarrow> string option" where
  "read_limited req limit =
    (if sint limit \<le> 0 then Some []
     else (case req_BodyError req of
       Some n \<Rightarrow> if int n < sint limit then None else Some (take (nat (sint limit)) (req_Body req))
     | None \<Rightarrow> Some (take (nat (sint limit)) (req_Body req))))"

subsection \<open>Serving a request\<close>

definition finished :: "writer \<Rightarrow> effect list \<Rightarrow> outcome" where
  "finished w effects = \<lparr>out_writer = w, out_effects = effects, out_ending = Returned\<rparr>"

definition fail_status :: "writer \<Rightarrow> string \<Rightarrow> int \<Rightarrow> backend_error \<Rightarrow> effect list \<Rightarrow> outcome" where
  "fail_status w requestID status err effects = finished (writeErrorStatus w requestID status err) effects"

text \<open>\<open>writeError\<close> with a non-nil error.\<close>

definition fail :: "writer \<Rightarrow> string \<Rightarrow> backend_error \<Rightarrow> effect list \<Rightarrow> outcome" where
  "fail w requestID err effects = fail_status w requestID (errorStatus err) err effects"

text \<open>From the backend's response to the client: the three modes of a response (lines 138 to 169)
  and the status check in front of them (lines 129 to 137).  The effects of the deferred
  \<open>closeResponse\<close> are appended by the caller.\<close>

definition serve_stream ::
  "'d externals \<Rightarrow> string \<Rightarrow> writer \<Rightarrow> int \<Rightarrow> sse_select list \<Rightarrow> outcome" where
  "serve_stream ext requestID w status rounds =
    (case writeSSE w (ext_flushable ext) requestID status rounds of
       (w', closed) \<Rightarrow>
         if closed then finished w' [StreamClosed]
         else \<lparr>out_writer = w', out_effects = [], out_ending = Waiting\<rparr>)"

definition serve_body :: "writer \<Rightarrow> int \<Rightarrow> string \<Rightarrow> string \<Rightarrow> outcome" where
  "serve_body w status mediaType bytes =
    (let w' = (if mediaType \<noteq> [] then set_header ''Content-Type'' mediaType w else w)
     in finished (Write (WriteHeader w' status) bytes) [])"

definition serve_json ::
  "'d externals \<Rightarrow> ('d, 's) rest_handler \<Rightarrow> 'd validation_input \<Rightarrow> string \<Rightarrow> writer \<Rightarrow> int \<Rightarrow>
   backend_response \<Rightarrow> outcome" where
  "serve_json ext h vi requestID w status result =
    (let mediaType = (if ResponseMediaType result = [] then ''application/json''
                      else ResponseMediaType result);
         w2 = set_header ''Content-Type'' mediaType w
     in if Validate (rh_config h) \<and> ResponseJSON result \<noteq> [] \<and> Contains mediaType ''json'' \<and>
           ext_ValidateResponse ext vi status (w_header w2) (ResponseJSON result) \<noteq> None
        then fail_status w2 requestID 500
          (new_error ErrorInternal
            ''Backend returned a response outside the active compatibility profile.'') []
        else
          (let w3 = WriteHeader w2 status
           in finished (if ResponseJSON result \<noteq> [] then Write w3 (ResponseJSON result) else w3) []))"

text \<open>The value inside an interface, where there is one.\<close>

definition present :: "'a iface \<Rightarrow> 'a option" where
  "present value =
    (if nonNilInterface value then (case value of Dynamic _ _ v \<Rightarrow> Some v | NilInterface \<Rightarrow> None)
     else None)"

definition effective_status :: "operation \<Rightarrow> backend_response \<Rightarrow> int" where
  "effective_status op result = (if StatusCode result = 0 then SuccessStatus op else StatusCode result)"

definition serve_response ::
  "'d externals \<Rightarrow> ('d, 's) rest_handler \<Rightarrow> 'd validation_input \<Rightarrow> operation \<Rightarrow> string \<Rightarrow> writer \<Rightarrow>
   backend_response \<Rightarrow> outcome" where
  "serve_response ext h vi op requestID w result =
    (let status = effective_status op result in
     if status < 100 \<or> 599 < status then
       fail_status w requestID 500
         (new_error ErrorInternal ''Backend returned an invalid HTTP status.'') []
     else
       (let w1 = w\<lparr>w_header := copySafeHeaders (w_header w) (ResponseMetadata result)\<rparr> in
        case present (Stream result) of
          Some rounds \<Rightarrow> serve_stream ext requestID w1 status rounds
        | None \<Rightarrow>
          (case present (Body result) of
             Some bytes \<Rightarrow> serve_body w1 status (ResponseMediaType result) bytes
           | None \<Rightarrow> serve_json ext h vi requestID w1 status result)))"

text \<open>The call of the backend and what follows it (lines 106 to 127).\<close>

definition serve_backend ::
  "'d externals \<Rightarrow> ('d, 's) rest_handler \<Rightarrow> 'd validation_input \<Rightarrow> operation \<Rightarrow> string \<Rightarrow> writer \<Rightarrow>
   backend_handler \<Rightarrow> request \<Rightarrow> outcome" where
  "serve_backend ext h vi op requestID w handler breq =
    (case handler breq of
       Inl err \<Rightarrow>
         (case writeBackendError w requestID err of
            Some w' \<Rightarrow> finished w' [BackendCalled breq]
          | None \<Rightarrow> \<lparr>out_writer = w, out_effects = [BackendCalled breq], out_ending = Panicked\<rparr>)
     | Inr result \<Rightarrow>
         (let out =
            (if responseModeCount result > 1 then
               fail_status w requestID 500
                 (new_error ErrorInternal ''Backend returned an ambiguous response.'')
                 (if nonNilInterface (Stream result) then [StreamClosed] else [])
             else serve_response ext h vi op requestID w result)
          in out\<lparr>out_effects := BackendCalled breq # out_effects out @
                  (if out_ending out = Waiting then [] else closeResponse result)\<rparr>))"

text \<open>The operation a routed request means (lines 68 to 71), the validator's input (lines 76 to 88)
  and the canonical request (lines 106 to 115).\<close>

definition resolve_operation :: "http_request \<Rightarrow> 'd route \<Rightarrow> operation option" where
  "resolve_operation req route =
    (case OperationForRoute (req_Method req) (RoutePath route) (req_Query req) of
       Some op \<Rightarrow> Some op
     | None \<Rightarrow> OperationByID (DocOperationID (RouteOperation route)))"

definition validationInput ::
  "('d, 's) rest_handler \<Rightarrow> http_request \<Rightarrow> 'd route \<Rightarrow> (string, string) gomap \<Rightarrow> operation \<Rightarrow>
   'd validation_input" where
  "validationInput h req route pathParams op =
    (let vroute = validationRoute h route op
     in \<lparr>vi_Request = req, vi_PathParams = pathParams, vi_QueryParams = req_Query req,
         vi_Route = vroute, vi_RejectBody = (\<not> HasRequestBody (RouteOperation vroute))\<rparr>)"

definition backend_request ::
  "http_request \<Rightarrow> string \<Rightarrow> string \<Rightarrow> (string, string) gomap \<Rightarrow> operation \<Rightarrow> request" where
  "backend_request req requestID callerID pathParams op =
    \<lparr>Capability = OpCapability op, Operation = OperationID op,
     Metadata = \<lparr>RequestID = requestID, CallerID = callerID, Protocol = ''openai'',
                 Extensions = safeHeaders (req_Header req)\<rparr>,
     Parameters = parameters pathParams req,
     Input = input_of (req_Body req) (Header_Get (req_Header req) ''Content-Type'')\<rparr>"

text \<open>Validation and capability lookup for a resolved operation (lines 89 to 115).\<close>

definition serve_operation ::
  "'d externals \<Rightarrow> ('d, 's) rest_handler \<Rightarrow> http_request \<Rightarrow> string \<Rightarrow> string \<Rightarrow> writer \<Rightarrow>
   'd route \<Rightarrow> (string, string) gomap \<Rightarrow> operation \<Rightarrow> outcome" where
  "serve_operation ext h req requestID callerID w route pathParams op =
    (let vi = validationInput h req route pathParams op
     in case (if Validate (rh_config h) then ext_ValidateRequest ext vi else None) of
          Some err \<Rightarrow>
            fail w requestID (new_error ErrorInvalid (safeValidationMessage err)) []
        | None \<Rightarrow>
          (case HandlerFor (rh_services h) (OpCapability op) of
             (found, ok) \<Rightarrow>
               if \<not> ok then
                 fail_status w requestID 501
                   (Error ErrorUnsupported ''capability_not_configured'' []
                     (''The '' @ OpCapability op @ '' capability is not configured.'') 0 None) []
               else
                 (case found of
                    NilInterface \<Rightarrow> \<lparr>out_writer = w, out_effects = [], out_ending = Panicked\<rparr>
                  | Dynamic _ _ handler \<Rightarrow>
                      serve_backend ext h vi op requestID w handler
                        (backend_request req requestID callerID pathParams op))))"

definition serve_route ::
  "'d externals \<Rightarrow> ('d, 's) rest_handler \<Rightarrow> http_request \<Rightarrow> string \<Rightarrow> string \<Rightarrow> writer \<Rightarrow> outcome" where
  "serve_route ext h req requestID callerID w =
    (case rh_FindRoute h req of
       Inl err \<Rightarrow>
         fail_status w requestID (routeErrorStatus err)
           (new_error ErrorNotFound ''The requested resource was not found.'') []
     | Inr (route, pathParams) \<Rightarrow>
         (case resolve_operation req route of
            None \<Rightarrow>
              fail_status w requestID 501
                (new_error ErrorUnsupported ''Operation is not in the active compatibility profile.'') []
          | Some op \<Rightarrow> serve_operation ext h req requestID callerID w route pathParams op))"

definition rest_ServeHTTP ::
  "'d externals \<Rightarrow> ('d, 's) rest_handler \<Rightarrow> http_request \<Rightarrow> outcome" where
  "rest_ServeHTTP ext h req =
    (let requestID = request_id req (ext_random ext);
         w = set_header ''X-Request-Id'' requestID fresh_writer
     in case Authenticate (rh_config h) req requestID of
          Inl err \<Rightarrow>
            fail w requestID
              (new_error ErrorUnauthorized ''Invalid authentication credentials.'') []
        | Inr callerID \<Rightarrow>
            (case read_limited req (MaxBodyBytes (rh_config h) + 1) of
               None \<Rightarrow>
                 fail w requestID (new_error ErrorInvalid ''Could not read request body.'') []
             | Some body \<Rightarrow>
                 if int (length body) > sint (MaxBodyBytes (rh_config h)) then
                   fail_status w requestID 413 (new_error ErrorInvalid ''Request body is too large.'') []
                 else serve_route ext h (req\<lparr>req_Body := body, req_BodyError := None\<rparr>)
                        requestID callerID w))"

end
