(* ===== verification/Float64.thy ===== *)
theory Float64
  imports Json
begin

section \<open>float64: strconv.ParseFloat and the number encoding of encoding/json\<close>

text \<open>
  Decoding JSON into Go's \<open>any\<close> turns every number into a \<open>float64\<close>, and encoding it prints the
  shortest decimal that reads back as that \<open>float64\<close>.  A positive finite \<open>float64\<close> is a pair of
  integers \<open>(q, e)\<close> standing for \<open>q * 2 ^ e\<close>, with \<open>2 ^ 52 \<le> q < 2 ^ 53\<close> or, for the smallest ones,
  \<open>e = -1074\<close>.  Rounding is to nearest, ties to even.
\<close>

subsection \<open>Rounding a quotient to a float64\<close>

function bit_length :: "int \<Rightarrow> int" where
  "bit_length n = (if n \<le> 0 then 0 else 1 + bit_length (n div 2))"
  by pat_completeness auto
termination
  by (relation "measure nat") auto

declare bit_length.simps [simp del]

text \<open>The quotient \<open>num / (den * 2 ^ e)\<close> as numerator and denominator.\<close>

definition scaled :: "int \<Rightarrow> int \<Rightarrow> int \<Rightarrow> int \<times> int" where
  "scaled num den e = (if 0 \<le> e then (num, den * 2 ^ nat e) else (num * 2 ^ nat (- e), den))"

definition round_half_even :: "int \<Rightarrow> int \<Rightarrow> int" where
  "round_half_even n d =
    (let q = n div d; r = n mod d
     in if d < 2 * r \<or> d = 2 * r \<and> odd q then q + 1 else q)"

definition float_round :: "int \<Rightarrow> int \<Rightarrow> (int \<times> int) option" where
  "float_round num den =
    (if num = 0 then Some (0, -1074)
     else
       (let e0 = max (-1074) (bit_length num - bit_length den - 53);
            e1 = (case scaled num den e0 of (n, d) \<Rightarrow> if 2 ^ 53 \<le> n div d then e0 + 1 else e0);
            q = (case scaled num den e1 of (n, d) \<Rightarrow> round_half_even n d)
        in (case (if q = 2 ^ 53 then (2 ^ 52, e1 + 1) else (q, e1)) of
              (q', e') \<Rightarrow> if 971 < e' then None else Some (q', e'))))"

text \<open>The value \<open>m * 10 ^ k\<close> as numerator and denominator.\<close>

definition decimal :: "int \<Rightarrow> int \<Rightarrow> int \<times> int" where
  "decimal m k = (if 0 \<le> k then (m * 10 ^ nat k, 1) else (m, 10 ^ nat (- k)))"

definition float_of_decimal :: "int \<Rightarrow> int \<Rightarrow> (int \<times> int) option" where
  "float_of_decimal m k = (case decimal m k of (num, den) \<Rightarrow> float_round num den)"

subsection \<open>Reading a literal\<close>

definition is_digit :: "char \<Rightarrow> bool" where
  "is_digit c \<longleftrightarrow> 48 \<le> byte_val c \<and> byte_val c \<le> 57"

definition digit_value :: "char \<Rightarrow> int" where
  "digit_value c = int (byte_val c) - 48"

definition digits_value :: "string \<Rightarrow> int" where
  "digits_value ds = fold (\<lambda>c n. n * 10 + digit_value c) ds 0"

text \<open>The exponent digits, cut off as \<open>strconv\<close> does once they reach 10000.\<close>

definition exponent_value :: "string \<Rightarrow> int" where
  "exponent_value ds = fold (\<lambda>c n. if n < 10000 then n * 10 + digit_value c else n) ds 0"

text \<open>Sign, integer digits, fraction digits and exponent of a JSON number literal.\<close>

definition literal_parts :: "string \<Rightarrow> bool \<times> string \<times> string \<times> int" where
  "literal_parts s =
    (let (neg, u) = (case s of c # r \<Rightarrow> if c = CHR ''-'' then (True, r) else (False, s) | [] \<Rightarrow> (False, []));
         ip = takeWhile is_digit u; r1 = dropWhile is_digit u;
         (fp, r2) = (case r1 of c # r \<Rightarrow> if c = CHR ''.'' then (takeWhile is_digit r, dropWhile is_digit r)
                       else ([], r1) | [] \<Rightarrow> ([], []));
         ex = (case r2 of
                 c # d # r \<Rightarrow> if d = CHR ''-'' then - exponent_value r
                             else if d = CHR ''+'' then exponent_value r else exponent_value (d # r)
               | _ \<Rightarrow> 0)
     in (neg, ip, fp, ex))"

definition ParseFloat :: "string \<Rightarrow> (bool \<times> int \<times> int) option" where
  "ParseFloat s =
    (case literal_parts s of (neg, ip, fp, ex) \<Rightarrow>
       map_option (\<lambda>(q, e). (neg, q, e))
         (float_of_decimal (digits_value (ip @ fp)) (ex - int (length fp))))"

subsection \<open>The shortest decimal\<close>

definition float_ratio :: "int \<times> int \<Rightarrow> int \<times> int" where
  "float_ratio f = (case f of (q, e) \<Rightarrow> if 0 \<le> e then (q * 2 ^ nat e, 1) else (q, 2 ^ nat (- e)))"

fun leading_zeros :: "nat \<Rightarrow> int \<Rightarrow> int \<Rightarrow> int" where
  "leading_zeros 0 num den = 0"
| "leading_zeros (Suc fuel) num den = (if den \<le> num then 0 else 1 + leading_zeros fuel (num * 10) den)"

function int_digits :: "int \<Rightarrow> string" where
  "int_digits n = (if n < 10 then [char_of (48 + nat n)] else int_digits (n div 10) @ [char_of (48 + nat (n mod 10))])"
  by pat_completeness auto
termination
  by (relation "measure nat") auto

declare int_digits.simps [simp del]

text \<open>The least \<open>p\<close> with \<open>num / den < 10 ^ p\<close>.\<close>

definition decimal_point :: "int \<Rightarrow> int \<Rightarrow> int" where
  "decimal_point num den =
    (if den \<le> num then int (length (int_digits (num div den))) else 1 - leading_zeros 400 num den)"

text \<open>The better of the two neighbours with \<open>n\<close> digits that reads back as the same \<open>float64\<close>.\<close>

definition candidate :: "int \<times> int \<Rightarrow> int \<Rightarrow> (int \<times> int) option" where
  "candidate f n =
    (case float_ratio f of (num, den) \<Rightarrow>
       (let k = decimal_point num den - n;
            (a, b) = (if 0 \<le> k then (num, den * 10 ^ nat k) else (num * 10 ^ nat (- k), den));
            lo = a div b;
            lo_ok = (float_of_decimal lo k = Some f); hi_ok = (float_of_decimal (lo + 1) k = Some f)
        in if lo_ok \<and> (\<not> hi_ok \<or> 2 * (a mod b) \<le> b) then Some (lo, k)
           else if hi_ok then Some (if lo + 1 = 10 ^ nat n then (1, k + n) else (lo + 1, k))
           else None))"

text \<open>The search starts with one digit; seventeen digits determine every \<open>float64\<close>.\<close>

fun fewest_digits :: "nat \<Rightarrow> int \<times> int \<Rightarrow> int \<Rightarrow> int \<times> int" where
  "fewest_digits 0 f n = (0, 0)"
| "fewest_digits (Suc fuel) f n =
     (case candidate f n of Some c \<Rightarrow> c | None \<Rightarrow> fewest_digits fuel f (n + 1))"

definition shortest :: "int \<times> int \<Rightarrow> int \<times> int" where
  "shortest f = fewest_digits 17 f 1"

definition zeros :: "int \<Rightarrow> string" where
  "zeros n = replicate (nat n) (CHR ''0'')"

definition format_decimal :: "string \<Rightarrow> int \<Rightarrow> string" where
  "format_decimal ds dp =
    (if dp < -5 \<or> 21 < dp then
       take 1 ds @ (if length ds > 1 then ''.'' @ drop 1 ds else []) @ ''e'' @
       (if dp - 1 < 0 then ''-'' @ int_digits (1 - dp) else ''+'' @ int_digits (dp - 1))
     else if dp \<le> 0 then ''0.'' @ zeros (- dp) @ ds
     else if int (length ds) \<le> dp then ds @ zeros (dp - int (length ds))
     else take (nat dp) ds @ ''.'' @ drop (nat dp) ds)"

definition float_text :: "bool \<times> int \<times> int \<Rightarrow> string" where
  "float_text f =
    (case f of (neg, q, e) \<Rightarrow>
       (if neg then ''-'' else []) @
       (if q = 0 then ''0''
        else (case shortest (q, e) of (d, k) \<Rightarrow>
          (let ds = int_digits d in format_decimal ds (int (length ds) + k)))))"

text \<open>A number literal through \<open>any\<close> and back: \<open>None\<close> when it is out of range.\<close>

definition through_float64 :: "string \<Rightarrow> string option" where
  "through_float64 literal = map_option float_text (ParseFloat literal)"

subsection \<open>Evaluation rules\<close>

lemma bit_length_rules:
  "n \<le> 0 \<Longrightarrow> bit_length n = 0" "0 < n \<Longrightarrow> bit_length n = 1 + bit_length (n div 2)"
  by (subst bit_length.simps, simp)+

lemma int_digits_rules:
  "n < 10 \<Longrightarrow> int_digits n = [char_of (48 + nat n)]"
  "10 \<le> n \<Longrightarrow> int_digits n = int_digits (n div 10) @ [char_of (48 + nat (n mod 10))]"
  by (subst int_digits.simps, simp)+

lemmas float_eval =
  through_float64_def ParseFloat_def literal_parts_def is_digit_def digits_value_def digit_value_def
  exponent_value_def float_of_decimal_def decimal_def float_round_def scaled_def round_half_even_def
  bit_length_rules int_digits_rules

subsection \<open>An integer that float64 cannot hold\<close>

lemma large_integer: "through_float64 ''10000000000000000001'' = Some ''10000000000000000000''"
proof -
  have "ParseFloat ''10000000000000000001'' = Some (False, 4882812500000000, 11)"
    by (simp add: float_eval)
  moreover have "candidate (4882812500000000, 11) 1 = Some (1, 19)"
    by (simp add: candidate_def float_ratio_def decimal_point_def float_eval)
  then have "shortest (4882812500000000, 11) = (1, 19)"
    by (simp add: shortest_def eval_nat_numeral)
  moreover have "zeros 19 = ''0000000000000000000''"
    by (simp add: zeros_def eval_nat_numeral)
  moreover have "char_of (49 :: nat) = CHR ''1''" by code_simp
  ultimately show ?thesis
    by (simp add: through_float64_def float_text_def int_digits_rules format_decimal_def)
qed

end
