(* ===== verification/Json_Parse.thy ===== *)
theory Json_Parse
  imports Float64
begin

section \<open>encoding/json: parsing and decoding\<close>

text \<open>
  \<open>json.Unmarshal\<close> first checks the syntax of the whole input and then decodes it.  Here a lexer
  turns the bytes into tokens and a shift-reduce parser with an explicit stack, like the state
  stack of Go's scanner, turns the tokens into a tree.  The tree keeps number literals as they are
  written and object members in order with duplicates, since the decoders treat both differently:
  into \<open>any\<close>, numbers become \<open>float64\<close> and the last duplicate wins; into a struct, members are matched
  to fields one after the other.
\<close>

subsection \<open>Tokens\<close>

datatype token =
    TNull | TTrue | TFalse | TNumber string | TString string
  | TOpenArr | TCloseArr | TOpenObj | TCloseObj | TComma | TColon

definition json_space :: "char \<Rightarrow> bool" where
  "json_space c \<longleftrightarrow> c = CHR '' '' \<or> c = CHR 0x09 \<or> c = CHR 0x0A \<or> c = CHR 0x0D"

definition is_hex :: "char \<Rightarrow> bool" where
  "is_hex c \<longleftrightarrow> hex_val c \<noteq> None"

text \<open>The raw contents of a string after its opening quote, and what follows the closing one.\<close>

fun scan_string :: "string \<Rightarrow> (string \<times> string) option" where
  "scan_string [] = None"
| "scan_string (c # s) =
     (if c = CHR 0x22 then Some ([], s)
      else if c = CHR 0x5C then
        (case s of
           [] \<Rightarrow> None
         | d # s' \<Rightarrow>
             if d = CHR ''u'' then
               (case s' of
                  w # x # y # z # r \<Rightarrow>
                    if is_hex w \<and> is_hex x \<and> is_hex y \<and> is_hex z
                    then map_option (\<lambda>(raw, rest). ([c, d, w, x, y, z] @ raw, rest)) (scan_string r)
                    else None
                | _ \<Rightarrow> None)
             else if d \<in> set (CHR 0x22 # CHR 0x5C # ''/bfnrt'')
               then map_option (\<lambda>(raw, rest). ([c, d] @ raw, rest)) (scan_string s')
             else None)
      else if byte_val c < 32 then None
      else map_option (\<lambda>(raw, rest). (c # raw, rest)) (scan_string s))"

text \<open>The longest number literal at the start, in the grammar of JSON.\<close>

definition scan_digits :: "string \<Rightarrow> (string \<times> string) option" where
  "scan_digits s =
    (case takeWhile is_digit s of [] \<Rightarrow> None | ds \<Rightarrow> Some (ds, dropWhile is_digit s))"

definition scan_fraction :: "string \<Rightarrow> (string \<times> string) option" where
  "scan_fraction s =
    (case s of
       c # r \<Rightarrow> if c = CHR ''.'' then map_option (\<lambda>(ds, rest). (c # ds, rest)) (scan_digits r)
                else Some ([], s)
     | [] \<Rightarrow> Some ([], []))"

definition scan_exponent :: "string \<Rightarrow> (string \<times> string) option" where
  "scan_exponent s =
    (case s of
       c # r \<Rightarrow>
         if c = CHR ''e'' \<or> c = CHR ''E'' then
           (case r of
              d # r' \<Rightarrow>
                if d = CHR ''+'' \<or> d = CHR ''-''
                then map_option (\<lambda>(ds, rest). (c # d # ds, rest)) (scan_digits r')
                else map_option (\<lambda>(ds, rest). (c # ds, rest)) (scan_digits r)
            | [] \<Rightarrow> None)
         else Some ([], s)
     | [] \<Rightarrow> Some ([], []))"

definition scan_unsigned :: "string \<Rightarrow> (string \<times> string) option" where
  "scan_unsigned s =
    (case (case s of
             c # r \<Rightarrow> if c = CHR ''0'' then Some ([c], r) else scan_digits s
           | [] \<Rightarrow> None) of
       None \<Rightarrow> None
     | Some (ip, r1) \<Rightarrow>
         (case scan_fraction r1 of
            None \<Rightarrow> None
          | Some (fp, r2) \<Rightarrow> map_option (\<lambda>(ex, r3). (ip @ fp @ ex, r3)) (scan_exponent r2)))"

definition scan_number :: "string \<Rightarrow> (string \<times> string) option" where
  "scan_number s =
    (case s of
       c # r \<Rightarrow> if c = CHR ''-'' then map_option (\<lambda>(n, rest). (c # n, rest)) (scan_unsigned r)
                else scan_unsigned s
     | [] \<Rightarrow> None)"

lemma scan_string_length: "scan_string s = Some (raw, rest) \<Longrightarrow> length rest < length s"
  by (induction s arbitrary: raw rule: scan_string.induct)
    (fastforce split: if_splits list.splits)+

lemma scan_digits_length: "scan_digits s = Some (ds, rest) \<Longrightarrow> length rest < length s"
proof -
  assume a: "scan_digits s = Some (ds, rest)"
  then have "takeWhile is_digit s \<noteq> []" "rest = dropWhile is_digit s"
    by (auto simp: scan_digits_def split: list.splits)
  then show ?thesis
    by (metis length_append length_greater_0_conv less_add_same_cancel2 takeWhile_dropWhile_id)
qed

lemma scan_fraction_length: "scan_fraction s = Some (ds, rest) \<Longrightarrow> length rest \<le> length s"
  by (cases s) (auto simp: scan_fraction_def split: if_splits dest: scan_digits_length)

lemma scan_exponent_length: "scan_exponent s = Some (ds, rest) \<Longrightarrow> length rest \<le> length s"
  by (fastforce simp: scan_exponent_def split: if_splits list.splits dest: scan_digits_length)

lemma scan_unsigned_length: "scan_unsigned s = Some (n, rest) \<Longrightarrow> length rest < length s"
  unfolding scan_unsigned_def
  by (fastforce split: if_splits list.splits option.splits prod.splits
      dest: scan_digits_length scan_fraction_length scan_exponent_length)

lemma scan_number_length: "scan_number s = Some (n, rest) \<Longrightarrow> length rest < length s"
  by (fastforce simp: scan_number_def split: if_splits list.splits dest: scan_unsigned_length)

subsection \<open>String contents\<close>

definition utf8_encode :: "nat \<Rightarrow> string" where
  "utf8_encode r =
    (if r < 0x80 then [char_of r]
     else if r < 0x800 then [char_of (0xC0 + r div 64), char_of (0x80 + r mod 64)]
     else if r < 0x10000 then
       [char_of (0xE0 + r div 4096), char_of (0x80 + r div 64 mod 64), char_of (0x80 + r mod 64)]
     else
       [char_of (0xF0 + r div 262144), char_of (0x80 + r div 4096 mod 64),
        char_of (0x80 + r div 64 mod 64), char_of (0x80 + r mod 64)])"

definition replacement_char :: string where
  "replacement_char = [CHR 0xEF, CHR 0xBF, CHR 0xBD]"

definition hex4 :: "char \<Rightarrow> char \<Rightarrow> char \<Rightarrow> char \<Rightarrow> nat" where
  "hex4 w x y z = fold (\<lambda>c n. 16 * n + the (hex_val c)) [w, x, y, z] 0"

text \<open>The code unit of an escape \<open>\uXXXX\<close> at the start of a string.\<close>

definition getu4 :: "string \<Rightarrow> nat option" where
  "getu4 s =
    (case s of
       a # b # w # x # y # z # _ \<Rightarrow>
         if a = CHR 0x5C \<and> b = CHR ''u'' \<and> is_hex w \<and> is_hex x \<and> is_hex y \<and> is_hex z
         then Some (hex4 w x y z) else None
     | _ \<Rightarrow> None)"

lemma getu4_length: "getu4 s = Some u \<Longrightarrow> 6 \<le> length s"
  by (auto simp: getu4_def split: list.splits if_splits)

definition simple_escape :: "char \<Rightarrow> char" where
  "simple_escape d =
    (if d = CHR ''b'' then CHR 0x08 else if d = CHR ''f'' then CHR 0x0C
     else if d = CHR ''n'' then CHR 0x0A else if d = CHR ''r'' then CHR 0x0D
     else if d = CHR ''t'' then CHR 0x09 else d)"

definition high_surrogate :: "nat \<Rightarrow> bool" where
  "high_surrogate r \<longleftrightarrow> 0xD800 \<le> r \<and> r < 0xDC00"

definition low_surrogate :: "nat \<Rightarrow> bool" where
  "low_surrogate r \<longleftrightarrow> 0xDC00 \<le> r \<and> r < 0xE000"

text \<open>\<open>unquote\<close> on the contents of a syntactically valid string.\<close>

function unquote :: "string \<Rightarrow> string" where
  "unquote s =
    (case s of
       [] \<Rightarrow> []
     | c # r \<Rightarrow>
         if c = CHR 0x5C then
           (case getu4 s of
              Some u \<Rightarrow>
                (case getu4 (drop 6 s) of
                   Some v \<Rightarrow>
                     if high_surrogate u \<and> low_surrogate v then
                       utf8_encode (0x10000 + (u - 0xD800) * 1024 + (v - 0xDC00)) @ unquote (drop 12 s)
                     else (if high_surrogate u \<or> low_surrogate u then replacement_char else utf8_encode u)
                       @ unquote (drop 6 s)
                 | None \<Rightarrow>
                     (if high_surrogate u \<or> low_surrogate u then replacement_char else utf8_encode u)
                       @ unquote (drop 6 s))
            | None \<Rightarrow>
                (case r of [] \<Rightarrow> [] | d # r' \<Rightarrow> simple_escape d # unquote r'))
         else if ascii c then c # unquote r
         else if rune_width s = 0 then replacement_char @ unquote r
         else take (rune_width s) s @ unquote (drop (rune_width s) s))"
  by pat_completeness auto
termination
  by (relation "measure length") (auto dest: getu4_length)

declare unquote.simps [simp del]

subsection \<open>The lexer\<close>

definition punctuation :: "char \<Rightarrow> token option" where
  "punctuation c =
    map_of [(CHR ''['', TOpenArr), (CHR '']'', TCloseArr), (CHR ''{'', TOpenObj), (CHR ''}'', TCloseObj),
            (CHR '','', TComma), (CHR '':'', TColon)] c"

function lex :: "string \<Rightarrow> token list option" where
  "lex s =
    (case s of
       [] \<Rightarrow> Some []
     | c # r \<Rightarrow>
         if json_space c then lex r
         else (case punctuation c of
           Some t \<Rightarrow> map_option ((#) t) (lex r)
         | None \<Rightarrow>
             if c = CHR 0x22 then
               (case scan_string r of
                  None \<Rightarrow> None
                | Some (raw, rest) \<Rightarrow> map_option ((#) (TString (unquote raw))) (lex rest))
             else if HasPrefix s ''null'' then map_option ((#) TNull) (lex (drop 4 s))
             else if HasPrefix s ''true'' then map_option ((#) TTrue) (lex (drop 4 s))
             else if HasPrefix s ''false'' then map_option ((#) TFalse) (lex (drop 5 s))
             else (case scan_number s of
               None \<Rightarrow> None
             | Some (n, rest) \<Rightarrow> map_option ((#) (TNumber n)) (lex rest))))"
  by pat_completeness auto
termination
  by (relation "measure length") (auto dest: scan_string_length scan_number_length)

declare lex.simps [simp del]

subsection \<open>The parser\<close>

text \<open>The open arrays and objects, innermost first, an object with the key whose value is due; and
  what may come next.\<close>

datatype frame = InArr "json list" | InObj "(string \<times> json) list" "string option"

datatype expect = ValueNext | ValueOrClose | KeyOrClose | KeyNext | ColonNext | CommaOrClose | Complete json

definition max_nesting :: nat where
  "max_nesting = 10000"

fun deliver :: "json \<Rightarrow> frame list \<Rightarrow> frame list \<times> expect" where
  "deliver v [] = ([], Complete v)"
| "deliver v (InArr vs # st) = (InArr (vs @ [v]) # st, CommaOrClose)"
| "deliver v (InObj ms (Some k) # st) = (InObj (ms @ [(k, v)]) None # st, CommaOrClose)"
| "deliver v (InObj ms None # st) = (InObj ms None # st, CommaOrClose)"

fun value_token :: "token \<Rightarrow> json option" where
  "value_token TNull = Some JNull"
| "value_token TTrue = Some (JBool True)"
| "value_token TFalse = Some (JBool False)"
| "value_token (TNumber n) = Some (JNumber n)"
| "value_token (TString s) = Some (JString s)"
| "value_token _ = None"

definition open_frame :: "frame \<Rightarrow> expect \<Rightarrow> frame list \<Rightarrow> (frame list \<times> expect) option" where
  "open_frame f e st = (if length st < max_nesting then Some (f # st, e) else None)"

definition begin_value :: "token \<Rightarrow> frame list \<Rightarrow> (frame list \<times> expect) option" where
  "begin_value t st =
    (case t of
       TOpenArr \<Rightarrow> open_frame (InArr []) ValueOrClose st
     | TOpenObj \<Rightarrow> open_frame (InObj [] None) KeyOrClose st
     | _ \<Rightarrow> map_option (\<lambda>v. deliver v st) (value_token t))"

fun close_frame :: "token \<Rightarrow> frame list \<Rightarrow> (frame list \<times> expect) option" where
  "close_frame TCloseArr (InArr vs # st) = Some (deliver (JArray vs) st)"
| "close_frame TCloseObj (InObj ms None # st) = Some (deliver (JObject ms) st)"
| "close_frame _ _ = None"

fun key_token :: "token \<Rightarrow> frame list \<Rightarrow> (frame list \<times> expect) option" where
  "key_token (TString k) (InObj ms None # st) = Some (InObj ms (Some k) # st, ColonNext)"
| "key_token _ _ = None"

fun parse_step :: "token \<Rightarrow> frame list \<Rightarrow> expect \<Rightarrow> (frame list \<times> expect) option" where
  "parse_step t st ValueNext = begin_value t st"
| "parse_step t st ValueOrClose = (if t = TCloseArr then close_frame t st else begin_value t st)"
| "parse_step t st KeyOrClose = (if t = TCloseObj then close_frame t st else key_token t st)"
| "parse_step t st KeyNext = key_token t st"
| "parse_step t st ColonNext = (if t = TColon then Some (st, ValueNext) else None)"
| "parse_step t st CommaOrClose =
     (if t = TComma then
        (case st of
           InArr vs # _ \<Rightarrow> Some (st, ValueNext)
         | InObj ms k # _ \<Rightarrow> Some (st, KeyNext)
         | [] \<Rightarrow> None)
      else close_frame t st)"
| "parse_step t st (Complete v) = None"

fun parse_tokens :: "token list \<Rightarrow> frame list \<Rightarrow> expect \<Rightarrow> json option" where
  "parse_tokens [] st e = (case e of Complete v \<Rightarrow> Some v | _ \<Rightarrow> None)"
| "parse_tokens (t # ts) st e =
     (case parse_step t st e of Some (st', e') \<Rightarrow> parse_tokens ts st' e' | None \<Rightarrow> None)"

definition parse_json :: "string \<Rightarrow> json option" where
  "parse_json s = (case lex s of None \<Rightarrow> None | Some ts \<Rightarrow> parse_tokens ts [] ValueNext)"

subsection \<open>Decoding into any\<close>

text \<open>A parsed tree as Go's \<open>any\<close>: numbers become \<open>float64\<close>, which fails when one is out of range, and
  the last of several members with the same key stays.\<close>

fun to_any :: "json \<Rightarrow> json option" where
  "to_any (JNumber n) = map_option JNumber (through_float64 n)"
| "to_any (JArray vs) = map_option JArray (those (map to_any vs))"
| "to_any (JObject ms) =
     map_option (\<lambda>kvs. JObject (fold (\<lambda>(k, v). AList.update k v) kvs []))
       (those (map (\<lambda>(k, v). map_option (Pair k) (to_any v)) ms))"
| "to_any v = Some v"

definition Unmarshal_any :: "string \<Rightarrow> json option" where
  "Unmarshal_any data = (case parse_json data of None \<Rightarrow> None | Some v \<Rightarrow> to_any v)"

text \<open>\<open>json.Unmarshal\<close> into a \<open>map[string]any\<close>: \<open>None\<close> is an error, and \<open>Some None\<close> the nil map that a
  JSON null leaves behind.\<close>

definition Unmarshal_map :: "string \<Rightarrow> (string, json) gomap option option" where
  "Unmarshal_map data =
    (case Unmarshal_any data of
       Some JNull \<Rightarrow> Some None
     | Some (JObject ms) \<Rightarrow> Some (Some ms)
     | _ \<Rightarrow> None)"

end
