(* ===== verification/Json_Roundtrip.thy ===== *)
theory Json_Roundtrip
  imports Json_Parse
begin

section \<open>encoding/json: what is encoded parses back\<close>

text \<open>
  For ASCII strings, control characters, quotes, backslashes and HTML metacharacters included, the
  lexer reads an encoded string back, whatever follows it.
\<close>

lemma hex_digit_nat: "n < 16 \<Longrightarrow> hex_val (hex_digit n) = Some n"
proof -
  have "list_all (\<lambda>n. hex_val (hex_digit n) = Some n) [0..<16]" by code_simp
  then show "n < 16 \<Longrightarrow> hex_val (hex_digit n) = Some n" by (simp add: list_all_iff)
qed

lemma is_hex_digit: "n < 16 \<Longrightarrow> is_hex (hex_digit n)"
  by (simp add: is_hex_def hex_digit_nat)

lemma is_hex_zero: "is_hex (CHR ''0'')" "hex_val (CHR ''0'') = Some 0"
  by code_simp+

lemma ascii_less: "ascii c \<longleftrightarrow> byte_val c < 128"
  by (simp add: ascii_def)

text \<open>The three forms of an escaped ASCII byte.\<close>

lemma escape_byte_cases:
  assumes "ascii c"
  obtains (plain) "escape_byte c = [c]" "c \<noteq> CHR 0x22" "c \<noteq> CHR 0x5C" "32 \<le> byte_val c"
  | (short) d where "escape_byte c = [CHR 0x5C, d]" "d \<in> set (CHR 0x22 # CHR 0x5C # ''/bfnrt'')"
      "simple_escape d = c" "d \<noteq> CHR ''u''"
  | (unicode) "escape_byte c = [CHR 0x5C, CHR ''u'', CHR ''0'', CHR ''0'',
      hex_digit (byte_val c div 16), hex_digit (byte_val c mod 16)]"
proof (cases "c \<in> set [CHR 0x5C, CHR 0x22, CHR 0x08, CHR 0x0C, CHR 0x0A, CHR 0x0D, CHR 0x09]")
  case True
  then show ?thesis by (auto simp: escape_byte_def simple_escape_def intro: short)
next
  case False
  then show ?thesis
    using plain unicode by (cases "byte_val c < 32 \<or> c = CHR ''<'' \<or> c = CHR ''>'' \<or> c = CHR ''&''")
      (simp_all add: escape_byte_def)
qed

lemma scan_escape_byte:
  assumes "ascii c"
  shows "scan_string (escape_byte c @ r) =
    map_option (\<lambda>(raw, rest). (escape_byte c @ raw, rest)) (scan_string r)"
  using assms
proof (cases rule: escape_byte_cases)
  case unicode
  have "byte_val c div 16 < 16" "byte_val c mod 16 < 16" using assms by (auto simp: ascii_less)
  then show ?thesis using unicode by (simp add: is_hex_digit is_hex_zero)
qed auto

lemma getu4_unicode:
  assumes "n < 128"
  shows "getu4 ([CHR 0x5C, CHR ''u'', CHR ''0'', CHR ''0'', hex_digit (n div 16), hex_digit (n mod 16)] @ r) = Some n"
proof -
  have "n div 16 < 16" "n mod 16 < 16" using assms by auto
  then show ?thesis by (simp add: getu4_def is_hex_digit is_hex_zero hex4_def hex_digit_nat)
qed

lemma unquote_escape_byte:
  assumes "ascii c"
  shows "unquote (escape_byte c @ r) = c # unquote r"
  using assms
proof (cases rule: escape_byte_cases)
  case plain
  then show ?thesis using assms by (subst unquote.simps) simp
next
  case (short d)
  then have "getu4 (escape_byte c @ r) = None" by (auto simp: getu4_def split: list.splits)
  then show ?thesis using short by (subst unquote.simps) simp
next
  case unicode
  have n: "byte_val c < 128" using assms by (simp add: ascii_less)
  have "\<not> high_surrogate (byte_val c)" "\<not> low_surrogate (byte_val c)" "utf8_encode (byte_val c) = [c]"
    using n by (simp_all add: high_surrogate_def low_surrogate_def utf8_encode_def)
  then show ?thesis
    using unicode getu4_unicode[OF n, of r] by (subst unquote.simps) (simp split: option.split)
qed

lemma escape_string_Cons: "ascii c \<Longrightarrow> escape_string (c # s) = escape_byte c @ escape_string s"
  by (subst escape_string.simps) simp

lemma escape_string_Nil [simp]: "escape_string [] = []"
  by (subst escape_string.simps) simp

lemma scan_escape_string:
  "list_all ascii s \<Longrightarrow> scan_string (escape_string s @ CHR 0x22 # rest) = Some (escape_string s, rest)"
proof (induction s)
  case (Cons c s)
  then show ?case by (simp add: escape_string_Cons scan_escape_byte)
qed simp

lemma unquote_escape_string: "list_all ascii s \<Longrightarrow> unquote (escape_string s) = s"
proof (induction s)
  case Nil
  then show ?case by (subst unquote.simps) simp
next
  case (Cons c s)
  then show ?case by (simp add: escape_string_Cons unquote_escape_byte)
qed

lemma lex_Nil [simp]: "lex [] = Some []"
  by (subst lex.simps) simp

lemma lex_string:
  assumes "list_all ascii s"
  shows "lex (encode_string s @ rest) = map_option ((#) (TString s)) (lex rest)"
proof -
  have "encode_string s @ rest = CHR 0x22 # escape_string s @ CHR 0x22 # rest"
    by (simp add: encode_string_def)
  then show ?thesis
    using scan_escape_string[OF assms] unquote_escape_string[OF assms]
    by (subst lex.simps) (simp add: json_space_def punctuation_def)
qed

lemma lex_punctuation:
  "punctuation c = Some t \<Longrightarrow> lex (c # rest) = map_option ((#) t) (lex rest)"
  by (subst lex.simps) (auto simp: json_space_def punctuation_def split: if_splits)

lemmas lex_punctuations =
  lex_punctuation[where c = "CHR ''{''" and t = TOpenObj] lex_punctuation[where c = "CHR ''}''" and t = TCloseObj]
  lex_punctuation[where c = "CHR '':''" and t = TColon] lex_punctuation[where c = "CHR '',''" and t = TComma]

lemma parse_two_strings:
  assumes "list_all ascii k1" "list_all ascii v1" "list_all ascii k2" "list_all ascii v2"
  shows "parse_json (encode_members [(k1, encode_string v1), (k2, encode_string v2)]) =
    Some (JObject [(k1, JString v1), (k2, JString v2)])"
  using assms
  by (simp add: parse_json_def encode_members_def lex_punctuations lex_string punctuation_def
      begin_value_def open_frame_def max_nesting_def)

end
