(* ===== verification/Ws_Codec.thy ===== *)
theory Ws_Codec
  imports Json_Roundtrip Profile_Route
begin

section \<open>WebSocket events on the wire: openai/internal/websocket/handler.go\<close>

text \<open>
  \<open>eventAllowed\<close>, \<open>decodeEvent\<close> and \<open>encodeEvent\<close>.  Decoding goes through \<open>json.Unmarshal\<close> into a
  struct with the fields \<open>type\<close> and \<open>event_id\<close>, which matches keys without regard to case and lets a
  later member override an earlier one; encoding goes through a \<open>map[string]any\<close>.  Writing to the
  nil map that a JSON null leaves behind panics: the result \<open>None\<close> of \<open>encodeEvent\<close>.
\<close>

definition eventAllowed :: "session_surface \<Rightarrow> string \<Rightarrow> string \<Rightarrow> bool" where
  "eventAllowed surface direction eventType =
    (if surface = SessionRealtime then
       EventAllowed ''realtime'' direction eventType \<or> EventAllowed ''realtime_translation'' direction eventType
     else if surface = SessionResponsesSocket then EventAllowed ''responses_websocket'' direction eventType
     else False)"

text \<open>\<open>json.Unmarshal\<close> of an object into one string field of a struct: \<open>None\<close> once a member has a value
  that is neither a string nor null.\<close>

definition decode_field :: "string \<Rightarrow> (string \<times> json) list \<Rightarrow> string option" where
  "decode_field name members =
    fold (\<lambda>(key, v) field.
        if \<not> EqualFold key name then field
        else (case (field, v) of
                (Some old, JString s) \<Rightarrow> Some s
              | (Some old, JNull) \<Rightarrow> Some old
              | _ \<Rightarrow> None))
      members (Some [])"

definition decode_envelope :: "string \<Rightarrow> (string \<times> string) option" where
  "decode_envelope data =
    (case parse_json data of
       Some JNull \<Rightarrow> Some ([], [])
     | Some (JObject members) \<Rightarrow>
         (case (decode_field ''type'' members, decode_field ''event_id'' members) of
            (Some t, Some i) \<Rightarrow> Some (t, i)
          | _ \<Rightarrow> None)
     | _ \<Rightarrow> None)"

definition decodeEvent :: "string \<Rightarrow> go_error + event" where
  "decodeEvent data =
    (case decode_envelope data of
       None \<Rightarrow> Inl (ProtocolFailure ''event is not valid JSON'')
     | Some (t, i) \<Rightarrow>
         if TrimSpace t = [] then Inl (ProtocolFailure ''event type is required'')
         else Inr \<lparr>Type = t, ID = i, Data = data\<rparr>)"

definition encodeEvent :: "event \<Rightarrow> (go_error + string) option" where
  "encodeEvent event =
    (if TrimSpace (Type event) = [] then
       Some (Inl (ProtocolFailure ''backend event type is required''))
     else if Data event = [] then
       Some (Inr (Marshal (JObject [(''type'', JString (Type event)), (''event_id'', JString (ID event))])))
     else
       (case Unmarshal_map (Data event) of
          None \<Rightarrow> Some (Inl (ProtocolFailure ''backend event is not valid JSON''))
        | Some None \<Rightarrow> None
        | Some (Some envelope) \<Rightarrow>
            if (case map_of envelope ''type'' of Some (JString existing) \<Rightarrow> existing \<noteq> Type event | _ \<Rightarrow> False)
            then Some (Inl (ProtocolFailure ''backend event type does not match its payload''))
            else
              (let e1 = AList.update ''type'' (JString (Type event)) envelope;
                   e2 = (if ID event \<noteq> [] then AList.update ''event_id'' (JString (ID event)) e1 else e1)
               in Some (Inr (Marshal (JObject e2))))))"

subsection \<open>Which events pass\<close>

text \<open>The frozen event table's surfaces for a session surface.\<close>

definition profile_surfaces :: "session_surface \<Rightarrow> string list" where
  "profile_surfaces surface =
    (if surface = SessionRealtime then [''realtime'', ''realtime_translation'']
     else if surface = SessionResponsesSocket then [''responses_websocket''] else [])"

definition frozen_event :: "session_surface \<Rightarrow> string \<Rightarrow> string \<Rightarrow> bool" where
  "frozen_event surface direction eventType \<longleftrightarrow>
    (\<exists>s\<in>set (profile_surfaces surface).
       \<lparr>EvSurface = s, EvDirection = direction, EvType = eventType\<rparr> \<in> set Events)"

lemma eventAllowed_frozen:
  assumes "CHR 0x00 \<notin> set direction"
  shows "eventAllowed surface direction t \<longleftrightarrow> frozen_event surface direction t"
proof -
  have "EventAllowed s direction t \<longleftrightarrow> \<lparr>EvSurface = s, EvDirection = direction, EvType = t\<rparr> \<in> set Events"
    if "s \<in> {''realtime'', ''realtime_translation'', ''responses_websocket''}" for s
    by (rule EventAllowed_iff) (use that assms in auto)
  then show ?thesis
    by (auto simp: eventAllowed_def frozen_event_def profile_surfaces_def)
qed

subsection \<open>Decoding\<close>

lemma decodeEvent_Inr:
  "decodeEvent data = Inr e \<Longrightarrow> Data e = data \<and> TrimSpace (Type e) \<noteq> []"
  by (auto simp: decodeEvent_def split: option.splits if_splits)

definition field_members :: "string \<Rightarrow> (string \<times> json) list \<Rightarrow> (string \<times> json) list" where
  "field_members name ms = filter (\<lambda>(k, v). EqualFold k name) ms"

lemma decode_field_members: "decode_field name ms = decode_field name (field_members name ms)"
proof -
  have "fold (\<lambda>(key, v) field.
        if \<not> EqualFold key name then field
        else (case (field, v) of
                (Some old, JString s) \<Rightarrow> Some s
              | (Some old, JNull) \<Rightarrow> Some old
              | _ \<Rightarrow> None)) ms acc =
      fold (\<lambda>(key, v) field.
        if \<not> EqualFold key name then field
        else (case (field, v) of
                (Some old, JString s) \<Rightarrow> Some s
              | (Some old, JNull) \<Rightarrow> Some old
              | _ \<Rightarrow> None)) (field_members name ms) acc" for acc
    by (induction ms arbitrary: acc) (auto simp: field_members_def)
  then show ?thesis by (simp add: decode_field_def)
qed

lemma decode_field_one:
  "field_members name ms = [(k, JString s)] \<Longrightarrow> decode_field name ms = Some s"
proof -
  assume one: "field_members name ms = [(k, JString s)]"
  then have "(k, JString s) \<in> set (field_members name ms)" by simp
  then have "EqualFold k name" by (simp add: field_members_def)
  then show ?thesis by (subst decode_field_members) (simp add: one decode_field_def)
qed

lemma decode_field_none: "field_members name ms = [] \<Longrightarrow> decode_field name ms = Some []"
  by (subst decode_field_members) (simp add: decode_field_def)

text \<open>Client events keep their raw bytes.  A JSON object with one type member that is a nonempty
  string and at most one event id member is accepted with that type and id (an absent id is
  empty), and the event's data is the received message, byte for byte, unknown fields included.\<close>

theorem decodeEvent_accepts:
  assumes "parse_json data = Some (JObject ms)"
    and "field_members ''type'' ms = [(kt, JString t)]" and "TrimSpace t \<noteq> []"
    and "field_members ''event_id'' ms = (if i = [] then [] else [(ki, JString i)])"
  shows "decodeEvent data = Inr \<lparr>Type = t, ID = i, Data = data\<rparr>"
proof -
  have "decode_field ''event_id'' ms = Some i"
    using assms(4) decode_field_one decode_field_none by (auto split: if_splits)
  then show ?thesis
    using assms(1,3) decode_field_one[OF assms(2)] by (simp add: decodeEvent_def decode_envelope_def)
qed

text \<open>Strings with quotation marks, for the examples: a back quote stands for the JSON quotation mark.\<close>

definition quoted :: "string \<Rightarrow> string" where
  "quoted s = map (\<lambda>c. if c = CHR 0x60 then CHR 0x22 else c) s"

theorem decodeEvent_accepts_witness:
  "decodeEvent (quoted ''{`type`:`session.update`,`x`:[1]}'') =
     Inr \<lparr>Type = ''session.update'', ID = [], Data = quoted ''{`type`:`session.update`,`x`:[1]}''\<rparr>"
proof (rule decodeEvent_accepts)
  show "parse_json (quoted ''{`type`:`session.update`,`x`:[1]}'') =
      Some (JObject [(''type'', JString ''session.update''), (''x'', JArray [JNumber ''1''])])"
    by code_simp
qed code_simp+

text \<open>The admission check can be bypassed.  Keys match without regard to case and the last match
  wins, so a message whose \<open>type\<close> is not an event of the profile passes as another event through a
  second key that differs in case only, and the backend receives the message with the foreign type
  under the exact key.\<close>

theorem decodeEvent_type_confusion:
  "decodeEvent (quoted ''{`type`:`evil`,`TYPE`:`session.update`}'') =
     Inr \<lparr>Type = ''session.update'', ID = [], Data = quoted ''{`type`:`evil`,`TYPE`:`session.update`}''\<rparr> \<and>
   eventAllowed SessionRealtime ''client'' ''session.update'' \<and>
   \<not> eventAllowed SessionRealtime ''client'' ''evil'' \<and>
   map_option (\<lambda>m. map_option (\<lambda>kvs. map_of kvs ''type'') m)
     (Unmarshal_map (quoted ''{`type`:`evil`,`TYPE`:`session.update`}'')) = Some (Some (Some (JString ''evil'')))"
proof (intro conjI)
  show "eventAllowed SessionRealtime ''client'' ''session.update''"
    by (auto simp: eventAllowed_frozen frozen_event_def profile_surfaces_def Events_def event_tables image_iff)
  show "\<not> eventAllowed SessionRealtime ''client'' ''evil''"
    by (simp add: eventAllowed_frozen frozen_event_def profile_surfaces_def Events_def event_tables image_iff)
qed code_simp+

subsection \<open>Encoding\<close>

text \<open>Server events keep their payload.  For a payload that is a JSON object without a
  contradicting type, the message sent is an object with exactly the members of the payload,
  except that \<open>type\<close> is the event's type and \<open>event_id\<close> its id when it has one; a payload whose
  own type contradicts the event's is refused.\<close>

theorem encodeEvent_object:
  assumes "TrimSpace (Type e) \<noteq> []" and "Data e \<noteq> []" and "Unmarshal_map (Data e) = Some (Some ms)"
  shows "(\<exists>t. map_of ms ''type'' = Some (JString t) \<and> t \<noteq> Type e) \<and>
      encodeEvent e = Some (Inl (ProtocolFailure ''backend event type does not match its payload'')) \<or>
    \<not> (\<exists>t. map_of ms ''type'' = Some (JString t) \<and> t \<noteq> Type e) \<and>
    (\<exists>out. encodeEvent e = Some (Inr (Marshal (JObject out))) \<and>
       map_of out = (if ID e = [] then (map_of ms)(''type'' \<mapsto> JString (Type e))
         else (map_of ms)(''type'' \<mapsto> JString (Type e), ''event_id'' \<mapsto> JString (ID e))))"
proof (cases "\<exists>t. map_of ms ''type'' = Some (JString t) \<and> t \<noteq> Type e")
  case True
  then show ?thesis using assms by (auto simp: encodeEvent_def)
next
  case False
  then have "\<not> (case map_of ms ''type'' of Some (JString existing) \<Rightarrow> existing \<noteq> Type e | _ \<Rightarrow> False)"
    by (auto split: option.splits json.splits)
  then have "encodeEvent e = Some (Inr (Marshal (JObject
      (if ID e \<noteq> [] then AList.update ''event_id'' (JString (ID e)) (AList.update ''type'' (JString (Type e)) ms)
       else AList.update ''type'' (JString (Type e)) ms))))"
    using assms by (simp add: encodeEvent_def Let_def del: Marshal.simps)
  moreover have "map_of (if ID e \<noteq> [] then AList.update ''event_id'' (JString (ID e)) (AList.update ''type'' (JString (Type e)) ms)
       else AList.update ''type'' (JString (Type e)) ms) =
      (if ID e = [] then (map_of ms)(''type'' \<mapsto> JString (Type e))
         else (map_of ms)(''type'' \<mapsto> JString (Type e), ''event_id'' \<mapsto> JString (ID e)))"
    by simp
  ultimately show ?thesis using False by blast
qed

theorem encodeEvent_object_witness:
  "\<exists>out. encodeEvent \<lparr>Type = ''error'', ID = ''e1'', Data = quoted ''{`ok`:true}''\<rparr> =
     Some (Inr (Marshal (JObject out))) \<and> map_of out ''ok'' = Some (JBool True) \<and>
     map_of out ''type'' = Some (JString ''error'')"
proof -
  have "Unmarshal_map (quoted ''{`ok`:true}'') = Some (Some [(''ok'', JBool True)])" by code_simp
  moreover have "TrimSpace ''error'' \<noteq> []" by code_simp
  ultimately show ?thesis
    using encodeEvent_object[of "\<lparr>Type = ''error'', ID = ''e1'', Data = quoted ''{`ok`:true}''\<rparr>" "[(''ok'', JBool True)]"]
    by (auto simp: quoted_def)
qed

text \<open>C39: a null payload panics.  Encoding a backend event panics exactly when its type is not blank and
  its payload is a JSON null, possibly in white space: the assignment to the nil map.\<close>

theorem encodeEvent_panics_iff:
  "encodeEvent e = None \<longleftrightarrow> TrimSpace (Type e) \<noteq> [] \<and> parse_json (Data e) = Some JNull"
proof -
  have "parse_json [] = None" by code_simp
  moreover have "Unmarshal_map d = Some None \<longleftrightarrow> parse_json d = Some JNull" for d
  proof (cases "parse_json d")
    case (Some v)
    have "Unmarshal_map d = Some None \<longleftrightarrow> to_any v = Some JNull"
    proof (cases "to_any v")
      case (Some w)
      then show ?thesis using \<open>parse_json d = Some v\<close>
        by (cases w) (simp_all add: Unmarshal_map_def Unmarshal_any_def)
    qed (simp add: Unmarshal_map_def Unmarshal_any_def \<open>parse_json d = Some v\<close>)
    also have "\<dots> \<longleftrightarrow> v = JNull" by (cases v) auto
    finally show ?thesis using Some by simp
  qed (simp add: Unmarshal_map_def Unmarshal_any_def)
  moreover have "encodeEvent e = None \<longleftrightarrow>
      TrimSpace (Type e) \<noteq> [] \<and> Data e \<noteq> [] \<and> Unmarshal_map (Data e) = Some None"
    by (simp add: encodeEvent_def Let_def del: Marshal.simps split: option.split)
  ultimately show ?thesis by auto
qed

text \<open>Numbers of a payload go through \<open>float64\<close>.  The integer 10^19 + 1 in a backend event
  reaches the client changed.\<close>

theorem encodeEvent_rounds_integers:
  "encodeEvent \<lparr>Type = ''error'', ID = [], Data = quoted ''{`n`:10000000000000000001}''\<rparr> =
     Some (Inr (quoted ''{`n`:10000000000000000000,`type`:`error`}''))"
proof -
  have "parse_json (quoted ''{`n`:10000000000000000001}'') = Some (JObject [(''n'', JNumber ''10000000000000000001'')])"
    by code_simp
  then have "Unmarshal_map (quoted ''{`n`:10000000000000000001}'') = Some (Some [(''n'', JNumber ''10000000000000000000'')])"
    by (simp add: Unmarshal_map_def Unmarshal_any_def large_integer)
  moreover have "TrimSpace ''error'' \<noteq> []" by code_simp
  moreover have "Marshal (JObject [(''n'', JNumber ''10000000000000000000''), (''type'', JString ''error'')]) =
      quoted ''{`n`:10000000000000000000,`type`:`error`}''"
    by code_simp
  ultimately show ?thesis by (simp add: encodeEvent_def) (simp add: quoted_def)
qed

subsection \<open>Round trip\<close>

lemma plain_event_text:
  "Marshal (JObject [(''type'', JString t), (''event_id'', JString i)]) =
     encode_members [(''event_id'', encode_string i), (''type'', encode_string t)]"
  by (simp add: sort_key_def)

text \<open>An event without a payload survives the wire.  For ASCII types and ids, control characters
  and quotes included, \<open>encodeEvent\<close> succeeds and \<open>decodeEvent\<close> reads the same type and id from its
  output.\<close>

theorem encodeEvent_roundtrip:
  assumes "list_all ascii t" and "list_all ascii i" and "TrimSpace t \<noteq> []"
  shows "\<exists>out. encodeEvent \<lparr>Type = t, ID = i, Data = []\<rparr> = Some (Inr out) \<and>
    decodeEvent out = Inr \<lparr>Type = t, ID = i, Data = out\<rparr>"
proof -
  let ?out = "encode_members [(''event_id'', encode_string i), (''type'', encode_string t)]"
  let ?ms = "[(''event_id'', JString i), (''type'', JString t)]"
  have enc: "encodeEvent \<lparr>Type = t, ID = i, Data = []\<rparr> = Some (Inr ?out)"
    using assms(3) plain_event_text by (simp add: encodeEvent_def)
  have "list_all ascii ''event_id''" "list_all ascii ''type''" by code_simp+
  then have parsed: "parse_json ?out = Some (JObject ?ms)"
    using parse_two_strings assms(1,2) by blast
  have names: "EqualFold ''event_id'' ''event_id''" "\<not> EqualFold ''event_id'' ''type''"
    "EqualFold ''type'' ''type''" "\<not> EqualFold ''type'' ''event_id''"
    by code_simp+
  then have "decode_field ''type'' ?ms = Some t" "decode_field ''event_id'' ?ms = Some i"
    by (simp_all add: decode_field_def del: EqualFold.simps)
  then have "decodeEvent ?out = Inr \<lparr>Type = t, ID = i, Data = ?out\<rparr>"
    using parsed assms(3) by (simp add: decodeEvent_def decode_envelope_def)
  then show ?thesis using enc by blast
qed

theorem encodeEvent_roundtrip_witness:
  "\<exists>out. encodeEvent \<lparr>Type = ''session.created'', ID = [CHR 0x0A, CHR 0x22], Data = []\<rparr> = Some (Inr out) \<and>
    decodeEvent out = Inr \<lparr>Type = ''session.created'', ID = [CHR 0x0A, CHR 0x22], Data = out\<rparr>"
proof (rule encodeEvent_roundtrip)
  show "list_all ascii ''session.created''" "list_all ascii [CHR 0x0A, CHR 0x22]" by code_simp+
  show "TrimSpace ''session.created'' \<noteq> []" by code_simp
qed

end
