(* ===== verification/Transitions.thy ===== *)
theory Transitions
  imports Main
begin

section \<open>Transition systems\<close>

text \<open>
  The interface the concurrent parts of the program are proved against: initial states and a step
  relation.  Invariants, also relative to one already proved, and facts that stay true once they
  hold are derived here once.
\<close>

locale transition_system =
  fixes init :: "'s \<Rightarrow> bool"
    and step :: "'s \<Rightarrow> 's \<Rightarrow> bool"
  assumes init_exists: "\<exists>s. init s"
begin

definition reachable :: "'s \<Rightarrow> bool" where
  "reachable s \<longleftrightarrow> (\<exists>s0. init s0 \<and> step\<^sup>*\<^sup>* s0 s)"

lemma reachable_init: "init s \<Longrightarrow> reachable s"
  by (auto simp: reachable_def)

lemma reachable_exists: "\<exists>s. reachable s"
  using init_exists reachable_init by blast

lemma reachable_step: "reachable s \<Longrightarrow> step s t \<Longrightarrow> reachable t"
  by (auto simp: reachable_def intro: rtranclp.rtrancl_into_rtrancl)

lemma reachable_steps: "reachable s \<Longrightarrow> step\<^sup>*\<^sup>* s t \<Longrightarrow> reachable t"
  by (auto simp: reachable_def)

lemma invariant:
  assumes "reachable s" and "\<And>s. init s \<Longrightarrow> P s"
    and "\<And>s t. reachable s \<Longrightarrow> P s \<Longrightarrow> step s t \<Longrightarrow> P t"
  shows "P s"
proof -
  obtain s0 where init: "init s0" and steps: "step\<^sup>*\<^sup>* s0 s"
    using assms(1) by (auto simp: reachable_def)
  from steps show ?thesis
  proof (induction rule: rtranclp_induct)
    case base
    then show ?case using assms(2) init by blast
  next
    case (step y z)
    then have "reachable y" using init by (auto simp: reachable_def)
    then show ?case using assms(3) step by blast
  qed
qed

lemma stable:
  assumes "reachable s" and "step\<^sup>*\<^sup>* s t" and "P s"
    and "\<And>s t. reachable s \<Longrightarrow> P s \<Longrightarrow> step s t \<Longrightarrow> P t"
  shows "P t"
  using assms(2,3)
proof (induction rule: rtranclp_induct)
  case (step y z)
  then show ?case using assms(4) reachable_steps[OF assms(1)] by blast
qed

end

end
