(* ===== verification/Ws_Lifecycle.thy ===== *)
theory Ws_Lifecycle
  imports Prelude Transitions "HOL-Library.Word"
begin

section \<open>The session registry and graceful shutdown: openai/internal/websocket/handler.go\<close>

text \<open>
  \<open>register\<close>, \<open>unregister\<close> and \<open>Shutdown\<close> on the state that the mutex of the handler protects.
  Session ids are \<open>uint64\<close> values.  A context's cancel function is named by the connection whose
  context it cancels.  \<open>shutdownDone\<close> counts how often the channel is closed: a second close
  would panic.
\<close>

type_synonym uint64 = "64 word"

record 'c registry =
  shuttingDown :: bool
  nextSession :: uint64
  active :: "(uint64, 'c) gomap"
  shutdownDone :: nat
  shutdownOnce :: bool

definition ws_New :: "'c registry" where
  "ws_New = \<lparr>shuttingDown = False, nextSession = 0, active = [], shutdownDone = 0, shutdownOnce = False\<rparr>"

definition register :: "'c \<Rightarrow> 'c registry \<Rightarrow> 'c registry \<times> uint64 \<times> bool" where
  "register cancel h =
    (if shuttingDown h then (h, 0, False)
     else
       (let i = nextSession h + 1
        in (h\<lparr>nextSession := i, active := AList.update i cancel (active h)\<rparr>, i, True)))"

definition close_done :: "'c registry \<Rightarrow> 'c registry" where
  "close_done h =
    (if shutdownOnce h then h
     else h\<lparr>shutdownOnce := True, shutdownDone := Suc (shutdownDone h)\<rparr>)"

definition unregister :: "uint64 \<Rightarrow> 'c registry \<Rightarrow> 'c registry" where
  "unregister i h =
    (let h' = h\<lparr>active := AList.delete i (active h)\<rparr>
     in if shuttingDown h' \<and> active h' = [] then close_done h' else h')"

text \<open>The part of \<open>Shutdown\<close> under the lock; it returns the cancel functions to call.\<close>

definition begin_shutdown :: "'c registry \<Rightarrow> 'c registry \<times> 'c list" where
  "begin_shutdown h =
    (let h' = h\<lparr>shuttingDown := True\<rparr>;
         cancels = map snd (active h')
     in (if active h' = [] then close_done h' else h', cancels))"

subsection \<open>Connections and shutdown calls in parallel\<close>

text \<open>
  Connection goroutines and callers of \<open>Shutdown\<close> interleave at the granularity of the locked
  sections, the calls of the cancel functions and the final \<open>select\<close>.  A connection that leaves
  runs its deferred calls in reverse order: cancel, then unregister.
\<close>

datatype conn_phase = Idle | Serving uint64 | Leaving uint64 | Refused | Gone

datatype shutdown_phase =
    NotCalled
  | Cancelling "nat list"
  | AwaitingDone
  | ShutdownOK
  | ShutdownExpired

record ws_system =
  reg :: "nat registry"
  conns :: "nat \<Rightarrow> conn_phase"
  shutdowns :: "nat \<Rightarrow> shutdown_phase"
  cancelled :: "nat set"
  registrations :: nat

definition ws_init :: "ws_system \<Rightarrow> bool" where
  "ws_init s \<longleftrightarrow>
    s = \<lparr>reg = ws_New, conns = (\<lambda>_. Idle), shutdowns = (\<lambda>_. NotCalled), cancelled = {},
         registrations = 0\<rparr>"

inductive ws_step :: "ws_system \<Rightarrow> ws_system \<Rightarrow> bool" where
  admit: "conns s c = Idle \<Longrightarrow> register c (reg s) = (r, i, True) \<Longrightarrow>
    ws_step s (s\<lparr>reg := r, conns := (conns s)(c := Serving i), registrations := Suc (registrations s)\<rparr>)"
| refuse: "conns s c = Idle \<Longrightarrow> register c (reg s) = (r, i, False) \<Longrightarrow>
    ws_step s (s\<lparr>reg := r, conns := (conns s)(c := Refused), cancelled := insert c (cancelled s)\<rparr>)"
| leave: "conns s c = Serving i \<Longrightarrow>
    ws_step s (s\<lparr>conns := (conns s)(c := Leaving i), cancelled := insert c (cancelled s)\<rparr>)"
| depart: "conns s c = Leaving i \<Longrightarrow>
    ws_step s (s\<lparr>reg := unregister i (reg s), conns := (conns s)(c := Gone)\<rparr>)"
| shutdown: "shutdowns s k = NotCalled \<Longrightarrow> begin_shutdown (reg s) = (r, cs) \<Longrightarrow>
    ws_step s (s\<lparr>reg := r, shutdowns := (shutdowns s)(k := Cancelling cs)\<rparr>)"
| cancel: "shutdowns s k = Cancelling (c # cs) \<Longrightarrow>
    ws_step s (s\<lparr>shutdowns := (shutdowns s)(k := Cancelling cs), cancelled := insert c (cancelled s)\<rparr>)"
| wait: "shutdowns s k = Cancelling [] \<Longrightarrow>
    ws_step s (s\<lparr>shutdowns := (shutdowns s)(k := AwaitingDone)\<rparr>)"
| signalled: "shutdowns s k = AwaitingDone \<Longrightarrow> 0 < shutdownDone (reg s) \<Longrightarrow>
    ws_step s (s\<lparr>shutdowns := (shutdowns s)(k := ShutdownOK)\<rparr>)"
| expire: "shutdowns s k = AwaitingDone \<Longrightarrow>
    ws_step s (s\<lparr>shutdowns := (shutdowns s)(k := ShutdownExpired)\<rparr>)"

inductive_cases ws_stepE: "ws_step s t"

interpretation ws: transition_system ws_init ws_step
  by unfold_locales (auto simp: ws_init_def)

subsection \<open>The registry's own invariant\<close>

text \<open>The shutdown channel is closed at most once, and exactly when the handler is shutting down and
  no session is active.\<close>

definition registry_ok :: "'c registry \<Rightarrow> bool" where
  "registry_ok h \<longleftrightarrow>
    distinct (map fst (active h)) \<and>
    shutdownDone h = (if shuttingDown h \<and> active h = [] then 1 else 0) \<and>
    (shutdownOnce h \<longleftrightarrow> shutdownDone h = 1)"

lemma registry_ok_New: "registry_ok ws_New"
  by (simp add: registry_ok_def ws_New_def)

lemma registry_ok_register: "registry_ok h \<Longrightarrow> registry_ok (fst (register c h))"
  by (auto simp: registry_ok_def register_def Let_def distinct_update)

lemma registry_ok_unregister: "registry_ok h \<Longrightarrow> registry_ok (unregister i h)"
  by (auto simp: registry_ok_def unregister_def close_done_def Let_def distinct_delete)

lemma registry_ok_begin_shutdown: "registry_ok h \<Longrightarrow> registry_ok (fst (begin_shutdown h))"
  by (auto simp: registry_ok_def begin_shutdown_def close_done_def Let_def)

lemma registry_ok_reachable: "ws.reachable s \<Longrightarrow> registry_ok (reg s)"
proof (erule ws.invariant)
  show "registry_ok (reg s)" if "ws_init s" for s
    using that registry_ok_New by (simp add: ws_init_def)
  show "registry_ok (reg t)" if "registry_ok (reg s)" "ws_step s t" for s t
    using that(2,1)
  proof (cases rule: ws_step.cases)
    case (admit c r i)
    then show ?thesis using registry_ok_register[OF that(1), of c] by simp
  next
    case (refuse c r i)
    then show ?thesis using registry_ok_register[OF that(1), of c] by simp
  next
    case (depart c i)
    then show ?thesis using registry_ok_unregister[OF that(1)] by simp
  next
    case (shutdown k r cs)
    then show ?thesis using registry_ok_begin_shutdown[OF that(1)] by simp
  qed (use that in simp_all)
qed

subsection \<open>Sessions and connections agree\<close>

definition holds :: "ws_system \<Rightarrow> nat \<Rightarrow> uint64 \<Rightarrow> bool" where
  "holds s c i \<longleftrightarrow> conns s c = Serving i \<or> conns s c = Leaving i"

definition sessions_ok :: "ws_system \<Rightarrow> bool" where
  "sessions_ok s \<longleftrightarrow>
    nextSession (reg s) = of_nat (registrations s) \<and>
    (\<forall>c i. holds s c i \<longrightarrow> unat i \<le> registrations s) \<and>
    (\<forall>i c. map_of (active (reg s)) i = Some c \<longleftrightarrow> holds s c i)"

lemma registry_fields [simp]:
  "nextSession (close_done h) = nextSession h" "active (close_done h) = active h"
  "shuttingDown (close_done h) = shuttingDown h"
  by (simp_all add: close_done_def)

lemma unregister_fields [simp]:
  "nextSession (unregister i h) = nextSession h" "active (unregister i h) = AList.delete i (active h)"
  "shuttingDown (unregister i h) = shuttingDown h"
  by (simp_all add: unregister_def Let_def)

lemma begin_shutdown_fields:
  "begin_shutdown h = (r, cs) \<Longrightarrow>
     nextSession r = nextSession h \<and> active r = active h \<and> shuttingDown r \<and> cs = map snd (active h)"
  by (auto simp: begin_shutdown_def Let_def)

lemma register_True:
  "register c h = (r, i, True) \<longleftrightarrow>
     \<not> shuttingDown h \<and> i = nextSession h + 1 \<and>
     r = h\<lparr>nextSession := i, active := AList.update i c (active h)\<rparr>"
  by (auto simp: register_def Let_def)

lemma register_False: "register c h = (r, i, False) \<longleftrightarrow> shuttingDown h \<and> r = h \<and> i = 0"
  by (auto simp: register_def Let_def)

lemma registrations_mono: "ws_step s t \<Longrightarrow> registrations s \<le> registrations t"
  by (erule ws_stepE) auto

lemma sessions_ok_admit:
  assumes ok: "sessions_ok s" and "conns s c = Idle" and "register c (reg s) = (r, i, True)"
    and bound: "Suc (registrations s) < 2 ^ 64"
  shows "sessions_ok (s\<lparr>reg := r, conns := (conns s)(c := Serving i), registrations := Suc (registrations s)\<rparr>)"
proof -
  have i: "i = of_nat (Suc (registrations s))"
    using ok assms(3) by (simp add: sessions_ok_def register_True)
  then have unat: "unat i = Suc (registrations s)"
    using bound by (simp only: unat_of_nat) simp
  then have fresh: "\<not> holds s c' i" for c'
    using ok unfolding sessions_ok_def by (metis not_less_eq_eq order_refl)
  then have "map_of (active (reg s)) i = None"
    using ok by (metis not_None_eq sessions_ok_def)
  then show ?thesis
    using ok fresh assms(2,3) unat i
    by (auto simp: sessions_ok_def register_True holds_def le_SucI split: if_splits)
qed

lemma sessions_ok_step:
  assumes ok: "sessions_ok s" and "distinct (map fst (active (reg s)))" and step: "ws_step s t"
    and bound: "registrations t < 2 ^ 64"
  shows "sessions_ok t"
  using step
proof (cases rule: ws_step.cases)
  case (admit c r i)
  then show ?thesis using sessions_ok_admit[OF ok, of c r i] bound by simp
next
  case (depart c i)
  then have "holds s c i" by (simp add: holds_def)
  then have at: "map_of (active (reg s)) i = Some c" using ok by (simp add: sessions_ok_def)
  have others: "c' = c" if "holds s c' i" for c'
    using that ok at by (simp add: sessions_ok_def) (metis option.inject)
  have same: "c' = c \<longleftrightarrow> j = i" if "holds s c' j" for c' j
    using that others depart by (auto simp: holds_def)
  have held: "holds t c' j \<longleftrightarrow> holds s c' j \<and> c' \<noteq> c" for c' j
    using depart by (auto simp: holds_def)
  have "map_of (active (reg t)) j = Some c' \<longleftrightarrow> holds t c' j" for c' j
    using ok same[of c' j] by (auto simp: depart(1) held[unfolded depart(1)] delete_conv' sessions_ok_def)
  moreover have "nextSession (reg t) = of_nat (registrations t)" "registrations t = registrations s"
    using ok by (simp_all add: depart(1) sessions_ok_def)
  ultimately show ?thesis using ok held unfolding sessions_ok_def by auto
next
  case (shutdown k r cs)
  then show ?thesis using ok begin_shutdown_fields[of "reg s" r cs]
    by (simp add: sessions_ok_def holds_def)
qed (use ok in \<open>auto simp: sessions_ok_def holds_def register_False\<close>)

lemma sessions_ok_reachable:
  "ws.reachable s \<Longrightarrow> registrations s < 2 ^ 64 \<Longrightarrow> sessions_ok s"
proof (erule ws.invariant[where P = "\<lambda>s. registrations s < 2 ^ 64 \<longrightarrow> sessions_ok s", THEN mp])
  show "registrations s < 2 ^ 64 \<longrightarrow> sessions_ok s" if "ws_init s" for s
    using that by (auto simp: ws_init_def sessions_ok_def holds_def ws_New_def)
  show "registrations t < 2 ^ 64 \<longrightarrow> sessions_ok t"
    if "ws.reachable s" "registrations s < 2 ^ 64 \<longrightarrow> sessions_ok s" "ws_step s t" for s t
    using that sessions_ok_step registrations_mono[OF that(3)] registry_ok_reachable[OF that(1)]
    by (meson order_le_less_trans registry_ok_def)
qed

subsection \<open>Cancellation\<close>

text \<open>A shutdown call covers a connection when it has cancelled it or is going to.\<close>

definition covered :: "ws_system \<Rightarrow> nat \<Rightarrow> nat \<Rightarrow> bool" where
  "covered s k c \<longleftrightarrow> c \<in> cancelled s \<or> (\<exists>cs. shutdowns s k = Cancelling cs \<and> c \<in> set cs)"

definition cancels_ok :: "ws_system \<Rightarrow> bool" where
  "cancels_ok s \<longleftrightarrow>
    (\<forall>k. shutdowns s k \<noteq> NotCalled \<longrightarrow> shuttingDown (reg s)) \<and>
    (\<forall>k c i. holds s c i \<longrightarrow> shutdowns s k \<noteq> NotCalled \<longrightarrow> covered s k c) \<and>
    (\<forall>k. shutdowns s k = ShutdownOK \<longrightarrow> 0 < shutdownDone (reg s))"

lemma cancels_okD:
  assumes "cancels_ok s"
  shows "shutdowns s k \<noteq> NotCalled \<Longrightarrow> shuttingDown (reg s)"
    and "holds s c i \<Longrightarrow> shutdowns s k \<noteq> NotCalled \<Longrightarrow> covered s k c"
    and "shutdowns s k = ShutdownOK \<Longrightarrow> 0 < shutdownDone (reg s)"
  using assms unfolding cancels_ok_def by blast+

lemma shutdownDone_mono: "ws_step s t \<Longrightarrow> shutdownDone (reg s) \<le> shutdownDone (reg t)"
  by (erule ws_stepE)
    (auto simp: register_True register_False unregister_def begin_shutdown_def close_done_def Let_def
      split: if_splits)

lemma covered_step: "ws_step s t \<Longrightarrow> shutdowns s k \<noteq> NotCalled \<Longrightarrow> covered s k c \<Longrightarrow> covered t k c"
  by (erule ws_stepE) (auto simp: covered_def)

lemma shuttingDown_step: "ws_step s t \<Longrightarrow> shuttingDown (reg s) \<Longrightarrow> shuttingDown (reg t)"
  by (erule ws_stepE) (auto simp: register_True register_False dest: begin_shutdown_fields)

lemma no_admission: "ws_step s t \<Longrightarrow> shuttingDown (reg s) \<Longrightarrow> holds t c i \<Longrightarrow> holds s c i"
  by (erule ws_stepE) (auto simp: holds_def register_True split: if_splits)

lemma started_by: "ws_step s t \<Longrightarrow> shutdowns s k = NotCalled \<Longrightarrow> shutdowns t k \<noteq> NotCalled \<Longrightarrow>
    \<exists>r. begin_shutdown (reg s) = (r, map snd (active (reg s))) \<and>
      t = s\<lparr>reg := r, shutdowns := (shutdowns s)(k := Cancelling (map snd (active (reg s))))\<rparr>"
  by (erule ws_stepE) (auto split: if_splits dest: begin_shutdown_fields)

lemma shutdownOK_by: "ws_step s t \<Longrightarrow> shutdowns t k = ShutdownOK \<Longrightarrow>
    shutdowns s k = ShutdownOK \<or> 0 < shutdownDone (reg s)"
  by (erule ws_stepE) (auto split: if_splits)

lemma holder_in_active: "sessions_ok s \<Longrightarrow> holds s c i \<Longrightarrow> c \<in> set (map snd (active (reg s)))"
  unfolding sessions_ok_def by (metis image_eqI list.set_map map_of_SomeD snd_conv)

lemma cancels_ok_step:
  assumes ok: "cancels_ok s" and sessions: "sessions_ok s" and step: "ws_step s t"
  shows "cancels_ok t"
  unfolding cancels_ok_def
proof (intro conjI allI impI)
  fix k assume k: "shutdowns t k \<noteq> NotCalled"
  show "shuttingDown (reg t)"
  proof (cases "shutdowns s k = NotCalled")
    case True
    from started_by[OF step True k] show ?thesis using begin_shutdown_fields by fastforce
  next
    case False
    then show ?thesis using cancels_okD(1)[OF ok] shuttingDown_step[OF step] by blast
  qed
  fix c i assume h: "holds t c i"
  show "covered t k c"
  proof (cases "shutdowns s k = NotCalled")
    case True
    from started_by[OF step True k] obtain r where t:
      "t = s\<lparr>reg := r, shutdowns := (shutdowns s)(k := Cancelling (map snd (active (reg s))))\<rparr>" by blast
    then have "holds s c i" using h by (simp add: holds_def)
    from holder_in_active[OF sessions this] show ?thesis by (simp add: t covered_def)
  next
    case False
    from no_admission[OF step cancels_okD(1)[OF ok False] h] have "covered s k c"
      using cancels_okD(2)[OF ok] False by blast
    then show ?thesis by (rule covered_step[OF step False])
  qed
next
  fix k assume "shutdowns t k = ShutdownOK"
  from shutdownOK_by[OF step this] show "0 < shutdownDone (reg t)"
    using cancels_okD(3)[OF ok] shutdownDone_mono[OF step] by fastforce
qed

lemma cancels_ok_reachable:
  "ws.reachable s \<Longrightarrow> registrations s < 2 ^ 64 \<Longrightarrow> cancels_ok s"
proof (erule ws.invariant[where P = "\<lambda>s. registrations s < 2 ^ 64 \<longrightarrow> cancels_ok s", THEN mp])
  show "registrations s < 2 ^ 64 \<longrightarrow> cancels_ok s" if "ws_init s" for s
    using that by (auto simp: ws_init_def cancels_ok_def holds_def)
  show "registrations t < 2 ^ 64 \<longrightarrow> cancels_ok t"
    if "ws.reachable s" "registrations s < 2 ^ 64 \<longrightarrow> cancels_ok s" "ws_step s t" for s t
    using that cancels_ok_step sessions_ok_reachable[OF that(1)] registrations_mono[OF that(3)]
    by (meson order_le_less_trans)
qed

lemma shutdownOK_step: "ws_step s t \<Longrightarrow> shutdowns s k = ShutdownOK \<Longrightarrow> shutdowns t k = ShutdownOK"
  by (erule ws_stepE) auto

subsection \<open>A sample run\<close>

text \<open>One connection is admitted, one call of \<open>Shutdown\<close> cancels it and waits; then the connection
  leaves and the call returns nil.\<close>

definition sample_state :: "nat registry \<Rightarrow> conn_phase \<Rightarrow> shutdown_phase \<Rightarrow> nat set \<Rightarrow> nat \<Rightarrow> ws_system" where
  "sample_state r phase call cs n =
    \<lparr>reg = r, conns = (\<lambda>c. if c = 0 then phase else Idle),
     shutdowns = (\<lambda>k. if k = 7 then call else NotCalled), cancelled = cs, registrations = n\<rparr>"

definition sample_registry :: "bool \<Rightarrow> (uint64, nat) gomap \<Rightarrow> nat \<Rightarrow> nat registry" where
  "sample_registry down act done =
    \<lparr>shuttingDown = down, nextSession = 1, active = act, shutdownDone = done, shutdownOnce = (done = 1)\<rparr>"

definition sample_waiting :: ws_system where
  "sample_waiting = sample_state (sample_registry True [(1, 0)] 0) (Serving 1) AwaitingDone {0} 1"

definition sample_finished :: ws_system where
  "sample_finished = sample_state (sample_registry True [] 1) Gone ShutdownOK {0} 1"

lemmas sample_ws_defs = sample_state_def sample_registry_def fun_upd_def

lemma sample_waiting_reachable: "ws.reachable sample_waiting"
proof -
  let ?admitted = "sample_state (sample_registry False [(1, 0)] 0) (Serving 1) NotCalled {} 1"
  let ?calling = "\<lambda>cs done. sample_state (sample_registry True [(1, 0)] 0) (Serving 1) (Cancelling cs) done 1"
  have "ws.reachable (sample_state ws_New Idle NotCalled {} 0)"
    by (rule ws.reachable_init) (simp add: ws_init_def sample_state_def)
  moreover have "ws_step (sample_state ws_New Idle NotCalled {} 0) ?admitted"
    using ws_step.admit[of "sample_state ws_New Idle NotCalled {} 0" 0 "sample_registry False [(1, 0)] 0" 1]
    by (simp add: sample_ws_defs register_True ws_New_def cong: if_cong)
  moreover have "ws_step ?admitted (?calling [0] {})"
    using ws_step.shutdown[of ?admitted 7 "sample_registry True [(1, 0)] 0" "[0]"]
    by (simp add: sample_ws_defs begin_shutdown_def cong: if_cong)
  moreover have "ws_step (?calling [0] {}) (?calling [] {0})"
    using ws_step.cancel[of "?calling [0] {}" 7 0 "[]"] by (simp add: sample_ws_defs cong: if_cong)
  moreover have "ws_step (?calling [] {0}) sample_waiting"
    using ws_step.wait[of "?calling [] {0}" 7] by (simp add: sample_ws_defs sample_waiting_def cong: if_cong)
  ultimately show ?thesis using ws.reachable_step by blast
qed

definition shutdown_run :: "nat \<Rightarrow> ws_system" where
  "shutdown_run n =
    (if n = 0 then sample_waiting
     else if n = 1 then sample_state (sample_registry True [(1, 0)] 0) (Leaving 1) AwaitingDone {0} 1
     else if n = 2 then sample_state (sample_registry True [] 1) Gone AwaitingDone {0} 1
     else sample_finished)"

lemma shutdown_run_step: "shutdown_run (Suc n) = shutdown_run n \<or> ws_step (shutdown_run n) (shutdown_run (Suc n))"
proof -
  have 0: "ws_step (shutdown_run 0) (shutdown_run 1)"
    using ws_step.leave[of sample_waiting 0 1]
    by (simp add: shutdown_run_def sample_ws_defs sample_waiting_def cong: if_cong)
  have 1: "ws_step (shutdown_run 1) (shutdown_run 2)"
    using ws_step.depart[of "shutdown_run 1" 0 1]
    by (simp add: shutdown_run_def sample_ws_defs unregister_def close_done_def cong: if_cong)
  have 2: "ws_step (shutdown_run 2) (shutdown_run 3)"
    using ws_step.signalled[of "shutdown_run 2" 7]
    by (simp add: shutdown_run_def sample_ws_defs sample_finished_def cong: if_cong)
  consider "n = 0" | "n = 1" | "n = 2" | "3 \<le> n" by linarith
  then show ?thesis
  proof cases
    case 4
    then show ?thesis by (simp add: shutdown_run_def)
  qed (use 0 1 2 in \<open>simp_all add: numeral_2_eq_2 numeral_3_eq_3\<close>)
qed

lemma sample_waiting_finishes: "ws_step\<^sup>*\<^sup>* sample_waiting sample_finished"
proof -
  have "ws_step\<^sup>*\<^sup>* (shutdown_run 0) (shutdown_run n)" for n
    by (induction n) (use shutdown_run_step in \<open>auto, metis rtranclp.rtrancl_into_rtrancl\<close>)
  from this[of 3] show ?thesis by (simp add: shutdown_run_def)
qed

lemma sample_finished_reachable: "ws.reachable sample_finished"
  using sample_waiting_reachable sample_waiting_finishes by (rule ws.reachable_steps)

subsection \<open>Properties\<close>

text \<open>C5: the shutdown channel is closed at most once, so no shutdown panics, and exactly when
  needed: in every reachable state it is closed if and only if the handler is shutting down and no
  session is registered.  No wakeup is lost and none is early.\<close>

theorem ws_shutdown_signal_exact:
  assumes "ws.reachable s"
  shows "shutdownDone (reg s) = (if shuttingDown (reg s) \<and> active (reg s) = [] then 1 else 0)"
  using registry_ok_reachable[OF assms] by (simp add: registry_ok_def)

theorem ws_shutdown_signal_exact_witness: "shutdownDone (reg sample_finished) = 1"
  using ws_shutdown_signal_exact[OF sample_finished_reachable]
  by (simp add: sample_finished_def sample_ws_defs)

text \<open>C6: a graceful shutdown is complete.  When a call of \<open>Shutdown\<close> has returned nil, no connection
  is being served, and none ever will be: this still holds in every later state.  (The number of
  sessions is below 2^64, where ids would be reused.)\<close>

theorem ws_shutdown_complete:
  assumes "ws.reachable s" and "shutdowns s k = ShutdownOK" and "ws_step\<^sup>*\<^sup>* s t"
    and "registrations t < 2 ^ 64"
  shows "\<not> holds t c i \<and> shuttingDown (reg t)"
proof -
  have kept: "shutdowns t k = ShutdownOK"
    using ws.stable[OF assms(1,3), where P = "\<lambda>s. shutdowns s k = ShutdownOK"] assms(2)
      shutdownOK_step by blast
  have t: "ws.reachable t" using assms(1,3) by (rule ws.reachable_steps)
  note c = cancels_ok_reachable[OF t assms(4)] and r = registry_ok_reachable[OF t]
    and s = sessions_ok_reachable[OF t assms(4)]
  have "0 < shutdownDone (reg t)" using c kept by (auto simp: cancels_ok_def)
  then have "shuttingDown (reg t)" "active (reg t) = []"
    using r by (auto simp: registry_ok_def split: if_splits)
  then show ?thesis using s unfolding sessions_ok_def by simp
qed

theorem ws_shutdown_complete_witness: "\<not> holds sample_finished 0 1"
  using ws_shutdown_complete[OF sample_finished_reachable, of 7 sample_finished 0 1]
  by (simp add: sample_finished_def sample_state_def)

text \<open>C17: Shutdown cancels every session.  Once a call of \<open>Shutdown\<close> has finished calling the
  cancel functions, whether it then succeeds or its context expires, the context of
  every connection that is still registered has been cancelled.\<close>

theorem ws_shutdown_cancels_all:
  assumes "ws.reachable s" and "registrations s < 2 ^ 64" and "holds s c i"
    and "shutdowns s k \<in> {AwaitingDone, ShutdownOK, ShutdownExpired}"
  shows "c \<in> cancelled s"
proof -
  have "covered s k c"
    by (rule cancels_okD(2)[OF cancels_ok_reachable[OF assms(1,2)] assms(3)]) (use assms(4) in auto)
  then show ?thesis using assms(4) by (auto simp: covered_def)
qed

theorem ws_shutdown_cancels_all_witness: "0 \<in> cancelled sample_waiting"
  using ws_shutdown_cancels_all[OF sample_waiting_reachable, of 0 1 7]
  by (simp add: sample_waiting_def sample_state_def holds_def)

text \<open>Session ids identify connections.  In every reachable state with fewer than 2^64
  registrations, the active map has exactly the ids of the connections being served, each
  with the cancel function of its own connection; two connections never share an id.\<close>

theorem ws_session_ids_unique:
  assumes "ws.reachable s" and "registrations s < 2 ^ 64"
  shows "(map_of (active (reg s)) i = Some c \<longleftrightarrow> holds s c i) \<and>
    (holds s c i \<longrightarrow> holds s d i \<longrightarrow> c = d)"
  using sessions_ok_reachable[OF assms] by (simp add: sessions_ok_def) (metis option.inject)

theorem ws_session_ids_unique_witness: "map_of (active (reg sample_waiting)) 1 = Some 0"
  using ws_session_ids_unique[OF sample_waiting_reachable, of 1 0 0]
  by (simp add: sample_waiting_def sample_state_def holds_def)

lemma Awaiting_step:
  "ws_step s t \<Longrightarrow> shutdowns s k \<in> {AwaitingDone, ShutdownOK, ShutdownExpired} \<Longrightarrow>
     shutdowns t k \<in> {AwaitingDone, ShutdownOK, ShutdownExpired}"
  by (erule ws_stepE) (auto split: if_splits)

text \<open>A run: every state follows from the one before by a step of the system or is the same.\<close>

definition ws_run :: "(nat \<Rightarrow> ws_system) \<Rightarrow> bool" where
  "ws_run r \<longleftrightarrow> ws.reachable (r 0) \<and> (\<forall>n. r (Suc n) = r n \<or> ws_step (r n) (r (Suc n))) \<and>
    (\<forall>n. registrations (r n) < 2 ^ 64)"

lemma ws_run_steps: "ws_run r \<Longrightarrow> n \<le> m \<Longrightarrow> ws_step\<^sup>*\<^sup>* (r n) (r m)"
  by (induction m) (auto simp: ws_run_def le_Suc_eq intro: rtranclp.rtrancl_into_rtrancl, metis rtranclp.rtrancl_into_rtrancl)

lemma ws_run_reachable: "ws_run r \<Longrightarrow> ws.reachable (r n)"
  using ws_run_steps[of r 0 n] ws.reachable_steps[of "r 0" "r n"] by (simp add: ws_run_def)

lemma ws_run_shuttingDown:
  assumes "ws_run r" and "n \<le> m" and "shuttingDown (reg (r n))"
  shows "shuttingDown (reg (r m))" and "holds (r m) c i \<Longrightarrow> holds (r n) c i"
proof -
  have *: "shuttingDown (reg (r m)) \<and> (holds (r m) c i \<longrightarrow> holds (r n) c i)" for c i
  proof (rule ws.stable[OF ws_run_reachable[OF assms(1)] ws_run_steps[OF assms(1,2)]])
    fix s t
    assume "shuttingDown (reg s) \<and> (holds s c i \<longrightarrow> holds (r n) c i)" "ws_step s t"
    then show "shuttingDown (reg t) \<and> (holds t c i \<longrightarrow> holds (r n) c i)"
      using shuttingDown_step no_admission by blast
  qed (simp add: assms(3))
  show "shuttingDown (reg (r m))" and "holds (r m) c i \<Longrightarrow> holds (r n) c i" using * by blast+
qed

text \<open>Once a handler is shutting down and every connection leaves at some time, its session map empties.\<close>

lemma ws_run_drains:
  assumes run: "ws_run r" and fair: "\<And>n c i. holds (r n) c i \<Longrightarrow> \<exists>m\<ge>n. \<not> holds (r m) c i"
    and "shuttingDown (reg (r n))"
  shows "\<exists>m\<ge>n. active (reg (r m)) = []"
proof -
  have held: "map_of (active (reg (r j))) i = Some c \<longleftrightarrow> holds (r j) c i" for j c i
    using sessions_ok_reachable[OF ws_run_reachable[OF run]] run by (simp add: sessions_ok_def ws_run_def)
  have "\<exists>m\<ge>n. \<forall>c i. (i, c) \<in> set xs \<longrightarrow> \<not> holds (r m) c i" for xs
  proof (induction xs)
    case (Cons x xs)
    then obtain m where m: "n \<le> m" "\<forall>c i. (i, c) \<in> set xs \<longrightarrow> \<not> holds (r m) c i" by blast
    obtain l where l: "m \<le> l" "\<not> holds (r l) (snd x) (fst x)"
      using fair[of m "snd x" "fst x"] by blast
    have "shuttingDown (reg (r m))" using ws_run_shuttingDown(1)[OF run m(1) assms(3)] .
    then have "holds (r l) c i \<Longrightarrow> holds (r m) c i" for c i
      using ws_run_shuttingDown(2)[OF run l(1)] by blast
    then show ?case using m l by (intro exI[of _ l]) auto
  qed auto
  then obtain m where m: "n \<le> m" "\<forall>c i. (i, c) \<in> set (active (reg (r n))) \<longrightarrow> \<not> holds (r m) c i" by blast
  have "\<not> holds (r m) c i" for c i
    using ws_run_shuttingDown(2)[OF run m(1) assms(3), of c i] m(2) held[of n i c] map_of_SomeD by metis
  then have "map_of (active (reg (r m))) i = None" for i
    using held[of m i] by (cases "map_of (active (reg (r m))) i") auto
  then have "active (reg (r m)) = []"
    by (metis map_of_eq_empty_iff ext)
  then show ?thesis using m(1) by blast
qed

text \<open>C7: shutdown is live.  In every run in which each served connection leaves at some time (its
  context is cancelled, see above) and a wait whose signal stays up is not ignored forever, a
  call of \<open>Shutdown\<close> that waits returns: with nil, or because its context expired.\<close>

theorem ws_shutdown_returns:
  assumes "ws_run r" and "\<And>n c i. holds (r n) c i \<Longrightarrow> \<exists>m\<ge>n. \<not> holds (r m) c i"
    and "\<And>n. \<exists>m\<ge>n. shutdowns (r m) k \<noteq> AwaitingDone \<or> shutdownDone (reg (r m)) = 0"
    and "shutdowns (r n) k = AwaitingDone"
  shows "\<exists>m\<ge>n. shutdowns (r m) k \<in> {ShutdownOK, ShutdownExpired}"
proof -
  note reachable = ws_run_reachable[OF assms(1)]
  have bound: "registrations (r j) < 2 ^ 64" for j using assms(1) by (simp add: ws_run_def)
  have down: "shuttingDown (reg (r n))"
    using cancels_ok_reachable[OF reachable bound, of n] assms(4) by (auto simp: cancels_ok_def)
  obtain m where m: "n \<le> m" "active (reg (r m)) = []"
    using ws_run_drains[OF assms(1,2) down] by blast
  obtain l where l: "m \<le> l" "shutdowns (r l) k \<noteq> AwaitingDone \<or> shutdownDone (reg (r l)) = 0"
    using assms(3) by blast
  have "active (reg (r l)) = []" "shuttingDown (reg (r l))"
  proof -
    have none: "\<not> holds (r m) c i" for c i
      using sessions_ok_reachable[OF reachable bound, of m] m(2) unfolding sessions_ok_def by simp
    have m_down: "shuttingDown (reg (r m))" using ws_run_shuttingDown(1)[OF assms(1) m(1) down] .
    show "shuttingDown (reg (r l))" using ws_run_shuttingDown(1)[OF assms(1) l(1) m_down] .
    have "map_of (active (reg (r l))) i = None" for i
      using ws_run_shuttingDown(2)[OF assms(1) l(1) m_down] none
        sessions_ok_reachable[OF reachable bound, of l] unfolding sessions_ok_def
      by (metis not_None_eq)
    then show "active (reg (r l)) = []" by (metis map_of_eq_empty_iff ext)
  qed
  then have "shutdowns (r l) k \<noteq> AwaitingDone"
    using l(2) registry_ok_reachable[OF reachable, of l] by (simp add: registry_ok_def)
  moreover have "shutdowns (r l) k \<in> {AwaitingDone, ShutdownOK, ShutdownExpired}"
  proof (rule ws.stable[OF reachable ws_run_steps[OF assms(1) order_trans[OF m(1) l(1)]]])
    fix s t
    assume "shutdowns s k \<in> {AwaitingDone, ShutdownOK, ShutdownExpired}" "ws_step s t"
    then show "shutdowns t k \<in> {AwaitingDone, ShutdownOK, ShutdownExpired}"
      using Awaiting_step by blast
  qed (simp add: assms(4))
  ultimately show ?thesis using m(1) l(1) by (intro exI[of _ l]) auto
qed

lemma shutdown_run_holds: "holds (shutdown_run n) c i \<Longrightarrow> n \<le> 1"
  by (auto simp: shutdown_run_def holds_def sample_state_def sample_finished_def split: if_splits)

lemma shutdown_run_run: "ws_run shutdown_run"
  using sample_waiting_reachable shutdown_run_step
  by (auto simp: ws_run_def shutdown_run_def sample_waiting_def sample_finished_def sample_state_def)

theorem ws_shutdown_returns_witness:
  "\<exists>m. shutdowns (shutdown_run m) 7 \<in> {ShutdownOK, ShutdownExpired}"
proof -
  have left: "\<exists>m\<ge>n. \<not> holds (shutdown_run m) c i" for n c i
    using shutdown_run_holds[of "n + 2" c i] by (intro exI[of _ "n + 2"]) auto
  have "shutdowns (shutdown_run (n + 3)) 7 \<noteq> AwaitingDone" for n
    by (simp add: shutdown_run_def sample_finished_def sample_state_def)
  then have signal: "\<exists>m\<ge>n. shutdowns (shutdown_run m) 7 \<noteq> AwaitingDone \<or> shutdownDone (reg (shutdown_run m)) = 0" for n
    by (intro exI[of _ "n + 3"]) simp
  have "shutdowns (shutdown_run 0) 7 = AwaitingDone"
    by (simp add: shutdown_run_def sample_waiting_def sample_state_def)
  from ws_shutdown_returns[OF shutdown_run_run left signal this] show ?thesis by blast
qed

end
