(* ===== verification/Ws_Session.thy ===== *)
theory Ws_Session
  imports Ws_Codec Ws_Lifecycle Rest_Handler
begin

section \<open>A WebSocket connection: openai/internal/websocket/handler.go\<close>

text \<open>
  \<open>ServeHTTP\<close>, the two loops it starts and how it closes.  Both loops are functions of what the
  outside gives them, round by round: what the connection read and how the session answered
  \<open>Handle\<close>, or what the select took and how the connection's write ended.  The request also has
  which loop's result arrives first; the loops run to their own ends, so rounds that follow the
  other loop's end are included.
\<close>

subsection \<open>Error chains\<close>

text \<open>The errors \<open>errors.Is\<close> and \<open>errors.As\<close> visit, in order; \<open>None\<close> stands for the call of \<open>Unwrap\<close> on a
  nil \<open>*backend.Error\<close>, which panics.\<close>

fun error_chain :: "go_error \<Rightarrow> go_error option list"
  and backend_chain :: "backend_error \<Rightarrow> go_error option list" where
  "error_chain (BackendPtr None) = [Some (BackendPtr None), None]"
| "error_chain (BackendPtr (Some b)) = Some (BackendPtr (Some b)) # backend_chain b"
| "error_chain (Wrapping m e) = Some (Wrapping m e) # error_chain e"
| "error_chain (Joined es) = Some (Joined es) # concat (map error_chain es)"
| "error_chain e = [Some e]"
| "backend_chain (Error k c p m r None) = []"
| "backend_chain (Error k c p m r (Some e)) = error_chain e"

fun search_chain :: "(go_error \<Rightarrow> 'a option) \<Rightarrow> go_error option list \<Rightarrow> 'a option option" where
  "search_chain f [] = Some None"
| "search_chain f (None # es) = None"
| "search_chain f (Some e # es) = (case f e of Some x \<Rightarrow> Some (Some x) | None \<Rightarrow> search_chain f es)"

definition is_canceled :: "go_error \<Rightarrow> unit option" where
  "is_canceled e = (case e of ContextCanceled \<Rightarrow> Some () | _ \<Rightarrow> None)"

definition as_protocol :: "go_error \<Rightarrow> string option" where
  "as_protocol e = (case e of ProtocolFailure m \<Rightarrow> Some m | _ \<Rightarrow> None)"

definition as_close :: "go_error \<Rightarrow> int option" where
  "as_close e = (case e of CloseFrame c \<Rightarrow> Some c | _ \<Rightarrow> None)"

subsection \<open>How a connection closes\<close>

definition truncateReason :: "string \<Rightarrow> string" where
  "truncateReason reason = (if length reason > 120 then take 120 reason else reason)"

text \<open>The close status and reason for the first result; \<open>None\<close> is the panic.\<close>

definition closeReason :: "go_error option \<Rightarrow> (int \<times> string) option" where
  "closeReason err =
    (case err of
       None \<Rightarrow> Some (1000, ''OK'')
     | Some e \<Rightarrow>
         (case search_chain is_canceled (error_chain e) of
            None \<Rightarrow> None
          | Some (Some _) \<Rightarrow> Some (1000, ''OK'')
          | Some None \<Rightarrow>
              (case search_chain as_protocol (error_chain e) of
                 None \<Rightarrow> None
               | Some (Some message) \<Rightarrow> Some (1008, truncateReason message)
               | Some None \<Rightarrow>
                   (case search_chain as_close (error_chain e) of
                      None \<Rightarrow> None
                    | Some status \<Rightarrow>
                        let code = (case status of Some c \<Rightarrow> c | None \<Rightarrow> -1)
                        in if code \<noteq> -1 then Some (code, ''peer closed'')
                           else Some (1011, ''backend session failed'')))))"

subsection \<open>The loops\<close>

datatype read_result = ReadFailed go_error | TextMessage string | BinaryMessage string

text \<open>A round of the read loop has what \<open>connection.Read\<close> returned and what \<open>session.Handle\<close> will
  answer.  The loop returns the events the session was given and its error, \<open>None\<close> while it waits.\<close>

fun readLoop :: "session_surface \<Rightarrow> (read_result \<times> go_error option) list \<Rightarrow> event list \<times> go_error option" where
  "readLoop surface [] = ([], None)"
| "readLoop surface ((result, answer) # rounds) =
     (case result of
        ReadFailed err \<Rightarrow> ([], Some err)
      | BinaryMessage _ \<Rightarrow> ([], Some (ProtocolFailure ''binary frames are not supported''))
      | TextMessage data \<Rightarrow>
          (case decodeEvent data of
             Inl err \<Rightarrow> ([], Some err)
           | Inr event \<Rightarrow>
               if \<not> eventAllowed surface ''client'' (Type event) then
                 ([], Some (ProtocolFailure ''event type is outside the active compatibility profile''))
               else
                 (case answer of
                    Some err \<Rightarrow> ([event], Some err)
                  | None \<Rightarrow> (case readLoop surface rounds of (events, end) \<Rightarrow> (event # events, end)))))"

datatype write_select = WriteCtxDone go_error | SessionEventsClosed | SessionEvent event "go_error option"

datatype write_end = WriteWaiting | WriteReturned "go_error option" | WritePanicked

fun writeLoop :: "session_surface \<Rightarrow> write_select list \<Rightarrow> string list \<times> write_end" where
  "writeLoop surface [] = ([], WriteWaiting)"
| "writeLoop surface (WriteCtxDone err # rounds) = ([], WriteReturned (Some err))"
| "writeLoop surface (SessionEventsClosed # rounds) = ([], WriteReturned None)"
| "writeLoop surface (SessionEvent event written # rounds) =
     (if \<not> eventAllowed surface ''server'' (Type event) then
        ([], WriteReturned (Some (ProtocolFailure
          ''backend event type is outside the active compatibility profile'')))
      else
        (case encodeEvent event of
           None \<Rightarrow> ([], WritePanicked)
         | Some (Inl err) \<Rightarrow> ([], WriteReturned (Some err))
         | Some (Inr data) \<Rightarrow>
             (case written of
                Some err \<Rightarrow> ([], WriteReturned (Some err))
              | None \<Rightarrow> (case writeLoop surface rounds of (frames, end) \<Rightarrow> (data # frames, end)))))"

subsection \<open>ServeHTTP\<close>

datatype ws_effect =
    SessionOpened session_request
  | SessionClosed
  | Upgraded
  | Cancelled
  | ConnectionClosed int string
  | Unregistered uint64

datatype ws_end = WsReturned | WsWaiting | WsPanicked | WsCrashed

record ws_outcome =
  wo_writer :: writer
  wo_effects :: "ws_effect list"
  wo_handled :: "event list"
  wo_frames :: "string list"
  wo_end :: ws_end

type_synonym 's session_backend = "session_request \<Rightarrow> 's iface \<times> go_error option"

record ('h, 's) ws_handler =
  wh_services :: "('h, 's session_backend) services"
  wh_config :: config

text \<open>What the request meets outside: the random source, \<open>websocket.Accept\<close> (the response it writes
  when it refuses, or \<open>None\<close> when it upgrades), the rounds of both loops and whether the read
  loop's result is the first to arrive.\<close>

record ws_externals =
  we_random :: "string option"
  we_Accept :: "http_request \<Rightarrow> string list \<Rightarrow> (writer \<Rightarrow> writer) option"
  we_reads :: "(read_result \<times> go_error option) list"
  we_writes :: "write_select list"
  we_reader_first :: bool

definition writeHTTPError :: "writer \<Rightarrow> string \<Rightarrow> int \<Rightarrow> string \<Rightarrow> string \<Rightarrow> writer" where
  "writeHTTPError w requestID status errorType message =
    Write (WriteHeader (set_header ''X-Request-Id'' requestID
        (set_header ''Content-Type'' ''application/json'' w)) status)
      (Marshal (JObject [(''error'', JObject
        [(''message'', JString message), (''type'', JString errorType), (''param'', JNull),
         (''code'', JNull)])]) @ [CHR 0x0A])"

definition isNilSession :: "'s iface \<Rightarrow> bool" where
  "isNilSession session =
    (case session of NilInterface \<Rightarrow> True | Dynamic kind null _ \<Rightarrow> kind_IsNil_applies kind \<and> null)"

definition last_values :: "(string, string list) gomap \<Rightarrow> (string, string) gomap" where
  "last_values query =
    fold (\<lambda>(key, values) parameters.
        if values \<noteq> [] then AList.update key (last values) parameters else parameters) query []"

definition surface_of :: "config \<Rightarrow> http_request \<Rightarrow> session_surface" where
  "surface_of cfg req =
    (if req_Path req = BasePath cfg @ ''/responses'' then SessionResponsesSocket else SessionRealtime)"

definition session_request_of :: "config \<Rightarrow> http_request \<Rightarrow> string \<Rightarrow> string \<Rightarrow> session_request" where
  "session_request_of cfg req requestID callerID =
    \<lparr>Surface = surface_of cfg req,
     SessionMetadata = \<lparr>RequestID = requestID, CallerID = callerID, Protocol = ''openai'', Extensions = []\<rparr>,
     SessionParameters = last_values (req_Query req)\<rparr>"

definition ws_fail :: "string \<Rightarrow> int \<Rightarrow> string \<Rightarrow> string \<Rightarrow> ws_effect list \<Rightarrow> ws_outcome" where
  "ws_fail requestID status errorType message effects =
    \<lparr>wo_writer = writeHTTPError fresh_writer requestID status errorType message,
     wo_effects = effects, wo_handled = [], wo_frames = [], wo_end = WsReturned\<rparr>"

text \<open>From the upgraded connection to the close (lines 100 to 121), with the deferred \<open>closeAll\<close> for a
  panic of \<open>closeReason\<close>.\<close>

definition ws_converse :: "ws_externals \<Rightarrow> session_surface \<Rightarrow> ws_outcome" where
  "ws_converse ext surface =
    (case (readLoop surface (we_reads ext), writeLoop surface (we_writes ext)) of
       ((handled, readEnd), (frames, writeEnd)) \<Rightarrow>
         let first =
               (if we_reader_first ext then map_option Some readEnd
                else (case writeEnd of WriteReturned err \<Rightarrow> Some err | _ \<Rightarrow> None));
             out = \<lparr>wo_writer = fresh_writer, wo_effects = [], wo_handled = handled,
                    wo_frames = frames, wo_end = WsWaiting\<rparr>
         in if writeEnd = WritePanicked then out\<lparr>wo_end := WsCrashed\<rparr>
            else (case first of
              None \<Rightarrow> out
            | Some err \<Rightarrow>
                (case closeReason err of
                   Some (code, reason) \<Rightarrow>
                     out\<lparr>wo_effects := [Cancelled, SessionClosed, ConnectionClosed code reason],
                         wo_end := WsReturned\<rparr>
                 | None \<Rightarrow>
                     out\<lparr>wo_effects := [Cancelled, SessionClosed, ConnectionClosed 1000 ''OK''],
                         wo_end := WsPanicked\<rparr>)))"

text \<open>From the authentication to the upgrade (lines 55 to 99).\<close>

definition ws_open ::
  "ws_externals \<Rightarrow> ('h, 's) ws_handler \<Rightarrow> http_request \<Rightarrow> string \<Rightarrow> string \<Rightarrow> ws_outcome" where
  "ws_open ext h req requestID callerID =
    (let surface = surface_of (wh_config h) req in
     case SessionFor (wh_services h) surface of
       (sessionBackend, ok) \<Rightarrow>
         if \<not> ok then
           ws_fail requestID 501 ''unsupported_error'' ''The requested WebSocket capability is not configured.'' []
         else
           (let sreq = session_request_of (wh_config h) req requestID callerID
            in case sessionBackend of
                 NilInterface \<Rightarrow> (ws_fail requestID 500 [] [] [])\<lparr>wo_writer := fresh_writer, wo_end := WsPanicked\<rparr>
               | Dynamic _ _ OpenSession \<Rightarrow>
                   (case OpenSession sreq of
                      (session, Some err) \<Rightarrow>
                        ws_fail requestID 500 ''server_error'' ''Could not open the backend session.''
                          (SessionOpened sreq # (if \<not> isNilSession session then [SessionClosed] else []))
                    | (session, None) \<Rightarrow>
                        if isNilSession session then
                          ws_fail requestID 500 ''server_error'' ''Could not open the backend session.''
                            [SessionOpened sreq]
                        else
                          (case we_Accept ext req (OriginPatterns (wh_config h)) of
                             Some respond \<Rightarrow>
                               \<lparr>wo_writer = respond fresh_writer,
                                wo_effects = [SessionOpened sreq, SessionClosed],
                                wo_handled = [], wo_frames = [], wo_end = WsReturned\<rparr>
                           | None \<Rightarrow>
                               (let out = ws_converse ext surface
                                in out\<lparr>wo_effects := [SessionOpened sreq, Upgraded] @ wo_effects out\<rparr>)))))"

text \<open>The whole handler, with the registration of the connection and the deferred calls; a panic
  inside the write loop's goroutine ends the process and runs none of them.\<close>

definition ws_ServeHTTP ::
  "ws_externals \<Rightarrow> ('h, 's) ws_handler \<Rightarrow> 'c registry \<Rightarrow> 'c \<Rightarrow> http_request \<Rightarrow> 'c registry \<times> ws_outcome" where
  "ws_ServeHTTP ext h r cancel req =
    (let requestID = request_id req (we_random ext) in
     case register cancel r of
       (r', sessionID, registered) \<Rightarrow>
         if \<not> registered then
           (r', ws_fail requestID 503 ''service_unavailable_error'' ''The handler is shutting down.'' [Cancelled])
         else
           (let out =
              (case Authenticate (wh_config h) req requestID of
                 Inl err \<Rightarrow>
                   ws_fail requestID 401 ''authentication_error'' ''Invalid authentication credentials.'' []
               | Inr callerID \<Rightarrow> ws_open ext h req requestID callerID)
            in if wo_end out = WsWaiting \<or> wo_end out = WsCrashed
               then (r', out)
               else (unregister sessionID r',
                     out\<lparr>wo_effects := wo_effects out @ [Cancelled, Unregistered sessionID]\<rparr>)))"

subsection \<open>What passes through the loops\<close>

lemma readLoop_events:
  "e \<in> set (fst (readLoop surface rounds)) \<Longrightarrow>
     eventAllowed surface ''client'' (Type e) \<and> TextMessage (Data e) \<in> set (map fst rounds) \<and>
     decodeEvent (Data e) = Inr e"
  by (induction surface rounds rule: readLoop.induct)
    (auto split: read_result.splits sum.splits if_splits option.splits prod.splits dest: decodeEvent_Inr)

text \<open>The event a round of the read loop hands to the session, if any.\<close>

definition client_event :: "session_surface \<Rightarrow> read_result \<times> go_error option \<Rightarrow> event option" where
  "client_event surface r =
    (case fst r of
       TextMessage data \<Rightarrow>
         (case decodeEvent data of
            Inr e \<Rightarrow> if eventAllowed surface ''client'' (Type e) then Some e else None
          | Inl _ \<Rightarrow> None)
     | _ \<Rightarrow> None)"

lemma readLoop_round:
  "fst (readLoop surface (r # rounds)) =
    (case client_event surface r of
       None \<Rightarrow> []
     | Some e \<Rightarrow> e # (if snd r = None then fst (readLoop surface rounds) else []))"
  by (cases r) (auto simp: client_event_def split: read_result.split sum.split option.split prod.split)

lemma readLoop_prefix:
  "\<exists>n. map Some (fst (readLoop surface rounds)) = take n (map (client_event surface) rounds)"
proof (induction rounds)
  case (Cons r rounds)
  then obtain n where n: "map Some (fst (readLoop surface rounds)) = take n (map (client_event surface) rounds)"
    by blast
  show ?case
  proof (cases "client_event surface r")
    case None
    then show ?thesis by (intro exI[of _ 0]) (simp add: readLoop_round)
  next
    case (Some e)
    then show ?thesis using n
      by (intro exI[of _ "if snd r = None then Suc n else 1"]) (simp add: readLoop_round)
  qed
qed simp

definition sent_event :: "write_select \<Rightarrow> event option" where
  "sent_event r = (case r of SessionEvent e None \<Rightarrow> Some e | _ \<Rightarrow> None)"

text \<open>The frame a round of the write loop puts on the connection, if any.\<close>

definition server_frame :: "session_surface \<Rightarrow> write_select \<Rightarrow> string option" where
  "server_frame surface r =
    (case sent_event r of
       Some e \<Rightarrow>
         if eventAllowed surface ''server'' (Type e)
         then (case encodeEvent e of Some (Inr f) \<Rightarrow> Some f | _ \<Rightarrow> None) else None
     | None \<Rightarrow> None)"

lemma writeLoop_round:
  "fst (writeLoop surface (r # rounds)) =
    (case server_frame surface r of None \<Rightarrow> [] | Some f \<Rightarrow> f # fst (writeLoop surface rounds))"
  by (cases r) (auto simp: server_frame_def sent_event_def split: option.split sum.split prod.split)

lemma writeLoop_prefix:
  "\<exists>n. map Some (fst (writeLoop surface rounds)) = take n (map (server_frame surface) rounds)"
proof (induction rounds)
  case (Cons r rounds)
  then obtain n where n: "map Some (fst (writeLoop surface rounds)) = take n (map (server_frame surface) rounds)"
    by blast
  then show ?case
    by (cases "server_frame surface r")
      (auto simp: writeLoop_round intro: exI[of _ 0] exI[of _ "Suc n"])
qed simp

lemma readLoop_nonempty_end: "snd (readLoop surface rounds) = Some e \<Longrightarrow> rounds \<noteq> []"
  by (cases rounds) auto

end
