(* ===== verification/Openai_Handler.thy ===== *)
theory Openai_Handler
  imports Openai_Options Rest_Handler Ws_Session
begin

section \<open>The OpenAI handler: openai/handler.go\<close>

text \<open>
  The constructor, the credential a request carries, the authentication closure that both protocol
  handlers share, and the dispatch between them.  Loading the profile document and building the
  router are third party code behind one function from the document and the base path.
\<close>

subsection \<open>Credentials\<close>

fun find_protocol_key :: "string list \<Rightarrow> string option" where
  "find_protocol_key [] = None"
| "find_protocol_key (part # rest) =
     (case CutPrefix (TrimSpace part) ''openai-insecure-api-key.'' of
        (after, ok) \<Rightarrow> if ok then Some after else find_protocol_key rest)"

definition credentialFromRequest :: "http_request \<Rightarrow> string \<times> string" where
  "credentialFromRequest req =
    (let authorization = Header_Get (req_Header req) ''Authorization''
     in if HasPrefix (ToLower authorization) ''bearer '' then
          (TrimSpace (drop (length ''Bearer '') authorization), ''authorization'')
        else
          (case find_protocol_key (concat (map (\<lambda>protocol. Split protocol (CHR '',''))
              (Header_Values (req_Header req) ''Sec-WebSocket-Protocol''))) of
             Some token \<Rightarrow> (token, ''websocket_subprotocol'')
           | None \<Rightarrow> ([], ''none'')))"

definition authenticate_with :: "settings \<Rightarrow> Authenticate_fun" where
  "authenticate_with s req requestID =
    (case authenticator s of
       NilInterface \<Rightarrow> Inr ''anonymous''
     | Dynamic _ _ auth \<Rightarrow>
         (case credentialFromRequest req of (token, source) \<Rightarrow>
            (case auth \<lparr>Token = token, Source = source, CredentialRequestID = requestID\<rparr> of
               Inl err \<Rightarrow> Inl err
             | Inr p \<Rightarrow>
                 if TrimSpace (PrincipalID p) = [] then
                   Inl (Plain ''openai: authenticator returned an empty principal'')
                 else Inr (PrincipalID p))))"

subsection \<open>Construction\<close>

type_synonym 'd router = "http_request \<Rightarrow> route_error + ('d route \<times> (string, string) gomap)"

record ('d, 's) openai_handler =
  oh_basePath :: string
  oh_rest :: "('d, 's session_backend) rest_handler"
  oh_websocket :: "(backend_handler, 's) ws_handler"

definition internal_config :: "settings \<Rightarrow> config" where
  "internal_config s =
    \<lparr>BasePath = basePath s, MaxBodyBytes = maxBodyBytes s, OriginPatterns = originPatterns s,
     Validate = validate s, Authenticate = authenticate_with s\<rparr>"

definition NewHandler ::
  "(go_error + string) \<Rightarrow> (string \<Rightarrow> string \<Rightarrow> go_error + ('d document \<times> 'd router)) \<Rightarrow>
   (backend_handler, 's session_backend) services \<Rightarrow> openai_option option list \<Rightarrow>
   openai_error + ('d, 's) openai_handler" where
  "NewHandler routerSpec load services options =
    (case run_settings options of
       Inl err \<Rightarrow> Inl err
     | Inr s \<Rightarrow>
         (case routerSpec of
            Inl err \<Rightarrow> Inl (ProfileError err)
          | Inr specJSON \<Rightarrow>
              (case load specJSON (basePath s) of
                 Inl err \<Rightarrow> Inl (ProfileError err)
               | Inr (document, router) \<Rightarrow>
                   Inr \<lparr>oh_basePath = basePath s,
                        oh_rest = rest_New services document router (internal_config s),
                        oh_websocket = \<lparr>wh_services = services, wh_config = internal_config s\<rparr>\<rparr>)))"

subsection \<open>Dispatch\<close>

definition isWebSocket :: "http_request \<Rightarrow> bool" where
  "isWebSocket req \<longleftrightarrow>
    EqualFold (Header_Get (req_Header req) ''Upgrade'') ''websocket'' \<and>
    Contains (ToLower (Header_Get (req_Header req) ''Connection'')) ''upgrade''"

text \<open>\<open>http.NotFound\<close>.\<close>

definition NotFound :: "writer \<Rightarrow> writer" where
  "NotFound w =
    Write (WriteHeader
      (set_header ''X-Content-Type-Options'' ''nosniff''
        (set_header ''Content-Type'' ''text/plain; charset=utf-8'' w)) 404)
      (''404 page not found'' @ [CHR 0x0A])"

datatype 'c served = ServedNotFound writer | ServedWebSocket "'c registry" ws_outcome | ServedRest outcome

definition openai_ServeHTTP ::
  "'d externals \<Rightarrow> ws_externals \<Rightarrow> ('d, 's) openai_handler \<Rightarrow> 'c registry \<Rightarrow> 'c \<Rightarrow> http_request \<Rightarrow> 'c served" where
  "openai_ServeHTTP ext wext h r cancel req =
    (if \<not> HasPrefix (req_Path req) (oh_basePath h @ ''/'') \<and> req_Path req \<noteq> oh_basePath h then
       ServedNotFound (NotFound fresh_writer)
     else if isWebSocket req \<and>
         (req_Path req = oh_basePath h @ ''/realtime'' \<or> req_Path req = oh_basePath h @ ''/responses'') then
       (case ws_ServeHTTP wext (oh_websocket h) r cancel req of (r', out) \<Rightarrow> ServedWebSocket r' out)
     else ServedRest (rest_ServeHTTP ext (oh_rest h) req))"

text \<open>\<open>Handler.Shutdown\<close> is the WebSocket handler's: the locked part of it, see theory
  \<open>Ws_Lifecycle\<close> for what follows.\<close>

definition openai_Shutdown :: "'c registry \<Rightarrow> 'c registry \<times> 'c list" where
  "openai_Shutdown r = begin_shutdown r"

subsection \<open>Facts\<close>

lemma NewHandler_Inr:
  assumes "NewHandler routerSpec load services options = Inr h"
  obtains s where "run_settings options = Inr s" "settings_ok s" "oh_basePath h = basePath s"
    "rh_config (oh_rest h) = internal_config s" "wh_config (oh_websocket h) = internal_config s"
    "rh_services (oh_rest h) = services" "wh_services (oh_websocket h) = services"
proof -
  obtain s where s: "run_settings options = Inr s"
    using assms by (cases "run_settings options") (auto simp: NewHandler_def)
  obtain spec where spec: "routerSpec = Inr spec"
    using assms s by (cases routerSpec) (auto simp: NewHandler_def)
  obtain doc router where "load spec (basePath s) = Inr (doc, router)"
    using assms s spec by (cases "load spec (basePath s)") (auto simp: NewHandler_def)
  then have "h = \<lparr>oh_basePath = basePath s, oh_rest = rest_New services doc router (internal_config s),
      oh_websocket = \<lparr>wh_services = services, wh_config = internal_config s\<rparr>\<rparr>"
    using assms s spec by (simp add: NewHandler_def)
  then show thesis using that[OF s run_settings_ok[OF s]] by (simp add: rest_New_def)
qed

lemma authenticate_with_Inr:
  assumes "authenticate_with s req rid = Inr caller"
  shows "(authenticator s = NilInterface \<and> caller = ''anonymous'') \<or>
    (\<exists>k n auth p. authenticator s = Dynamic k n auth \<and>
       auth \<lparr>Token = fst (credentialFromRequest req), Source = snd (credentialFromRequest req),
             CredentialRequestID = rid\<rparr> = Inr p \<and> caller = PrincipalID p \<and> TrimSpace caller \<noteq> [])"
  using assms by (auto simp: authenticate_with_def split: iface.splits prod.splits sum.splits if_splits)

lemma anonymous_not_blank: "TrimSpace ''anonymous'' \<noteq> []"
  by code_simp

end
