(* ===== verification/Rest_Properties.thy ===== *)
theory Rest_Properties
  imports Rest_Handler
begin

section \<open>What the REST handler guarantees\<close>

text \<open>
  The order of the guards in front of the backend, what reaches it, how its response reaches the
  client and which of its resources are closed.
\<close>

subsection \<open>Redaction of request headers\<close>

lemma credential_header_canonical [simp]:
  "credential_header (CanonicalHeaderKey k) = credential_header k"
  by (simp add: credential_header_def)

lemma safeHeaders_fold:
  assumes "\<forall>(k, vs)\<in>set acc. \<not> credential_header k"
  shows "\<forall>(k, vs)\<in>set (fold (\<lambda>(key, values) result.
        if credential_header key then result
        else AList.update (CanonicalHeaderKey key) values result) headers acc). \<not> credential_header k"
  using assms
proof (induction headers arbitrary: acc)
  case (Cons kv headers)
  obtain key vals where kv: "kv = (key, vals)" by (cases kv)
  have "\<forall>(k, vs)\<in>set (if credential_header key then acc
      else AList.update (CanonicalHeaderKey key) vals acc). \<not> credential_header k"
    using Cons.prems set_update_subset[of "CanonicalHeaderKey key" vals acc] by auto
  then show ?case using Cons.IH by (simp add: kv)
qed simp

lemma safeHeaders_redacts: "(k, vs) \<in> set (safeHeaders headers) \<Longrightarrow> \<not> credential_header k"
  using safeHeaders_fold[of "[]" headers] by (auto simp: safeHeaders_def)

lemma safeHeaders_lookup:
  assumes "list_all (\<lambda>(k, vs). CanonicalHeaderKey k = k) headers" and "distinct (map fst headers)"
  shows "map_of (safeHeaders headers) k = (if credential_header k then None else map_of headers k)"
proof -
  have "map_of (fold (\<lambda>(key, values) result.
        if credential_header key then result
        else AList.update (CanonicalHeaderKey key) values result) headers acc) k =
      (if \<not> credential_header k \<and> map_of headers k \<noteq> None then map_of headers k else map_of acc k)" for acc
    using assms
  proof (induction headers arbitrary: acc)
    case (Cons kv headers)
    obtain key vals where kv: "kv = (key, vals)" by (cases kv)
    have "map_of headers key = None"
      using Cons.prems(2) kv by (simp add: map_of_eq_None_iff)
    then show ?case using Cons by (auto simp: kv)
  qed simp
  from this[of "[]"] show ?thesis by (auto simp: safeHeaders_def)
qed

subsection \<open>Effects of the stages\<close>

lemma fail_simps [simp]:
  "out_effects (fail_status w rid s e effs) = effs" "out_ending (fail_status w rid s e effs) = Returned"
  "out_effects (fail w rid e effs) = effs" "out_ending (fail w rid e effs) = Returned"
  "out_effects (finished w effs) = effs" "out_ending (finished w effs) = Returned"
  "out_writer (finished w effs) = w"
  "out_writer (fail_status w rid s e effs) = writeErrorStatus w rid s e"
  by (simp_all add: fail_def fail_status_def finished_def)

lemma present_eq_None [simp]: "present v = None \<longleftrightarrow> \<not> nonNilInterface v"
  by (cases v) (auto simp: present_def nonNilInterface_def)

lemma present_None [simp]: "\<not> nonNilInterface v \<Longrightarrow> present v = None"
  by simp

lemma present_eq_Some: "present v = Some x \<Longrightarrow> nonNilInterface v"
  by (auto simp: present_def split: if_splits)

lemma serve_stream_effects:
  "out_effects (serve_stream ext rid w status rounds) =
     (if out_ending (serve_stream ext rid w status rounds) = Returned then [StreamClosed] else [])"
  "out_ending (serve_stream ext rid w status rounds) \<noteq> Panicked"
  by (auto simp: serve_stream_def split: prod.splits)

lemma serve_body_effects [simp]:
  "out_effects (serve_body w status m bytes) = []" "out_ending (serve_body w status m bytes) = Returned"
  by (auto simp: serve_body_def Let_def)

lemma serve_json_effects [simp]:
  "out_effects (serve_json ext h vi rid w status result) = []"
  "out_ending (serve_json ext h vi rid w status result) = Returned"
  by (auto simp: serve_json_def Let_def)

text \<open>How \<open>serve_response\<close> ends and what it closes itself.\<close>

definition status_in_range :: "operation \<Rightarrow> backend_response \<Rightarrow> bool" where
  "status_in_range op result \<longleftrightarrow> 100 \<le> effective_status op result \<and> effective_status op result \<le> 599"

lemma serve_response_effects:
  "out_effects (serve_response ext h vi op rid w result) =
     (if nonNilInterface (Stream result) \<and> status_in_range op result \<and>
         out_ending (serve_response ext h vi op rid w result) = Returned
      then [StreamClosed] else [])"
  by (auto simp: serve_response_def status_in_range_def Let_def serve_stream_effects
      dest: present_eq_Some split: option.split)

lemma serve_response_Waiting:
  "out_ending (serve_response ext h vi op rid w result) = Waiting \<Longrightarrow> nonNilInterface (Stream result)"
  by (auto simp: serve_response_def Let_def dest: present_eq_Some split: option.splits if_splits)

lemma serve_response_not_panicked:
  "out_ending (serve_response ext h vi op rid w result) \<noteq> Panicked"
  by (auto simp: serve_response_def Let_def serve_stream_effects split: option.splits)

lemma serve_backend_effects:
  "\<exists>rest. out_effects (serve_backend ext h vi op rid w handler breq) = BackendCalled breq # rest \<and>
     set rest \<subseteq> {StreamClosed, BodyClosed}"
  by (auto simp: serve_backend_def closeResponse_def serve_response_effects Let_def
      split: sum.splits option.splits)

lemma serve_backend_call:
  "BackendCalled r \<in> set (out_effects (serve_backend ext h vi op rid w handler breq)) \<Longrightarrow> r = breq"
  using serve_backend_effects[of ext h vi op rid w handler breq] by auto

subsection \<open>The guards in front of the backend\<close>

text \<open>The checks of a request in the order the handler makes them, each with the status that answers
  a failure; a check that needs the result of a failed one holds vacuously.\<close>

definition delivered :: "('d, 's) rest_handler \<Rightarrow> http_request \<Rightarrow> string \<Rightarrow> http_request" where
  "delivered h req body = req\<lparr>req_Body := body, req_BodyError := None\<rparr>"

definition body_read :: "('d, 's) rest_handler \<Rightarrow> http_request \<Rightarrow> string option" where
  "body_read h req = read_limited req (MaxBodyBytes (rh_config h) + 1)"

definition routed ::
  "('d, 's) rest_handler \<Rightarrow> http_request \<Rightarrow> (http_request \<times> 'd route \<times> (string, string) gomap) option" where
  "routed h req =
    (case body_read h req of
       None \<Rightarrow> None
     | Some body \<Rightarrow>
         (case rh_FindRoute h (delivered h req body) of
            Inl _ \<Rightarrow> None
          | Inr (route, pathParams) \<Rightarrow> Some (delivered h req body, route, pathParams)))"

definition resolved ::
  "('d, 's) rest_handler \<Rightarrow> http_request \<Rightarrow>
   (http_request \<times> 'd route \<times> (string, string) gomap \<times> operation) option" where
  "resolved h req =
    (case routed h req of
       None \<Rightarrow> None
     | Some (req', route, pathParams) \<Rightarrow>
         map_option (\<lambda>op. (req', route, pathParams, op)) (resolve_operation req' route))"

definition rest_guards :: "'d externals \<Rightarrow> ('d, 's) rest_handler \<Rightarrow> http_request \<Rightarrow> (bool \<times> int) list" where
  "rest_guards ext h req =
    [(\<exists>caller. Authenticate (rh_config h) req (request_id req (ext_random ext)) = Inr caller, 401),
     (body_read h req \<noteq> None, 400),
     (\<forall>body. body_read h req = Some body \<longrightarrow> int (length body) \<le> sint (MaxBodyBytes (rh_config h)), 413),
     (\<forall>body. body_read h req = Some body \<longrightarrow> rh_FindRoute h (delivered h req body) \<noteq> Inl ErrMethodNotAllowed, 405),
     (routed h req \<noteq> None, 404),
     (resolved h req \<noteq> None, 501),
     (Validate (rh_config h) \<longrightarrow>
        (\<forall>req' route ps op. resolved h req = Some (req', route, ps, op) \<longrightarrow>
           ext_ValidateRequest ext (validationInput h req' route ps op) = None), 400),
     (\<forall>req' route ps op. resolved h req = Some (req', route, ps, op) \<longrightarrow>
        snd (HandlerFor (rh_services h) (OpCapability op)), 501)]"

definition first_failing :: "(bool \<times> int) list \<Rightarrow> int option" where
  "first_failing guards = map_option snd (find (\<lambda>(ok, _). \<not> ok) guards)"

lemma first_failing_simps [simp]:
  "first_failing [] = None"
  "first_failing ((ok, s) # gs) = (if ok then first_failing gs else Some s)"
  by (simp_all add: first_failing_def)

abbreviation start_writer :: "'d externals \<Rightarrow> http_request \<Rightarrow> writer" where
  "start_writer ext req \<equiv> set_header ''X-Request-Id'' (request_id req (ext_random ext)) fresh_writer"

definition rejection :: "'d externals \<Rightarrow> http_request \<Rightarrow> int \<Rightarrow> outcome \<Rightarrow> bool" where
  "rejection ext req status out \<longleftrightarrow>
    (\<exists>e. out = fail_status (start_writer ext req) (request_id req (ext_random ext)) status e [])"

lemma rejection_intros [simp]:
  "s = s' \<Longrightarrow> rejection ext req s (fail_status (start_writer ext req) (request_id req (ext_random ext)) s' e [])"
  "s = errorStatus e \<Longrightarrow> rejection ext req s (fail (start_writer ext req) (request_id req (ext_random ext)) e [])"
  by (auto simp: rejection_def fail_def)

lemma errorStatus_new [simp]:
  "errorStatus (new_error ErrorInvalid m) = 400" "errorStatus (new_error ErrorUnauthorized m) = 401"
  by (simp_all add: errorStatus_def error_kind_defs)

lemma rest_ServeHTTP_stages:
  "rest_ServeHTTP ext h req =
    (let rid = request_id req (ext_random ext); w = start_writer ext req in
     case Authenticate (rh_config h) req rid of
       Inl _ \<Rightarrow> fail w rid (new_error ErrorUnauthorized ''Invalid authentication credentials.'') []
     | Inr caller \<Rightarrow>
         (case body_read h req of
            None \<Rightarrow> fail w rid (new_error ErrorInvalid ''Could not read request body.'') []
          | Some body \<Rightarrow>
              if int (length body) > sint (MaxBodyBytes (rh_config h))
              then fail_status w rid 413 (new_error ErrorInvalid ''Request body is too large.'') []
              else serve_route ext h (delivered h req body) rid caller w))"
  unfolding rest_ServeHTTP_def body_read_def delivered_def Let_def by (rule refl)

text \<open>The handler as its guards: it rejects with the status of the first failing one, else it calls
  the backend with the canonical request.\<close>

lemma serve_operation_rejects:
  assumes "Validate (rh_config h) \<Longrightarrow> ext_ValidateRequest ext (validationInput h req' route ps op) = None"
    and "\<not> snd (HandlerFor (rh_services h) (OpCapability op))"
  shows "rejection ext req 501
    (serve_operation ext h req' (request_id req (ext_random ext)) caller (start_writer ext req) route ps op)"
  using assms by (auto simp: serve_operation_def Let_def split: prod.splits)

lemma serve_operation_invalid:
  assumes "Validate (rh_config h)" and "ext_ValidateRequest ext (validationInput h req' route ps op) \<noteq> None"
  shows "rejection ext req 400
    (serve_operation ext h req' (request_id req (ext_random ext)) caller (start_writer ext req) route ps op)"
  using assms by (auto simp: serve_operation_def Let_def)

lemma rest_ServeHTTP_rejects:
  assumes "first_failing (rest_guards ext h req) = Some status"
  shows "rejection ext req status (rest_ServeHTTP ext h req)"
proof (cases "Authenticate (rh_config h) req (request_id req (ext_random ext))")
  case (Inl e)
  then show ?thesis using assms by (simp add: rest_guards_def rest_ServeHTTP_stages Let_def)
next
  case auth: (Inr caller)
  show ?thesis
  proof (cases "body_read h req")
    case None
    then show ?thesis using auth assms by (simp add: rest_guards_def rest_ServeHTTP_stages Let_def)
  next
    case body: (Some body)
    show ?thesis
    proof (cases "int (length body) > sint (MaxBodyBytes (rh_config h))")
      case True
      then show ?thesis using auth body assms by (simp add: rest_guards_def rest_ServeHTTP_stages Let_def)
    next
      case False
      let ?req = "delivered h req body"
      have serve: "rest_ServeHTTP ext h req =
          serve_route ext h ?req (request_id req (ext_random ext)) caller (start_writer ext req)"
        using auth body False by (simp add: rest_ServeHTTP_stages Let_def)
      show ?thesis
      proof (cases "rh_FindRoute h ?req")
        case (Inl e)
        then show ?thesis using assms auth body False serve
          by (cases e) (simp_all add: rest_guards_def serve_route_def routeErrorStatus_def routed_def)
      next
        case (Inr rp)
        obtain route ps where rp: "rp = (route, ps)" by (cases rp)
        have routed: "routed h req = Some (?req, route, ps)"
          by (simp add: routed_def body Inr rp)
        show ?thesis
        proof (cases "resolve_operation ?req route")
          case None
          then show ?thesis using assms auth body False serve Inr rp routed
            by (simp add: rest_guards_def serve_route_def resolved_def)
        next
          case (Some op)
          have serve': "rest_ServeHTTP ext h req = serve_operation ext h ?req
              (request_id req (ext_random ext)) caller (start_writer ext req) route ps op"
            by (simp add: serve serve_route_def Inr rp Some)
          show ?thesis
            using assms auth body False Inr rp routed Some serve_operation_invalid[of h ext ?req route ps op]
              serve_operation_rejects[of h ext ?req route ps op]
            unfolding serve' by (auto simp: rest_guards_def resolved_def split: if_splits)
        qed
      qed
    qed
  qed
qed

lemma rest_ServeHTTP_admits:
  assumes "first_failing (rest_guards ext h req) = None"
  obtains caller body route ps op where
    "Authenticate (rh_config h) req (request_id req (ext_random ext)) = Inr caller"
    "body_read h req = Some body" "int (length body) \<le> sint (MaxBodyBytes (rh_config h))"
    "resolved h req = Some (delivered h req body, route, ps, op)"
    "Validate (rh_config h) \<Longrightarrow>
       ext_ValidateRequest ext (validationInput h (delivered h req body) route ps op) = None"
    "snd (HandlerFor (rh_services h) (OpCapability op))"
    "rest_ServeHTTP ext h req = serve_operation ext h (delivered h req body)
       (request_id req (ext_random ext)) caller (start_writer ext req) route ps op"
proof -
  from assms obtain caller body where
    auth: "Authenticate (rh_config h) req (request_id req (ext_random ext)) = Inr caller"
    and body: "body_read h req = Some body"
    and fits: "int (length body) \<le> sint (MaxBodyBytes (rh_config h))"
    by (auto simp: rest_guards_def split: if_splits)
  from assms have "resolved h req \<noteq> None"
    by (auto simp: rest_guards_def split: if_splits)
  then obtain route ps op where rp: "rh_FindRoute h (delivered h req body) = Inr (route, ps)"
    and op: "resolve_operation (delivered h req body) route = Some op"
    by (auto simp: resolved_def routed_def body split: sum.splits)
  then have res: "resolved h req = Some (delivered h req body, route, ps, op)"
    by (simp add: resolved_def routed_def body)
  show thesis
  proof (rule that[OF auth body fits res])
    show "ext_ValidateRequest ext (validationInput h (delivered h req body) route ps op) = None"
      if "Validate (rh_config h)"
      using assms res that by (auto simp: rest_guards_def split: if_splits)
    show "snd (HandlerFor (rh_services h) (OpCapability op))"
      using assms res by (auto simp: rest_guards_def split: if_splits)
    show "rest_ServeHTTP ext h req = serve_operation ext h (delivered h req body)
       (request_id req (ext_random ext)) caller (start_writer ext req) route ps op"
      using fits by (simp add: rest_ServeHTTP_stages serve_route_def auth body rp op Let_def)
  qed
qed

lemma serve_operation_calls:
  assumes "Validate (rh_config h) \<Longrightarrow> ext_ValidateRequest ext (validationInput h req route ps op) = None"
    and "HandlerFor (rh_services h) (OpCapability op) = (Dynamic k n handler, True)"
  shows "serve_operation ext h req rid caller w route ps op =
    serve_backend ext h (validationInput h req route ps op) op rid w handler
      (backend_request req rid caller ps op)"
  using assms by (auto simp: serve_operation_def Let_def)

lemma serve_operation_nil:
  "HandlerFor (rh_services h) (OpCapability op) = (NilInterface, True) \<Longrightarrow>
     out_effects (serve_operation ext h req rid caller w route ps op) = []"
  by (simp add: serve_operation_def Let_def split: option.split)

lemma rest_ServeHTTP_rejected_effects:
  "first_failing (rest_guards ext h req) = Some status \<Longrightarrow> out_effects (rest_ServeHTTP ext h req) = []"
  using rest_ServeHTTP_rejects[of ext h req status] by (auto simp: rejection_def)

text \<open>A call of the backend determines everything before it.\<close>

lemma rest_backend_call_cases:
  assumes "BackendCalled r \<in> set (out_effects (rest_ServeHTTP ext h req))"
  obtains caller body route ps op k n handler where
    "Authenticate (rh_config h) req (request_id req (ext_random ext)) = Inr caller"
    "body_read h req = Some body" "int (length body) \<le> sint (MaxBodyBytes (rh_config h))"
    "resolved h req = Some (delivered h req body, route, ps, op)"
    "Validate (rh_config h) \<Longrightarrow>
       ext_ValidateRequest ext (validationInput h (delivered h req body) route ps op) = None"
    "HandlerFor (rh_services h) (OpCapability op) = (Dynamic k n handler, True)"
    "r = backend_request (delivered h req body) (request_id req (ext_random ext)) caller ps op"
    "rest_ServeHTTP ext h req =
       serve_backend ext h (validationInput h (delivered h req body) route ps op) op
         (request_id req (ext_random ext)) (start_writer ext req) handler r"
proof -
  have none: "first_failing (rest_guards ext h req) = None"
    using assms rest_ServeHTTP_rejected_effects[of ext h req]
    by (cases "first_failing (rest_guards ext h req)") auto
  then obtain caller body route ps op where
    facts: "Authenticate (rh_config h) req (request_id req (ext_random ext)) = Inr caller"
    "body_read h req = Some body" "int (length body) \<le> sint (MaxBodyBytes (rh_config h))"
    "resolved h req = Some (delivered h req body, route, ps, op)"
    and valid: "Validate (rh_config h) \<Longrightarrow>
       ext_ValidateRequest ext (validationInput h (delivered h req body) route ps op) = None"
    and found: "snd (HandlerFor (rh_services h) (OpCapability op))"
    and serve: "rest_ServeHTTP ext h req = serve_operation ext h (delivered h req body)
       (request_id req (ext_random ext)) caller (start_writer ext req) route ps op"
    by (rule rest_ServeHTTP_admits) blast
  obtain v where v: "HandlerFor (rh_services h) (OpCapability op) = (v, True)"
    using found by (cases "HandlerFor (rh_services h) (OpCapability op)") auto
  have "v \<noteq> NilInterface"
    using assms v unfolding serve by (auto simp: serve_operation_nil)
  then obtain k n handler where d: "v = Dynamic k n handler" by (cases v) auto
  let ?r = "backend_request (delivered h req body) (request_id req (ext_random ext)) caller ps op"
  have eq: "rest_ServeHTTP ext h req =
       serve_backend ext h (validationInput h (delivered h req body) route ps op) op
         (request_id req (ext_random ext)) (start_writer ext req) handler ?r"
    using serve serve_operation_calls[of h ext "delivered h req body" route ps op, OF valid] v d by simp
  moreover have "r = ?r"
    using assms unfolding eq by (rule serve_backend_call)
  ultimately show thesis using that[OF facts valid] v d by blast
qed

lemma resolve_operation_frozen:
  assumes "resolve_operation req route = Some op"
  shows "op \<in> set Operations"
  using assms OperationForRoute_frozen OperationByID_frozen
  by (auto simp: resolve_operation_def split: option.splits)

subsection \<open>A sample handler\<close>

text \<open>A handler with every guard passable: one backend for all capabilities, a router that knows one
  route, a validator that accepts; \<open>sample_backend\<close> is the response the backend gives.\<close>

definition listModels :: operation where
  "listModels = frozen ''GET'' ''/models'' ''listModels'' ''models'' [] [''application/json''] 200"

definition sample_rest :: "int64 \<Rightarrow> (go_error + backend_response) \<Rightarrow> (unit, unit) rest_handler" where
  "sample_rest limit answer =
    \<lparr>rh_services = \<lparr>defaultHandler = Dynamic KFunc False (\<lambda>_. answer), handlers = [], sessions = []\<rparr>,
     rh_FindRoute = (\<lambda>req. if req_Method req = ''GET'' then
         Inr (\<lparr>RoutePath = ''/models'', RouteMethod = ''GET'', RoutePathItem = (),
               RouteOperation = \<lparr>DocOperationID = ''listModels'', HasRequestBody = False\<rparr>\<rparr>, [])
       else Inl ErrMethodNotAllowed),
     rh_validationRoutes = [],
     rh_config = \<lparr>BasePath = ''/v1'', MaxBodyBytes = limit, OriginPatterns = [], Validate = True,
                  Authenticate = (\<lambda>req rid. Inr ''caller-1'')\<rparr>\<rparr>"

definition sample_ext :: "unit externals" where
  "sample_ext = \<lparr>ext_ValidateRequest = (\<lambda>_. None), ext_ValidateResponse = (\<lambda>_ _ _ _. None),
     ext_random = None, ext_flushable = True\<rparr>"

definition sample_request :: "string \<Rightarrow> string \<Rightarrow> http_request" where
  "sample_request method body =
    \<lparr>req_Method = method, req_Path = ''/v1/models'', req_Query = [],
     req_Header = [(''Authorization'', [''Bearer sk-1'']), (''X-Trace'', [''7''])],
     req_Body = body, req_BodyError = None\<rparr>"

lemma resolve_listModels:
  "req_Method req = ''GET'' \<Longrightarrow> RoutePath route = ''/models'' \<Longrightarrow> req_Query req = [] \<Longrightarrow>
     resolve_operation req route = Some listModels"
  using OperationForRoute_spec[of "''/models''" "''GET''" "[]"] find_operation_in[of listModels]
  by (simp add: resolve_operation_def listModels_def frozen_def Values_Get_def Operations_def
      operations_models_def)

lemmas sample_defs = sample_rest_def sample_ext_def sample_request_def

lemma sample_first_failing:
  assumes "0 < sint limit" and "sint limit < 2 ^ 63 - 1"
  shows "first_failing (rest_guards sample_ext (sample_rest limit answer) (sample_request ''GET'' '''')) = None"
    and "first_failing (rest_guards sample_ext (sample_rest limit answer) (sample_request ''PATCH'' '''')) = Some 405"
proof -
  let ?h = "sample_rest limit answer"
  have read: "body_read ?h (sample_request m '''') = Some ''''" for m
    by (simp add: body_read_def read_limited_def sample_defs)
  then have "resolved ?h (sample_request ''GET'' '''') =
      Some (delivered ?h (sample_request ''GET'' '''') '''',
        \<lparr>RoutePath = ''/models'', RouteMethod = ''GET'', RoutePathItem = (),
         RouteOperation = \<lparr>DocOperationID = ''listModels'', HasRequestBody = False\<rparr>\<rparr>, [], listModels)"
    by (simp add: resolved_def routed_def delivered_def sample_defs resolve_listModels)
  then show "first_failing (rest_guards sample_ext ?h (sample_request ''GET'' '''')) = None"
    using read assms
    by (simp add: rest_guards_def routed_def delivered_def sample_defs HandlerFor_def)
  show "first_failing (rest_guards sample_ext ?h (sample_request ''PATCH'' '''')) = Some 405"
    using read assms by (simp add: rest_guards_def delivered_def sample_defs)
qed

subsection \<open>Properties\<close>

text \<open>The response to a request that the guards reject.\<close>

lemma rejection_response:
  assumes "rejection ext req status out" and "200 \<le> status" and "bodyAllowedForStatus status"
  shows "response_status (out_writer out) = status"
    and "Header_Get (response_header (out_writer out)) ''X-Request-Id'' = request_id req (ext_random ext)"
    and "Header_Get (response_header (out_writer out)) ''Content-Type'' = ''application/json''"
    and "out_effects out = []" and "out_ending out = Returned"
proof -
  obtain e where out: "out = fail_status (start_writer ext req) (request_id req (ext_random ext)) status e []"
    using assms(1) by (auto simp: rejection_def)
  have "w_committed (start_writer ext req) = None" by (simp add: fresh_writer_def)
  note response = writeErrorStatus_committed[OF this assms(2,3)]
  show "response_status (out_writer out) = status"
    "Header_Get (response_header (out_writer out)) ''X-Request-Id'' = request_id req (ext_random ext)"
    "Header_Get (response_header (out_writer out)) ''Content-Type'' = ''application/json''"
    "out_effects out = []" "out_ending out = Returned"
    using response by (simp_all add: out)
qed

lemma first_failing_statuses:
  "first_failing (rest_guards ext h req) = Some status \<Longrightarrow> status \<in> {400, 401, 404, 405, 413, 501}"
  by (auto simp: rest_guards_def split: if_splits)

text \<open>C3: the guards in front of the backend are checked in a fixed order and each failure has its
  own status: authentication 401, an unreadable body 400, a body over the limit 413, an
  unsupported method 405, an unknown route 404, an operation outside the profile 501, a request the
  schema validator refuses 400, and a capability without a handler 501.  The response to the first
  failing guard has that status and echoes the request id, and the backend is not touched.\<close>

theorem rest_first_failing_guard:
  assumes "first_failing (rest_guards ext h req) = Some status"
  shows "response_status (out_writer (rest_ServeHTTP ext h req)) = status \<and>
    Header_Get (response_header (out_writer (rest_ServeHTTP ext h req))) ''X-Request-Id'' =
      request_id req (ext_random ext) \<and>
    Header_Get (response_header (out_writer (rest_ServeHTTP ext h req))) ''Content-Type'' =
      ''application/json'' \<and>
    out_effects (rest_ServeHTTP ext h req) = [] \<and> out_ending (rest_ServeHTTP ext h req) = Returned"
proof -
  have "200 \<le> status" "bodyAllowedForStatus status"
    using first_failing_statuses[OF assms] by (auto simp: bodyAllowedForStatus_def)
  from rejection_response[OF rest_ServeHTTP_rejects[OF assms] this] show ?thesis by blast
qed

theorem rest_first_failing_guard_witness:
  "response_status (out_writer (rest_ServeHTTP sample_ext (sample_rest 100 (Inl ContextCanceled))
     (sample_request ''PATCH'' ''''))) = 405"
  using rest_first_failing_guard[OF sample_first_failing(2), of 100 "Inl ContextCanceled"] by simp

lemma rest_admitted_effects:
  assumes "first_failing (rest_guards ext h req) = None"
    and "NewServices (registrations_of rs) = Inr (rh_services h)"
  shows "\<exists>caller req' route ps op rest.
    Authenticate (rh_config h) req (request_id req (ext_random ext)) = Inr caller \<and>
    resolved h req = Some (req', route, ps, op) \<and>
    out_effects (rest_ServeHTTP ext h req) =
      BackendCalled (backend_request req' (request_id req (ext_random ext)) caller ps op) # rest \<and>
    set rest \<subseteq> {StreamClosed, BodyClosed}"
proof -
  obtain caller body route ps op where
    auth: "Authenticate (rh_config h) req (request_id req (ext_random ext)) = Inr caller"
    and res: "resolved h req = Some (delivered h req body, route, ps, op)"
    and valid: "Validate (rh_config h) \<Longrightarrow>
       ext_ValidateRequest ext (validationInput h (delivered h req body) route ps op) = None"
    and found: "snd (HandlerFor (rh_services h) (OpCapability op))"
    and serve: "rest_ServeHTTP ext h req = serve_operation ext h (delivered h req body)
       (request_id req (ext_random ext)) caller (start_writer ext req) route ps op"
    using rest_ServeHTTP_admits[OF assms(1)] by metis
  have "\<not> isNilInterface (fst (HandlerFor (rh_services h) (OpCapability op)))"
    using NewServices_callable[OF assms(2)] found by blast
  then obtain k n handler where "HandlerFor (rh_services h) (OpCapability op) = (Dynamic k n handler, True)"
    using found by (cases "HandlerFor (rh_services h) (OpCapability op)"; cases "fst (HandlerFor (rh_services h) (OpCapability op))") auto
  from serve_operation_calls[OF valid this] serve
  have "rest_ServeHTTP ext h req =
      serve_backend ext h (validationInput h (delivered h req body) route ps op) op
        (request_id req (ext_random ext)) (start_writer ext req) handler
        (backend_request (delivered h req body) (request_id req (ext_random ext)) caller ps op)"
    by simp
  with auth res serve_backend_effects show ?thesis by metis
qed

lemma sample_rest_services:
  "NewServices (registrations_of [RegDefault (Dynamic KFunc False (\<lambda>_. answer))]) =
     Inr (rh_services (sample_rest limit answer))"
  by (simp add: NewServices_def services_option_defs sample_rest_def)

lemma sample_calls:
  assumes "0 < sint limit" and "sint limit < 2 ^ 63 - 1"
  shows "\<exists>r. BackendCalled r \<in>
    set (out_effects (rest_ServeHTTP sample_ext (sample_rest limit answer) (sample_request ''GET'' '''')))"
  using rest_admitted_effects[OF sample_first_failing(1)[OF assms] sample_rest_services]
  by (metis list.set_intros(1))

text \<open>C1: a request that passes every guard reaches the backend exactly once.  With a registry built
  by \<open>NewServices\<close>, the effects of the call are one call of the backend, made with the canonical
  form of the request, followed only by closing what the backend returned.\<close>

theorem rest_calls_backend_once:
  assumes "first_failing (rest_guards ext h req) = None"
    and "NewServices (registrations_of rs) = Inr (rh_services h)"
  shows "\<exists>caller req' route ps op rest.
    Authenticate (rh_config h) req (request_id req (ext_random ext)) = Inr caller \<and>
    resolved h req = Some (req', route, ps, op) \<and>
    out_effects (rest_ServeHTTP ext h req) =
      BackendCalled (backend_request req' (request_id req (ext_random ext)) caller ps op) # rest \<and>
    set rest \<subseteq> {StreamClosed, BodyClosed}"
  by (rule rest_admitted_effects[OF assms])

theorem rest_calls_backend_once_witness:
  "\<exists>r rest. out_effects (rest_ServeHTTP sample_ext (sample_rest 100 (Inl ContextCanceled))
     (sample_request ''GET'' '''')) = BackendCalled r # rest \<and> CallerID (Metadata r) = ''caller-1''"
  using rest_calls_backend_once[OF sample_first_failing(1) sample_rest_services, of 100 "Inl ContextCanceled"]
  by (auto simp: sample_rest_def backend_request_def)

lemma delivered_simps [simp]:
  "req_Body (delivered h req body) = body" "req_Header (delivered h req body) = req_Header req"
  "req_Method (delivered h req body) = req_Method req" "req_Query (delivered h req body) = req_Query req"
  by (simp_all add: delivered_def)

lemma Bytes_input_of [simp]: "Bytes (input_of body ct) = body"
  by (simp add: input_of_def Let_def)

lemma resolved_frozen: "resolved h req = Some (req', route, ps, op) \<Longrightarrow> op \<in> set Operations"
  by (auto simp: resolved_def resolve_operation_frozen split: option.splits)

lemma safeHeaders_list_all: "list_all (\<lambda>(k, vs). \<not> credential_header k) (safeHeaders headers)"
  using safeHeaders_redacts by (fastforce simp: list_all_iff)

text \<open>C2: what the backend is told can be trusted.  Whenever the backend is called, the caller id it
  sees is the one authentication returned for this request, the operation is a frozen entry of the
  profile, the body is within the configured limit, no header it sees is a credential header
  (Authorization, Cookie or Sec-WebSocket-Protocol in any case), and with validation on
  the validator accepted a request with the very bytes the backend receives.\<close>

theorem rest_backend_request_trusted:
  assumes "BackendCalled r \<in> set (out_effects (rest_ServeHTTP ext h req))"
  shows "Authenticate (rh_config h) req (RequestID (Metadata r)) = Inr (CallerID (Metadata r)) \<and>
    RequestID (Metadata r) = request_id req (ext_random ext) \<and>
    (\<exists>op\<in>set Operations. Capability r = OpCapability op \<and> Operation r = OperationID op) \<and>
    int (length (Bytes (Input r))) \<le> sint (MaxBodyBytes (rh_config h)) \<and>
    list_all (\<lambda>(k, vs). \<not> credential_header k) (Extensions (Metadata r)) \<and>
    (Validate (rh_config h) \<longrightarrow>
      (\<exists>vi. ext_ValidateRequest ext vi = None \<and> req_Body (vi_Request vi) = Bytes (Input r)))"
  using assms
proof (cases rule: rest_backend_call_cases)
  case (1 caller body route ps op k n handler)
  have "req_Body (vi_Request (validationInput h (delivered h req body) route ps op)) = body"
    by (simp add: validationInput_def Let_def)
  then show ?thesis using 1 resolved_frozen[OF 1(4)] safeHeaders_list_all
    by (auto simp: backend_request_def)
qed

theorem rest_backend_request_trusted_witness:
  "\<exists>r. BackendCalled r \<in> set (out_effects (rest_ServeHTTP sample_ext
     (sample_rest 100 (Inl ContextCanceled)) (sample_request ''GET'' ''''))) \<and>
     CallerID (Metadata r) = ''caller-1'' \<and> RequestID (Metadata r) = ''req_unknown''"
proof -
  let ?out = "rest_ServeHTTP sample_ext (sample_rest 100 (Inl ContextCanceled)) (sample_request ''GET'' '''')"
  obtain r where r: "BackendCalled r \<in> set (out_effects ?out)"
    using sample_calls[of 100 "Inl ContextCanceled"] by fastforce
  have "request_id (sample_request ''GET'' '''') (ext_random sample_ext) = ''req_unknown''"
    by (simp add: request_id_def sample_defs newRequestID_def Header_Get_def Header_Values_def)
  then show ?thesis using r rest_backend_request_trusted[OF r] by (auto simp: sample_rest_def)
qed

text \<open>What the limited read of the body returns.\<close>

lemma sint_succ_no_overflow:
  fixes w :: int64
  assumes "sint w < 2 ^ 63 - 1"
  shows "sint (w + 1) = sint w + 1"
proof -
  have "- (2 ^ 63) \<le> sint w" using sint_ge[of w] by simp
  then have "signed_take_bit 63 (sint w + 1) = sint w + 1"
    using assms by (intro signed_take_bit_int_eq_self) auto
  then show ?thesis by (simp add: sint_word_add)
qed

lemma body_read_within:
  assumes "0 \<le> sint (MaxBodyBytes (rh_config h))" and "sint (MaxBodyBytes (rh_config h)) < 2 ^ 63 - 1"
    and "body_read h req = Some body" and "int (length body) \<le> sint (MaxBodyBytes (rh_config h))"
  shows "body = req_Body req"
proof -
  let ?limit = "MaxBodyBytes (rh_config h)"
  have succ: "sint (?limit + 1) = sint ?limit + 1"
    using assms(1,2) by (intro sint_succ_no_overflow) auto
  then have "body = take (nat (sint ?limit + 1)) (req_Body req)"
    using assms(1,3) by (auto simp: body_read_def read_limited_def split: option.splits if_splits)
  then show ?thesis using assms(1,4) by auto
qed

lemma body_read_overflow:
  assumes "sint (MaxBodyBytes (rh_config h)) = 2 ^ 63 - 1"
  shows "body_read h req = Some []"
proof -
  have "sint (MaxBodyBytes (rh_config h) + 1) = - (2 ^ 63)"
    using assms by (simp add: sint_word_add)
  then show ?thesis by (simp add: body_read_def read_limited_def)
qed

text \<open>The backend receives the body the client sent.  With a limit from 0 up to one below the
  largest \<open>int64\<close>, a backend call carries the request body unmodified, and its JSON form is either
  that body or absent.\<close>

theorem rest_body_unmodified:
  assumes "BackendCalled r \<in> set (out_effects (rest_ServeHTTP ext h req))"
    and "0 \<le> sint (MaxBodyBytes (rh_config h))" and "sint (MaxBodyBytes (rh_config h)) < 2 ^ 63 - 1"
  shows "Bytes (Input r) = req_Body req \<and> (JSON (Input r) = req_Body req \<or> JSON (Input r) = [])"
  using assms(1)
proof (cases rule: rest_backend_call_cases)
  case (1 caller body route ps op k n handler)
  have "body = req_Body req" by (rule body_read_within[OF assms(2,3) 1(2,3)])
  then show ?thesis using 1(7) by (auto simp: backend_request_def input_of_def Let_def)
qed

theorem rest_body_unmodified_witness:
  "\<exists>r. BackendCalled r \<in> set (out_effects (rest_ServeHTTP sample_ext
     (sample_rest 100 (Inl ContextCanceled)) (sample_request ''GET'' ''''))) \<and> Bytes (Input r) = ''''"
proof -
  obtain r where r: "BackendCalled r \<in> set (out_effects
      (rest_ServeHTTP sample_ext (sample_rest 100 (Inl ContextCanceled)) (sample_request ''GET'' '''')))"
    using sample_calls[of 100 "Inl ContextCanceled"] by fastforce
  then show ?thesis using rest_body_unmodified[OF r] by (auto simp: sample_defs)
qed

text \<open>C40: the largest body limit loses every body.  With the largest limit \<open>WithMaxBodyBytes\<close> accepts, 2^63 - 1, the
  addition of one in front of the limited reader wraps around to a negative limit: the handler
  reads nothing and every backend call carries an empty body, whatever the client sent.\<close>

theorem rest_body_lost_at_max:
  assumes "BackendCalled r \<in> set (out_effects (rest_ServeHTTP ext h req))"
    and "sint (MaxBodyBytes (rh_config h)) = 2 ^ 63 - 1"
  shows "Bytes (Input r) = []"
  using assms(1)
proof (cases rule: rest_backend_call_cases)
  case (1 caller body route ps op k n handler)
  then show ?thesis using body_read_overflow[OF assms(2)] by (simp add: backend_request_def)
qed

lemma sample_call_at_max:
  "\<exists>r. BackendCalled r \<in> set (out_effects (rest_ServeHTTP sample_ext
     (sample_rest 0x7FFFFFFFFFFFFFFF answer) (sample_request ''GET'' ''hello'')))"
proof -
  let ?h = "sample_rest 0x7FFFFFFFFFFFFFFF answer"
  let ?req = "sample_request ''GET'' ''hello''"
  have max: "sint (MaxBodyBytes (rh_config ?h)) = 2 ^ 63 - 1" by (simp add: sample_rest_def)
  note read = body_read_overflow[OF max, of ?req]
  have "resolved ?h ?req = Some (delivered ?h ?req '''',
        \<lparr>RoutePath = ''/models'', RouteMethod = ''GET'', RoutePathItem = (),
         RouteOperation = \<lparr>DocOperationID = ''listModels'', HasRequestBody = False\<rparr>\<rparr>, [], listModels)"
    using read by (simp add: resolved_def routed_def delivered_def sample_defs resolve_listModels)
  then have "first_failing (rest_guards sample_ext ?h ?req) = None"
    using read by (simp add: rest_guards_def routed_def delivered_def sample_defs HandlerFor_def)
  from rest_admitted_effects[OF this sample_rest_services] show ?thesis
    by (metis list.set_intros(1))
qed

theorem rest_body_lost_at_max_witness:
  "\<exists>r. BackendCalled r \<in> set (out_effects (rest_ServeHTTP sample_ext
     (sample_rest 0x7FFFFFFFFFFFFFFF (Inl ContextCanceled)) (sample_request ''GET'' ''hello''))) \<and>
     Bytes (Input r) = []"
proof -
  obtain r where r: "BackendCalled r \<in> set (out_effects (rest_ServeHTTP sample_ext
     (sample_rest 0x7FFFFFFFFFFFFFFF (Inl ContextCanceled)) (sample_request ''GET'' ''hello'')))"
    using sample_call_at_max[of "Inl ContextCanceled"] by fastforce
  then show ?thesis using rest_body_lost_at_max[OF r] by (auto simp: sample_rest_def)
qed

subsection \<open>Closing what the backend returned\<close>

definition closes :: "effect \<Rightarrow> outcome \<Rightarrow> nat" where
  "closes e out = count_list (out_effects out) e"

definition stream_closed_by :: "operation \<Rightarrow> backend_response \<Rightarrow> bool" where
  "stream_closed_by op result \<longleftrightarrow>
    nonNilInterface (Stream result) \<and> (responseModeCount result > 1 \<or> status_in_range op result)"

lemma serve_backend_closes:
  assumes "handler breq = Inr result"
    and "out_ending (serve_backend ext h vi op rid w handler breq) \<noteq> Waiting"
  shows "closes BodyClosed (serve_backend ext h vi op rid w handler breq) =
      (if nonNilInterface (Body result) then 1 else 0)"
    and "closes StreamClosed (serve_backend ext h vi op rid w handler breq) =
      (if stream_closed_by op result then 1 else 0)"
  using assms serve_response_effects[of ext h vi op rid w result]
    serve_response_not_panicked[of ext h vi op rid w result]
  by (auto simp: serve_backend_def closes_def closeResponse_def stream_closed_by_def Let_def
      split: if_splits) (metis ending.exhaust)+

text \<open>C8: resources are closed exactly once.  When a call returns, a response body the backend
  returned has been closed exactly once and an absent one never; a stream has been closed exactly
  once unless it came alone with a status outside 100 to 599, and never twice.\<close>

theorem rest_closes_once:
  assumes "handler breq = Inr result"
    and "out_ending (serve_backend ext h vi op rid w handler breq) \<noteq> Waiting"
  shows "closes BodyClosed (serve_backend ext h vi op rid w handler breq) =
      (if nonNilInterface (Body result) then 1 else 0) \<and>
    closes StreamClosed (serve_backend ext h vi op rid w handler breq) =
      (if nonNilInterface (Stream result) \<and>
          (responseModeCount result > 1 \<or>
           100 \<le> effective_status op result \<and> effective_status op result \<le> 599) then 1 else 0)"
  using serve_backend_closes[OF assms] by (simp add: stream_closed_by_def status_in_range_def)

definition stream_response :: "int \<Rightarrow> backend_response" where
  "stream_response status =
    \<lparr>StatusCode = status, ResponseMetadata = [], ResponseMediaType = '''', ResponseJSON = '''',
     Body = NilInterface, Stream = Dynamic KPointer False [EventsClosed]\<rparr>"

definition sample_vi :: "unit validation_input" where
  "sample_vi = validationInput (sample_rest 100 (Inl ContextCanceled)) (sample_request ''GET'' '''')
     \<lparr>RoutePath = ''/models'', RouteMethod = ''GET'', RoutePathItem = (),
      RouteOperation = \<lparr>DocOperationID = ''listModels'', HasRequestBody = False\<rparr>\<rparr> [] listModels"

definition sample_breq :: request where
  "sample_breq = backend_request (sample_request ''GET'' '''') ''r'' ''caller-1'' [] listModels"

abbreviation sample_serve :: "backend_response \<Rightarrow> outcome" where
  "sample_serve result \<equiv> serve_backend sample_ext (sample_rest 100 (Inl ContextCanceled)) sample_vi
     listModels ''r'' fresh_writer (\<lambda>_. Inr result) sample_breq"

lemma sample_serve_stream:
  "out_ending (sample_serve (stream_response 200)) = Returned"
  by (simp add: serve_backend_def serve_response_def serve_stream_def writeSSE_def sample_ext_def
      stream_response_def responseModeCount_def present_def nonNilInterface_def effective_status_def Let_def)

theorem rest_closes_once_witness:
  "closes StreamClosed (sample_serve (stream_response 200)) = 1"
  using rest_closes_once[of "\<lambda>_. Inr (stream_response 200)" sample_breq "stream_response 200" sample_ext
      "sample_rest 100 (Inl ContextCanceled)" sample_vi listModels "''r''" fresh_writer] sample_serve_stream
  by (simp add: stream_response_def nonNilInterface_def effective_status_def)

text \<open>One response leaks its stream.  A backend that returns a stream with a status outside 100 to 599
  gets an internal error sent to the client, and its stream is never closed.\<close>

theorem rest_stream_leaked:
  assumes "handler breq = Inr result" and "nonNilInterface (Stream result)"
    and "responseModeCount result = 1" and "\<not> (100 \<le> effective_status op result \<and> effective_status op result \<le> 599)"
  shows "out_ending (serve_backend ext h vi op rid w handler breq) = Returned \<and>
    closes StreamClosed (serve_backend ext h vi op rid w handler breq) = 0"
proof -
  have "serve_response ext h vi op rid w result =
      fail_status w rid 500 (new_error ErrorInternal ''Backend returned an invalid HTTP status.'') []"
    using assms(4) by (auto simp: serve_response_def Let_def)
  then have ending: "out_ending (serve_backend ext h vi op rid w handler breq) = Returned"
    using assms(1,3) by (simp add: serve_backend_def Let_def)
  then show ?thesis
    using serve_backend_closes(2)[where handler = handler and breq = breq and op = op and ext = ext
        and h = h and vi = vi and rid = rid and w = w, OF assms(1)] assms(3,4)
    by (auto simp: stream_closed_by_def status_in_range_def)
qed

theorem rest_stream_leaked_witness:
  "closes StreamClosed (sample_serve (stream_response 600)) = 0"
  using rest_stream_leaked[of "\<lambda>_. Inr (stream_response 600)" sample_breq "stream_response 600" listModels
      sample_ext "sample_rest 100 (Inl ContextCanceled)" sample_vi "''r''" fresh_writer]
  by (simp add: stream_response_def nonNilInterface_def effective_status_def responseModeCount_def)

end
