(* ===== verification/Rest_Responses.thy ===== *)
theory Rest_Responses
  imports Rest_Properties
begin

section \<open>What the client of the REST handler receives\<close>

text \<open>
  Response headers and bodies: which headers of a backend response are copied, that every response
  carries the request id, and that a successful response is the backend's.
\<close>

subsection \<open>Copied headers\<close>

definition unsafe_header :: "string \<Rightarrow> bool" where
  "unsafe_header key \<longleftrightarrow> hopByHop key \<or> EqualFold key ''Authorization'' \<or> EqualFold key ''Set-Cookie''"

definition values_for :: "header \<Rightarrow> string \<Rightarrow> string list" where
  "values_for source k =
    concat (map snd (filter (\<lambda>(key, _). CanonicalHeaderKey key = CanonicalHeaderKey k) source))"

lemma unsafe_header_canonical:
  "CanonicalHeaderKey k = CanonicalHeaderKey j \<Longrightarrow> unsafe_header k = unsafe_header j"
  unfolding unsafe_header_def hopByHop_def
  by (metis EqualFold_CanonicalHeaderKey)

lemma Header_Values_Add:
  "Header_Values (Header_Add h k v) j =
     (if CanonicalHeaderKey k = CanonicalHeaderKey j then Header_Values h j @ [v] else Header_Values h j)"
  by (auto simp: Header_Values_def Header_Add_def)

lemma Header_Values_add_all:
  "Header_Values (fold (\<lambda>value target. Header_Add target k value) vs h) j =
     (if CanonicalHeaderKey k = CanonicalHeaderKey j then Header_Values h j @ vs else Header_Values h j)"
  by (induction vs arbitrary: h) (auto simp: Header_Values_Add)

lemma copySafeHeaders_values:
  "Header_Values (copySafeHeaders target source) k =
     Header_Values target k @ (if unsafe_header k then [] else values_for source k)"
proof (induction source arbitrary: target)
  case (Cons kv source)
  obtain key vals where kv: "kv = (key, vals)" by (cases kv)
  have step: "copySafeHeaders target (kv # source) = copySafeHeaders
      (if unsafe_header key then target else fold (\<lambda>value target. Header_Add target key value) vals target) source"
    by (simp add: copySafeHeaders_def unsafe_header_def kv)
  show ?case
    unfolding step Cons.IH using unsafe_header_canonical[of key k]
    by (auto simp: kv Header_Values_add_all values_for_def)
qed (simp add: copySafeHeaders_def values_for_def)

text \<open>Response header filtering is exact.  After copying a backend's metadata, every header has
  the values it had before, followed, in order, by the backend's values for it under any spelling
  of the name; for hop-by-hop headers, Authorization and Set-Cookie nothing is added.\<close>

theorem copySafeHeaders_exact:
  "Header_Values (copySafeHeaders target source) k =
     Header_Values target k @
     (if hopByHop k \<or> EqualFold k ''Authorization'' \<or> EqualFold k ''Set-Cookie'' then []
      else concat (map snd (filter (\<lambda>(key, _). CanonicalHeaderKey key = CanonicalHeaderKey k) source)))"
  using copySafeHeaders_values by (simp add: unsafe_header_def values_for_def)

subsection \<open>The request id\<close>

definition carries :: "string \<Rightarrow> writer \<Rightarrow> bool" where
  "carries rid w \<longleftrightarrow>
    rid \<noteq> [] \<and> Header_Get (w_header w) ''X-Request-Id'' = rid \<and>
    (case w_committed w of None \<Rightarrow> True | Some (_, h) \<Rightarrow> Header_Get h ''X-Request-Id'' = rid)"

lemma carries_response: "carries rid w \<Longrightarrow> Header_Get (response_header w) ''X-Request-Id'' = rid"
  by (auto simp: carries_def response_header_def split: option.splits)

lemma carries_set_header:
  "carries rid w \<Longrightarrow> CanonicalHeaderKey k \<noteq> ''X-Request-Id'' \<Longrightarrow> carries rid (set_header k v w)"
  by (simp add: carries_def set_header_def Header_Get_Set_other)

lemma carries_set_id: "carries rid w \<Longrightarrow> carries rid (set_header ''X-Request-Id'' rid w)"
  by (simp add: carries_def set_header_def)

lemma carries_WriteHeader: "carries rid w \<Longrightarrow> carries rid (WriteHeader w status)"
  by (auto simp: carries_def WriteHeader_def)

lemma carries_Write: "carries rid w \<Longrightarrow> carries rid (Write w data)"
  by (auto simp: carries_def Write_def Let_def split: option.splits)

lemma carries_copy:
  assumes "carries rid w"
  shows "carries rid (w\<lparr>w_header := copySafeHeaders (w_header w) source\<rparr>)"
proof -
  have "Header_Values (w_header w) ''X-Request-Id'' \<noteq> []"
    using assms by (auto simp: carries_def Header_Get_def)
  then have "Header_Get (copySafeHeaders (w_header w) source) ''X-Request-Id'' =
      Header_Get (w_header w) ''X-Request-Id''"
    by (auto simp: Header_Get_def copySafeHeaders_values split: list.splits)
  then show ?thesis using assms by (simp add: carries_def)
qed

lemma canonical_stream_names [simp]:
  "CanonicalHeaderKey ''Cache-Control'' = ''Cache-Control''"
  "CanonicalHeaderKey ''Connection'' = ''Connection''"
  by code_simp+

lemmas carries_intros = carries_set_header carries_set_id carries_WriteHeader carries_Write carries_copy

lemma carries_writeErrorStatus:
  "carries rid w \<Longrightarrow> carries rid (writeErrorStatus w rid status e)"
  unfolding writeErrorStatus_def error_headers_def by (auto intro!: carries_intros)

lemma carries_writeBackendError:
  "carries rid w \<Longrightarrow> writeBackendError w rid err = Some w' \<Longrightarrow> carries rid w'"
  by (auto simp: writeBackendError_def writeError_def carries_writeErrorStatus split: option.splits)

lemma carries_sse_loop: "carries rid w \<Longrightarrow> carries rid (fst (sse_loop w rounds))"
  by (induction w rounds rule: sse_loop.induct) (auto intro: carries_Write)

lemma carries_serve_stream:
  "carries rid w \<Longrightarrow> carries rid (out_writer (serve_stream ext rid w status rounds))"
proof -
  assume w: "carries rid w"
  then have "carries rid (WriteHeader (sse_headers w) status)"
    by (simp add: sse_headers_def carries_intros)
  from carries_sse_loop[OF this, of rounds] w show ?thesis
    by (auto simp: serve_stream_def writeSSE_def carries_writeErrorStatus split: prod.splits)
qed

lemma carries_serve_body: "carries rid w \<Longrightarrow> carries rid (out_writer (serve_body w status m bytes))"
  by (simp add: serve_body_def Let_def carries_intros)

lemma carries_serve_json:
  "carries rid w \<Longrightarrow> carries rid (out_writer (serve_json ext h vi rid w status result))"
  by (simp add: serve_json_def Let_def carries_intros carries_writeErrorStatus)

lemma carries_serve_response:
  "carries rid w \<Longrightarrow> carries rid (out_writer (serve_response ext h vi op rid w result))"
  by (simp add: serve_response_def Let_def carries_copy carries_writeErrorStatus carries_serve_stream
      carries_serve_body carries_serve_json split: option.split)

lemma carries_serve_backend:
  "carries rid w \<Longrightarrow> carries rid (out_writer (serve_backend ext h vi op rid w handler breq))"
  by (auto simp: serve_backend_def Let_def carries_writeErrorStatus carries_serve_response
      split: sum.split option.split dest: carries_writeBackendError)

lemma carries_serve_operation:
  "carries rid w \<Longrightarrow> carries rid (out_writer (serve_operation ext h req rid caller w route ps op))"
  by (auto simp: serve_operation_def fail_def Let_def carries_writeErrorStatus carries_serve_backend
      split: option.split prod.split iface.split)

lemma request_id_not_empty: "request_id req random \<noteq> []"
  by (auto simp: request_id_def newRequestID_def split: option.splits)

lemma carries_start: "carries (request_id req random) (set_header ''X-Request-Id'' (request_id req random) fresh_writer)"
  by (simp add: carries_def set_header_def fresh_writer_def request_id_not_empty)

text \<open>C28: every response carries the request id.  However a request ends (answered, rejected,
  still streaming or panicked), the response header holds the id the client sent, or the generated
  one, as the first value of \<open>X-Request-Id\<close>, even when the backend's metadata sets that header.\<close>

theorem rest_response_carries_request_id:
  "Header_Get (response_header (out_writer (rest_ServeHTTP ext h req))) ''X-Request-Id'' =
     request_id req (ext_random ext) \<and> request_id req (ext_random ext) \<noteq> []"
proof -
  have "carries (request_id req (ext_random ext)) (out_writer (rest_ServeHTTP ext h req))"
    using carries_start[of req "ext_random ext"]
    by (auto simp: rest_ServeHTTP_stages serve_route_def fail_def Let_def carries_writeErrorStatus
        carries_serve_operation split: sum.split option.split prod.split)
  then show ?thesis by (simp add: carries_response request_id_not_empty)
qed

subsection \<open>Delivery of a successful response\<close>

definition json_media :: "backend_response \<Rightarrow> string" where
  "json_media result = (if ResponseMediaType result = [] then ''application/json'' else ResponseMediaType result)"

text \<open>The response body a client reads and its media type, by the mode of the backend's response.\<close>

definition expected_body :: "backend_response \<Rightarrow> string" where
  "expected_body result =
    (case present (Body result) of Some bytes \<Rightarrow> bytes | None \<Rightarrow> ResponseJSON result)"

definition response_accepted ::
  "'d externals \<Rightarrow> ('d, 's) rest_handler \<Rightarrow> 'd validation_input \<Rightarrow> backend_response \<Rightarrow> bool" where
  "response_accepted ext h vi result \<longleftrightarrow>
    nonNilInterface (Body result) \<or> \<not> Validate (rh_config h) \<or>
    (\<forall>status hd. ext_ValidateResponse ext vi status hd (ResponseJSON result) = None)"

lemma serve_json_accepted:
  assumes "response_accepted ext h vi result" and "\<not> nonNilInterface (Body result)"
  shows "serve_json ext h vi rid w status result =
    (let w' = WriteHeader (set_header ''Content-Type'' (json_media result) w) status
     in finished (if ResponseJSON result \<noteq> [] then Write w' (ResponseJSON result) else w') [])"
  using assms
  by (cases "Validate (rh_config h)")
    (simp_all add: response_accepted_def serve_json_def json_media_def Let_def del: Contains.simps)

lemma serve_response_delivers:
  assumes "\<not> nonNilInterface (Stream result)" and "200 \<le> effective_status op result"
    and "effective_status op result \<le> 599" and "bodyAllowedForStatus (effective_status op result)"
    and "response_accepted ext h vi result" and "w_committed w = None" and "w_body w = []"
  shows "response_status (out_writer (serve_response ext h vi op rid w result)) = effective_status op result"
    and "w_body (out_writer (serve_response ext h vi op rid w result)) = expected_body result"
  using assms
  by (simp_all add: serve_response_def serve_body_def serve_json_accepted expected_body_def
      Let_def response_status_def WriteHeader_def Write_def split: option.split)


definition json_response :: "int \<Rightarrow> string \<Rightarrow> backend_response" where
  "json_response status payload =
    \<lparr>StatusCode = status, ResponseMetadata = [], ResponseMediaType = '''', ResponseJSON = payload,
     Body = NilInterface, Stream = NilInterface\<rparr>"


text \<open>Statuses from 100 to 199 pass the handler's range check and are not delivered.  For any of
  them except 101, a JSON response goes out with status 200 after an informational response with
  the backend's status.\<close>

theorem rest_informational_status_becomes_200:
  assumes "handler breq = Inr result" and "responseModeCount result = 1" and "ResponseJSON result \<noteq> []"
    and "response_accepted ext h vi result" and "w_committed w = None" and "w_informational w = []"
    and "100 \<le> StatusCode result" and "StatusCode result \<le> 199" and "StatusCode result \<noteq> 101"
  shows "response_status (out_writer (serve_backend ext h vi op rid w handler breq)) = 200 \<and>
    w_informational (out_writer (serve_backend ext h vi op rid w handler breq)) = [StatusCode result]"
proof -
  have modes: "\<not> nonNilInterface (Stream result)" "\<not> nonNilInterface (Body result)"
    using assms(2,3) by (auto simp: responseModeCount_def split: if_splits)
  let ?w = "set_header ''Content-Type'' (json_media result)
      (w\<lparr>w_header := copySafeHeaders (w_header w) (ResponseMetadata result)\<rparr>)"
  have "serve_response ext h vi op rid w result =
      finished (Write (WriteHeader ?w (StatusCode result)) (ResponseJSON result)) []"
    using assms(3,4,7-9) modes
    by (simp add: serve_response_def effective_status_def serve_json_accepted Let_def)
  then have "out_writer (serve_backend ext h vi op rid w handler breq) =
      Write (WriteHeader ?w (StatusCode result)) (ResponseJSON result)"
    using assms(1,2) by (simp add: serve_backend_def Let_def)
  moreover have "WriteHeader ?w (StatusCode result) = ?w\<lparr>w_informational := [StatusCode result]\<rparr>"
    using assms(5-9) by (simp add: WriteHeader_def set_header_def)
  ultimately show ?thesis
    using assms(5) by (simp add: response_status_def Write_def set_header_def Let_def)
qed

theorem rest_informational_status_becomes_200_witness:
  "response_status (out_writer (sample_serve (json_response 150 ''{}''))) = 200 \<and>
   w_informational (out_writer (sample_serve (json_response 150 ''{}''))) = [150]"
  using rest_informational_status_becomes_200[of "\<lambda>_. Inr (json_response 150 ''{}'')" sample_breq
      "json_response 150 ''{}''" sample_ext "sample_rest 100 (Inl ContextCanceled)" sample_vi fresh_writer
      listModels "''r''"]
  by (simp add: json_response_def responseModeCount_def nonNilInterface_def response_accepted_def
      sample_ext_def fresh_writer_def)

text \<open>Serving a backend's answer panics exactly for typed nil errors.  The call of the backend
  and everything after it ends in a panic if and only if the backend returned an error whose chain
  resolves to a nil \<open>*backend.Error\<close>.\<close>

theorem rest_panics_iff_typed_nil:
  "out_ending (serve_backend ext h vi op rid w handler breq) = Panicked \<longleftrightarrow>
     (\<exists>err. handler breq = Inl err \<and> errors_As_backend err = Some None)"
  using serve_response_not_panicked[of ext h vi op rid w]
  by (auto simp: serve_backend_def writeBackendError_def writeError_def Let_def
      split: sum.splits option.splits)

end
