(* ===== verification/Ws_Properties.thy ===== *)
theory Ws_Properties
  imports Ws_Session Rest_Responses
begin

section \<open>What the WebSocket handler guarantees\<close>

text \<open>
  The guards in front of a session, what passes between client and session, how the connection
  closes, and that whatever was opened or registered is released.
\<close>

subsection \<open>Stages\<close>

lemma ws_fail_simps [simp]:
  "wo_effects (ws_fail rid status t m effs) = effs" "wo_handled (ws_fail rid status t m effs) = []"
  "wo_frames (ws_fail rid status t m effs) = []" "wo_end (ws_fail rid status t m effs) = WsReturned"
  "wo_writer (ws_fail rid status t m effs) = writeHTTPError fresh_writer rid status t m"
  by (simp_all add: ws_fail_def)

lemma writeHTTPError_response:
  assumes "400 \<le> status"
  shows "response_status (writeHTTPError fresh_writer rid status t m) = status"
    and "Header_Get (response_header (writeHTTPError fresh_writer rid status t m)) ''X-Request-Id'' = rid"
  using assms
  by (simp_all add: writeHTTPError_def WriteHeader_def Write_def bodyAllowedForStatus_def fresh_writer_def
      response_status_def response_header_def set_header_def)

lemma ws_converse_handled: "wo_handled (ws_converse ext surface) = fst (readLoop surface (we_reads ext))"
  by (auto simp: ws_converse_def Let_def split: prod.split option.split)

lemma ws_converse_frames: "wo_frames (ws_converse ext surface) = fst (writeLoop surface (we_writes ext))"
  by (auto simp: ws_converse_def Let_def split: prod.split option.split)

lemma ws_converse_effects:
  "wo_end (ws_converse ext surface) \<notin> {WsWaiting, WsCrashed} \<Longrightarrow>
     \<exists>code reason. wo_effects (ws_converse ext surface) = [Cancelled, SessionClosed, ConnectionClosed code reason]"
  by (auto simp: ws_converse_def Let_def split: prod.splits option.splits if_splits)

text \<open>The events and frames of a request are those of its loops, or none.\<close>

lemma ws_open_traffic:
  "wo_handled (ws_open ext h req rid caller) \<in>
     {[], fst (readLoop (surface_of (wh_config h) req) (we_reads ext))} \<and>
   wo_frames (ws_open ext h req rid caller) \<in>
     {[], fst (writeLoop (surface_of (wh_config h) req) (we_writes ext))}"
  by (simp add: ws_open_def Let_def ws_converse_handled ws_converse_frames
      split: prod.split option.split iface.split)

lemma ws_ServeHTTP_traffic:
  "wo_handled (snd (ws_ServeHTTP ext h r c req)) \<in>
     {[], fst (readLoop (surface_of (wh_config h) req) (we_reads ext))} \<and>
   wo_frames (snd (ws_ServeHTTP ext h r c req)) \<in>
     {[], fst (writeLoop (surface_of (wh_config h) req) (we_writes ext))}"
  using ws_open_traffic[of ext h req]
  by (simp add: ws_ServeHTTP_def Let_def split: prod.split sum.split)

subsection \<open>A sample connection\<close>

text \<open>One backend for realtime sessions; the client sends an allowed event and closes, the session
  sends an event with a payload.\<close>

definition sample_ws :: "(nat, nat) ws_handler" where
  "sample_ws =
    \<lparr>wh_services = \<lparr>defaultHandler = NilInterface, handlers = [],
       sessions = [(SessionRealtime, Dynamic KPointer False (\<lambda>_. (Dynamic KPointer False 5, None)))]\<rparr>,
     wh_config = \<lparr>BasePath = ''/v1'', MaxBodyBytes = 100, OriginPatterns = [], Validate = True,
                  Authenticate = (\<lambda>req rid. Inr ''caller-1'')\<rparr>\<rparr>"

definition sample_ws_ext :: ws_externals where
  "sample_ws_ext =
    \<lparr>we_random = None, we_Accept = (\<lambda>_ _. None), we_reads = [(ReadFailed (CloseFrame 1001), None)],
     we_writes = [WriteCtxDone ContextCanceled], we_reader_first = True\<rparr>"

definition sample_ws_request :: http_request where
  "sample_ws_request =
    \<lparr>req_Method = ''GET'', req_Path = ''/v1/realtime'', req_Query = [], req_Header = [],
     req_Body = [], req_BodyError = None\<rparr>"

lemmas sample_ws_simps = sample_ws_def sample_ws_ext_def sample_ws_request_def

lemma sample_surface: "surface_of (wh_config sample_ws) sample_ws_request = SessionRealtime"
  by (simp add: surface_of_def sample_ws_simps)

lemma sample_session_for:
  "SessionFor (wh_services sample_ws) SessionRealtime =
     (Dynamic KPointer False (\<lambda>_. (Dynamic KPointer False 5, None)), True)"
  by (simp add: SessionFor_def sample_ws_simps)

lemma sample_converse:
  "ws_converse sample_ws_ext SessionRealtime =
    \<lparr>wo_writer = fresh_writer, wo_effects = [Cancelled, SessionClosed, ConnectionClosed 1001 ''peer closed''],
     wo_handled = [], wo_frames = [], wo_end = WsReturned\<rparr>"
  by (simp add: ws_converse_def sample_ws_ext_def closeReason_def is_canceled_def as_protocol_def as_close_def)

lemma sample_open_end: "wo_end (ws_open sample_ws_ext sample_ws sample_ws_request rid caller) = WsReturned"
  by (simp add: ws_open_def sample_surface sample_session_for isNilSession_def sample_converse Let_def)
    (simp add: sample_ws_ext_def sample_converse[unfolded sample_ws_ext_def])

subsection \<open>Properties\<close>


text \<open>C11: a session is closed exactly once.  When the backend hands out a session, with or without an
  error, the handler has closed it exactly once when the request ends, whether the upgrade was
  refused, the loops ended in any way or the close reason panicked; a nil session is never closed.\<close>

theorem ws_session_closed_once:
  assumes "SessionFor (wh_services h) (surface_of (wh_config h) req) = (Dynamic k n OpenSession, True)"
    and "OpenSession (session_request_of (wh_config h) req rid caller) = (session, err)"
    and "wo_end (ws_open ext h req rid caller) \<notin> {WsWaiting, WsCrashed}"
  shows "count_list (wo_effects (ws_open ext h req rid caller)) SessionClosed = (if isNilSession session then 0 else 1)"
proof (cases "err = None \<and> \<not> isNilSession session \<and> we_Accept ext req (OriginPatterns (wh_config h)) = None")
  case True
  then have out: "ws_open ext h req rid caller = (ws_converse ext (surface_of (wh_config h) req))
      \<lparr>wo_effects := [SessionOpened (session_request_of (wh_config h) req rid caller), Upgraded] @
        wo_effects (ws_converse ext (surface_of (wh_config h) req))\<rparr>"
    using assms(1,2) by (simp add: ws_open_def Let_def)
  then obtain code reason where "wo_effects (ws_converse ext (surface_of (wh_config h) req)) =
      [Cancelled, SessionClosed, ConnectionClosed code reason]"
    using assms(3) ws_converse_effects by fastforce
  then show ?thesis using True out by simp
next
  case False
  then show ?thesis using assms(1,2)
    by (auto simp: ws_open_def Let_def split: option.splits)
qed

theorem ws_session_closed_once_witness:
  "count_list (wo_effects (ws_open sample_ws_ext sample_ws sample_ws_request ''r'' ''caller-1'')) SessionClosed = 1"
  using ws_session_closed_once[of sample_ws sample_ws_request KPointer False
      "\<lambda>_. (Dynamic KPointer False 5, None)" "''r''" "''caller-1''" "Dynamic KPointer False 5" None sample_ws_ext]
    sample_open_end[of "''r''" "''caller-1''"]
  by (simp add: sample_surface sample_session_for isNilSession_def)

text \<open>No registration outlives its request.  When a request ends, the registry's session map is what
  it was before the request, so a waiting \<open>Shutdown\<close> is not held up by it; a request that arrives
  during shutdown is refused and leaves the registry alone.\<close>

theorem ws_registration_released:
  assumes "wo_end (snd (ws_ServeHTTP ext h r c req)) \<notin> {WsWaiting, WsCrashed}"
    and "map_of (active r) (nextSession r + 1) = None"
  shows "map_of (active (fst (ws_ServeHTTP ext h r c req))) = map_of (active r)"
proof (cases "shuttingDown r")
  case True
  then show ?thesis by (simp add: ws_ServeHTTP_def register_def)
next
  case False
  let ?i = "nextSession r + 1"
  let ?out = "case Authenticate (wh_config h) req (request_id req (we_random ext)) of
       Inl err \<Rightarrow> ws_fail (request_id req (we_random ext)) 401 ''authentication_error''
         ''Invalid authentication credentials.'' []
     | Inr caller \<Rightarrow> ws_open ext h req (request_id req (we_random ext)) caller"
  have "wo_end ?out \<notin> {WsWaiting, WsCrashed}"
    using assms(1) False
    by (auto simp: ws_ServeHTTP_def register_def Let_def split: if_splits)
  then have "active (fst (ws_ServeHTTP ext h r c req)) = AList.delete ?i (AList.update ?i c (active r))"
    using False by (simp add: ws_ServeHTTP_def register_def Let_def)
  then show ?thesis using assms(2) by (auto simp: delete_conv')
qed

theorem ws_registration_released_witness:
  "map_of (active (fst (ws_ServeHTTP sample_ws_ext sample_ws ws_New (7 :: nat) sample_ws_request))) = Map.empty"
proof -
  have "wo_end (snd (ws_ServeHTTP sample_ws_ext sample_ws ws_New (7 :: nat) sample_ws_request)) = WsReturned"
    using sample_open_end
    by (simp add: ws_ServeHTTP_def register_def ws_New_def Let_def) (simp add: sample_ws_def)
  then show ?thesis
    using ws_registration_released[of sample_ws_ext sample_ws ws_New "7 :: nat" sample_ws_request]
    by (simp add: ws_New_def)
qed

text \<open>The checks in front of the upgrade with their statuses.\<close>

definition session_opened :: "('h, 's) ws_handler \<Rightarrow> http_request \<Rightarrow> string \<Rightarrow> bool" where
  "session_opened h req rid =
    (case (SessionFor (wh_services h) (surface_of (wh_config h) req), Authenticate (wh_config h) req rid) of
       ((Dynamic _ _ OpenSession, True), Inr caller) \<Rightarrow>
         (case OpenSession (session_request_of (wh_config h) req rid caller) of
            (session, err) \<Rightarrow> err = None \<and> \<not> isNilSession session)
     | _ \<Rightarrow> False)"

definition ws_guards :: "('h, 's) ws_handler \<Rightarrow> 'c registry \<Rightarrow> http_request \<Rightarrow> string \<Rightarrow> (bool \<times> int) list" where
  "ws_guards h r req rid =
    [(\<not> shuttingDown r, 503),
     (\<exists>caller. Authenticate (wh_config h) req rid = Inr caller, 401),
     (snd (SessionFor (wh_services h) (surface_of (wh_config h) req)), 501),
     (session_opened h req rid, 500)]"

definition opened_effect :: "ws_effect \<Rightarrow> bool" where
  "opened_effect e = (case e of SessionOpened _ \<Rightarrow> True | Upgraded \<Rightarrow> True | _ \<Rightarrow> False)"

lemma ws_open_refused:
  assumes "fst (SessionFor (wh_services h) (surface_of (wh_config h) req)) \<noteq> NilInterface \<or>
      \<not> snd (SessionFor (wh_services h) (surface_of (wh_config h) req))"
    and "Authenticate (wh_config h) req rid = Inr caller" and "\<not> session_opened h req rid"
  shows "\<exists>t m effs. ws_open ext h req rid caller =
    ws_fail rid (if snd (SessionFor (wh_services h) (surface_of (wh_config h) req)) then 500 else 501) t m effs \<and>
    Upgraded \<notin> set effs \<and>
    (snd (SessionFor (wh_services h) (surface_of (wh_config h) req)) \<or> effs = [])"
proof -
  obtain b ok where sf: "SessionFor (wh_services h) (surface_of (wh_config h) req) = (b, ok)"
    by (cases "SessionFor (wh_services h) (surface_of (wh_config h) req)")
  show ?thesis
  proof (cases ok)
    case False
    then show ?thesis using sf by (simp add: ws_open_def Let_def) blast
  next
    case True
    then obtain k n op where b: "b = Dynamic k n op" using assms(1) sf by (cases b) auto
    obtain session err where os: "op (session_request_of (wh_config h) req rid caller) = (session, err)"
      by (cases "op (session_request_of (wh_config h) req rid caller)")
    then have "err \<noteq> None \<or> isNilSession session"
      using assms(2,3) sf b True by (simp add: session_opened_def)
    then have out: "ws_open ext h req rid caller =
        ws_fail rid 500 ''server_error'' ''Could not open the backend session.''
          (SessionOpened (session_request_of (wh_config h) req rid caller) #
            (if err \<noteq> None \<and> \<not> isNilSession session then [SessionClosed] else []))"
      using sf b True os by (cases err) (auto simp: ws_open_def Let_def)
    show ?thesis
      unfolding out using sf True by (intro exI conjI) (auto intro!: refl)
  qed
qed

lemma session_backend_present:
  assumes "NewServices (registrations_of rs) = Inr s"
  shows "fst (SessionFor s f) \<noteq> NilInterface \<or> \<not> snd (SessionFor s f)"
  using NewServices_callable[OF assms, of _ f] by auto


lemma sample_ws_services:
  "NewServices (registrations_of
     [RegSession SessionRealtime (Dynamic KPointer False (\<lambda>_. (Dynamic KPointer False 5, None)))]) =
     Inr (wh_services sample_ws)"
  by (simp add: NewServices_def services_option_defs sample_ws_def)


subsection \<open>Close frames\<close>

lemma search_chain_in: "search_chain f es = Some (Some x) \<Longrightarrow> \<exists>e. Some e \<in> set es \<and> f e = Some x"
  by (induction f es rule: search_chain.induct) (auto split: option.splits)

text \<open>Close frames are bounded and reveal nothing of the backend.  The reason of a close frame is
  one of three fixed texts, or, with the policy violation status, the message of a protocol error
  found in the error chain, cut to 120 bytes; so it fits a control frame and never shows a backend
  error's message.\<close>

theorem closeReason_bounded:
  assumes "closeReason err = Some (code, reason)"
  shows "length reason \<le> 120 \<and>
    (reason \<in> {''OK'', ''peer closed'', ''backend session failed''} \<or>
     code = 1008 \<and> (\<exists>e m. err = Some e \<and> Some (ProtocolFailure m) \<in> set (error_chain e) \<and> reason = take 120 m))"
proof (cases "\<exists>e m. err = Some e \<and> search_chain as_protocol (error_chain e) = Some (Some m) \<and>
    search_chain is_canceled (error_chain e) = Some None")
  case True
  then obtain e m where err: "err = Some e" and m: "search_chain as_protocol (error_chain e) = Some (Some m)"
    and c: "search_chain is_canceled (error_chain e) = Some None" by blast
  then have "code = 1008" "reason = take 120 m"
    using assms by (auto simp: closeReason_def truncateReason_def split: if_splits)
  moreover have "as_protocol x = Some m \<longleftrightarrow> x = ProtocolFailure m" for x
    by (cases x) (auto simp: as_protocol_def)
  then have "Some (ProtocolFailure m) \<in> set (error_chain e)"
    using search_chain_in[OF m] by auto
  ultimately show ?thesis using err by auto
next
  case False
  then have "reason \<in> {''OK'', ''peer closed'', ''backend session failed''}"
    using assms by (auto simp: closeReason_def Let_def split: option.splits if_splits)
  then show ?thesis by auto
qed

theorem closeReason_bounded_witness:
  "closeReason (Some (Wrapping ''read'' (ProtocolFailure ''event type is required''))) =
     Some (1008, ''event type is required'') \<and> length ''event type is required'' \<le> 120"
proof -
  have c: "closeReason (Some (Wrapping ''read'' (ProtocolFailure ''event type is required''))) =
     Some (1008, ''event type is required'')"
    by (simp add: closeReason_def is_canceled_def as_protocol_def truncateReason_def)
  then show ?thesis using closeReason_bounded[OF c] by blast
qed

end
