(* ===== verification/Openai_Properties.thy ===== *)
theory Openai_Properties
  imports Openai_Handler Ws_Properties
begin

section \<open>What the OpenAI handler guarantees\<close>

text \<open>
  The configuration that every constructed handler has, and the way from the credential of a
  request through the authenticator to the caller a backend or a session sees.
\<close>

subsection \<open>Callers of sessions\<close>

lemma ws_open_session_opened:
  "SessionOpened sreq \<in> set (wo_effects (ws_open ext h req rid caller)) \<Longrightarrow>
     sreq = session_request_of (wh_config h) req rid caller"
proof -
  have "SessionOpened sreq \<notin> set (wo_effects (ws_converse ext surface))" for surface
    by (auto simp: ws_converse_def Let_def split: prod.splits option.splits)
  then show "SessionOpened sreq \<in> set (wo_effects (ws_open ext h req rid caller)) \<Longrightarrow> ?thesis"
    by (auto simp: ws_open_def Let_def split: prod.splits option.splits iface.splits if_splits)
qed

lemma ws_session_caller:
  assumes "SessionOpened sreq \<in> set (wo_effects (snd (ws_ServeHTTP ext h r c req)))"
  shows "\<exists>caller. Authenticate (wh_config h) req (request_id req (we_random ext)) = Inr caller \<and>
    sreq = session_request_of (wh_config h) req (request_id req (we_random ext)) caller"
proof (cases "shuttingDown r")
  case True
  then show ?thesis using assms by (simp add: ws_ServeHTTP_def register_def)
next
  case False
  show ?thesis
  proof (cases "Authenticate (wh_config h) req (request_id req (we_random ext))")
    case (Inl e)
    then show ?thesis using assms False by (simp add: ws_ServeHTTP_def register_def Let_def)
  next
    case (Inr caller)
    then have "SessionOpened sreq \<in> set (wo_effects (ws_open ext h req (request_id req (we_random ext)) caller))"
      using assms False by (auto simp: ws_ServeHTTP_def register_def Let_def split: if_splits)
    from ws_open_session_opened[OF this] Inr show ?thesis by blast
  qed
qed

text \<open>The caller ids and request ids that a served request shows to the application.\<close>

definition shown_callers :: "'c served \<Rightarrow> (string \<times> string) set" where
  "shown_callers s =
    (case s of
       ServedNotFound w \<Rightarrow> {}
     | ServedRest out \<Rightarrow>
         {(CallerID (Metadata r), RequestID (Metadata r)) | r. BackendCalled r \<in> set (out_effects out)}
     | ServedWebSocket r out \<Rightarrow>
         {(CallerID (SessionMetadata q), RequestID (SessionMetadata q)) | q. SessionOpened q \<in> set (wo_effects out)})"

definition accepted_credential :: "authenticator iface \<Rightarrow> http_request \<Rightarrow> string \<Rightarrow> string \<Rightarrow> bool" where
  "accepted_credential a req rid caller \<longleftrightarrow>
    (case a of
       NilInterface \<Rightarrow> caller = ''anonymous''
     | Dynamic _ _ auth \<Rightarrow>
         auth \<lparr>Token = fst (credentialFromRequest req), Source = snd (credentialFromRequest req),
               CredentialRequestID = rid\<rparr> = Inr \<lparr>PrincipalID = caller\<rparr>) \<and>
    TrimSpace caller \<noteq> []"

lemma authenticate_with_accepts: "authenticate_with s req rid = Inr caller \<Longrightarrow> accepted_credential (authenticator s) req rid caller"
  using authenticate_with_Inr[of s req rid caller] anonymous_not_blank
  by (auto simp: accepted_credential_def)

lemma served_callers:
  assumes "NewHandler routerSpec load services options = Inr h" and "run_settings options = Inr s"
    and "(caller, rid) \<in> shown_callers (openai_ServeHTTP ext wext h r c req)"
  shows "accepted_credential (authenticator s) req rid caller"
proof -
  have cfg: "rh_config (oh_rest h) = internal_config s" "wh_config (oh_websocket h) = internal_config s"
    using NewHandler_Inr[OF assms(1)] assms(2) by auto
  consider (rest) q where "BackendCalled q \<in> set (out_effects (rest_ServeHTTP ext (oh_rest h) req))"
      "caller = CallerID (Metadata q)" "rid = RequestID (Metadata q)"
    | (ws) q where "SessionOpened q \<in> set (wo_effects (snd (ws_ServeHTTP wext (oh_websocket h) r c req)))"
      "caller = CallerID (SessionMetadata q)" "rid = RequestID (SessionMetadata q)"
    using assms(3)
    by (auto simp: shown_callers_def openai_ServeHTTP_def split: if_splits prod.splits)
  then show ?thesis
  proof cases
    case rest
    from rest(1) show ?thesis
    proof (cases rule: rest_backend_call_cases)
      case (1 caller' body route ps op k n handler)
      then show ?thesis using rest cfg
        by (intro authenticate_with_accepts) (simp add: internal_config_def backend_request_def)
    qed
  next
    case ws
    from ws_session_caller[OF ws(1)] show ?thesis using ws cfg
      by (intro authenticate_with_accepts) (auto simp: internal_config_def session_request_of_def)
  qed
qed

subsection \<open>A sample handler\<close>

text \<open>An authenticator that accepts one key, one backend for realtime sessions, and an upgrade request
  with that key.\<close>

definition sample_authenticator :: "authenticator iface" where
  "sample_authenticator = Dynamic KFunc False
     (\<lambda>c. if Token c = ''sk-1'' then Inr \<lparr>PrincipalID = ''alice''\<rparr> else Inl (Plain ''no''))"

definition sample_settings :: settings where
  "sample_settings = default_settings\<lparr>authenticator := sample_authenticator\<rparr>"

abbreviation sample_options :: "openai_option option list" where
  "sample_options \<equiv> [Some (AuthenticatorOption sample_authenticator)]"

definition sample_services_ws :: "(backend_handler, nat session_backend) services" where
  "sample_services_ws =
    \<lparr>defaultHandler = NilInterface, handlers = [],
     sessions = [(SessionRealtime, Dynamic KPointer False (\<lambda>_. (Dynamic KPointer False 5, None)))]\<rparr>"

definition sample_openai :: "(unit, nat) openai_handler" where
  "sample_openai =
    \<lparr>oh_basePath = ''/v1'',
     oh_rest = rest_New (sample_services_ws) []
       (rh_FindRoute (sample_rest 100 (Inl ContextCanceled))) (internal_config sample_settings),
     oh_websocket = \<lparr>wh_services = sample_services_ws,
                     wh_config = internal_config sample_settings\<rparr>\<rparr>"

definition sample_upgrade :: http_request where
  "sample_upgrade = sample_ws_request\<lparr>req_Header :=
     [(''Upgrade'', [''WebSocket'']), (''Connection'', [''keep-alive, Upgrade'']),
      (''Authorization'', [''bearer  sk-1 ''])]\<rparr>"

abbreviation sample_load :: "string \<Rightarrow> string \<Rightarrow> go_error + (unit document \<times> unit router)" where
  "sample_load specJSON base \<equiv> Inr ([], rh_FindRoute (sample_rest 100 (Inl ContextCanceled)))"

lemma sample_run: "run_settings sample_options = Inr sample_settings"
  by (simp add: run_settings_def WithAuthenticator_def isNil_def sample_authenticator_def sample_settings_def)

lemma sample_NewHandler:
  "NewHandler (Inr []) sample_load (sample_services_ws) sample_options =
     Inr sample_openai"
  by (simp add: NewHandler_def sample_run sample_openai_def)
    (simp add: sample_settings_def default_settings_def)

lemma sample_upgrade_facts:
  "isWebSocket sample_upgrade" "credentialFromRequest sample_upgrade = (''sk-1'', ''authorization'')"
  "request_id sample_upgrade None = ''req_unknown''"
  by code_simp+

lemma sample_authenticated: "authenticate_with sample_settings sample_upgrade rid = Inr ''alice''"
proof -
  have "TrimSpace ''alice'' \<noteq> []" by code_simp
  then show ?thesis
    by (simp add: authenticate_with_def sample_settings_def sample_authenticator_def sample_upgrade_facts)
qed

lemma sample_shown:
  "(''alice'', ''req_unknown'') \<in>
     shown_callers (openai_ServeHTTP ext sample_ws_ext sample_openai ws_New (7 :: nat) sample_upgrade)"
proof -
  let ?h = "oh_websocket sample_openai"
  have surface: "surface_of (wh_config ?h) sample_upgrade = SessionRealtime"
    by (simp add: surface_of_def sample_openai_def internal_config_def sample_settings_def
        default_settings_def sample_upgrade_def sample_ws_request_def)
  have "SessionFor (wh_services ?h) SessionRealtime =
      (Dynamic KPointer False (\<lambda>_. (Dynamic KPointer False 5, None)), True)"
    by (simp add: SessionFor_def sample_openai_def sample_services_ws_def)
  then have "SessionOpened (session_request_of (wh_config ?h) sample_upgrade ''req_unknown'' ''alice'')
      \<in> set (wo_effects (ws_open sample_ws_ext ?h sample_upgrade ''req_unknown'' ''alice''))"
    by (simp add: ws_open_def surface isNilSession_def Let_def split: option.split)
  moreover have "Authenticate (wh_config ?h) sample_upgrade ''req_unknown'' = Inr ''alice''"
    by (simp add: sample_openai_def internal_config_def sample_authenticated)
  ultimately have opened: "SessionOpened (session_request_of (wh_config ?h) sample_upgrade ''req_unknown'' ''alice'')
      \<in> set (wo_effects (snd (ws_ServeHTTP sample_ws_ext ?h ws_New (7 :: nat) sample_upgrade)))"
    using sample_upgrade_facts(3)
    by (simp add: ws_ServeHTTP_def register_def ws_New_def sample_ws_ext_def Let_def)
  have "\<exists>r out. openai_ServeHTTP ext sample_ws_ext sample_openai ws_New (7 :: nat) sample_upgrade =
      ServedWebSocket r out \<and> out = snd (ws_ServeHTTP sample_ws_ext ?h ws_New (7 :: nat) sample_upgrade)"
    using sample_upgrade_facts(1)
    by (simp add: openai_ServeHTTP_def HasPrefix_def sample_openai_def sample_upgrade_def
        sample_ws_request_def split: prod.split)
  then show ?thesis using opened
    by (force simp: shown_callers_def session_request_of_def)
qed

subsection \<open>Properties\<close>

text \<open>C20: every constructed handler has a sane configuration.  Whatever options were given, when
  \<open>NewHandler\<close> succeeds none of them was nil, and the two protocol handlers share one configuration
  whose base path is a slash followed by proper path elements joined by single slashes (never the
  root, never a trailing slash), whose body limit is positive and whose origin patterns are not blank.\<close>

theorem NewHandler_configuration:
  assumes "NewHandler routerSpec load services options = Inr h"
  shows "None \<notin> set options \<and> rh_config (oh_rest h) = wh_config (oh_websocket h) \<and>
    BasePath (rh_config (oh_rest h)) = oh_basePath h \<and>
    (\<exists>es. es \<noteq> [] \<and> list_all proper_element es \<and> oh_basePath h = ''/'' @ join_with ''/'' es) \<and>
    0 < sint (MaxBodyBytes (rh_config (oh_rest h))) \<and>
    list_all (\<lambda>p. TrimSpace p \<noteq> []) (OriginPatterns (rh_config (oh_rest h)))"
proof -
  obtain s where s: "run_settings options = Inr s" "settings_ok s" "oh_basePath h = basePath s"
    "rh_config (oh_rest h) = internal_config s" "wh_config (oh_websocket h) = internal_config s"
    using NewHandler_Inr[OF assms] by blast
  have "None \<notin> set options"
    using s(1) unfolding run_settings_def by (rule openai_config.run_no_nil)
  then show ?thesis using s by (simp add: settings_ok_def internal_config_def)
qed

abbreviation sample_services_rest :: "(backend_handler, nat session_backend) services" where
  "sample_services_rest \<equiv>
    \<lparr>defaultHandler = Dynamic KFunc False (\<lambda>_. Inl ContextCanceled), handlers = [], sessions = []\<rparr>"

theorem NewHandler_configuration_witness:
  "\<exists>h. NewHandler (Inr []) sample_load sample_services_rest
      [Some (BasePathOption ''//api/./x/../v2/''), Some NoValidationOption] = Inr h \<and>
    oh_basePath h = ''/api/v2'' \<and> 0 < sint (MaxBodyBytes (rh_config (oh_rest h)))"
proof -
  have "TrimSuffix (Clean ''//api/./x/../v2/'') ''/'' = ''/api/v2''" "Clean ''//api/./x/../v2/'' = ''/api/v2''"
    "HasPrefix ''//api/./x/../v2/'' ''/''"
    by code_simp+
  then have "\<exists>h. NewHandler (Inr []) sample_load sample_services_rest
      [Some (BasePathOption ''//api/./x/../v2/''), Some NoValidationOption] = Inr h \<and> oh_basePath h = ''/api/v2''"
    by (simp add: NewHandler_def run_settings_def WithBasePath_def WithoutSchemaValidation_def default_settings_def)
  then show ?thesis using NewHandler_configuration by blast
qed

text \<open>C4: nobody reaches the application unauthenticated.  For a handler built by \<open>NewHandler\<close>, every
  caller id that a backend call or an opened session shows was returned by the configured
  authenticator for the credential of this request and this request id, and is not blank; only
  without an authenticator is the caller \<open>anonymous\<close>.\<close>

theorem openai_callers_authenticated:
  assumes "NewHandler routerSpec load services options = Inr h" and "run_settings options = Inr s"
    and "(caller, rid) \<in> shown_callers (openai_ServeHTTP ext wext h r c req)"
  shows "accepted_credential (authenticator s) req rid caller"
  by (rule served_callers[OF assms])

theorem openai_callers_authenticated_witness:
  "accepted_credential sample_authenticator sample_upgrade ''req_unknown'' ''alice''"
  using openai_callers_authenticated[OF sample_NewHandler sample_run sample_shown]
  by (simp add: sample_settings_def)

end
