(* ===== verification/Go_Sort.thy ===== *)
theory Go_Sort
  imports Go_Strings "HOL-Library.Multiset"
begin

section \<open>Package sort\<close>

text \<open>
  \<open>sort.Slice\<close> and \<open>sort.Strings\<close> as insertion by a comparison.  Go's sort is not stable: elements that
  compare equal may end up in any order, while this one keeps their order.  So what is proved
  about results concerns lists whose elements the comparison tells apart, where there is only one
  sorted list; the locale derives it for any strict weak order.
\<close>

fun insert_by :: "('a \<Rightarrow> 'a \<Rightarrow> bool) \<Rightarrow> 'a \<Rightarrow> 'a list \<Rightarrow> 'a list" where
  "insert_by lt x [] = [x]"
| "insert_by lt x (y # ys) = (if lt x y then x # y # ys else y # insert_by lt x ys)"

definition sort_by :: "('a \<Rightarrow> 'a \<Rightarrow> bool) \<Rightarrow> 'a list \<Rightarrow> 'a list" where
  "sort_by lt xs = fold (insert_by lt) xs []"

lemma mset_insert_by [simp]: "mset (insert_by lt x ys) = add_mset x (mset ys)"
  by (induction ys) auto

lemma mset_fold_insert_by: "mset (fold (insert_by lt) xs ys) = mset xs + mset ys"
  by (induction xs arbitrary: ys) auto

lemma mset_sort_by [simp]: "mset (sort_by lt xs) = mset xs"
  by (simp add: sort_by_def mset_fold_insert_by)

lemma set_sort_by [simp]: "set (sort_by lt xs) = set xs"
  by (metis mset_sort_by set_mset_mset)

lemma length_sort_by [simp]: "length (sort_by lt xs) = length xs"
  by (metis mset_sort_by size_mset)

locale strict_weak_order =
  fixes lt :: "'a \<Rightarrow> 'a \<Rightarrow> bool"
  assumes lt_irrefl: "\<not> lt x x"
    and lt_trans: "lt x y \<Longrightarrow> lt y z \<Longrightarrow> lt x z"
    and lt_cases: "lt x z \<Longrightarrow> lt x y \<or> lt y z"
begin

lemma lt_asym: "lt x y \<Longrightarrow> \<not> lt y x"
  using lt_irrefl lt_trans by blast

lemma sorted_insert_by:
  "sorted_wrt (\<lambda>a b. \<not> lt b a) ys \<Longrightarrow> sorted_wrt (\<lambda>a b. \<not> lt b a) (insert_by lt x ys)"
proof (induction ys)
  case (Cons y ys)
  have set: "set (insert_by lt x ys) = insert x (set ys)"
    by (metis mset_insert_by set_mset_add_mset_insert set_mset_mset)
  show ?case
  proof (cases "lt x y")
    case True
    have "\<not> lt z x" if "z \<in> insert y (set ys)" for z
    proof
      assume "lt z x"
      then have "lt z y" using True lt_trans by blast
      then show False using that Cons.prems lt_irrefl by auto
    qed
    then show ?thesis using True Cons.prems by simp
  next
    case False
    then show ?thesis using Cons by (auto simp: set)
  qed
qed simp

lemma sorted_sort_by: "sorted_wrt (\<lambda>a b. \<not> lt b a) (sort_by lt xs)"
proof -
  have "sorted_wrt (\<lambda>a b. \<not> lt b a) ys \<Longrightarrow> sorted_wrt (\<lambda>a b. \<not> lt b a) (fold (insert_by lt) xs ys)" for ys
    by (induction xs arbitrary: ys) (auto simp: sorted_insert_by)
  then show ?thesis by (simp add: sort_by_def)
qed

text \<open>Elements told apart by the comparison: their sorted list is strictly sorted, hence unique.\<close>

definition separated :: "'a list \<Rightarrow> bool" where
  "separated xs \<longleftrightarrow> distinct xs \<and> (\<forall>x\<in>set xs. \<forall>y\<in>set xs. x \<noteq> y \<longrightarrow> lt x y \<or> lt y x)"

lemma strict_sort_by: "separated xs \<Longrightarrow> sorted_wrt lt (sort_by lt xs)"
proof -
  assume sep: "separated xs"
  have "distinct (sort_by lt xs)"
    using sep by (metis mset_eq_imp_distinct_iff mset_sort_by separated_def)
  moreover have "x \<in> set xs \<Longrightarrow> y \<in> set xs \<Longrightarrow> x \<noteq> y \<Longrightarrow> \<not> lt y x \<Longrightarrow> lt x y" for x y
    using sep by (auto simp: separated_def)
  ultimately show ?thesis
    using sorted_sort_by[of xs]
    by (auto simp: sorted_wrt_iff_nth_less distinct_conv_nth)
      (metis (no_types, lifting) length_sort_by nat_neq_iff nth_mem order_less_trans set_sort_by)
qed

lemma strictly_sorted_unique:
  "sorted_wrt lt xs \<Longrightarrow> sorted_wrt lt ys \<Longrightarrow> set xs = set ys \<Longrightarrow> xs = ys"
proof (induction xs arbitrary: ys)
  case (Cons x xs)
  then obtain y ys' where ys: "ys = y # ys'" by (cases ys) auto
  have "x = y"
  proof (rule ccontr)
    assume "x \<noteq> y"
    then have "lt x y" "lt y x" using Cons.prems ys by (auto simp: set_eq_iff)
    then show False using lt_asym by blast
  qed
  moreover have "x \<notin> set xs" "y \<notin> set ys'" using Cons.prems ys lt_irrefl by auto
  ultimately have "set xs = set ys'" using Cons.prems(3) ys by auto
  then show ?case using Cons ys \<open>x = y\<close> by simp
qed simp

lemma sort_by_unique:
  "separated xs \<Longrightarrow> separated ys \<Longrightarrow> set xs = set ys \<Longrightarrow> sort_by lt xs = sort_by lt ys"
  using strict_sort_by[of xs] strict_sort_by[of ys] by (simp add: strictly_sorted_unique)

lemma sort_by_sorted: "sorted_wrt lt xs \<Longrightarrow> sort_by lt xs = xs"
proof -
  assume s: "sorted_wrt lt xs"
  then have "separated xs"
    unfolding separated_def
    by (auto simp: distinct_conv_nth sorted_wrt_iff_nth_less in_set_conv_nth)
      (metis lt_irrefl nat_neq_iff, metis nat_neq_iff)
  then show ?thesis using strict_sort_by s by (simp add: strictly_sorted_unique)
qed

end

subsection \<open>Strings\<close>

lemma string_less_cases: "string_less x z \<Longrightarrow> string_less x y \<or> string_less y z"
  by (metis string_less_linear string_less_trans)

interpretation string_order: strict_weak_order string_less
  by unfold_locales (simp, rule string_less_trans, assumption+, rule string_less_cases)

definition sort_Strings :: "string list \<Rightarrow> string list" where
  "sort_Strings xs = sort_by string_less xs"

lemma set_sort_Strings [simp]: "set (sort_Strings xs) = set xs"
  by (simp add: sort_Strings_def)

lemma strings_separated: "string_order.separated xs \<longleftrightarrow> distinct xs"
  by (auto simp: string_order.separated_def) (metis string_less_linear)

lemma sort_Strings_unique: "distinct xs \<Longrightarrow> distinct ys \<Longrightarrow> set xs = set ys \<Longrightarrow> sort_Strings xs = sort_Strings ys"
  unfolding sort_Strings_def by (rule string_order.sort_by_unique) (simp_all add: strings_separated)

end
