(* ===== verification/Gen_Operations.thy ===== *)
theory Gen_Operations
  imports Go_Sort Prelude
begin

section \<open>Collecting operations: internal/cmd/openai-gen/main.go\<close>

text \<open>
  How the generator turns the decoded OpenAPI document into the rows of the operation table.  A Go
  map is an association list in the order a \<open>range\<close> loop happens to visit it; \<open>fatalf\<close>, which ends
  the process, is an error result.
\<close>

subsection \<open>The decoded document\<close>

record gen_parameter =
  In :: string

record gen_requestBody =
  RequestContent :: "(string, string) gomap"

record gen_response =
  ResponseContent :: "(string, string) gomap"

record spec_operation =
  SpecOperationID :: string
  Tags :: "string list"
  SpecParameters :: "gen_parameter list"
  RequestBody :: "gen_requestBody option"
  Responses :: "(string, gen_response) gomap"

record spec_document =
  Paths :: "(string, (string, spec_operation) gomap) gomap"

record generatedOperation =
  gen_Method :: string
  gen_Path :: string
  gen_OperationID :: string
  gen_Capability :: string
  gen_RequestMedia :: "string list"
  gen_ResponseMedia :: "string list"
  gen_SuccessStatus :: int
  SDKCall :: string
  LocalCase :: string
  Transports :: "string list"
  SchemaCases :: "string list"
  LiveProfile :: string
  LiveReason :: string
  HasQuery :: bool

datatype gen_error = NoOperationID string string | NoCapability string string

subsection \<open>strconv and strings\<close>

fun digits_value :: "string \<Rightarrow> nat \<Rightarrow> nat option" where
  "digits_value [] acc = Some acc"
| "digits_value (c # s) acc =
     (if 48 \<le> byte_val c \<and> byte_val c \<le> 57 then digits_value s (10 * acc + (byte_val c - 48)) else None)"

definition Atoi :: "string \<Rightarrow> int option" where
  "Atoi s =
    (let (negative, ds) =
       (case s of
          c # r \<Rightarrow> if c = CHR ''-'' then (True, r) else if c = CHR ''+'' then (False, r) else (False, s)
        | [] \<Rightarrow> (False, []))
     in if ds = [] then None
        else (case digits_value ds 0 of
                None \<Rightarrow> None
              | Some n \<Rightarrow>
                  (let v = (if negative then - int n else int n)
                   in if - (2 ^ 63) \<le> v \<and> v < 2 ^ 63 then Some v else None)))"

text \<open>\<open>strings.ToUpper\<close>, for the ASCII strings it is called with.\<close>

definition ToUpper :: "string \<Rightarrow> string" where
  "ToUpper s = map upper_byte s"

subsection \<open>One operation\<close>

definition rawOnlyOperations :: "string list" where
  "rawOnlyOperations =
    [''listVoiceConsents'', ''createVoiceConsent'', ''deleteVoiceConsent'', ''getVoiceConsent'',
     ''updateVoiceConsent'', ''createVoice'', ''create-realtime-call'',
     ''create-realtime-translation-client-secret'']"

definition capability_tags :: "(string \<times> string) list" where
  "capability_tags =
    [(''Responses'', ''responses''), (''Chat'', ''chat''), (''Completions'', ''completions''),
     (''Conversations'', ''conversations''), (''Embeddings'', ''embeddings''), (''Audio'', ''audio''),
     (''Images'', ''images''), (''Videos'', ''videos''), (''Moderations'', ''moderations''),
     (''Models'', ''models''), (''Files'', ''files''), (''Uploads'', ''uploads''),
     (''Batch'', ''batches''), (''Assistants'', ''assistants''), (''Vector stores'', ''vector_stores''),
     (''Fine-tuning'', ''fine_tuning''), (''Evals'', ''evals''), (''Realtime'', ''realtime''),
     (''Skills'', ''skills'')]"

definition capabilityFor :: "string \<Rightarrow> string list \<Rightarrow> string option" where
  "capabilityFor path tags =
    (let tag = (case tags of t # _ \<Rightarrow> t | [] \<Rightarrow> []) in
     case map_of capability_tags tag of
       Some capability \<Rightarrow> Some capability
     | None \<Rightarrow>
         if HasPrefix path ''/containers'' then Some ''containers''
         else if HasPrefix path ''/responses'' then Some ''responses''
         else if HasPrefix path ''/chatkit'' then Some ''chatkit''
         else if HasPrefix path ''/content_provenance_checks'' then Some ''moderations''
         else if HasPrefix path ''/organization'' \<or> HasPrefix path ''/projects'' then Some ''organization''
         else None)"

definition successStatus :: "(string, gen_response) gomap \<Rightarrow> int" where
  "successStatus responses =
    (let result =
       fold (\<lambda>(code, _) result.
           case Atoi code of
             Some status \<Rightarrow>
               if 200 \<le> status \<and> status < 300 \<and> (result = 0 \<or> status < result) then status else result
           | None \<Rightarrow> result)
         responses 0
     in if result = 0 then 200 else result)"

definition appendUnique :: "string list \<Rightarrow> string \<Rightarrow> string list" where
  "appendUnique values entry = (if List.member values entry then values else values @ [entry])"

definition media_transport :: "string \<Rightarrow> string" where
  "media_transport media =
    (if media = ''multipart/form-data'' then ''multipart''
     else if media = ''text/event-stream'' then ''sse''
     else if Contains media ''json'' then ''json''
     else ''binary'')"

definition operationTransports :: "generatedOperation \<Rightarrow> string list" where
  "operationTransports operation =
    (let t1 = (if Contains (gen_Path operation) ''{'' then appendUnique (Transports operation) ''path''
               else Transports operation);
         t2 = (if HasQuery operation \<or> Contains (gen_Path operation) ''?'' then appendUnique t1 ''query'' else t1)
     in fold (\<lambda>media ts. appendUnique ts (media_transport media))
          (gen_RequestMedia operation @ gen_ResponseMedia operation) t2)"

definition liveClassification :: "string \<Rightarrow> string \<times> string" where
  "liveClassification operationID =
    (if operationID = ''listModels'' then (''safe'', ''scheduled read-only differential'')
     else if operationID = ''createEmbedding'' then
       (''paid'', ''manual cost approval required; no live result recorded'')
     else if operationID = ''createFile'' \<or> operationID = ''deleteFile'' then
       (''mutation'', ''manual disposable-account approval and verified cleanup required; no live result recorded'')
     else (''unavailable'', ''no named bounded live differential is configured''))"

definition request_media :: "spec_operation \<Rightarrow> string list" where
  "request_media operation =
    sort_Strings (case RequestBody operation of Some b \<Rightarrow> map fst (RequestContent b) | None \<Rightarrow> [])"

definition response_media :: "spec_operation \<Rightarrow> string list" where
  "response_media operation =
    sort_Strings
      (fold (\<lambda>(_, response) media. fold (\<lambda>(m, _) media. appendUnique media m) (ResponseContent response) media)
        (Responses operation) [])"

definition generated_item :: "string \<Rightarrow> string \<Rightarrow> string \<Rightarrow> spec_operation \<Rightarrow> generatedOperation" where
  "generated_item capability path method operation =
    (let item =
       \<lparr>gen_Method = ToUpper method, gen_Path = path, gen_OperationID = SpecOperationID operation,
        gen_Capability = capability, gen_RequestMedia = request_media operation,
        gen_ResponseMedia = response_media operation,
        gen_SuccessStatus = successStatus (Responses operation),
        SDKCall = (if List.member rawOnlyOperations (SpecOperationID operation) then ''raw_sdk_exception''
                   else ''resource_helper''),
        LocalCase = ''http.'' @ capability @ ''.'' @ SpecOperationID operation,
        Transports = [], SchemaCases = [''minimal_valid_request'', ''valid_success_response''],
        LiveProfile = fst (liveClassification (SpecOperationID operation)),
        LiveReason = snd (liveClassification (SpecOperationID operation)),
        HasQuery = list_ex (\<lambda>p. In p = ''query'') (SpecParameters operation)\<rparr>
     in item\<lparr>Transports := operationTransports item\<rparr>)"

subsection \<open>The whole document\<close>

definition http_methods :: "string list" where
  "http_methods = [''get'', ''post'', ''put'', ''patch'', ''delete'']"

fun collect_methods ::
  "string \<Rightarrow> (string, spec_operation) gomap \<Rightarrow> generatedOperation list \<Rightarrow> gen_error + generatedOperation list" where
  "collect_methods path [] result = Inr result"
| "collect_methods path ((method, operation) # rest) result =
     (if \<not> List.member http_methods (ToLower method) then collect_methods path rest result
      else if SpecOperationID operation = [] then Inl (NoOperationID method path)
      else
        (case capabilityFor path (Tags operation) of
           None \<Rightarrow> Inl (NoCapability path (case Tags operation of t # _ \<Rightarrow> t | [] \<Rightarrow> []))
         | Some capability \<Rightarrow>
             collect_methods path rest (result @ [generated_item capability path method operation])))"

fun collect_paths ::
  "(string, (string, spec_operation) gomap) gomap \<Rightarrow> generatedOperation list \<Rightarrow>
   gen_error + generatedOperation list" where
  "collect_paths [] result = Inr result"
| "collect_paths ((path, pathItem) # rest) result =
     (case collect_methods path pathItem result of
        Inl err \<Rightarrow> Inl err
      | Inr result \<Rightarrow> collect_paths rest result)"

definition generated_less :: "generatedOperation \<Rightarrow> generatedOperation \<Rightarrow> bool" where
  "generated_less a b =
    (if gen_Path a = gen_Path b then string_less (gen_Method a) (gen_Method b)
     else string_less (gen_Path a) (gen_Path b))"

definition collectOperations :: "spec_document \<Rightarrow> gen_error + generatedOperation list" where
  "collectOperations spec =
    (case collect_paths (Paths spec) [] of
       Inl err \<Rightarrow> Inl err
     | Inr result \<Rightarrow> Inr (sort_by generated_less result))"

interpretation generated_order: strict_weak_order generated_less
proof
  fix x y z
  show "\<not> generated_less x x" by (simp add: generated_less_def)
  show "generated_less x y \<Longrightarrow> generated_less y z \<Longrightarrow> generated_less x z"
    by (auto simp: generated_less_def split: if_splits dest: string_less_trans)
  show "generated_less x z \<Longrightarrow> generated_less x y \<or> generated_less y z"
    using string_less_linear[of "gen_Path y" "gen_Path z"]
    by (auto simp: generated_less_def split: if_splits dest: string_less_cases)
qed

end
