(* ===== verification/Gen_Evidence.thy ===== *)
theory Gen_Evidence
  imports Gen_Operations
begin

section \<open>Events and evidence: internal/cmd/openai-gen/main.go\<close>

text \<open>
  The event inventory the generator reads, the rows of the event table, and the validation of the
  evidence metadata that guards every output.  Reports of several missing raw exceptions come in
  the order Go visits its map; the model reports the first of the source's list.
\<close>

record eventSurface =
  Client :: "string list"
  Server :: "string list"

record eventInventory =
  SDK :: string
  Surfaces :: "(string, eventSurface) gomap"

record generatedEvent =
  ge_Surface :: string
  ge_Direction :: string
  ge_Type :: string

definition event_less :: "generatedEvent \<Rightarrow> generatedEvent \<Rightarrow> bool" where
  "event_less a b =
    (if ge_Surface a \<noteq> ge_Surface b then string_less (ge_Surface a) (ge_Surface b)
     else if ge_Direction a \<noteq> ge_Direction b then string_less (ge_Direction a) (ge_Direction b)
     else string_less (ge_Type a) (ge_Type b))"

definition surface_events :: "string \<Rightarrow> eventSurface \<Rightarrow> generatedEvent list" where
  "surface_events surface events =
    map (\<lambda>t. \<lparr>ge_Surface = surface, ge_Direction = ''client'', ge_Type = t\<rparr>) (Client events) @
    map (\<lambda>t. \<lparr>ge_Surface = surface, ge_Direction = ''server'', ge_Type = t\<rparr>) (Server events)"

definition collectEvents :: "eventInventory \<Rightarrow> generatedEvent list" where
  "collectEvents inventory =
    sort_by event_less (concat (map (\<lambda>(surface, events). surface_events surface events) (Surfaces inventory)))"

lemma event_less_linear: "event_less a b \<or> a = b \<or> event_less b a"
  using string_less_linear[of "ge_Surface a" "ge_Surface b"]
    string_less_linear[of "ge_Direction a" "ge_Direction b"] string_less_linear[of "ge_Type a" "ge_Type b"]
  by (auto simp: event_less_def)

lemma event_less_trans: "event_less a b \<Longrightarrow> event_less b c \<Longrightarrow> event_less a c"
  by (auto simp: event_less_def split: if_splits dest: string_less_trans)

interpretation event_order: strict_weak_order event_less
proof
  fix a b c
  show "\<not> event_less a a" by (simp add: event_less_def)
  show "event_less a b \<Longrightarrow> event_less b c \<Longrightarrow> event_less a c" by (rule event_less_trans)
  show "event_less a c \<Longrightarrow> event_less a b \<or> event_less b c"
    using event_less_linear[of a b] event_less_trans[of b a c] by auto
qed

subsection \<open>Validation\<close>

datatype evidence_error =
    DuplicateOperationID string
  | BadLocalCase string
  | InvalidSDKCall string string
  | IncompleteEvidence string
  | RawExceptionAbsent string
  | DuplicateEventEvidence string

definition validProfiles :: "string list" where
  "validProfiles = [''safe'', ''paid'', ''mutation'', ''unavailable'']"

text \<open>The loop over the operations, with its three maps as the keys seen so far.\<close>

fun validate_operations ::
  "generatedOperation list \<Rightarrow> string list \<Rightarrow> string list \<Rightarrow> string list \<Rightarrow> evidence_error + string list" where
  "validate_operations [] operationIDs caseNames rawSeen = Inr rawSeen"
| "validate_operations (operation # rest) operationIDs caseNames rawSeen =
     (if List.member operationIDs (gen_OperationID operation) then
        Inl (DuplicateOperationID (gen_OperationID operation))
      else if LocalCase operation = [] \<or> List.member caseNames (LocalCase operation) then
        Inl (BadLocalCase (LocalCase operation))
      else if SDKCall operation \<noteq> ''resource_helper'' \<and> SDKCall operation \<noteq> ''raw_sdk_exception'' then
        Inl (InvalidSDKCall (gen_OperationID operation) (SDKCall operation))
      else if Transports operation = [] \<or> SchemaCases operation = [] \<or>
          \<not> List.member validProfiles (LiveProfile operation) then
        Inl (IncompleteEvidence (gen_OperationID operation))
      else
        validate_operations rest (gen_OperationID operation # operationIDs) (LocalCase operation # caseNames)
          (if SDKCall operation = ''raw_sdk_exception'' then gen_OperationID operation # rawSeen else rawSeen))"

definition evidence_key :: "generatedEvent \<Rightarrow> string" where
  "evidence_key event = ge_Surface event @ ''/'' @ ge_Direction event @ ''/'' @ ge_Type event"

fun validate_events :: "generatedEvent list \<Rightarrow> string list \<Rightarrow> evidence_error option" where
  "validate_events [] eventKeys = None"
| "validate_events (event # rest) eventKeys =
     (if List.member eventKeys (evidence_key event) then Some (DuplicateEventEvidence (evidence_key event))
      else validate_events rest (evidence_key event # eventKeys))"

definition validateEvidence :: "generatedOperation list \<Rightarrow> eventInventory \<Rightarrow> evidence_error option" where
  "validateEvidence operations inventory =
    (case validate_operations operations [] [] [] of
       Inl err \<Rightarrow> Some err
     | Inr rawSeen \<Rightarrow>
         (case find (\<lambda>i. \<not> List.member rawSeen i) rawOnlyOperations of
            Some i \<Rightarrow> Some (RawExceptionAbsent i)
          | None \<Rightarrow> validate_events (collectEvents inventory) []))"

subsection \<open>What passes\<close>

definition evidence_ok :: "generatedOperation \<Rightarrow> bool" where
  "evidence_ok operation \<longleftrightarrow>
    LocalCase operation \<noteq> [] \<and> SDKCall operation \<in> {''resource_helper'', ''raw_sdk_exception''} \<and>
    Transports operation \<noteq> [] \<and> SchemaCases operation \<noteq> [] \<and> LiveProfile operation \<in> set validProfiles"

definition raw_ids :: "generatedOperation list \<Rightarrow> string list" where
  "raw_ids operations = map gen_OperationID (filter (\<lambda>r. SDKCall r = ''raw_sdk_exception'') operations)"

lemma validate_operations_Cons:
  "validate_operations (operation # rest) ids cases raw = Inr seen \<longleftrightarrow>
     evidence_ok operation \<and> gen_OperationID operation \<notin> set ids \<and> LocalCase operation \<notin> set cases \<and>
     validate_operations rest (gen_OperationID operation # ids) (LocalCase operation # cases)
       (raw_ids [operation] @ raw) = Inr seen"
  by (simp add: evidence_ok_def raw_ids_def)

lemma validate_operations_Inr:
  "validate_operations operations ids cases raw = Inr seen \<longleftrightarrow>
     list_all evidence_ok operations \<and> seen = rev (raw_ids operations) @ raw \<and>
     distinct (map gen_OperationID operations) \<and> set (map gen_OperationID operations) \<inter> set ids = {} \<and>
     distinct (map LocalCase operations) \<and> set (map LocalCase operations) \<inter> set cases = {}"
proof (induction operations arbitrary: ids cases raw)
  case (Cons operation rest)
  show ?case
    unfolding validate_operations_Cons Cons.IH by (auto simp: raw_ids_def)
qed (auto simp: raw_ids_def)

lemma validate_events_None:
  "validate_events events keys = None \<longleftrightarrow>
     distinct (map evidence_key events) \<and> set (map evidence_key events) \<inter> set keys = {}"
  by (induction events keys rule: validate_events.induct) auto

lemma validate_accepts:
  "validateEvidence operations inventory = None \<longleftrightarrow>
     list_all evidence_ok operations \<and> distinct (map gen_OperationID operations) \<and>
     distinct (map LocalCase operations) \<and>
     list_all (\<lambda>i. i \<in> set (raw_ids operations)) rawOnlyOperations \<and>
     distinct (map evidence_key (collectEvents inventory))"
proof (cases "validate_operations operations [] [] []")
  case (Inl err)
  then show ?thesis
    using validate_operations_Inr[of operations "[]" "[]" "[]" "rev (raw_ids operations)"]
    by (auto simp: validateEvidence_def)
next
  case (Inr seen)
  note ops = validate_operations_Inr[THEN iffD1, OF Inr]
  have found: "find (\<lambda>i. \<not> List.member seen i) rawOnlyOperations = None \<longleftrightarrow>
      list_all (\<lambda>i. i \<in> set (raw_ids operations)) rawOnlyOperations"
    using ops by (auto simp: find_None_iff list_all_iff)
  show ?thesis
  proof (cases "find (\<lambda>i. \<not> List.member seen i) rawOnlyOperations")
    case None
    then show ?thesis
      using ops found by (simp add: validateEvidence_def Inr validate_events_None)
  next
    case (Some i)
    then have "validateEvidence operations inventory \<noteq> None" by (simp add: validateEvidence_def Inr)
    then show ?thesis using found Some by auto
  qed
qed

text \<open>The validation is exact.  It accepts the rows and the inventory exactly when operation ids and
  local case names are unique, every row's metadata is complete and valid, every raw SDK exception
  of the source occurs as such, and no event has the evidence key of another.\<close>

theorem validateEvidence_accepts_iff:
  "validateEvidence operations inventory = None \<longleftrightarrow>
     list_all evidence_ok operations \<and> distinct (map gen_OperationID operations) \<and>
     distinct (map LocalCase operations) \<and>
     list_all (\<lambda>i. i \<in> set (raw_ids operations)) rawOnlyOperations \<and>
     distinct (map evidence_key (collectEvents inventory))"
  by (rule validate_accepts)

end
