(* ===== verification/Serve_Mux.thy ===== *)
theory Serve_Mux
  imports Go_Path
begin

section \<open>net/http: patterns of ServeMux\<close>

text \<open>
  The syntax of patterns and the conflict test that \<open>ServeMux.Handle\<close> panics on, as of Go 1.22: a
  method, a host and path segments, where a pattern may be registered only if it neither equals nor
  overlaps one that is already there.  Letters and digits outside ASCII, which wildcard names may
  have, come from the Unicode tables, an argument \<open>uc\<close> that gives for a rune whether it is a letter
  and whether it is a digit.
\<close>

datatype segment = Seg (seg_text: string) (seg_wild: bool) (seg_multi: bool)

record mux_pattern =
  mp_method :: string
  mp_host :: string
  mp_segments :: "segment list"

datatype relationship = Equivalent | MoreGeneral | MoreSpecific | Disjoint | Overlaps

subsection \<open>Parsing\<close>

fun PathUnescape :: "string \<Rightarrow> string option" where
  "PathUnescape [] = Some []"
| "PathUnescape (c # s) =
     (if c = CHR ''%'' then
        (case s of
           h # l # r \<Rightarrow>
             (case (hex_val h, hex_val l) of
                (Some a, Some b) \<Rightarrow> map_option ((#) (char_of (16 * a + b))) (PathUnescape r)
              | _ \<Rightarrow> None)
         | _ \<Rightarrow> None)
      else map_option ((#) c) (PathUnescape s))"

definition pathUnescape :: "string \<Rightarrow> string" where
  "pathUnescape s = (case PathUnescape s of Some u \<Rightarrow> u | None \<Rightarrow> s)"

definition cleanPath :: "string \<Rightarrow> string" where
  "cleanPath p =
    (if p = [] then ''/''
     else
       (let p = (if HasPrefix p ''/'' then p else ''/'' @ p); np = Clean p
        in if last p = CHR ''/'' \<and> np \<noteq> ''/''
           then (if length p = length np + 1 \<and> HasPrefix p np then p else np @ ''/'')
           else np))"

definition blank :: "char \<Rightarrow> bool" where
  "blank c \<longleftrightarrow> c = CHR '' '' \<or> c = CHR 0x09"

text \<open>The rune a nonempty string starts with and its width; an invalid byte is U+FFFD.\<close>

definition first_rune :: "string \<Rightarrow> nat \<times> nat" where
  "first_rune s =
    (let b = map byte_val s in
     if byte_val (hd s) < 128 then (b ! 0, 1)
     else if rune_width s = 2 then ((b ! 0 - 0xC0) * 64 + (b ! 1 - 0x80), 2)
     else if rune_width s = 3 then ((b ! 0 - 0xE0) * 4096 + (b ! 1 - 0x80) * 64 + (b ! 2 - 0x80), 3)
     else if rune_width s = 4 then
       ((b ! 0 - 0xF0) * 262144 + (b ! 1 - 0x80) * 4096 + (b ! 2 - 0x80) * 64 + (b ! 3 - 0x80), 4)
     else (0xFFFD, 1))"

type_synonym unicode_tables = "nat \<Rightarrow> bool \<times> bool"

definition rune_letter :: "unicode_tables \<Rightarrow> nat \<Rightarrow> bool" where
  "rune_letter uc r =
    (if r < 128 then 65 \<le> r \<and> r \<le> 90 \<or> 97 \<le> r \<and> r \<le> 122 else fst (uc r))"

definition rune_digit :: "unicode_tables \<Rightarrow> nat \<Rightarrow> bool" where
  "rune_digit uc r = (if r < 128 then 48 \<le> r \<and> r \<le> 57 else snd (uc r))"

function name_runes :: "unicode_tables \<Rightarrow> bool \<Rightarrow> string \<Rightarrow> bool" where
  "name_runes uc first s =
    (if s = [] then True
     else
       (case first_rune s of (r, w) \<Rightarrow>
          (rune_letter uc r \<or> r = 95 \<or> (\<not> first \<and> rune_digit uc r)) \<and>
          name_runes uc False (drop (max 1 w) s)))"
  by pat_completeness auto
termination
  by (relation "measure (\<lambda>(_, _, s). length s)") auto

declare name_runes.simps [simp del]

definition isValidWildcardName :: "unicode_tables \<Rightarrow> string \<Rightarrow> bool" where
  "isValidWildcardName uc s \<longleftrightarrow> s \<noteq> [] \<and> name_runes uc True s"

definition CutSuffix :: "string \<Rightarrow> string \<Rightarrow> string \<times> bool" where
  "CutSuffix s q =
    (if length q \<le> length s \<and> drop (length s - length q) s = q
     then (take (length s - length q) s, True) else (s, False))"

text \<open>The segments of a path after its first slash, split at the others: the last element of
  \<open>parts\<close> is empty for a trailing slash.\<close>

fun parse_segments :: "unicode_tables \<Rightarrow> string list \<Rightarrow> string list \<Rightarrow> segment list option" where
  "parse_segments uc seen [] = Some []"
| "parse_segments uc seen (seg # parts) =
     (if seg = [] \<and> parts = [] then Some [Seg [] True True]
      else if CHR ''{'' \<notin> set seg then
        map_option ((#) (Seg (pathUnescape seg) False False)) (parse_segments uc seen parts)
      else if hd seg \<noteq> CHR ''{'' \<or> last seg \<noteq> CHR ''}'' then None
      else
        (let name = butlast (tl seg) in
         if name = ''$'' then (if parts = [] then Some [Seg ''/'' False False] else None)
         else
           (case CutSuffix name ''...'' of (name, multi) \<Rightarrow>
              if multi \<and> parts \<noteq> [] then None
              else if \<not> isValidWildcardName uc name then None
              else if name \<in> set seen then None
              else map_option ((#) (Seg name True multi)) (parse_segments uc (name # seen) parts))))"

definition parsePattern :: "unicode_tables \<Rightarrow> string \<Rightarrow> mux_pattern option" where
  "parsePattern uc s =
    (if s = [] then None
     else
       (let found = list_ex blank s;
            method = (if found then takeWhile (\<lambda>c. \<not> blank c) s else []);
            rest = (if found then dropWhile blank (dropWhile (\<lambda>c. \<not> blank c) s) else s);
            host = takeWhile (\<lambda>c. c \<noteq> CHR ''/'') rest;
            path = dropWhile (\<lambda>c. c \<noteq> CHR ''/'') rest
        in if method \<noteq> [] \<and> \<not> list_all validHeaderFieldByte method then None
           else if path = [] then None
           else if CHR ''{'' \<in> set host then None
           else if method \<noteq> [] \<and> method \<noteq> ''CONNECT'' \<and> path \<noteq> cleanPath path then None
           else map_option
             (\<lambda>segments. \<lparr>mp_method = method, mp_host = host, mp_segments = segments\<rparr>)
             (parse_segments uc [] (Split (tl path) (CHR ''/'')))))"

subsection \<open>Conflicts\<close>

definition inverseRelationship :: "relationship \<Rightarrow> relationship" where
  "inverseRelationship r =
    (case r of MoreSpecific \<Rightarrow> MoreGeneral | MoreGeneral \<Rightarrow> MoreSpecific | _ \<Rightarrow> r)"

fun combineRelationships :: "relationship \<Rightarrow> relationship \<Rightarrow> relationship" where
  "combineRelationships Equivalent r2 = r2"
| "combineRelationships Disjoint r2 = Disjoint"
| "combineRelationships Overlaps r2 = (if r2 = Disjoint then Disjoint else Overlaps)"
| "combineRelationships r1 r2 =
     (if r2 = Equivalent then r1 else if r2 = inverseRelationship r1 then Overlaps else r2)"

definition compareMethods :: "string \<Rightarrow> string \<Rightarrow> relationship" where
  "compareMethods m1 m2 =
    (if m1 = m2 then Equivalent
     else if m1 = [] then MoreGeneral
     else if m2 = [] then MoreSpecific
     else if m1 = ''GET'' \<and> m2 = ''HEAD'' then MoreGeneral
     else if m2 = ''GET'' \<and> m1 = ''HEAD'' then MoreSpecific
     else Disjoint)"

definition compareSegments :: "segment \<Rightarrow> segment \<Rightarrow> relationship" where
  "compareSegments s1 s2 =
    (if seg_multi s1 \<and> seg_multi s2 then Equivalent
     else if seg_multi s1 then MoreGeneral
     else if seg_multi s2 then MoreSpecific
     else if seg_wild s1 \<and> seg_wild s2 then Equivalent
     else if seg_wild s1 then (if seg_text s2 = ''/'' then Disjoint else MoreGeneral)
     else if seg_wild s2 then (if seg_text s1 = ''/'' then Disjoint else MoreSpecific)
     else if seg_text s1 = seg_text s2 then Equivalent else Disjoint)"

fun compare_from :: "relationship \<Rightarrow> bool \<Rightarrow> bool \<Rightarrow> segment list \<Rightarrow> segment list \<Rightarrow> relationship" where
  "compare_from rel multi1 multi2 (s1 # ss1) (s2 # ss2) =
     (let rel' = combineRelationships rel (compareSegments s1 s2)
      in if rel' = Disjoint then Disjoint else compare_from rel' multi1 multi2 ss1 ss2)"
| "compare_from rel multi1 multi2 [] [] = rel"
| "compare_from rel multi1 multi2 [] (s2 # ss2) =
     (if multi1 then combineRelationships rel MoreGeneral else Disjoint)"
| "compare_from rel multi1 multi2 (s1 # ss1) [] =
     (if multi2 then combineRelationships rel MoreSpecific else Disjoint)"

definition comparePaths :: "segment list \<Rightarrow> segment list \<Rightarrow> relationship" where
  "comparePaths ss1 ss2 =
    (let m1 = seg_multi (last ss1); m2 = seg_multi (last ss2)
     in if length ss1 \<noteq> length ss2 \<and> \<not> m1 \<and> \<not> m2 then Disjoint
        else compare_from Equivalent m1 m2 ss1 ss2)"

definition conflictsWith :: "mux_pattern \<Rightarrow> mux_pattern \<Rightarrow> bool" where
  "conflictsWith p1 p2 \<longleftrightarrow>
    mp_host p1 = mp_host p2 \<and>
    (let mrel = compareMethods (mp_method p1) (mp_method p2);
         rel = (if mrel = Disjoint then Disjoint
                else combineRelationships mrel (comparePaths (mp_segments p1) (mp_segments p2)))
     in rel = Equivalent \<or> rel = Overlaps)"

lemma conflictsWith_refl: "conflictsWith p p"
proof -
  have seg: "compareSegments s s = Equivalent" for s
    by (simp add: compareSegments_def)
  have "compare_from Equivalent m m' ss ss = Equivalent" for m m' ss
    by (induction ss) (auto simp: seg)
  then show ?thesis
    by (simp add: conflictsWith_def compareMethods_def comparePaths_def Let_def)
qed

end
