(* ===== verification/Go_Base64.thy ===== *)
theory Go_Base64
  imports Go_Strings
begin

section \<open>encoding/base64: the standard encoding\<close>

text \<open>
  \<open>StdEncoding.DecodeString\<close>: line breaks are skipped everywhere, four characters make three bytes,
  padding ends the input and its spare bits are ignored.  \<open>EncodeToString\<close> writes no line breaks.
\<close>

definition base64_alphabet :: string where
  "base64_alphabet = ''ABCDEFGHIJKLMNOPQRSTUVWXYZabcdefghijklmnopqrstuvwxyz0123456789+/''"

definition base64_values :: "(char \<times> nat) list" where
  "base64_values = zip base64_alphabet [0..<64]"

definition base64_value :: "char \<Rightarrow> nat option" where
  "base64_value c = map_of base64_values c"

definition base64_first :: "nat \<Rightarrow> nat \<Rightarrow> char" where
  "base64_first x y = char_of (x * 4 + y div 16)"

definition base64_second :: "nat \<Rightarrow> nat \<Rightarrow> char" where
  "base64_second y z = char_of (y mod 16 * 16 + z div 4)"

definition base64_third :: "nat \<Rightarrow> nat \<Rightarrow> char" where
  "base64_third z w = char_of (z mod 4 * 64 + w)"

fun base64_quanta :: "string \<Rightarrow> string option" where
  "base64_quanta [] = Some []"
| "base64_quanta (a # b # c # d # r) =
     (case (base64_value a, base64_value b) of
        (Some x, Some y) \<Rightarrow>
          if c = CHR ''='' then (if d = CHR ''='' \<and> r = [] then Some [base64_first x y] else None)
          else
            (case base64_value c of
               None \<Rightarrow> None
             | Some z \<Rightarrow>
                 if d = CHR ''='' then
                   (if r = [] then Some [base64_first x y, base64_second y z] else None)
                 else
                   (case base64_value d of
                      None \<Rightarrow> None
                    | Some w \<Rightarrow>
                        map_option (\<lambda>bytes. base64_first x y # base64_second y z # base64_third z w # bytes)
                          (base64_quanta r)))
      | _ \<Rightarrow> None)"
| "base64_quanta _ = None"

definition DecodeString :: "string \<Rightarrow> string option" where
  "DecodeString s = base64_quanta (filter (\<lambda>c. c \<noteq> CHR 0x0A \<and> c \<noteq> CHR 0x0D) s)"

subsection \<open>The encoder\<close>

definition base64_char :: "nat \<Rightarrow> char" where
  "base64_char n = base64_alphabet ! n"

fun base64_encode :: "string \<Rightarrow> string" where
  "base64_encode [] = []"
| "base64_encode [a] =
     [base64_char (byte_val a div 4), base64_char (byte_val a mod 4 * 16), CHR ''='', CHR ''='']"
| "base64_encode [a, b] =
     [base64_char (byte_val a div 4), base64_char (byte_val a mod 4 * 16 + byte_val b div 16),
      base64_char (byte_val b mod 16 * 4), CHR ''='']"
| "base64_encode (a # b # c # r) =
     [base64_char (byte_val a div 4), base64_char (byte_val a mod 4 * 16 + byte_val b div 16),
      base64_char (byte_val b mod 16 * 4 + byte_val c div 64), base64_char (byte_val c mod 64)] @
     base64_encode r"

lemma base64_char_all:
  "list_all (\<lambda>n. base64_value (base64_char n) = Some n \<and> base64_char n \<noteq> CHR ''='' \<and>
     base64_char n \<noteq> CHR 0x0A \<and> base64_char n \<noteq> CHR 0x0D) [0..<64]"
  by code_simp

lemma base64_char_facts [simp]:
  assumes "n < 64"
  shows "base64_value (base64_char n) = Some n" "base64_char n \<noteq> CHR ''=''"
    "base64_char n \<noteq> CHR 0x0A" "base64_char n \<noteq> CHR 0x0D"
  using base64_char_all assms by (auto simp: list_all_iff)

lemma byte_val_parts [simp]:
  "byte_val a div 4 < 64" "byte_val a mod 4 * 16 < 64" "byte_val a mod 4 * 16 + byte_val b div 16 < 64"
  "byte_val b mod 16 * 4 < 64" "byte_val b mod 16 * 4 + byte_val c div 64 < 64" "byte_val c mod 64 < 64"
proof -
  have byte: "byte_val c < 256" for c by simp
  show "byte_val a div 4 < 64" "byte_val a mod 4 * 16 < 64" "byte_val b mod 16 * 4 < 64" "byte_val c mod 64 < 64"
    using byte[of a] by (simp_all add: less_mult_imp_div_less)
  have "byte_val b div 16 < 16" "byte_val c div 64 < 4" "byte_val a mod 4 < 4" "byte_val b mod 16 < 16"
    using byte[of b] byte[of c] by (simp_all add: less_mult_imp_div_less)
  then show "byte_val a mod 4 * 16 + byte_val b div 16 < 64" "byte_val b mod 16 * 4 + byte_val c div 64 < 64"
    by linarith+
qed

lemma base64_bytes:
  assumes "n < 16"
  shows "base64_first (byte_val a div 4) (byte_val a mod 4 * 16 + n) = a"
    and "m < 4 \<Longrightarrow> base64_second (k * 16 + byte_val a div 16) (byte_val a mod 16 * 4 + m) = a"
    and "base64_third (j * 4 + byte_val a div 64) (byte_val a mod 64) = a"
proof -
  have "byte_val a div 4 * 4 + (byte_val a mod 4 * 16 + n) div 16 = byte_val a" using assms by simp
  then show "base64_first (byte_val a div 4) (byte_val a mod 4 * 16 + n) = a"
    by (simp only: base64_first_def char_of_char)
  have "byte_val a div 16 < 16" by (simp add: less_mult_imp_div_less)
  then have "(k * 16 + byte_val a div 16) mod 16 * 16 + (byte_val a mod 16 * 4 + m) div 4 = byte_val a"
    if "m < 4" using that by simp
  then show "m < 4 \<Longrightarrow> base64_second (k * 16 + byte_val a div 16) (byte_val a mod 16 * 4 + m) = a"
    by (simp only: base64_second_def char_of_char)
  have "byte_val a div 64 < 4" by (simp add: less_mult_imp_div_less)
  then have "(j * 4 + byte_val a div 64) mod 4 * 64 + byte_val a mod 64 = byte_val a" by simp
  then show "base64_third (j * 4 + byte_val a div 64) (byte_val a mod 64) = a"
    by (simp only: base64_third_def char_of_char)
qed

lemma byte_parts_less: "byte_val a div 16 < 16" "byte_val a div 64 < 4"
  by (simp_all add: less_mult_imp_div_less)

lemma base64_quanta_encode: "base64_quanta (base64_encode s) = Some s"
proof (induction s rule: base64_encode.induct)
  case (2 a)
  then show ?case using base64_bytes(1)[of 0 a] by simp
next
  case (3 a b)
  then show ?case
    using base64_bytes(1)[of "byte_val b div 16" a] base64_bytes(2)[of 0 0 "byte_val a mod 4" b]
    by (simp add: byte_parts_less)
next
  case (4 a b c r)
  then show ?case
    using base64_bytes(1)[of "byte_val b div 16" a]
      base64_bytes(2)[of 0 "byte_val c div 64" "byte_val a mod 4" b]
      base64_bytes(3)[of 0 "byte_val b mod 16" c]
    by (simp add: byte_parts_less)
qed simp

lemma base64_char_plain:
  "list_all (\<lambda>n. base64_char n \<notin> {CHR 0x22, CHR 0x5C} \<and> byte_val (base64_char n) \<in> {32..<127}) [0..<64]"
proof -
  have "list_all (\<lambda>c. c \<notin> {CHR 0x22, CHR 0x5C} \<and> byte_val c \<in> {32..<127}) base64_alphabet"
    by (simp add: base64_alphabet_def)
  moreover have "length base64_alphabet = 64" by (simp add: base64_alphabet_def)
  ultimately show ?thesis by (simp add: list_all_length base64_char_def)
qed

lemma base64_encode_plain:
  "c \<in> set (base64_encode s) \<Longrightarrow> c \<noteq> CHR 0x22 \<and> c \<noteq> CHR 0x5C \<and> 32 \<le> byte_val c \<and> byte_val c < 127"
proof (induction s rule: base64_encode.induct)
  case (2 a)
  then show ?case using base64_char_plain by (auto simp: list_all_iff)
next
  case (3 a b)
  then show ?case using base64_char_plain by (auto simp: list_all_iff)
next
  case (4 a b c r)
  then show ?case using base64_char_plain by (auto simp: list_all_iff)
qed simp

lemma base64_encode_no_breaks: "c \<in> set (base64_encode s) \<Longrightarrow> c \<noteq> CHR 0x0A \<and> c \<noteq> CHR 0x0D"
  by (induction s rule: base64_encode.induct) auto

text \<open>Decoding what was encoded gives the bytes back, wherever lines were broken.\<close>

lemma DecodeString_encode: "DecodeString (base64_encode s) = Some s"
proof -
  have "filter (\<lambda>c. c \<noteq> CHR 0x0A \<and> c \<noteq> CHR 0x0D) (base64_encode s) = base64_encode s"
    using base64_encode_no_breaks by (simp add: filter_id_conv)
  then show ?thesis by (simp add: DecodeString_def base64_quanta_encode)
qed

lemma DecodeString_break: "n = CHR 0x0A \<or> n = CHR 0x0D \<Longrightarrow> DecodeString (s @ n # t) = DecodeString (s @ t)"
  by (auto simp: DecodeString_def)

end
