(* ===== verification/Gen_Render.thy ===== *)
theory Gen_Render
  imports Gen_Evidence Serve_Mux Go_Base64
begin

section \<open>What the generator prints: internal/cmd/openai-gen/main.go\<close>

text \<open>
  The compatibility matrix, the Go tables and the SDK manifest.  Which runes outside ASCII are
  printable comes from the Unicode tables, an argument \<open>pr\<close>; compression and digest of the document
  are third party to the program text and arguments too, as is the formatting of Go source.
\<close>

subsection \<open>strconv.Quote\<close>

definition hex_digits :: "nat \<Rightarrow> nat \<Rightarrow> string" where
  "hex_digits width n = map (\<lambda>i. hex_digit (n div 16 ^ i mod 16)) (rev [0..<width])"

definition rune_printable :: "(nat \<Rightarrow> bool) \<Rightarrow> nat \<Rightarrow> bool" where
  "rune_printable pr r = (if r < 128 then 32 \<le> r \<and> r < 127 else pr r)"

definition escape_rune :: "(nat \<Rightarrow> bool) \<Rightarrow> nat \<Rightarrow> string \<Rightarrow> string" where
  "escape_rune pr r bytes =
    (if r = 0x22 \<or> r = 0x5C then CHR 0x5C # bytes
     else if rune_printable pr r then bytes
     else if r = 7 then [CHR 0x5C, CHR ''a'']
     else if r = 8 then [CHR 0x5C, CHR ''b'']
     else if r = 12 then [CHR 0x5C, CHR ''f'']
     else if r = 10 then [CHR 0x5C, CHR ''n'']
     else if r = 13 then [CHR 0x5C, CHR ''r'']
     else if r = 9 then [CHR 0x5C, CHR ''t'']
     else if r = 11 then [CHR 0x5C, CHR ''v'']
     else if r < 32 \<or> r = 127 then [CHR 0x5C, CHR ''x''] @ hex_digits 2 r
     else if r < 0x10000 then [CHR 0x5C, CHR ''u''] @ hex_digits 4 r
     else [CHR 0x5C, CHR ''U''] @ hex_digits 8 r)"

function quote_runes :: "(nat \<Rightarrow> bool) \<Rightarrow> string \<Rightarrow> string" where
  "quote_runes pr s =
    (if s = [] then []
     else if \<not> ascii (hd s) \<and> rune_width s = 0 then
       [CHR 0x5C, CHR ''x''] @ hex_digits 2 (byte_val (hd s)) @ quote_runes pr (tl s)
     else
       (case first_rune s of (r, w) \<Rightarrow>
          escape_rune pr r (take (max 1 w) s) @ quote_runes pr (drop (max 1 w) s)))"
  by pat_completeness auto
termination
  by (relation "measure (\<lambda>(_, s). length s)") auto

declare quote_runes.simps [simp del]

definition Quote :: "(nat \<Rightarrow> bool) \<Rightarrow> string \<Rightarrow> string" where
  "Quote pr s = CHR 0x22 # quote_runes pr s @ [CHR 0x22]"

subsection \<open>The compatibility matrix\<close>

definition newline :: char where "newline = CHR 0x0A"

definition Fprintln :: "string list \<Rightarrow> string" where
  "Fprintln operands = join_with '' '' operands @ [newline]"

definition yamlList :: "(nat \<Rightarrow> bool) \<Rightarrow> string list \<Rightarrow> string" where
  "yamlList pr values = ''['' @ join_with '', '' (map (Quote pr) values) @ '']''"

definition matrix_operation :: "(nat \<Rightarrow> bool) \<Rightarrow> generatedOperation \<Rightarrow> string list list" where
  "matrix_operation pr operation =
    [[''  - operation:'', Quote pr (gen_OperationID operation)],
     [''    method:'', Quote pr (gen_Method operation)],
     [''    path:'', Quote pr (gen_Path operation)],
     [''    capability:'', Quote pr (gen_Capability operation)],
     [''    route: covered''],
     [''    local_semantic: validated_official_sdk''],
     [''    local_case:'', Quote pr (LocalCase operation)],
     [''    sdk_call:'', SDKCall operation],
     [''    transports:'', yamlList pr (Transports operation)],
     [''    schema_cases:'', yamlList pr (SchemaCases operation)],
     [''    live_profile:'', LiveProfile operation],
     [''    live_reason:'', Quote pr (LiveReason operation)]]"

definition event_semantic :: "string \<Rightarrow> string" where
  "event_semantic direction =
    (case map_of [(''client'', ''send''), (''server'', ''listener'')] direction of Some v \<Rightarrow> v | None \<Rightarrow> [])"

definition matrix_event :: "(nat \<Rightarrow> bool) \<Rightarrow> generatedEvent \<Rightarrow> string list list" where
  "matrix_event pr event =
    [[''  - surface:'', Quote pr (ge_Surface event)],
     [''    direction:'', Quote pr (ge_Direction event)],
     [''    type:'', Quote pr (ge_Type event)],
     [''    capability: realtime''],
     [''    route: covered''],
     [''    local_semantic: official_sdk_'' @ event_semantic (ge_Direction event)],
     [''    local_case:'',
       Quote pr (''websocket.'' @ ge_Surface event @ ''.'' @ ge_Direction event @ ''.'' @ ge_Type event)],
     [''    transports: [websocket]''],
     [''    schema_cases: [representative_payload, unknown_field_preserved]''],
     [''    live_profile: unavailable''],
     [''    live_reason: \"no bounded live WebSocket differential is configured\"'']]"

definition matrix_lines :: "(nat \<Rightarrow> bool) \<Rightarrow> generatedOperation list \<Rightarrow> eventInventory \<Rightarrow> string list list" where
  "matrix_lines pr operations events =
    [[''# Code generated by internal/cmd/openai-gen; DO NOT EDIT.''],
     [''profile: openai-m1''],
     [''sdk:'', Quote pr (SDK events)],
     [''http:'']] @
    concat (map (matrix_operation pr) operations) @
    [[''events:'']] @
    concat (map (matrix_event pr) (collectEvents events))"

definition renderCompatibility :: "(nat \<Rightarrow> bool) \<Rightarrow> generatedOperation list \<Rightarrow> eventInventory \<Rightarrow> string" where
  "renderCompatibility pr operations events = concat (map Fprintln (matrix_lines pr operations events))"

subsection \<open>The Go tables\<close>

text \<open>\<open>%#v\<close> of a string slice; an empty one in a row is nil.\<close>

definition go_slice :: "(nat \<Rightarrow> bool) \<Rightarrow> string list \<Rightarrow> string" where
  "go_slice pr values =
    (if values = [] then ''[]string(nil)''
     else ''[]string{'' @ join_with '', '' (map (Quote pr) values) @ ''}'')"

definition go_operation :: "(nat \<Rightarrow> bool) \<Rightarrow> generatedOperation \<Rightarrow> string" where
  "go_operation pr operation =
    ''{Method:'' @ Quote pr (gen_Method operation) @ '', Path:'' @ Quote pr (gen_Path operation) @
    '', ID:'' @ Quote pr (gen_OperationID operation) @ '', Capability:'' @ Quote pr (gen_Capability operation) @
    '', RequestMedia:'' @ go_slice pr (gen_RequestMedia operation) @
    '', ResponseMedia:'' @ go_slice pr (gen_ResponseMedia operation) @
    '', SuccessStatus:'' @ Itoa (gen_SuccessStatus operation) @ ''},''"

definition go_event :: "(nat \<Rightarrow> bool) \<Rightarrow> generatedEvent \<Rightarrow> string" where
  "go_event pr event =
    ''{Surface:'' @ Quote pr (ge_Surface event) @ '', Direction:'' @ Quote pr (ge_Direction event) @
    '', Type:'' @ Quote pr (ge_Type event) @ ''},''"

definition render_lines ::
  "(nat \<Rightarrow> bool) \<Rightarrow> string \<Rightarrow> string \<Rightarrow> nat \<Rightarrow> generatedOperation list \<Rightarrow> eventInventory \<Rightarrow> string list" where
  "render_lines pr digest compressed pathCount operations inventory =
    [''// Code generated by internal/cmd/openai-gen; DO NOT EDIT.'',
     ''package profile'',
     [],
     ''const SpecPathCount = '' @ Itoa (int pathCount),
     ''const SpecOperationCount = '' @ Itoa (int (length operations)),
     ''const SpecSHA256 = '' @ Quote pr digest,
     ''const compressedSpecBase64 = '' @ Quote pr compressed,
     [],
     ''var Operations = []Operation{''] @
    map (go_operation pr) operations @
    [''}'', [], ''var Events = []Event{''] @
    map (go_event pr) (collectEvents inventory) @
    [''}'']"

text \<open>\<open>compress\<close> gives the bytes of the compressed document or \<open>None\<close> when writing fails, \<open>digest\<close> the
  hex digits of its SHA-256, \<open>gofmt\<close> is \<open>format.Source\<close>.\<close>

definition render ::
  "(nat \<Rightarrow> bool) \<Rightarrow> (string \<Rightarrow> string option) \<Rightarrow> (string \<Rightarrow> string) \<Rightarrow> (string \<Rightarrow> string option) \<Rightarrow>
   string \<Rightarrow> nat \<Rightarrow> generatedOperation list \<Rightarrow> eventInventory \<Rightarrow> string option" where
  "render pr compress digest gofmt raw pathCount operations inventory =
    (case compress raw of
       None \<Rightarrow> None
     | Some compressed \<Rightarrow>
         gofmt (concat (map (\<lambda>l. l @ [newline])
           (render_lines pr (digest raw) (base64_encode compressed) pathCount operations inventory))))"

subsection \<open>Quoting leaves no control character\<close>

definition visible :: "string \<Rightarrow> bool" where
  "visible s \<longleftrightarrow> list_all (\<lambda>c. 32 \<le> byte_val c) s"

lemma visible_simps [simp]:
  "visible []" "visible (c # s) \<longleftrightarrow> 32 \<le> byte_val c \<and> visible s" "visible (s @ t) \<longleftrightarrow> visible s \<and> visible t"
  by (simp_all add: visible_def)

lemma visible_join: "visible sep \<Longrightarrow> list_all visible xs \<Longrightarrow> visible (join_with sep xs)"
  by (induction sep xs rule: join_with.induct) auto

lemma visible_hex: "visible (hex_digits width n)"
proof -
  have "list_all (\<lambda>k. 32 \<le> byte_val (hex_digit k)) [0..<16]"
    by (simp add: upt_rec hex_digit_def)
  then have "32 \<le> byte_val (hex_digit (k mod 16))" for k
    by (simp add: list_all_iff)
  then show ?thesis by (simp add: visible_def hex_digits_def list_all_iff)
qed

lemma byte_in_high: "byte_in lo hi c \<Longrightarrow> 128 \<le> lo \<Longrightarrow> 128 \<le> byte_val c"
  by (simp add: byte_in_def)

lemma rune_bytes:
  assumes "\<not> ascii (hd s)" and "s \<noteq> []"
  shows "list_all (\<lambda>c. 128 \<le> byte_val c) (take (rune_width s) s)"
proof -
  obtain a t where s: "s = a # t" using assms(2) by (cases s) auto
  have a: "128 \<le> byte_val a" "\<not> ascii a" using assms(1) by (auto simp: s ascii_def)
  have third: "128 \<le> byte_val b" if "byte_in 0x80 0xBF b" for b using that by (simp add: byte_in_def)
  consider "byte_in 0xC2 0xDF a" | "\<not> byte_in 0xC2 0xDF a" "byte_in 0xE0 0xEF a"
    | "\<not> byte_in 0xC2 0xDF a" "\<not> byte_in 0xE0 0xEF a" "byte_in 0xF0 0xF4 a"
    | "\<not> byte_in 0xC2 0xDF a" "\<not> byte_in 0xE0 0xEF a" "\<not> byte_in 0xF0 0xF4 a"
    by blast
  then show ?thesis
  proof cases
    case 1
    then show ?thesis using a third by (simp add: s split: list.split)
  next
    case 2
    define lo :: nat where "lo = (if byte_val a = 0xE0 then 0xA0 else 0x80)"
    define hi :: nat where "hi = (if byte_val a = 0xED then 0x9F else 0xBF)"
    have width: "rune_width s = (case t of b # c # _ \<Rightarrow>
        if byte_in lo hi b \<and> byte_in 0x80 0xBF c then 3 else 0 | _ \<Rightarrow> 0)"
      unfolding s rune_width.simps(2) lo_def hi_def using 2 a by (simp only: if_False if_True)
    have lo: "128 \<le> lo" by (simp add: lo_def)
    from width have "rune_width s = 0 \<or>
        rune_width s = 3 \<and> (\<exists>b c u. t = b # c # u \<and> byte_in lo hi b \<and> byte_in 0x80 0xBF c)"
      by (simp split: list.splits if_splits)
    then show ?thesis
    proof (elim disjE conjE exE)
      fix b c u assume "rune_width s = 3" "t = b # c # u" "byte_in lo hi b" "byte_in 0x80 0xBF c"
      then show ?thesis using a(1) byte_in_high[OF _ lo, of hi b] third[of c] by (simp add: s numeral_3_eq_3 del: rune_width.simps)
    qed simp
  next
    case 3
    define lo :: nat where "lo = (if byte_val a = 0xF0 then 0x90 else 0x80)"
    define hi :: nat where "hi = (if byte_val a = 0xF4 then 0x8F else 0xBF)"
    have width: "rune_width s = (case t of b # c # d # _ \<Rightarrow>
        if byte_in lo hi b \<and> byte_in 0x80 0xBF c \<and> byte_in 0x80 0xBF d then 4 else 0 | _ \<Rightarrow> 0)"
      unfolding s rune_width.simps(2) lo_def hi_def using 3 a by (simp only: if_False if_True)
    have lo: "128 \<le> lo" by (simp add: lo_def)
    from width have "rune_width s = 0 \<or> rune_width s = 4 \<and>
        (\<exists>b c d u. t = b # c # d # u \<and> byte_in lo hi b \<and> byte_in 0x80 0xBF c \<and> byte_in 0x80 0xBF d)"
      by (simp split: list.splits if_splits)
    then show ?thesis
    proof (elim disjE conjE exE)
      fix b c d u
      assume "rune_width s = 4" "t = b # c # d # u" "byte_in lo hi b" "byte_in 0x80 0xBF c" "byte_in 0x80 0xBF d"
      then show ?thesis using a(1) byte_in_high[OF _ lo, of hi b] third[of c] third[of d]
        by (simp add: s eval_nat_numeral del: rune_width.simps)
    qed simp
  next
    case 4
    then show ?thesis using a by (simp add: s)
  qed
qed

lemma visible_escape:
  assumes "s \<noteq> []" and "ascii (hd s) \<or> rune_width s \<noteq> 0" and "first_rune s = (r, w)"
  shows "visible (escape_rune pr r (take (max 1 w) s))"
proof (cases "ascii (hd s)")
  case True
  then have "r = byte_val (hd s)" "w = 1"
    using assms(1,3) by (auto simp: first_rune_def ascii_def hd_conv_nth)
  moreover have "take 1 s = [hd s]" using assms(1) by (cases s) auto
  ultimately show ?thesis
    by (auto simp: escape_rune_def rune_printable_def visible_hex ascii_def)
next
  case False
  have width: "w = rune_width s \<or> w = 1"
    using assms(3) False by (auto simp: first_rune_def ascii_def Let_def split: if_splits)
  have "rune_width s \<noteq> 1" "rune_width s \<le> 4"
    using False assms(1) by (cases s; auto split: list.splits)+
  then have "rune_width s \<in> {2, 3, 4}" using False assms(2) by auto
  then have "w = rune_width s" using assms(3) False by (auto simp: first_rune_def ascii_def Let_def)
  then have "max 1 w = rune_width s" using assms(2) False by simp
  moreover have "visible (take (rune_width s) s)"
    using rune_bytes[OF False assms(1)] by (fastforce simp: visible_def list_all_iff)
  ultimately show ?thesis by (simp add: escape_rune_def visible_hex)
qed

lemma visible_Quote: "visible (Quote pr s)"
proof -
  have "visible (quote_runes pr s)"
  proof (induction pr s rule: quote_runes.induct)
    case (1 pr s)
    show ?case
    proof (cases "s = [] \<or> \<not> ascii (hd s) \<and> rune_width s = 0")
      case True
      then show ?thesis using "1.IH"(1) by (subst quote_runes.simps) (auto simp: visible_hex)
    next
      case False
      obtain r w where rw: "first_rune s = (r, w)" by force
      have "visible (escape_rune pr r (take (max 1 w) s))"
        by (rule visible_escape[OF _ _ rw]) (use False in auto)
      moreover have "visible (quote_runes pr (drop (max 1 w) s))"
        using "1.IH"(2) False rw by auto
      moreover have "quote_runes pr s = escape_rune pr r (take (max 1 w) s) @ quote_runes pr (drop (max 1 w) s)"
        using False rw by (subst quote_runes.simps) auto
      ultimately show ?thesis by simp
    qed
  qed
  then show ?thesis by (simp add: Quote_def)
qed

lemma visible_yamlList: "visible (yamlList pr values)"
  unfolding yamlList_def by (simp add: visible_join list_all_iff visible_Quote)

lemma visible_no_newline: "visible s \<Longrightarrow> newline \<notin> set s"
  by (auto simp: visible_def list_all_iff newline_def)

end
