(* ===== verification/Gen_Determinism.thy ===== *)
theory Gen_Determinism
  imports Gen_Operations Backend_Types
begin

section \<open>What the generator's collection of operations guarantees\<close>

text \<open>
  The rows depend on the content of the document only, not on the order in which Go visits its
  maps, and every row is one the runtime can serve.
\<close>

subsection \<open>The pieces of a row\<close>

lemma set_appendUnique [simp]: "set (appendUnique xs x) = insert x (set xs)"
  by (auto simp: appendUnique_def)

lemma appendUnique_not_Nil [simp]: "appendUnique xs x \<noteq> []"
  by (auto simp: appendUnique_def)

lemma distinct_appendUnique [simp]: "distinct (appendUnique xs x) = distinct xs"
  by (auto simp: appendUnique_def)

lemma fold_appendUnique:
  "set (fold (\<lambda>x ys. appendUnique ys (f x)) xs ys) = set ys \<union> f ` set xs"
  "distinct (fold (\<lambda>x ys. appendUnique ys (f x)) xs ys) = distinct ys"
  by (induction xs arbitrary: ys) auto

lemma fold_contents:
  fixes rs :: "(string, gen_response) gomap" and ys :: "string list"
  defines "collect \<equiv> fold (\<lambda>(_, response) media.
      fold (\<lambda>(m, _) media. appendUnique media m) (ResponseContent response) media)"
  shows "set (collect rs ys) = set ys \<union> (\<Union>(_, r)\<in>set rs. fst ` set (ResponseContent r))"
    and "distinct (collect rs ys) = distinct ys"
proof -
  have one: "(\<lambda>(m, _) media. appendUnique media m) = (\<lambda>x ys. appendUnique ys (fst x))"
    by (auto simp: fun_eq_iff)
  show "set (collect rs ys) = set ys \<union> (\<Union>(_, r)\<in>set rs. fst ` set (ResponseContent r))"
    "distinct (collect rs ys) = distinct ys"
    unfolding collect_def one
    by (induction rs arbitrary: ys) (auto simp: fold_appendUnique split: prod.splits)
qed

text \<open>The codes that count as success, and the least of them.\<close>

definition success_codes :: "string set \<Rightarrow> int set" where
  "success_codes codes = {status. \<exists>code\<in>codes. Atoi code = Some status \<and> 200 \<le> status \<and> status < 300}"

lemma finite_success_codes: "finite codes \<Longrightarrow> finite (success_codes codes)"
  by (rule finite_subset[of _ "{200..<300}"]) (auto simp: success_codes_def)

lemma success_fold:
  "fold (\<lambda>(code, _) result.
      case Atoi code of
        Some status \<Rightarrow>
          if 200 \<le> status \<and> status < 300 \<and> (result = 0 \<or> status < result) then status else result
      | None \<Rightarrow> result) rs r =
    (if success_codes (fst ` set rs) = {} then r
     else if r = 0 then Min (success_codes (fst ` set rs))
     else min r (Min (success_codes (fst ` set rs))))"
  if "r = 0 \<or> 200 \<le> r" for r
  using that
proof (induction rs arbitrary: r)
  case (Cons x rs)
  obtain code resp where x: "x = (code, resp)" by force
  let ?S = "success_codes (fst ` set rs)"
  have fin: "finite ?S" by (simp add: finite_success_codes)
  have low: "200 \<le> s" if "s \<in> ?S" for s using that by (simp add: success_codes_def)
  then have min_low: "?S \<noteq> {} \<Longrightarrow> 200 \<le> Min ?S" using fin by simp
  have ins: "success_codes (fst ` set (x # rs)) =
      (case Atoi code of
         Some status \<Rightarrow> if 200 \<le> status \<and> status < 300 then insert status ?S else ?S
       | None \<Rightarrow> ?S)"
    by (auto simp: x success_codes_def split: option.split)
  show ?case
  proof (cases "Atoi code")
    case None
    then show ?thesis using Cons x ins by simp
  next
    case (Some status)
    then show ?thesis
      using Cons.prems min_low fin ins
      by (auto simp: x Cons.IH min_def)
  qed
qed (simp add: success_codes_def)

lemma successStatus_eq:
  "successStatus responses =
    (let codes = success_codes (fst ` set responses) in if codes = {} then 200 else Min codes)"
proof -
  let ?S = "success_codes (fst ` set responses)"
  have "Min ?S \<noteq> 0" if "?S \<noteq> {}"
  proof -
    have "Min ?S \<in> ?S" using that by (intro Min_in finite_success_codes) simp_all
    then show ?thesis by (auto simp: success_codes_def)
  qed
  then show ?thesis by (simp add: successStatus_def success_fold Let_def)
qed

lemma successStatus_range: "200 \<le> successStatus responses \<and> successStatus responses < 300"
proof -
  let ?S = "success_codes (fst ` set responses)"
  have "Min ?S \<in> ?S" if "?S \<noteq> {}"
    using that by (intro Min_in finite_success_codes) simp_all
  then show ?thesis by (auto simp: successStatus_eq Let_def success_codes_def)
qed

lemma capabilityFor_registered:
  assumes "capabilityFor path tags = Some c"
  shows "c \<in> set Capabilities"
proof -
  have "list_all (\<lambda>(_, c). c \<in> set Capabilities) capability_tags" by code_simp
  then have table: "map_of capability_tags t = Some c \<Longrightarrow> c \<in> set Capabilities" for t
    by (auto simp: list_all_iff dest: map_of_SomeD)
  have "list_all (\<lambda>c. c \<in> set Capabilities)
      [''containers'', ''responses'', ''chatkit'', ''moderations'', ''organization'']"
    by code_simp
  then show ?thesis using assms
    by (auto simp: capabilityFor_def Let_def split: option.splits if_splits intro: table)
qed

subsection \<open>Rows and entries\<close>

definition spec_entries :: "spec_document \<Rightarrow> (string \<times> string \<times> spec_operation) list" where
  "spec_entries spec =
    filter (\<lambda>(path, method, operation). List.member http_methods (ToLower method))
      (concat (map (\<lambda>(path, item). map (\<lambda>(method, operation). (path, method, operation)) item) (Paths spec)))"

definition generatable :: "string \<times> string \<times> spec_operation \<Rightarrow> bool" where
  "generatable entry =
    (case entry of (path, method, operation) \<Rightarrow>
       SpecOperationID operation \<noteq> [] \<and> capabilityFor path (Tags operation) \<noteq> None)"

definition row_of :: "string \<times> string \<times> spec_operation \<Rightarrow> generatedOperation" where
  "row_of entry =
    (case entry of (path, method, operation) \<Rightarrow>
       generated_item (the (capabilityFor path (Tags operation))) path method operation)"

lemma collect_methods_Inr:
  "collect_methods path item result = Inr r \<longleftrightarrow>
     (let es = filter (\<lambda>(path, method, operation). List.member http_methods (ToLower method))
                 (map (\<lambda>(method, operation). (path, method, operation)) item)
      in list_all generatable es \<and> r = result @ map row_of es)"
  by (induction path item result rule: collect_methods.induct)
    (auto simp: generatable_def row_of_def Let_def split: option.split)

lemma collect_paths_Inr:
  "collect_paths paths result = Inr r \<longleftrightarrow>
     list_all generatable (spec_entries \<lparr>Paths = paths\<rparr>) \<and>
     r = result @ map row_of (spec_entries \<lparr>Paths = paths\<rparr>)"
  by (induction paths result rule: collect_paths.induct)
    (auto simp: spec_entries_def collect_methods_Inr Let_def)

lemma collectOperations_Inr:
  "collectOperations spec = Inr rows \<longleftrightarrow>
     list_all generatable (spec_entries spec) \<and> rows = sort_by generated_less (map row_of (spec_entries spec))"
  using collect_paths_Inr[of "Paths spec" "[]"]
  by (cases spec) (auto simp: collectOperations_def)

text \<open>What the row of an operation depends on.\<close>

definition operation_view ::
  "spec_operation \<Rightarrow> string \<times> string list \<times> bool \<times> string set \<times> string set \<times> string set" where
  "operation_view operation =
    (SpecOperationID operation, Tags operation, list_ex (\<lambda>p. In p = ''query'') (SpecParameters operation),
     (case RequestBody operation of Some b \<Rightarrow> fst ` set (RequestContent b) | None \<Rightarrow> {}),
     fst ` set (Responses operation),
     \<Union>(_, r)\<in>set (Responses operation). fst ` set (ResponseContent r))"

definition operation_wf :: "spec_operation \<Rightarrow> bool" where
  "operation_wf operation \<longleftrightarrow>
    (case RequestBody operation of Some b \<Rightarrow> distinct (map fst (RequestContent b)) | None \<Rightarrow> True)"

lemma row_of_view:
  assumes "operation_wf o1" and "operation_wf o2" and "operation_view o1 = operation_view o2"
  shows "row_of (path, method, o1) = row_of (path, method, o2)"
proof -
  note view = assms(3)[unfolded operation_view_def prod.inject]
  have "request_media o1 = request_media o2"
    unfolding request_media_def using assms(1,2) view
    by (intro sort_Strings_unique) (auto simp: operation_wf_def split: option.splits)
  moreover have "response_media o1 = response_media o2"
    unfolding response_media_def using view
    by (intro sort_Strings_unique) (simp_all add: fold_contents)
  moreover have "successStatus (Responses o1) = successStatus (Responses o2)"
    using view by (simp add: successStatus_eq)
  ultimately show ?thesis using view by (simp add: row_of_def generated_item_def)
qed

subsection \<open>Methods\<close>

lemma ToLower_bytes:
  "CHR ''i'' \<notin> set (ToLower s) \<Longrightarrow> CHR ''k'' \<notin> set (ToLower s) \<Longrightarrow> ToLower s = map lower_byte s"
proof (induction s rule: ToLower.induct)
  case (2 c s)
  note step = ToLower.simps(2)[of c s]
  show ?case
  proof (cases "HasPrefix (c # s) [CHR 0xC4, CHR 0xB0] \<or> HasPrefix (c # s) [CHR 0xE2, CHR 0x84, CHR 0xAA]")
    case True
    then show ?thesis using "2.prems" unfolding step by (simp split: if_splits)
  next
    case False
    then have "ToLower (c # s) = lower_byte c # ToLower s" unfolding step by simp
    then show ?thesis using False "2.IH"(3) "2.prems" by (simp del: ToLower.simps)
  qed
qed simp

lemma upper_of_lower: "lower_byte c = lower_byte d \<Longrightarrow> upper_byte c = upper_byte d"
proof -
  have upper: "(if 97 \<le> x \<and> x \<le> 122 then x - 32 else x) = (if 97 \<le> y \<and> y \<le> 122 then y - 32 else y)"
    if "(if 65 \<le> x \<and> x \<le> 90 then x + 32 else x) = (if 65 \<le> y \<and> y \<le> 90 then y + 32 else y)" for x y :: nat
    using that by (auto split: if_splits)
  assume "lower_byte c = lower_byte d"
  then show "upper_byte c = upper_byte d"
    unfolding char_eq_byte_val byte_val_lower byte_val_upper by (rule upper)
qed

lemma ToUpper_of_lower: "map lower_byte s = map lower_byte t \<Longrightarrow> ToUpper s = ToUpper t"
  unfolding ToUpper_def
proof (induction s arbitrary: t)
  case (Cons c s)
  then obtain d t' where t: "t = d # t'" by (cases t) simp_all
  then have "upper_byte c = upper_byte d" using Cons.prems upper_of_lower[of c d] by simp
  then show ?case using Cons t by simp
qed simp

lemma ToUpper_method:
  assumes "ToLower method \<in> set http_methods"
  shows "ToUpper method \<in> {''GET'', ''POST'', ''PUT'', ''PATCH'', ''DELETE''}"
proof -
  have "list_all (\<lambda>m. CHR ''i'' \<notin> set m \<and> CHR ''k'' \<notin> set m \<and> map lower_byte m = m \<and>
      ToUpper m \<in> {''GET'', ''POST'', ''PUT'', ''PATCH'', ''DELETE''}) http_methods"
    by code_simp
  then have m: "CHR ''i'' \<notin> set (ToLower method)" "CHR ''k'' \<notin> set (ToLower method)"
    "map lower_byte (ToLower method) = ToLower method"
    "ToUpper (ToLower method) \<in> {''GET'', ''POST'', ''PUT'', ''PATCH'', ''DELETE''}"
    using assms by (simp_all add: list_all_iff)
  have "map lower_byte method = map lower_byte (ToLower method)"
    using ToLower_bytes[OF m(1,2)] m(3) by simp
  from ToUpper_of_lower[OF this] m(4) show ?thesis by simp
qed

subsection \<open>Properties\<close>

text \<open>A decoded document: the media of a body are the keys of a map, and no two served methods of a path
  differ in case only.\<close>

definition spec_wf :: "spec_document \<Rightarrow> bool" where
  "spec_wf spec \<longleftrightarrow>
    distinct (map (\<lambda>(path, method, _). (path, ToUpper method)) (spec_entries spec)) \<and>
    list_all (\<lambda>(_, _, operation). operation_wf operation) (spec_entries spec)"

definition spec_view where
  "spec_view spec =
    (\<lambda>(path, method, operation). (path, method, operation_view operation)) ` set (spec_entries spec)"

lemma rows_separated:
  assumes "spec_wf spec"
  shows "generated_order.separated (map row_of (spec_entries spec))"
proof -
  let ?key = "\<lambda>r. (gen_Path r, gen_Method r)"
  have "?key (row_of e) = (case e of (path, method, _) \<Rightarrow> (path, ToUpper method))" for e
    by (simp add: row_of_def generated_item_def Let_def split: prod.split)
  then have "distinct (map ?key (map row_of (spec_entries spec)))"
    using assms by (simp add: spec_wf_def comp_def)
  then have "distinct (map row_of (spec_entries spec))" "inj_on ?key (set (map row_of (spec_entries spec)))"
    unfolding distinct_map by (simp_all add: distinct_map)
  moreover have "?key x \<noteq> ?key y \<Longrightarrow> generated_less x y \<or> generated_less y x" for x y
    using string_less_linear[of "gen_Path x" "gen_Path y"] string_less_linear[of "gen_Method x" "gen_Method y"]
    by (auto simp: generated_less_def)
  ultimately show ?thesis
    unfolding generated_order.separated_def inj_on_def by metis
qed

lemma view_mem:
  assumes "spec_wf a" and "spec_wf b" and "spec_view a = spec_view b" and "e \<in> set (spec_entries a)"
  shows "\<exists>e'\<in>set (spec_entries b). row_of e' = row_of e \<and> generatable e' = generatable e"
proof -
  obtain path meth op where e: "e = (path, meth, op)" by (cases e)
  then have "(path, meth, operation_view op) \<in> spec_view b"
    using assms(3,4) by (force simp: spec_view_def)
  then obtain op' where op': "(path, meth, op') \<in> set (spec_entries b)" "operation_view op = operation_view op'"
    by (auto simp: spec_view_def)
  have wf: "operation_wf op" "operation_wf op'"
    using assms(1,2,4) op'(1) by (auto simp: spec_wf_def list_all_iff e)
  have "generatable (path, meth, op') = generatable e"
    using op'(2) by (simp add: generatable_def e operation_view_def)
  then show ?thesis using row_of_view[OF wf op'(2)] op'(1) e by metis
qed

lemma view_rows:
  assumes "spec_wf a" and "spec_wf b" and "spec_view a = spec_view b"
  shows "row_of ` set (spec_entries a) \<subseteq> row_of ` set (spec_entries b)"
    and "list_all generatable (spec_entries b) \<Longrightarrow> list_all generatable (spec_entries a)"
proof -
  show "row_of ` set (spec_entries a) \<subseteq> row_of ` set (spec_entries b)"
  proof
    fix r assume "r \<in> row_of ` set (spec_entries a)"
    then obtain e where "e \<in> set (spec_entries a)" "r = row_of e" by blast
    with view_mem[OF assms this(1)] show "r \<in> row_of ` set (spec_entries b)" by (metis image_eqI)
  qed
  show "list_all generatable (spec_entries b) \<Longrightarrow> list_all generatable (spec_entries a)"
    using view_mem[OF assms] unfolding list_all_iff by blast
qed

text \<open>C21: generation is reproducible.  Two documents with the same content (the same operations under the
  same paths and methods, with the same tags, media and status codes) give the same rows in the
  same order, whatever order Go's maps are visited in and whichever sorting algorithm is used; and
  if one is refused, so is the other.\<close>

theorem collectOperations_deterministic:
  assumes "spec_wf a" and "spec_wf b" and "spec_view a = spec_view b"
  shows "collectOperations a = Inr rows \<longleftrightarrow> collectOperations b = Inr rows"
proof -
  have "sort_by generated_less (map row_of (spec_entries a)) = sort_by generated_less (map row_of (spec_entries b))"
    by (rule generated_order.sort_by_unique)
      (use rows_separated assms view_rows[OF assms] view_rows[OF assms(2,1) assms(3)[symmetric]] in auto)
  then show ?thesis
    using view_rows(2)[OF assms] view_rows(2)[OF assms(2,1) assms(3)[symmetric]]
    by (auto simp: collectOperations_Inr)
qed

definition sample_models :: spec_operation where
  "sample_models =
    \<lparr>SpecOperationID = ''listModels'', Tags = [''Models''], SpecParameters = [], RequestBody = None,
     Responses = [(''404'', \<lparr>ResponseContent = [(''text/plain'', [])]\<rparr>),
                  (''200'', \<lparr>ResponseContent = [(''application/json'', [])]\<rparr>)]\<rparr>"

definition sample_container :: spec_operation where
  "sample_container =
    \<lparr>SpecOperationID = ''CreateContainer'', Tags = [], SpecParameters = [\<lparr>In = ''query''\<rparr>],
     RequestBody = Some \<lparr>RequestContent = [(''multipart/form-data'', []), (''application/json'', [])]\<rparr>,
     Responses = [(''201'', \<lparr>ResponseContent = []\<rparr>), (''200'', \<lparr>ResponseContent = []\<rparr>)]\<rparr>"

definition sample_spec :: "bool \<Rightarrow> spec_document" where
  "sample_spec turned =
    \<lparr>Paths =
      (if turned then
         [(''/containers'', [(''summary'', sample_models),
             (''post'', sample_container\<lparr>Responses := rev (Responses sample_container)\<rparr>)]),
          (''/models'', [(''get'', sample_models\<lparr>Responses := rev (Responses sample_models)\<rparr>)])]
       else [(''/models'', [(''get'', sample_models)]), (''/containers'', [(''post'', sample_container)])])\<rparr>"

lemma sample_entries:
  "spec_entries (sample_spec True) =
     [(''/containers'', ''post'', sample_container\<lparr>Responses := rev (Responses sample_container)\<rparr>),
      (''/models'', ''get'', sample_models\<lparr>Responses := rev (Responses sample_models)\<rparr>)]"
  "spec_entries (sample_spec False) =
     [(''/models'', ''get'', sample_models), (''/containers'', ''post'', sample_container)]"
  "list_all generatable (spec_entries (sample_spec False))"
  by code_simp+

lemma sample_spec_wf: "spec_wf (sample_spec False)" "spec_wf (sample_spec True)"
  by (simp_all add: spec_wf_def sample_entries operation_wf_def sample_container_def sample_models_def)

theorem collectOperations_deterministic_witness:
  "\<exists>rows. length rows = 2 \<and> collectOperations (sample_spec True) = Inr rows \<and>
     collectOperations (sample_spec False) = Inr rows"
proof -
  let ?rows = "sort_by generated_less (map row_of (spec_entries (sample_spec False)))"
  have view: "spec_view (sample_spec False) = spec_view (sample_spec True)"
    by (auto simp: spec_view_def sample_entries operation_view_def sample_container_def sample_models_def)
  have "collectOperations (sample_spec False) = Inr ?rows" "length ?rows = 2"
    using sample_entries by (simp_all add: collectOperations_Inr)
  then show ?thesis using collectOperations_deterministic[OF sample_spec_wf view] by blast
qed

text \<open>Every generated row can be served.  When the generator accepts a document, there is one row for
  each operation of the document with a served method, in strict order of path and method
  (when no two methods of a path differ in case only); each has an operation id, a capability that
  backends can register, one of five upper case methods and a success status from 200 to 299.\<close>

theorem collectOperations_rows:
  assumes "collectOperations spec = Inr rows" and "spec_wf spec"
  shows "mset rows = mset (map row_of (spec_entries spec)) \<and> sorted_wrt generated_less rows \<and>
    list_all (\<lambda>r. gen_OperationID r \<noteq> [] \<and> gen_Capability r \<in> set Capabilities \<and>
      gen_Method r \<in> {''GET'', ''POST'', ''PUT'', ''PATCH'', ''DELETE''} \<and>
      200 \<le> gen_SuccessStatus r \<and> gen_SuccessStatus r < 300) rows"
proof -
  have rows: "rows = sort_by generated_less (map row_of (spec_entries spec))"
    and ok: "list_all generatable (spec_entries spec)"
    using assms(1) by (auto simp: collectOperations_Inr)
  have "gen_OperationID (row_of e) \<noteq> [] \<and> gen_Capability (row_of e) \<in> set Capabilities \<and>
      gen_Method (row_of e) \<in> {''GET'', ''POST'', ''PUT'', ''PATCH'', ''DELETE''} \<and>
      200 \<le> gen_SuccessStatus (row_of e) \<and> gen_SuccessStatus (row_of e) < 300"
    if e: "e \<in> set (spec_entries spec)" for e
  proof -
    obtain path meth op where p: "e = (path, meth, op)" by (cases e)
    have "ToLower meth \<in> set http_methods" using e by (auto simp: spec_entries_def p)
    moreover have "generatable e" using ok e by (simp add: list_all_iff)
    ultimately show ?thesis
      using ToUpper_method[of meth] successStatus_range[of "Responses op"]
      by (auto simp: p row_of_def generated_item_def generatable_def Let_def capabilityFor_registered)
  qed
  then show ?thesis
    using generated_order.strict_sort_by[OF rows_separated[OF assms(2)]]
    by (simp add: rows list_all_iff)
qed

theorem collectOperations_rows_witness:
  "\<exists>rows. collectOperations (sample_spec False) = Inr rows \<and> length rows = 2 \<and>
     list_all (\<lambda>r. gen_Capability r \<in> set Capabilities) rows"
proof -
  obtain rows where rows: "collectOperations (sample_spec False) = Inr rows"
    using sample_entries(3) by (simp add: collectOperations_Inr)
  note facts = collectOperations_rows[OF rows sample_spec_wf(1)]
  have "size (mset rows) = 2" using facts by (simp add: sample_entries)
  then have "length rows = 2" by simp
  moreover have "list_all (\<lambda>r. gen_Capability r \<in> set Capabilities) rows"
    using facts unfolding list_all_iff by blast
  ultimately show ?thesis using rows by blast
qed

end
