(* ===== verification/Profile_Ids.thy ===== *)
theory Profile_Ids
  imports Profile_Route
begin

section \<open>Operation ids are unique\<close>

text \<open>
  The ids of the 288 operations block by block, and in string order, each with the number of its
  block.  Checking the order and the membership shows that there are 288 different ids, so that no
  two entries of the table share one and \<open>OperationByID\<close> finds every operation.
\<close>

definition ids_assistants :: "string list" where
  "ids_assistants =
    [''listAssistants'', ''createAssistant'', ''deleteAssistant'', ''getAssistant'',
     ''modifyAssistant'']"

definition ids_audio :: "string list" where
  "ids_audio =
    [''createSpeech'', ''createTranscription'', ''createTranslation'', ''listVoiceConsents'',
     ''createVoiceConsent'', ''deleteVoiceConsent'', ''getVoiceConsent'', ''updateVoiceConsent'',
     ''createVoice'']"

definition ids_batches :: "string list" where
  "ids_batches =
    [''listBatches'', ''createBatch'', ''retrieveBatch'', ''cancelBatch'']"

definition ids_chat :: "string list" where
  "ids_chat =
    [''listChatCompletions'', ''createChatCompletion'', ''deleteChatCompletion'',
     ''getChatCompletion'', ''updateChatCompletion'', ''getChatCompletionMessages'']"

definition ids_chatkit :: "string list" where
  "ids_chatkit =
    [''CreateChatSessionMethod'', ''CancelChatSessionMethod'', ''ListThreadsMethod'',
     ''DeleteThreadMethod'', ''GetThreadMethod'', ''ListThreadItemsMethod'']"

definition ids_completions :: "string list" where
  "ids_completions =
    [''createCompletion'']"

definition ids_containers :: "string list" where
  "ids_containers =
    [''ListContainers'', ''CreateContainer'', ''DeleteContainer'', ''RetrieveContainer'',
     ''ListContainerFiles'', ''CreateContainerFile'', ''DeleteContainerFile'',
     ''RetrieveContainerFile'', ''RetrieveContainerFileContent'']"

definition ids_content_provenance_checks :: "string list" where
  "ids_content_provenance_checks =
    [''Createcontentprovenancecheck'']"

definition ids_conversations :: "string list" where
  "ids_conversations =
    [''createConversation'', ''deleteConversation'', ''getConversation'', ''updateConversation'',
     ''listConversationItems'', ''createConversationItems'', ''deleteConversationItem'',
     ''getConversationItem'']"

definition ids_embeddings :: "string list" where
  "ids_embeddings =
    [''createEmbedding'']"

definition ids_evals :: "string list" where
  "ids_evals =
    [''listEvals'', ''createEval'', ''deleteEval'', ''getEval'', ''updateEval'', ''getEvalRuns'',
     ''createEvalRun'', ''deleteEvalRun'', ''getEvalRun'', ''cancelEvalRun'',
     ''getEvalRunOutputItems'', ''getEvalRunOutputItem'']"

definition ids_files :: "string list" where
  "ids_files =
    [''listFiles'', ''createFile'', ''deleteFile'', ''retrieveFile'', ''downloadFile'']"

definition ids_fine_tuning :: "string list" where
  "ids_fine_tuning =
    [''runGrader'', ''validateGrader'', ''listFineTuningCheckpointPermissions'',
     ''createFineTuningCheckpointPermission'', ''deleteFineTuningCheckpointPermission'',
     ''listPaginatedFineTuningJobs'', ''createFineTuningJob'', ''retrieveFineTuningJob'',
     ''cancelFineTuningJob'', ''listFineTuningJobCheckpoints'', ''listFineTuningEvents'',
     ''pauseFineTuningJob'', ''resumeFineTuningJob'']"

definition ids_images :: "string list" where
  "ids_images =
    [''createImageEdit'', ''createImage'', ''createImageVariation'']"

definition ids_models :: "string list" where
  "ids_models =
    [''listModels'', ''deleteModel'', ''retrieveModel'']"

definition ids_moderations :: "string list" where
  "ids_moderations =
    [''createModeration'']"

definition ids_organization :: "string list" where
  "ids_organization =
    [''admin-api-keys-list'', ''admin-api-keys-create'', ''admin-api-keys-delete'',
     ''admin-api-keys-get'', ''list-audit-logs'', ''listOrganizationCertificates'',
     ''uploadCertificate'', ''activateOrganizationCertificates'',
     ''deactivateOrganizationCertificates'', ''deleteCertificate'', ''getCertificate'',
     ''modifyCertificate'', ''usage-costs'', ''retrieve-organization-data-retention'',
     ''update-organization-data-retention'', ''list-groups'', ''create-group'', ''delete-group'',
     ''retrieve-group'', ''update-group'', ''list-group-role-assignments'',
     ''assign-group-role'', ''unassign-group-role'', ''retrieve-group-role'',
     ''list-group-users'', ''add-group-user'', ''remove-group-user'', ''retrieve-group-user'',
     ''list-invites'', ''inviteUser'', ''delete-invite'', ''retrieve-invite'']"

definition ids_organization_projects :: "string list" where
  "ids_organization_projects =
    [''list-projects'', ''create-project'', ''retrieve-project'', ''modify-project'',
     ''list-project-api-keys'', ''delete-project-api-key'', ''retrieve-project-api-key'',
     ''archive-project'', ''listProjectCertificates'', ''activateProjectCertificates'',
     ''deactivateProjectCertificates'', ''retrieve-project-data-retention'',
     ''update-project-data-retention'', ''list-project-groups'', ''add-project-group'',
     ''remove-project-group'', ''retrieve-project-group'',
     ''retrieve-project-hosted-tool-permissions'', ''update-project-hosted-tool-permissions'',
     ''delete-project-model-permissions'', ''retrieve-project-model-permissions'',
     ''update-project-model-permissions'', ''list-project-rate-limits'',
     ''update-project-rate-limits'', ''list-project-service-accounts'',
     ''create-project-service-account'', ''delete-project-service-account'',
     ''retrieve-project-service-account'', ''update-project-service-account'',
     ''CreateanAPIkeyforaserviceaccount'', ''list-project-spend-alerts'',
     ''create-project-spend-alert'', ''delete-project-spend-alert'',
     ''retrieve-project-spend-alert'', ''update-project-spend-alert'',
     ''Deleteprojectspendlimit'', ''Getprojectspendlimit'', ''Updateprojectspendlimit'',
     ''list-project-users'', ''create-project-user'', ''delete-project-user'',
     ''retrieve-project-user'', ''modify-project-user'']"

definition ids_organization_rest :: "string list" where
  "ids_organization_rest =
    [''list-roles'', ''create-role'', ''delete-role'', ''retrieve-role'', ''update-role'',
     ''list-organization-spend-alerts'', ''create-organization-spend-alert'',
     ''delete-organization-spend-alert'', ''retrieve-organization-spend-alert'',
     ''update-organization-spend-alert'', ''Deleteorganizationspendlimit'',
     ''Getorganizationspendlimit'', ''Updateorganizationspendlimit'', ''usage-audio-speeches'',
     ''usage-audio-transcriptions'', ''usage-code-interpreter-sessions'', ''usage-completions'',
     ''usage-embeddings'', ''usage-file-search-calls'', ''usage-images'', ''usage-moderations'',
     ''usage-vector-stores'', ''usage-web-search-calls'', ''list-users'', ''delete-user'',
     ''retrieve-user'', ''modify-user'', ''list-user-role-assignments'', ''assign-user-role'',
     ''unassign-user-role'', ''retrieve-user-role'']"

definition ids_projects :: "string list" where
  "ids_projects =
    [''list-project-group-role-assignments'', ''assign-project-group-role'',
     ''unassign-project-group-role'', ''retrieve-project-group-role'', ''list-project-roles'',
     ''create-project-role'', ''delete-project-role'', ''retrieve-project-role'',
     ''update-project-role'', ''list-project-user-role-assignments'',
     ''assign-project-user-role'', ''unassign-project-user-role'', ''retrieve-project-user-role'']"

definition ids_realtime :: "string list" where
  "ids_realtime =
    [''create-realtime-call'', ''accept-realtime-call'', ''hangup-realtime-call'',
     ''refer-realtime-call'', ''reject-realtime-call'', ''create-realtime-client-secret'',
     ''create-realtime-session'', ''create-realtime-transcription-session'',
     ''create-realtime-translation-client-secret'']"

definition ids_responses :: "string list" where
  "ids_responses =
    [''createResponse'', ''Compactconversation'', ''beta_Compactconversation'',
     ''Getinputtokencounts'', ''beta_Getinputtokencounts'', ''deleteResponse'', ''getResponse'',
     ''cancelResponse'', ''beta_cancelResponse'', ''listInputItems'', ''beta_listInputItems'',
     ''beta_deleteResponse'', ''beta_getResponse'', ''beta_createResponse'']"

definition ids_skills :: "string list" where
  "ids_skills =
    [''ListSkills'', ''CreateSkill'', ''DeleteSkill'', ''GetSkill'',
     ''UpdateSkillDefaultVersion'', ''GetSkillContent'', ''ListSkillVersions'',
     ''CreateSkillVersion'', ''DeleteSkillVersion'', ''GetSkillVersion'',
     ''GetSkillVersionContent'']"

definition ids_threads :: "string list" where
  "ids_threads =
    [''createThread'', ''createThreadAndRun'', ''deleteThread'', ''getThread'', ''modifyThread'',
     ''listMessages'', ''createMessage'', ''deleteMessage'', ''getMessage'', ''modifyMessage'',
     ''listRuns'', ''createRun'', ''getRun'', ''modifyRun'', ''cancelRun'', ''listRunSteps'',
     ''getRunStep'', ''submitToolOuputsToRun'']"

definition ids_uploads :: "string list" where
  "ids_uploads =
    [''createUpload'', ''cancelUpload'', ''completeUpload'', ''addUploadPart'']"

definition ids_vector_stores :: "string list" where
  "ids_vector_stores =
    [''listVectorStores'', ''createVectorStore'', ''deleteVectorStore'', ''getVectorStore'',
     ''modifyVectorStore'', ''createVectorStoreFileBatch'', ''getVectorStoreFileBatch'',
     ''cancelVectorStoreFileBatch'', ''listFilesInVectorStoreBatch'', ''listVectorStoreFiles'',
     ''createVectorStoreFile'', ''deleteVectorStoreFile'', ''getVectorStoreFile'',
     ''updateVectorStoreFileAttributes'', ''retrieveVectorStoreFileContent'',
     ''searchVectorStore'']"

definition ids_videos :: "string list" where
  "ids_videos =
    [''ListVideos'', ''createVideo'', ''CreateVideoCharacter'', ''GetVideoCharacter'',
     ''CreateVideoEdit'', ''CreateVideoExtend'', ''DeleteVideo'', ''GetVideo'',
     ''RetrieveVideoContent'', ''CreateVideoRemix'']"

lemma ids_assistants_eq: "map OperationID operations_assistants = ids_assistants"
  by (simp add: operations_assistants_def ids_assistants_def frozen_def)

lemma ids_audio_eq: "map OperationID operations_audio = ids_audio"
  by (simp add: operations_audio_def ids_audio_def frozen_def)

lemma ids_batches_eq: "map OperationID operations_batches = ids_batches"
  by (simp add: operations_batches_def ids_batches_def frozen_def)

lemma ids_chat_eq: "map OperationID operations_chat = ids_chat"
  by (simp add: operations_chat_def ids_chat_def frozen_def)

lemma ids_chatkit_eq: "map OperationID operations_chatkit = ids_chatkit"
  by (simp add: operations_chatkit_def ids_chatkit_def frozen_def)

lemma ids_completions_eq: "map OperationID operations_completions = ids_completions"
  by (simp add: operations_completions_def ids_completions_def frozen_def)

lemma ids_containers_eq: "map OperationID operations_containers = ids_containers"
  by (simp add: operations_containers_def ids_containers_def frozen_def)

lemma ids_content_provenance_checks_eq: "map OperationID operations_content_provenance_checks = ids_content_provenance_checks"
  by (simp add: operations_content_provenance_checks_def ids_content_provenance_checks_def frozen_def)

lemma ids_conversations_eq: "map OperationID operations_conversations = ids_conversations"
  by (simp add: operations_conversations_def ids_conversations_def frozen_def)

lemma ids_embeddings_eq: "map OperationID operations_embeddings = ids_embeddings"
  by (simp add: operations_embeddings_def ids_embeddings_def frozen_def)

lemma ids_evals_eq: "map OperationID operations_evals = ids_evals"
  by (simp add: operations_evals_def ids_evals_def frozen_def)

lemma ids_files_eq: "map OperationID operations_files = ids_files"
  by (simp add: operations_files_def ids_files_def frozen_def)

lemma ids_fine_tuning_eq: "map OperationID operations_fine_tuning = ids_fine_tuning"
  by (simp add: operations_fine_tuning_def ids_fine_tuning_def frozen_def)

lemma ids_images_eq: "map OperationID operations_images = ids_images"
  by (simp add: operations_images_def ids_images_def frozen_def)

lemma ids_models_eq: "map OperationID operations_models = ids_models"
  by (simp add: operations_models_def ids_models_def frozen_def)

lemma ids_moderations_eq: "map OperationID operations_moderations = ids_moderations"
  by (simp add: operations_moderations_def ids_moderations_def frozen_def)

lemma ids_organization_eq: "map OperationID operations_organization = ids_organization"
  by (simp add: operations_organization_def ids_organization_def frozen_def)

lemma ids_organization_projects_eq: "map OperationID operations_organization_projects = ids_organization_projects"
  by (simp add: operations_organization_projects_def ids_organization_projects_def frozen_def)

lemma ids_organization_rest_eq: "map OperationID operations_organization_rest = ids_organization_rest"
  by (simp add: operations_organization_rest_def ids_organization_rest_def frozen_def)

lemma ids_projects_eq: "map OperationID operations_projects = ids_projects"
  by (simp add: operations_projects_def ids_projects_def frozen_def)

lemma ids_realtime_eq: "map OperationID operations_realtime = ids_realtime"
  by (simp add: operations_realtime_def ids_realtime_def frozen_def)

lemma ids_responses_eq: "map OperationID operations_responses = ids_responses"
  by (simp add: operations_responses_def ids_responses_def frozen_def)

lemma ids_skills_eq: "map OperationID operations_skills = ids_skills"
  by (simp add: operations_skills_def ids_skills_def frozen_def)

lemma ids_threads_eq: "map OperationID operations_threads = ids_threads"
  by (simp add: operations_threads_def ids_threads_def frozen_def)

lemma ids_uploads_eq: "map OperationID operations_uploads = ids_uploads"
  by (simp add: operations_uploads_def ids_uploads_def frozen_def)

lemma ids_vector_stores_eq: "map OperationID operations_vector_stores = ids_vector_stores"
  by (simp add: operations_vector_stores_def ids_vector_stores_def frozen_def)

lemma ids_videos_eq: "map OperationID operations_videos = ids_videos"
  by (simp add: operations_videos_def ids_videos_def frozen_def)

definition id_blocks :: "string list list" where
  "id_blocks =
    [ids_assistants, ids_audio, ids_batches, ids_chat, ids_chatkit, ids_completions,
     ids_containers, ids_content_provenance_checks, ids_conversations, ids_embeddings, ids_evals,
     ids_files, ids_fine_tuning, ids_images, ids_models, ids_moderations, ids_organization,
     ids_organization_projects, ids_organization_rest, ids_projects, ids_realtime, ids_responses,
     ids_skills, ids_threads, ids_uploads, ids_vector_stores, ids_videos]"

lemma Operations_ids: "map OperationID Operations = concat id_blocks"
  by (simp add: Operations_def id_blocks_def ids_assistants_eq ids_audio_eq ids_batches_eq ids_chat_eq ids_chatkit_eq
      ids_completions_eq ids_containers_eq ids_content_provenance_checks_eq
      ids_conversations_eq ids_embeddings_eq ids_evals_eq ids_files_eq ids_fine_tuning_eq
      ids_images_eq ids_models_eq ids_moderations_eq ids_organization_eq
      ids_organization_projects_eq ids_organization_rest_eq ids_projects_eq ids_realtime_eq
      ids_responses_eq ids_skills_eq ids_threads_eq ids_uploads_eq ids_vector_stores_eq
      ids_videos_eq)

subsection \<open>The certificate\<close>

definition id_block_1 :: "(nat \<times> string) list" where
  "id_block_1 =
    [(4, ''CancelChatSessionMethod''), (21, ''Compactconversation''), (4, ''CreateChatSessionMethod''),
     (6, ''CreateContainer''), (6, ''CreateContainerFile''), (22, ''CreateSkill''),
     (22, ''CreateSkillVersion''), (26, ''CreateVideoCharacter''), (26, ''CreateVideoEdit''),
     (26, ''CreateVideoExtend''), (26, ''CreateVideoRemix''),
     (17, ''CreateanAPIkeyforaserviceaccount''), (7, ''Createcontentprovenancecheck''),
     (6, ''DeleteContainer''), (6, ''DeleteContainerFile''), (22, ''DeleteSkill''),
     (22, ''DeleteSkillVersion''), (4, ''DeleteThreadMethod''), (26, ''DeleteVideo''),
     (18, ''Deleteorganizationspendlimit''), (17, ''Deleteprojectspendlimit''), (22, ''GetSkill''),
     (22, ''GetSkillContent''), (22, ''GetSkillVersion''), (22, ''GetSkillVersionContent''),
     (4, ''GetThreadMethod''), (26, ''GetVideo''), (26, ''GetVideoCharacter''),
     (21, ''Getinputtokencounts''), (18, ''Getorganizationspendlimit''), (17, ''Getprojectspendlimit''),
     (6, ''ListContainerFiles''), (6, ''ListContainers''), (22, ''ListSkillVersions''),
     (22, ''ListSkills''), (4, ''ListThreadItemsMethod''), (4, ''ListThreadsMethod''),
     (26, ''ListVideos''), (6, ''RetrieveContainer''), (6, ''RetrieveContainerFile''),
     (6, ''RetrieveContainerFileContent''), (26, ''RetrieveVideoContent''),
     (22, ''UpdateSkillDefaultVersion''), (18, ''Updateorganizationspendlimit''),
     (17, ''Updateprojectspendlimit''), (20, ''accept-realtime-call''),
     (16, ''activateOrganizationCertificates''), (17, ''activateProjectCertificates'')]"

definition id_block_2 :: "(nat \<times> string) list" where
  "id_block_2 =
    [(16, ''add-group-user''), (17, ''add-project-group''), (24, ''addUploadPart''),
     (16, ''admin-api-keys-create''), (16, ''admin-api-keys-delete''), (16, ''admin-api-keys-get''),
     (16, ''admin-api-keys-list''), (17, ''archive-project''), (16, ''assign-group-role''),
     (19, ''assign-project-group-role''), (19, ''assign-project-user-role''),
     (18, ''assign-user-role''), (21, ''beta_Compactconversation''), (21, ''beta_Getinputtokencounts''),
     (21, ''beta_cancelResponse''), (21, ''beta_createResponse''), (21, ''beta_deleteResponse''),
     (21, ''beta_getResponse''), (21, ''beta_listInputItems''), (2, ''cancelBatch''),
     (10, ''cancelEvalRun''), (12, ''cancelFineTuningJob''), (21, ''cancelResponse''),
     (23, ''cancelRun''), (24, ''cancelUpload''), (25, ''cancelVectorStoreFileBatch''),
     (24, ''completeUpload''), (16, ''create-group''), (18, ''create-organization-spend-alert''),
     (17, ''create-project''), (19, ''create-project-role''), (17, ''create-project-service-account''),
     (17, ''create-project-spend-alert''), (17, ''create-project-user''),
     (20, ''create-realtime-call''), (20, ''create-realtime-client-secret''),
     (20, ''create-realtime-session''), (20, ''create-realtime-transcription-session''),
     (20, ''create-realtime-translation-client-secret''), (18, ''create-role''),
     (0, ''createAssistant''), (2, ''createBatch''), (3, ''createChatCompletion''),
     (5, ''createCompletion''), (8, ''createConversation''), (8, ''createConversationItems''),
     (9, ''createEmbedding''), (10, ''createEval'')]"

definition id_block_3 :: "(nat \<times> string) list" where
  "id_block_3 =
    [(10, ''createEvalRun''), (11, ''createFile''), (12, ''createFineTuningCheckpointPermission''),
     (12, ''createFineTuningJob''), (13, ''createImage''), (13, ''createImageEdit''),
     (13, ''createImageVariation''), (23, ''createMessage''), (15, ''createModeration''),
     (21, ''createResponse''), (23, ''createRun''), (1, ''createSpeech''), (23, ''createThread''),
     (23, ''createThreadAndRun''), (1, ''createTranscription''), (1, ''createTranslation''),
     (24, ''createUpload''), (25, ''createVectorStore''), (25, ''createVectorStoreFile''),
     (25, ''createVectorStoreFileBatch''), (26, ''createVideo''), (1, ''createVoice''),
     (1, ''createVoiceConsent''), (16, ''deactivateOrganizationCertificates''),
     (17, ''deactivateProjectCertificates''), (16, ''delete-group''), (16, ''delete-invite''),
     (18, ''delete-organization-spend-alert''), (17, ''delete-project-api-key''),
     (17, ''delete-project-model-permissions''), (19, ''delete-project-role''),
     (17, ''delete-project-service-account''), (17, ''delete-project-spend-alert''),
     (17, ''delete-project-user''), (18, ''delete-role''), (18, ''delete-user''),
     (0, ''deleteAssistant''), (16, ''deleteCertificate''), (3, ''deleteChatCompletion''),
     (8, ''deleteConversation''), (8, ''deleteConversationItem''), (10, ''deleteEval''),
     (10, ''deleteEvalRun''), (11, ''deleteFile''), (12, ''deleteFineTuningCheckpointPermission''),
     (23, ''deleteMessage''), (14, ''deleteModel''), (21, ''deleteResponse'')]"

definition id_block_4 :: "(nat \<times> string) list" where
  "id_block_4 =
    [(23, ''deleteThread''), (25, ''deleteVectorStore''), (25, ''deleteVectorStoreFile''),
     (1, ''deleteVoiceConsent''), (11, ''downloadFile''), (0, ''getAssistant''),
     (16, ''getCertificate''), (3, ''getChatCompletion''), (3, ''getChatCompletionMessages''),
     (8, ''getConversation''), (8, ''getConversationItem''), (10, ''getEval''), (10, ''getEvalRun''),
     (10, ''getEvalRunOutputItem''), (10, ''getEvalRunOutputItems''), (10, ''getEvalRuns''),
     (23, ''getMessage''), (21, ''getResponse''), (23, ''getRun''), (23, ''getRunStep''),
     (23, ''getThread''), (25, ''getVectorStore''), (25, ''getVectorStoreFile''),
     (25, ''getVectorStoreFileBatch''), (1, ''getVoiceConsent''), (20, ''hangup-realtime-call''),
     (16, ''inviteUser''), (16, ''list-audit-logs''), (16, ''list-group-role-assignments''),
     (16, ''list-group-users''), (16, ''list-groups''), (16, ''list-invites''),
     (18, ''list-organization-spend-alerts''), (17, ''list-project-api-keys''),
     (19, ''list-project-group-role-assignments''), (17, ''list-project-groups''),
     (17, ''list-project-rate-limits''), (19, ''list-project-roles''),
     (17, ''list-project-service-accounts''), (17, ''list-project-spend-alerts''),
     (19, ''list-project-user-role-assignments''), (17, ''list-project-users''),
     (17, ''list-projects''), (18, ''list-roles''), (18, ''list-user-role-assignments''),
     (18, ''list-users''), (0, ''listAssistants''), (2, ''listBatches'')]"

definition id_block_5 :: "(nat \<times> string) list" where
  "id_block_5 =
    [(3, ''listChatCompletions''), (8, ''listConversationItems''), (10, ''listEvals''),
     (11, ''listFiles''), (25, ''listFilesInVectorStoreBatch''),
     (12, ''listFineTuningCheckpointPermissions''), (12, ''listFineTuningEvents''),
     (12, ''listFineTuningJobCheckpoints''), (21, ''listInputItems''), (23, ''listMessages''),
     (14, ''listModels''), (16, ''listOrganizationCertificates''),
     (12, ''listPaginatedFineTuningJobs''), (17, ''listProjectCertificates''), (23, ''listRunSteps''),
     (23, ''listRuns''), (25, ''listVectorStoreFiles''), (25, ''listVectorStores''),
     (1, ''listVoiceConsents''), (17, ''modify-project''), (17, ''modify-project-user''),
     (18, ''modify-user''), (0, ''modifyAssistant''), (16, ''modifyCertificate''),
     (23, ''modifyMessage''), (23, ''modifyRun''), (23, ''modifyThread''), (25, ''modifyVectorStore''),
     (12, ''pauseFineTuningJob''), (20, ''refer-realtime-call''), (20, ''reject-realtime-call''),
     (16, ''remove-group-user''), (17, ''remove-project-group''), (12, ''resumeFineTuningJob''),
     (16, ''retrieve-group''), (16, ''retrieve-group-role''), (16, ''retrieve-group-user''),
     (16, ''retrieve-invite''), (16, ''retrieve-organization-data-retention''),
     (18, ''retrieve-organization-spend-alert''), (17, ''retrieve-project''),
     (17, ''retrieve-project-api-key''), (17, ''retrieve-project-data-retention''),
     (17, ''retrieve-project-group''), (19, ''retrieve-project-group-role''),
     (17, ''retrieve-project-hosted-tool-permissions''), (17, ''retrieve-project-model-permissions''),
     (19, ''retrieve-project-role'')]"

definition id_block_6 :: "(nat \<times> string) list" where
  "id_block_6 =
    [(17, ''retrieve-project-service-account''), (17, ''retrieve-project-spend-alert''),
     (17, ''retrieve-project-user''), (19, ''retrieve-project-user-role''), (18, ''retrieve-role''),
     (18, ''retrieve-user''), (18, ''retrieve-user-role''), (2, ''retrieveBatch''),
     (11, ''retrieveFile''), (12, ''retrieveFineTuningJob''), (14, ''retrieveModel''),
     (25, ''retrieveVectorStoreFileContent''), (12, ''runGrader''), (25, ''searchVectorStore''),
     (23, ''submitToolOuputsToRun''), (16, ''unassign-group-role''),
     (19, ''unassign-project-group-role''), (19, ''unassign-project-user-role''),
     (18, ''unassign-user-role''), (16, ''update-group''), (16, ''update-organization-data-retention''),
     (18, ''update-organization-spend-alert''), (17, ''update-project-data-retention''),
     (17, ''update-project-hosted-tool-permissions''), (17, ''update-project-model-permissions''),
     (17, ''update-project-rate-limits''), (19, ''update-project-role''),
     (17, ''update-project-service-account''), (17, ''update-project-spend-alert''),
     (18, ''update-role''), (3, ''updateChatCompletion''), (8, ''updateConversation''),
     (10, ''updateEval''), (25, ''updateVectorStoreFileAttributes''), (1, ''updateVoiceConsent''),
     (16, ''uploadCertificate''), (18, ''usage-audio-speeches''), (18, ''usage-audio-transcriptions''),
     (18, ''usage-code-interpreter-sessions''), (18, ''usage-completions''), (16, ''usage-costs''),
     (18, ''usage-embeddings''), (18, ''usage-file-search-calls''), (18, ''usage-images''),
     (18, ''usage-moderations''), (18, ''usage-vector-stores''), (18, ''usage-web-search-calls''),
     (12, ''validateGrader'')]"

definition id_certificate :: "(nat \<times> string) list" where
  "id_certificate = id_block_1 @ id_block_2 @ id_block_3 @ id_block_4 @ id_block_5 @ id_block_6"

definition id_listed :: "nat \<times> string \<Rightarrow> bool" where
  "id_listed e = (case e of (n, i) \<Rightarrow> n < length id_blocks \<and> List.member (id_blocks ! n) i)"

definition chunk_ok :: "(nat \<times> string) list \<Rightarrow> bool" where
  "chunk_ok chunk \<longleftrightarrow> list_all id_listed chunk \<and> successively string_less (map snd chunk)"

lemma chunk_1: "chunk_ok id_block_1"
  by code_simp

lemma chunk_2: "chunk_ok id_block_2"
  by code_simp

lemma chunk_3: "chunk_ok id_block_3"
  by code_simp

lemma chunk_4: "chunk_ok id_block_4"
  by code_simp

lemma chunk_5: "chunk_ok id_block_5"
  by code_simp

lemma chunk_6: "chunk_ok id_block_6"
  by code_simp

subsection \<open>Uniqueness\<close>

lemma chunk_borders:
  "string_less (last (map snd id_block_1)) (hd (map snd id_block_2))"
  "string_less (last (map snd id_block_2)) (hd (map snd id_block_3))"
  "string_less (last (map snd id_block_3)) (hd (map snd id_block_4))"
  "string_less (last (map snd id_block_4)) (hd (map snd id_block_5))"
  "string_less (last (map snd id_block_5)) (hd (map snd id_block_6))"
  by (simp_all add: id_block_1_def id_block_2_def id_block_3_def id_block_4_def id_block_5_def id_block_6_def)

lemma chunk_lengths:
  "length id_block_1 = 48" "length id_block_2 = 48" "length id_block_3 = 48"
  "length id_block_4 = 48" "length id_block_5 = 48" "length id_block_6 = 48"
  by (simp_all add: id_block_1_def id_block_2_def id_block_3_def id_block_4_def id_block_5_def id_block_6_def)

lemmas id_chunks = chunk_1 chunk_2 chunk_3 chunk_4 chunk_5 chunk_6

lemma certificate_sorted: "sorted_wrt string_less (map snd id_certificate)"
proof -
  have "successively string_less (map snd id_certificate)"
    using id_chunks chunk_borders chunk_lengths
    by (simp add: id_certificate_def chunk_ok_def successively_append_iff flip: length_0_conv)
  moreover have "transp string_less" by (rule transpI) (rule string_less_trans)
  ultimately show ?thesis by (simp add: successively_conv_sorted_wrt)
qed

lemma certificate_ids: "set (map snd id_certificate) \<subseteq> set (map OperationID Operations)"
proof
  fix i assume "i \<in> set (map snd id_certificate)"
  then obtain n where "(n, i) \<in> set id_certificate" by auto
  moreover have "list_all id_listed id_certificate"
    using id_chunks by (simp add: id_certificate_def chunk_ok_def)
  ultimately have "n < length id_blocks" "i \<in> set (id_blocks ! n)"
    by (auto simp: list_all_iff id_listed_def)
  then show "i \<in> set (map OperationID Operations)"
    unfolding Operations_ids set_concat using nth_mem by blast
qed

lemma OperationIDs_distinct: "distinct (map OperationID Operations)"
proof (rule card_distinct)
  have "distinct (map snd id_certificate)"
    using certificate_sorted string_less_irrefl
    by (auto simp: distinct_conv_nth sorted_wrt_iff_nth_less) (metis nat_neq_iff string_less_irrefl)
  then have "card (set (map snd id_certificate)) = 288"
    by (simp only: distinct_card) (simp add: id_certificate_def chunk_lengths)
  then have "288 \<le> card (set (map OperationID Operations))"
    using card_mono[OF finite_set certificate_ids] by simp
  moreover have "length Operations = 288"
    by (simp add: Operations_def operation_tables)
  ultimately show "card (set (map OperationID Operations)) = length (map OperationID Operations)"
    using card_length[of "map OperationID Operations"] by simp
qed

lemma operationsByID_lookup:
  "op \<in> set ops \<Longrightarrow> distinct (map OperationID ops) \<Longrightarrow>
     map_of (fold (\<lambda>op m. AList.update (OperationID op) op m) ops m) (OperationID op) = Some op"
proof (induction ops rule: rev_induct)
  case (snoc x ops)
  then show ?case by (auto simp: image_iff)
qed simp

lemma OperationByID_complete: "op \<in> set Operations \<Longrightarrow> OperationByID (OperationID op) = Some op"
  unfolding OperationByID_def operationsByID_def
  by (rule operationsByID_lookup) (simp_all add: OperationIDs_distinct del: map_map)

text \<open>Ids name operations.  \<open>OperationByID\<close> returns an operation exactly when that operation is a row
  of the frozen table with this id; so no two rows share an id and every row can be found.\<close>

theorem OperationByID_exact:
  "OperationByID i = Some op \<longleftrightarrow> op \<in> set Operations \<and> OperationID op = i"
  using OperationByID_frozen OperationByID_complete by blast

end
