(* ===== verification/Gen_Tables.thy ===== *)
theory Gen_Tables
  imports Gen_Evidence Gen_Determinism Profile_Ids
begin

section \<open>The checked-in tables are what the generator accepts\<close>

text \<open>
  The rows of \<open>profile.gen.go\<close> with the evidence metadata that the generator derives from them, and
  the inventory that lists the same events.  The table does not say whether an operation has query
  parameters, so that is an arbitrary choice for each row.
\<close>

definition frozen_row :: "(operation \<Rightarrow> bool) \<Rightarrow> operation \<Rightarrow> generatedOperation" where
  "frozen_row hasQuery op =
    (let item =
       \<lparr>gen_Method = Method op, gen_Path = Path op, gen_OperationID = OperationID op,
        gen_Capability = OpCapability op, gen_RequestMedia = RequestMedia op,
        gen_ResponseMedia = ResponseMedia op, gen_SuccessStatus = SuccessStatus op,
        SDKCall = (if List.member rawOnlyOperations (OperationID op) then ''raw_sdk_exception''
                   else ''resource_helper''),
        LocalCase = ''http.'' @ OpCapability op @ ''.'' @ OperationID op,
        Transports = [], SchemaCases = [''minimal_valid_request'', ''valid_success_response''],
        LiveProfile = fst (liveClassification (OperationID op)),
        LiveReason = snd (liveClassification (OperationID op)), HasQuery = hasQuery op\<rparr>
     in item\<lparr>Transports := operationTransports item\<rparr>)"

definition frozen_inventory :: "string \<Rightarrow> eventInventory" where
  "frozen_inventory sdk =
    \<lparr>SDK = sdk, Surfaces =
      [(''realtime'', \<lparr>Client = events_realtime_client, Server = events_realtime_server\<rparr>),
       (''realtime_translation'',
         \<lparr>Client = events_realtime_translation_client, Server = events_realtime_translation_server\<rparr>),
       (''responses_websocket'',
         \<lparr>Client = events_responses_websocket_client, Server = events_responses_websocket_server\<rparr>)]\<rparr>"

definition table_event :: "generatedEvent \<Rightarrow> profile_event" where
  "table_event e = \<lparr>EvSurface = ge_Surface e, EvDirection = ge_Direction e, EvType = ge_Type e\<rparr>"

subsection \<open>Operations\<close>

text \<open>A row uses some transport: it has a body, or a parameter in its path.\<close>

definition transported :: "operation \<Rightarrow> bool" where
  "transported op = (case RequestMedia op @ ResponseMedia op of [] \<Rightarrow> Contains (Path op) ''{'' | _ \<Rightarrow> True)"

lemma Operations_transported: "list_all transported Operations"
  by (simp add: Operations_def operation_tables frozen_def transported_def HasPrefix_def)

lemma operationTransports_nonempty:
  assumes "transported op" and "gen_Path r = Path op" and "gen_RequestMedia r = RequestMedia op"
    and "gen_ResponseMedia r = ResponseMedia op"
  shows "operationTransports r \<noteq> []"
proof -
  let ?t = "\<lambda>ts. fold (\<lambda>media ts. appendUnique ts (media_transport media))
      (gen_RequestMedia r @ gen_ResponseMedia r) ts"
  have fold: "set (?t ts) = set ts \<union> media_transport ` set (RequestMedia op @ ResponseMedia op)" for ts
    using fold_appendUnique(1)[of media_transport "gen_RequestMedia r @ gen_ResponseMedia r" ts] assms(3,4)
    by simp
  then have "set (operationTransports r) \<noteq> {}"
    using assms(1,2) by (auto simp: operationTransports_def transported_def Let_def simp del: fold_append
        split: list.splits)
  then show ?thesis by auto
qed

lemma frozen_row_simps [simp]:
  "gen_OperationID (frozen_row q op) = OperationID op" "gen_Method (frozen_row q op) = Method op"
  "gen_Path (frozen_row q op) = Path op"
  "LocalCase (frozen_row q op) = ''http.'' @ OpCapability op @ ''.'' @ OperationID op"
  "SDKCall (frozen_row q op) =
     (if List.member rawOnlyOperations (OperationID op) then ''raw_sdk_exception'' else ''resource_helper'')"
  by (simp_all add: frozen_row_def Let_def)

lemma liveProfile_valid: "fst (liveClassification i) \<in> set validProfiles"
  by (simp add: liveClassification_def validProfiles_def)

lemma frozen_row_evidence: "op \<in> set Operations \<Longrightarrow> evidence_ok (frozen_row q op)"
proof -
  assume "op \<in> set Operations"
  then have "transported op" using Operations_transported by (simp add: list_all_iff)
  then have "Transports (frozen_row q op) \<noteq> []"
    unfolding frozen_row_def Let_def by (simp add: operationTransports_nonempty)
  then show ?thesis
    using liveProfile_valid by (simp add: evidence_ok_def frozen_row_def Let_def)
qed

lemma capability_no_dot: "c \<in> set Capabilities \<Longrightarrow> CHR ''.'' \<notin> set c"
proof -
  have "list_all (\<lambda>c. CHR ''.'' \<notin> set c) Capabilities" by code_simp
  then show "c \<in> set Capabilities \<Longrightarrow> ?thesis" by (simp add: list_all_iff)
qed

lemma frozen_local_cases: "distinct (map LocalCase (map (frozen_row q) Operations))"
proof -
  have "OperationID a = OperationID b"
    if "LocalCase (frozen_row q a) = LocalCase (frozen_row q b)" "a \<in> set Operations" "b \<in> set Operations" for a b
  proof -
    have "OpCapability a \<in> set Capabilities" "OpCapability b \<in> set Capabilities"
      using that(2,3) Operations_entries by (auto simp: list_all_iff entry_ok_def)
    then show ?thesis
      using that(1) capability_no_dot append_sep_inject[of "CHR ''.''"] by simp
  qed
  then have "inj_on (\<lambda>op. LocalCase (frozen_row q op)) (set Operations)"
    using OperationIDs_distinct unfolding distinct_map inj_on_def by blast
  moreover have "distinct Operations" using OperationIDs_distinct by (simp add: distinct_map)
  ultimately show ?thesis unfolding map_map distinct_map comp_def by blast
qed

lemma raw_ids_frozen:
  "set (raw_ids (map (frozen_row q) Operations)) =
     {i \<in> set (map OperationID Operations). i \<in> set rawOnlyOperations}"
proof -
  have "SDKCall (frozen_row q op) = ''raw_sdk_exception'' \<longleftrightarrow> OperationID op \<in> set rawOnlyOperations" for op
    by simp
  then have "raw_ids (map (frozen_row q) Operations) =
      map OperationID (filter (\<lambda>op. OperationID op \<in> set rawOnlyOperations) Operations)"
    by (simp add: raw_ids_def filter_map comp_def del: frozen_row_simps(5))
  then show ?thesis by auto
qed

lemma rawOnly_listed: "list_all (\<lambda>i. i \<in> set (ids_audio @ ids_realtime)) rawOnlyOperations"
  by code_simp

lemma rawOnly_in_table: "list_all (\<lambda>i. i \<in> set (map OperationID Operations)) rawOnlyOperations"
proof -
  have "set (ids_audio @ ids_realtime) \<subseteq> set (map OperationID Operations)"
    unfolding Operations_ids by (auto simp: id_blocks_def)
  then show ?thesis using rawOnly_listed unfolding list_all_iff by blast
qed

subsection \<open>Events\<close>

text \<open>The table's event groups are strictly sorted, and so is their concatenation.\<close>

definition sorted_types :: "string list \<Rightarrow> bool" where
  "sorted_types ts = successively string_less ts"

lemma event_groups_sorted:
  "sorted_types events_realtime_client" "sorted_types events_realtime_server"
  "sorted_types events_realtime_translation_client" "sorted_types events_realtime_translation_server"
  "sorted_types events_responses_websocket_client" "sorted_types events_responses_websocket_server"
  by code_simp+

lemma sorted_typesD: "sorted_types ts \<Longrightarrow> sorted_wrt string_less ts"
  unfolding sorted_types_def
  by (subst (asm) successively_conv_sorted_wrt) (auto intro: transpI string_less_trans)

lemma surface_events_sorted:
  assumes "sorted_types (Client ev)" and "sorted_types (Server ev)"
  shows "sorted_wrt event_less (surface_events s ev)"
proof -
  have group: "sorted_wrt event_less (map (\<lambda>t. \<lparr>ge_Surface = s, ge_Direction = d, ge_Type = t\<rparr>) ts)"
    if "sorted_types ts" for d ts
    using sorted_typesD[OF that] by (simp add: sorted_wrt_map event_less_def)
  have "event_less \<lparr>ge_Surface = s, ge_Direction = ''client'', ge_Type = t\<rparr>
      \<lparr>ge_Surface = s, ge_Direction = ''server'', ge_Type = u\<rparr>" for t u
    by (simp add: event_less_def)
  then have "\<forall>a\<in>set (map (\<lambda>t. \<lparr>ge_Surface = s, ge_Direction = ''client'', ge_Type = t\<rparr>) (Client ev)).
      \<forall>b\<in>set (map (\<lambda>t. \<lparr>ge_Surface = s, ge_Direction = ''server'', ge_Type = t\<rparr>) (Server ev)). event_less a b"
    by (simp only: set_map ball_simps) simp
  with group[OF assms(1)] group[OF assms(2)] show ?thesis
    unfolding surface_events_def sorted_wrt_append by blast
qed

lemma surface_events_fields:
  "e \<in> set (surface_events s ev) \<Longrightarrow> ge_Surface e = s \<and> ge_Direction e \<in> {''client'', ''server''}"
  by (auto simp: surface_events_def)

lemma surface_events_across:
  "a \<in> set (surface_events s e) \<Longrightarrow> b \<in> set (surface_events t f) \<Longrightarrow> string_less s t \<Longrightarrow> event_less a b"
  using surface_events_fields[of a s e] surface_events_fields[of b t f] by (auto simp: event_less_def)

text \<open>A list of surfaces in strict order whose groups are sorted needs no sorting.\<close>

lemma surfaces_sorted:
  "sorted_wrt string_less (map fst surfaces) \<Longrightarrow>
   list_all (\<lambda>(_, ev). sorted_types (Client ev) \<and> sorted_types (Server ev)) surfaces \<Longrightarrow>
     sorted_wrt event_less (concat (map (\<lambda>(surface, events). surface_events surface events) surfaces))"
proof (induction surfaces)
  case (Cons x surfaces)
  obtain s ev where x: "x = (s, ev)" by force
  have "event_less a b" if "a \<in> set (surface_events s ev)" "(t, f) \<in> set surfaces" "b \<in> set (surface_events t f)"
    for a b t f
    using that(2) Cons.prems(1) by (intro surface_events_across[OF that(1,3)]) (auto simp: x)
  then have "\<forall>a\<in>set (surface_events s ev).
      \<forall>b\<in>set (concat (map (\<lambda>(surface, events). surface_events surface events) surfaces)). event_less a b"
    by auto
  moreover have "sorted_wrt event_less (surface_events s ev)"
    using Cons.prems(2) by (intro surface_events_sorted) (auto simp: x)
  ultimately show ?case using Cons by (simp add: x sorted_wrt_append)
qed simp

lemma frozen_events_sorted:
  "sorted_wrt event_less
     (concat (map (\<lambda>(surface, events). surface_events surface events) (Surfaces (frozen_inventory sdk))))"
proof (rule surfaces_sorted)
  show "sorted_wrt string_less (map fst (Surfaces (frozen_inventory sdk)))"
    by (simp add: frozen_inventory_def)
  show "list_all (\<lambda>(_, ev). sorted_types (Client ev) \<and> sorted_types (Server ev)) (Surfaces (frozen_inventory sdk))"
    by (simp add: frozen_inventory_def event_groups_sorted)
qed

lemma collectEvents_frozen:
  "collectEvents (frozen_inventory sdk) =
     concat (map (\<lambda>(surface, events). surface_events surface events) (Surfaces (frozen_inventory sdk)))"
  unfolding collectEvents_def using frozen_events_sorted by (rule event_order.sort_by_sorted)

lemma evidence_keys_distinct: "distinct (map evidence_key (collectEvents (frozen_inventory sdk)))"
proof -
  let ?es = "collectEvents (frozen_inventory sdk)"
  have fields: "CHR ''/'' \<notin> set (ge_Surface e) \<and> CHR ''/'' \<notin> set (ge_Direction e)" if e: "e \<in> set ?es" for e
  proof -
    obtain s ev where s: "(s, ev) \<in> set (Surfaces (frozen_inventory sdk))" "e \<in> set (surface_events s ev)"
      using e unfolding collectEvents_frozen by auto
    from s(1) have "s \<in> {''realtime'', ''realtime_translation'', ''responses_websocket''}"
      by (auto simp: frozen_inventory_def)
    then show ?thesis using surface_events_fields[OF s(2)] by auto
  qed
  have "inj_on evidence_key (set ?es)"
  proof (rule inj_onI)
    fix a b assume "a \<in> set ?es" "b \<in> set ?es" "evidence_key a = evidence_key b"
    then have "ge_Surface a = ge_Surface b \<and> ge_Direction a = ge_Direction b \<and> ge_Type a = ge_Type b"
      using fields[of a] fields[of b] by (simp add: evidence_key_def append_sep_inject)
    then show "a = b" by simp
  qed
  moreover have "distinct ?es"
    using frozen_events_sorted[of sdk] event_order.lt_irrefl
    unfolding collectEvents_frozen distinct_conv_nth sorted_wrt_iff_nth_less by (metis nat_neq_iff)
  ultimately show ?thesis by (simp add: distinct_map)
qed

lemma frozen_rows_sorted:
  "sort_by generated_less (map (frozen_row q) Operations) = map (frozen_row q) Operations"
proof -
  have "sorted_wrt operation_less Operations"
    using Operations_sorted by (subst (asm) successively_conv_sorted_wrt[OF operation_less_trans])
  moreover have "generated_less (frozen_row q a) (frozen_row q b) = operation_less a b" for a b
    by (simp add: generated_less_def operation_less_def)
  ultimately have "sorted_wrt generated_less (map (frozen_row q) Operations)" by (simp add: sorted_wrt_map)
  then show ?thesis by (rule generated_order.sort_by_sorted)
qed

subsection \<open>Properties\<close>

text \<open>The checked-in profile is what its generator accepts and emits.  The rows of the frozen operation
  table, with the evidence metadata derived from them, and the inventory of the frozen events pass
  the generator's validation, and collecting the inventory gives the frozen event table back, entry
  by entry.\<close>

theorem frozen_profile_generated:
  "validateEvidence (map (frozen_row hasQuery) Operations) (frozen_inventory sdk) = None \<and>
   map table_event (collectEvents (frozen_inventory sdk)) = Events"
proof (intro conjI)
  let ?rows = "map (frozen_row hasQuery) Operations"
  have "list_all evidence_ok ?rows" by (simp add: list_all_iff frozen_row_evidence)
  moreover have "map gen_OperationID ?rows = map OperationID Operations" by simp
  moreover have "list_all (\<lambda>i. i \<in> set (raw_ids ?rows)) rawOnlyOperations"
    unfolding raw_ids_frozen using rawOnly_in_table by (auto simp: list_all_iff)
  moreover note OperationIDs_distinct frozen_local_cases evidence_keys_distinct
  ultimately show "validateEvidence ?rows (frozen_inventory sdk) = None"
    unfolding validate_accepts by metis
  show "map table_event (collectEvents (frozen_inventory sdk)) = Events"
    unfolding collectEvents_frozen
    by (simp add: frozen_inventory_def surface_events_def Events_def table_event_def comp_def)
qed

end
