(* ===== verification/Gen_Main.thy ===== *)
theory Gen_Main
  imports Gen_Render Gen_Tables
begin

section \<open>The generator's run: internal/cmd/openai-gen/main.go\<close>

text \<open>
  \<open>main\<close> as a function of its flags and its surroundings: the files it can read, the decoders of the
  two inputs, the renderer and whether a write succeeds.  The result is the list of files written,
  in order, and the failure that ended the process, if any.
\<close>

record gen_flags =
  specPath :: string
  outputPath :: string
  manifestPath :: string
  eventsPath :: string
  compatibilityPath :: string

record gen_env =
  ReadFile :: "string \<Rightarrow> string option"
  DecodeSpec :: "string \<Rightarrow> spec_document option"
  DecodeEvents :: "string \<Rightarrow> eventInventory option"
  Render :: "string \<Rightarrow> nat \<Rightarrow> generatedOperation list \<Rightarrow> eventInventory \<Rightarrow> string option"
  Printable :: "nat \<Rightarrow> bool"
  WriteOK :: "string \<Rightarrow> bool"

datatype main_error =
    FlagsRequired
  | ReadSpecFailed
  | DecodeSpecFailed
  | CollectFailed gen_error
  | UnexpectedSize nat nat
  | ReadEventsFailed
  | DecodeEventsFailed
  | EventCount nat
  | EvidenceRejected evidence_error
  | RenderFailed
  | WriteFailed string
  | EventsRequired

subsection \<open>The manifest\<close>

text \<open>\<open>json.MarshalIndent\<close> with two spaces, for values whose members are in the order of struct fields.\<close>

definition indent :: "nat \<Rightarrow> string" where
  "indent depth = newline # concat (replicate depth ''  '')"

fun MarshalIndent :: "nat \<Rightarrow> json \<Rightarrow> string" where
  "MarshalIndent depth (JArray vs) =
     (if vs = [] then ''[]''
      else ''['' @ indent (Suc depth) @
        join_with ('','' @ indent (Suc depth)) (map (MarshalIndent (Suc depth)) vs) @ indent depth @ '']'')"
| "MarshalIndent depth (JObject ms) =
     (if ms = [] then ''{}''
      else ''{'' @ indent (Suc depth) @
        join_with ('','' @ indent (Suc depth))
          (map (\<lambda>(k, v). encode_string k @ '': '' @ MarshalIndent (Suc depth) v) ms) @ indent depth @ ''}'')"
| "MarshalIndent depth v = Marshal v"

definition json_slice :: "string list \<Rightarrow> json" where
  "json_slice values = (if values = [] then JNull else JArray (map JString values))"

definition manifest_row :: "generatedOperation \<Rightarrow> json" where
  "manifest_row operation =
    JObject
      [(''Method'', JString (gen_Method operation)), (''Path'', JString (gen_Path operation)),
       (''OperationID'', JString (gen_OperationID operation)),
       (''Capability'', JString (gen_Capability operation)),
       (''RequestMedia'', json_slice (gen_RequestMedia operation)),
       (''ResponseMedia'', json_slice (gen_ResponseMedia operation)),
       (''SuccessStatus'', JNumber (Itoa (gen_SuccessStatus operation))),
       (''SDKCall'', JString (SDKCall operation)), (''LocalCase'', JString (LocalCase operation)),
       (''Transports'', json_slice (Transports operation)),
       (''SchemaCases'', json_slice (SchemaCases operation)),
       (''LiveProfile'', JString (LiveProfile operation)), (''LiveReason'', JString (LiveReason operation))]"

definition manifest :: "generatedOperation list \<Rightarrow> string" where
  "manifest operations =
    (if operations = [] then ''null'' else MarshalIndent 0 (JArray (map manifest_row operations))) @ [newline]"

subsection \<open>Reading and checking (lines 85 to 117)\<close>

definition read_events :: "gen_env \<Rightarrow> string \<Rightarrow> main_error + eventInventory" where
  "read_events env path =
    (if path = [] then Inr \<lparr>SDK = [], Surfaces = []\<rparr>
     else
       (case ReadFile env path of
          None \<Rightarrow> Inl ReadEventsFailed
        | Some data \<Rightarrow>
            (case DecodeEvents env data of
               None \<Rightarrow> Inl DecodeEventsFailed
             | Some events \<Rightarrow>
                 (let count = length (collectEvents events)
                  in if count \<noteq> 121 then Inl (EventCount count) else Inr events))))"

definition gen_inputs ::
  "gen_env \<Rightarrow> gen_flags \<Rightarrow> main_error + (string \<times> nat \<times> generatedOperation list \<times> eventInventory)" where
  "gen_inputs env flags =
    (if specPath flags = [] \<or> outputPath flags = [] then Inl FlagsRequired
     else
       (case ReadFile env (specPath flags) of
          None \<Rightarrow> Inl ReadSpecFailed
        | Some raw \<Rightarrow>
            (case DecodeSpec env raw of
               None \<Rightarrow> Inl DecodeSpecFailed
             | Some spec \<Rightarrow>
                 (case collectOperations spec of
                    Inl err \<Rightarrow> Inl (CollectFailed err)
                  | Inr operations \<Rightarrow>
                      if length (Paths spec) \<noteq> 182 \<or> length operations \<noteq> 288 then
                        Inl (UnexpectedSize (length (Paths spec)) (length operations))
                      else
                        (case read_events env (eventsPath flags) of
                           Inl err \<Rightarrow> Inl err
                         | Inr events \<Rightarrow>
                             (case validateEvidence operations events of
                                Some err \<Rightarrow> Inl (EvidenceRejected err)
                              | None \<Rightarrow> Inr (raw, length (Paths spec), operations, events)))))))"

subsection \<open>Writing (lines 118 to 153)\<close>

definition write_file :: "gen_env \<Rightarrow> string \<times> string \<Rightarrow> (string \<times> string) list \<Rightarrow> (string \<times> string) list \<times> main_error option" where
  "write_file env file written =
    (if WriteOK env (fst file) then (written @ [file], None) else (written, Some (WriteFailed (fst file))))"

definition write_matrix ::
  "gen_env \<Rightarrow> gen_flags \<Rightarrow> generatedOperation list \<Rightarrow> eventInventory \<Rightarrow> (string \<times> string) list \<Rightarrow>
   (string \<times> string) list \<times> main_error option" where
  "write_matrix env flags operations events written =
    (if compatibilityPath flags = [] then (written, None)
     else if eventsPath flags = [] then (written, Some EventsRequired)
     else write_file env (compatibilityPath flags, renderCompatibility (Printable env) operations events) written)"

definition write_manifest ::
  "gen_env \<Rightarrow> gen_flags \<Rightarrow> generatedOperation list \<Rightarrow> (string \<times> string) list \<Rightarrow>
   (string \<times> string) list \<times> main_error option" where
  "write_manifest env flags operations written =
    (if manifestPath flags = [] then (written, None)
     else write_file env (manifestPath flags, manifest operations) written)"

definition gen_main :: "gen_env \<Rightarrow> gen_flags \<Rightarrow> (string \<times> string) list \<times> main_error option" where
  "gen_main env flags =
    (case gen_inputs env flags of
       Inl err \<Rightarrow> ([], Some err)
     | Inr (raw, pathCount, operations, events) \<Rightarrow>
         (case Render env raw pathCount operations events of
            None \<Rightarrow> ([], Some RenderFailed)
          | Some generated \<Rightarrow>
              (case write_file env (outputPath flags, generated) [] of
                 (written, Some err) \<Rightarrow> (written, Some err)
               | (written, None) \<Rightarrow>
                   (case write_manifest env flags operations written of
                      (written, Some err) \<Rightarrow> (written, Some err)
                    | (written, None) \<Rightarrow> write_matrix env flags operations events written))))"

subsection \<open>Facts\<close>

lemma Split_lines:
  "list_all (\<lambda>l. sep \<notin> set l) ls \<Longrightarrow> Split (concat (map (\<lambda>l. l @ [sep]) ls)) sep = ls @ [[]]"
  by (induction ls) (auto simp: Split_append_sep)

lemma visible_literal: "list_all (\<lambda>c. 32 \<le> byte_val c) s \<Longrightarrow> visible s"
  by (simp add: visible_def)

lemma visible_operation:
  assumes "evidence_ok operation"
  shows "list_all (\<lambda>l. visible (join_with '' '' l)) (matrix_operation pr operation)"
proof -
  have "visible (SDKCall operation)" "visible (LiveProfile operation)"
    using assms by (auto simp: evidence_ok_def validProfiles_def)
  then show ?thesis by (simp add: matrix_operation_def visible_Quote visible_yamlList)
qed

lemma visible_event: "list_all (\<lambda>l. visible (join_with '' '' l)) (matrix_event pr event)"
  by (simp add: matrix_event_def visible_Quote event_semantic_def)

lemma visible_matrix:
  "list_all evidence_ok operations \<Longrightarrow>
     list_all (\<lambda>l. visible (join_with '' '' l)) (matrix_lines pr operations events)"
  using visible_operation visible_event
  by (fastforce simp: matrix_lines_def list_all_iff visible_Quote)

subsection \<open>Properties\<close>

text \<open>The compatibility matrix cannot be forged by the document.  For rows that pass the evidence
  validation, splitting the rendered matrix at line feeds gives exactly the intended lines, twelve
  for each operation and eleven for each event: whatever bytes the document's paths and ids
  contain, they stay inside their quoted scalar.\<close>

theorem renderCompatibility_lines:
  assumes "list_all evidence_ok operations"
  shows "Split (renderCompatibility pr operations events) newline =
      map (join_with '' '') (matrix_lines pr operations events) @ [[]] \<and>
    length (Split (renderCompatibility pr operations events) newline) =
      6 + 12 * length operations + 11 * length (collectEvents events)"
proof -
  have "list_all (\<lambda>l. newline \<notin> set l) (map (join_with '' '') (matrix_lines pr operations events))"
    using visible_matrix[OF assms] visible_no_newline by (fastforce simp: list_all_iff)
  from Split_lines[OF this]
  have split: "Split (renderCompatibility pr operations events) newline =
      map (join_with '' '') (matrix_lines pr operations events) @ [[]]"
    by (simp add: renderCompatibility_def Fprintln_def[abs_def] comp_def)
  have "length (concat (map (matrix_operation pr) ops)) = 12 * length ops" for ops
    by (induction ops) (simp_all add: matrix_operation_def)
  moreover have "length (concat (map (matrix_event pr) es)) = 11 * length es" for es
    by (induction es) (simp_all add: matrix_event_def)
  ultimately have "length (matrix_lines pr operations events) =
      5 + 12 * length operations + 11 * length (collectEvents events)"
    by (simp add: matrix_lines_def)
  with split show ?thesis by simp
qed

definition hostile_row :: generatedOperation where
  "hostile_row =
    \<lparr>gen_Method = ''GET'', gen_Path = ''/x'' @ [newline] @ ''  - operation: forged'', gen_OperationID = ''x'',
     gen_Capability = ''chat'', gen_RequestMedia = [], gen_ResponseMedia = [], gen_SuccessStatus = 200,
     SDKCall = ''resource_helper'', LocalCase = ''http.chat.x'', Transports = [''path''],
     SchemaCases = [''minimal_valid_request''], LiveProfile = ''safe'', LiveReason = [], HasQuery = False\<rparr>"

theorem renderCompatibility_lines_witness:
  "length (Split (renderCompatibility (\<lambda>r. True) [hostile_row] \<lparr>SDK = [], Surfaces = []\<rparr>) newline) = 18"
proof -
  have "list_all evidence_ok [hostile_row]"
    by (simp add: evidence_ok_def hostile_row_def validProfiles_def)
  from renderCompatibility_lines[OF this, THEN conjunct2] show ?thesis
    by (simp add: collectEvents_def sort_by_def)
qed

lemma write_file_paths: "write_file env file written = (out, e) \<Longrightarrow> out = written \<or> out = written @ [file]"
  by (auto simp: write_file_def split: if_splits)

lemma read_events_count:
  "read_events env path = Inr events \<Longrightarrow> path \<noteq> [] \<Longrightarrow> length (collectEvents events) = 121"
  by (auto simp: read_events_def Let_def split: if_splits option.splits)

lemma gen_inputs_Inr:
  assumes "gen_inputs env flags = Inr (raw, n, operations, events)"
  shows "n = 182 \<and> length operations = 288 \<and> validateEvidence operations events = None \<and>
    (eventsPath flags = [] \<or> length (collectEvents events) = 121) \<and>
    (\<exists>spec. DecodeSpec env raw = Some spec \<and> collectOperations spec = Inr operations)"
  using assms read_events_count[of env "eventsPath flags" events]
  by (auto simp: gen_inputs_def split: if_splits option.splits sum.splits)

text \<open>Nothing unchecked is written.  When the inputs are refused, no file is written at all;
  otherwise the document has the 182 paths and 288 operations of the frozen profile, the
  inventory, if there is one, 121 events, and the evidence is valid; and the files written are
  the generated tables first, then at most the manifest and the matrix, in this order.\<close>

theorem gen_main_writes_validated:
  "case gen_inputs env flags of
     Inl err \<Rightarrow> gen_main env flags = ([], Some err)
   | Inr (raw, n, operations, events) \<Rightarrow>
       n = 182 \<and> length operations = 288 \<and> validateEvidence operations events = None \<and>
       (eventsPath flags = [] \<or> length (collectEvents events) = 121) \<and>
       (\<exists>spec. DecodeSpec env raw = Some spec \<and> collectOperations spec = Inr operations) \<and>
       map fst (fst (gen_main env flags)) \<in>
         {[], [outputPath flags], [outputPath flags, manifestPath flags],
          [outputPath flags, compatibilityPath flags],
          [outputPath flags, manifestPath flags, compatibilityPath flags]}"
proof (cases "gen_inputs env flags")
  case (Inl err)
  then show ?thesis by (simp add: gen_main_def)
next
  case (Inr inputs)
  obtain raw n operations events where i: "inputs = (raw, n, operations, events)" by (cases inputs)
  have "map fst (fst (gen_main env flags)) \<in>
      {[], [outputPath flags], [outputPath flags, manifestPath flags],
       [outputPath flags, compatibilityPath flags],
       [outputPath flags, manifestPath flags, compatibilityPath flags]}"
    by (auto simp: gen_main_def Inr i write_file_def write_manifest_def write_matrix_def split: option.split)
  then show ?thesis using gen_inputs_Inr[of env flags] by (simp add: Inr i)
qed

text \<open>Asking for the matrix without an event inventory is a usage error, but it is reported only after
  the tables and the manifest have been replaced.\<close>

theorem gen_main_late_usage_error:
  assumes "gen_inputs env flags = Inr (raw, n, operations, events)"
    and "Render env raw n operations events = Some generated"
    and "WriteOK env (outputPath flags)" and "manifestPath flags = []"
    and "compatibilityPath flags \<noteq> []" and "eventsPath flags = []"
  shows "gen_main env flags = ([(outputPath flags, generated)], Some EventsRequired)"
  using assms by (simp add: gen_main_def write_file_def write_manifest_def write_matrix_def)

end
