(* ===== verification/Profile_Schema.thy ===== *)
theory Profile_Schema
  imports Json_Parse Backend_Types Go_Base64
begin

section \<open>The router's copy of the OpenAPI document: openai/internal/profile/profile.go\<close>

text \<open>
  \<open>normalizeRouterSchemas\<close> edits the decoded document in place, each object before its members; the
  decoded tree has no sharing, so the edit is a function on trees.  Decompressing the embedded
  document is a parameter of \<open>SpecJSON\<close>.
\<close>

subsection \<open>Edits of one object\<close>

text \<open>Later occurrences of a name vanish; other items stay.\<close>

fun dedup_names :: "string list \<Rightarrow> json list \<Rightarrow> json list" where
  "dedup_names seen [] = []"
| "dedup_names seen (item # items) =
     (case item of
        JString name \<Rightarrow>
          if name \<in> set seen then dedup_names seen items
          else item # dedup_names (name # seen) items
      | _ \<Rightarrow> item # dedup_names seen items)"

type_synonym schema = "(string, json) gomap"

definition normalize_required :: "schema \<Rightarrow> schema" where
  "normalize_required typed =
    (case map_of typed ''required'' of
       Some (JArray required) \<Rightarrow> AList.update ''required'' (JArray (dedup_names [] required)) typed
     | _ \<Rightarrow> typed)"

definition normalize_bound :: "string \<Rightarrow> string \<Rightarrow> schema \<Rightarrow> schema" where
  "normalize_bound bound exclusive typed =
    (case map_of typed exclusive of
       Some (JBool b) \<Rightarrow>
         if \<not> b then AList.delete exclusive typed
         else (case map_of typed bound of
                 Some (JNumber n) \<Rightarrow> AList.delete bound (AList.update exclusive (JNumber n) typed)
               | _ \<Rightarrow> typed)
     | _ \<Rightarrow> typed)"

definition normalize_bounds :: "bool \<Rightarrow> schema \<Rightarrow> schema" where
  "normalize_bounds native typed =
    (if native then
       normalize_bound ''maximum'' ''exclusiveMaximum'' (normalize_bound ''minimum'' ''exclusiveMinimum'' typed)
     else typed)"

definition normalize_null :: "bool \<Rightarrow> schema \<Rightarrow> schema" where
  "normalize_null native typed =
    (if map_of typed ''type'' = Some (JString ''null'') \<and> \<not> native then
       (let t = AList.update ''nullable'' (JBool True) (AList.delete ''type'' typed)
        in if map_of t ''enum'' = None then AList.update ''enum'' (JArray [JNull]) t else t)
     else typed)"

fun common_type :: "string \<Rightarrow> json list \<Rightarrow> string option" where
  "common_type common [] = Some common"
| "common_type common (branch # branches) =
     (case branch of
        JObject object \<Rightarrow>
          (case map_of object ''type'' of
             Some (JString branchType) \<Rightarrow>
               if branchType = ''null'' then None
               else if common = [] then common_type branchType branches
               else if common \<noteq> branchType then None
               else common_type common branches
           | _ \<Rightarrow> None)
      | _ \<Rightarrow> None)"

definition commonAnyOfType :: "json option \<Rightarrow> string option" where
  "commonAnyOfType value =
    (case value of
       Some (JArray branches) \<Rightarrow> if branches = [] then None else common_type [] branches
     | _ \<Rightarrow> None)"

definition normalize_type :: "schema \<Rightarrow> schema" where
  "normalize_type typed =
    (if map_of typed ''type'' = None then
       (case commonAnyOfType (map_of typed ''anyOf'') of
          Some common \<Rightarrow> AList.update ''type'' (JString common) typed
        | None \<Rightarrow> typed)
     else typed)"

definition normalize_object :: "bool \<Rightarrow> schema \<Rightarrow> schema" where
  "normalize_object native typed =
    normalize_type (normalize_null native (normalize_bounds native (normalize_required typed)))"

subsection \<open>Sizes\<close>

text \<open>A member of an edited object is smaller than the object was, so the descent ends.\<close>

lemma size_member: "(k, v) \<in> set ms \<Longrightarrow> size v < size (JObject ms)"
  by (induction ms) auto

definition small_members :: "nat \<Rightarrow> schema \<Rightarrow> bool" where
  "small_members n typed \<longleftrightarrow> (\<forall>(k, v)\<in>set typed. size v < n)"

lemma small_update: "small_members n typed \<Longrightarrow> size v < n \<Longrightarrow> small_members n (AList.update k v typed)"
  using set_update_subset[of k v typed] by (fastforce simp: small_members_def)

lemma small_delete: "small_members n typed \<Longrightarrow> small_members n (AList.delete k typed)"
  by (auto simp: small_members_def AList.delete_eq)

lemma size_dedup: "size_list size (dedup_names seen items) \<le> size_list size items"
  by (induction seen items rule: dedup_names.induct) (auto split: json.split)

lemma map_of_small: "small_members n typed \<Longrightarrow> map_of typed k = Some v \<Longrightarrow> size v < n"
  by (auto simp: small_members_def dest: map_of_SomeD)

lemma small_required: "small_members n typed \<Longrightarrow> small_members n (normalize_required typed)"
proof -
  assume small: "small_members n typed"
  show ?thesis
  proof (cases "\<exists>items. map_of typed ''required'' = Some (JArray items)")
    case True
    then obtain items where i: "map_of typed ''required'' = Some (JArray items)" by blast
    then have "size (JArray (dedup_names [] items)) < n"
      using map_of_small[OF small i] size_dedup[of "[]" items] by simp
    then show ?thesis using small i by (simp add: normalize_required_def small_update)
  next
    case False
    then show ?thesis using small by (auto simp: normalize_required_def split: option.split json.split)
  qed
qed

lemma small_bound: "small_members n typed \<Longrightarrow> small_members n (normalize_bound b x typed)"
  by (auto simp: normalize_bound_def small_delete split: option.split json.split
      intro!: small_delete small_update dest: map_of_small)

lemma small_type: "small_members n typed \<Longrightarrow> 0 < n \<Longrightarrow> small_members n (normalize_type typed)"
  by (auto simp: normalize_type_def small_update split: option.split)

lemma small_null:
  assumes "small_members n typed" and "3 \<le> n"
  shows "small_members n (normalize_null native typed)"
  using assms by (auto simp: normalize_null_def Let_def intro!: small_update small_delete)

lemma small_object:
  assumes "(k, v) \<in> set (normalize_object native ms)"
  shows "size v < size (JObject ms)"
proof (cases ms)
  case Nil
  then show ?thesis using assms
    by (auto simp: normalize_object_def normalize_required_def normalize_bounds_def normalize_bound_def
        normalize_null_def normalize_type_def commonAnyOfType_def split: if_splits)
next
  case (Cons m rest)
  let ?n = "size (JObject ms)"
  have "3 \<le> ?n" by (cases m) (simp add: Cons)
  moreover have "small_members ?n ms" using size_member by (auto simp: small_members_def)
  ultimately have "small_members ?n (normalize_object native ms)"
    unfolding normalize_object_def normalize_bounds_def
    by (auto intro!: small_type small_null small_bound small_required)
  then show ?thesis using assms by (auto simp: small_members_def)
qed

subsection \<open>The whole document\<close>

function normalizeRouterSchemas :: "bool \<Rightarrow> json \<Rightarrow> json" where
  "normalizeRouterSchemas native (JObject ms) =
     JObject (map (\<lambda>(k, v). (k, normalizeRouterSchemas native v)) (normalize_object native ms))"
| "normalizeRouterSchemas native (JArray vs) = JArray (map (normalizeRouterSchemas native) vs)"
| "normalizeRouterSchemas native JNull = JNull"
| "normalizeRouterSchemas native (JBool b) = JBool b"
| "normalizeRouterSchemas native (JNumber n) = JNumber n"
| "normalizeRouterSchemas native (JString s) = JString s"
  by pat_completeness auto
termination
proof (relation "measure (size \<circ> snd)")
  fix native v and vs :: "json list"
  assume "v \<in> set vs"
  then show "((native, v), (native, JArray vs)) \<in> measure (size \<circ> snd)"
    by (induction vs) auto
qed (auto dest: small_object)

text \<open>\<open>gunzip\<close> gives \<open>None\<close> for bytes that are not a gzip stream and \<open>Some None\<close> for a damaged one.\<close>

definition SpecJSON :: "string \<Rightarrow> (string \<Rightarrow> string option option) \<Rightarrow> go_error + string" where
  "SpecJSON compressedSpecBase64 gunzip =
    (case DecodeString compressedSpecBase64 of
       None \<Rightarrow> Inl (Plain ''decode embedded OpenAPI document'')
     | Some compressed \<Rightarrow>
         (case gunzip compressed of
            None \<Rightarrow> Inl (Plain ''open embedded OpenAPI document'')
          | Some None \<Rightarrow> Inl (Plain ''read embedded OpenAPI document'')
          | Some (Some text) \<Rightarrow> Inr text))"

definition RouterSpecJSON :: "(go_error + string) \<Rightarrow> bool \<Rightarrow> go_error + string" where
  "RouterSpecJSON spec native =
    (case spec of
       Inl err \<Rightarrow> Inl err
     | Inr raw \<Rightarrow>
         (case Unmarshal_any raw of
            None \<Rightarrow> Inl (Plain ''decode frozen OpenAPI document'')
          | Some value \<Rightarrow> Inr (Marshal (normalizeRouterSchemas native value))))"

subsection \<open>What holds of the whole normalised document\<close>

function all_objects :: "(schema \<Rightarrow> bool) \<Rightarrow> json \<Rightarrow> bool" where
  "all_objects P (JObject ms) = (P ms \<and> (\<forall>m\<in>set ms. all_objects P (snd m)))"
| "all_objects P (JArray vs) = (\<forall>v\<in>set vs. all_objects P v)"
| "all_objects P JNull = True"
| "all_objects P (JBool b) = True"
| "all_objects P (JNumber n) = True"
| "all_objects P (JString s) = True"
  by pat_completeness auto
termination
proof (relation "measure (size \<circ> snd)")
  fix P :: "schema \<Rightarrow> bool" and v and vs :: "json list"
  assume "v \<in> set vs"
  then show "((P, v), (P, JArray vs)) \<in> measure (size \<circ> snd)"
    by (induction vs) auto
next
  fix P :: "schema \<Rightarrow> bool" and m :: "string \<times> json" and ms
  assume "m \<in> set ms"
  then show "((P, snd m), (P, JObject ms)) \<in> measure (size \<circ> snd)"
    using size_member[of "fst m" "snd m" ms] by simp
qed simp

definition names :: "json list \<Rightarrow> string list" where
  "names items = concat (map (\<lambda>v. case v of JString n \<Rightarrow> [n] | _ \<Rightarrow> []) items)"

lemma names_simps [simp]:
  "names [] = []" "names (v # items) = (case v of JString n \<Rightarrow> [n] | _ \<Rightarrow> []) @ names items"
  by (simp_all add: names_def)

lemma names_dedup:
  "distinct (names (dedup_names seen items)) \<and>
   set (names (dedup_names seen items)) = set (names items) - set seen"
  by (induction seen items rule: dedup_names.induct) (auto split: json.splits)

lemma normalize_string [simp]: "normalizeRouterSchemas native v = JString n \<longleftrightarrow> v = JString n"
  and normalize_bool [simp]: "normalizeRouterSchemas native v = JBool b \<longleftrightarrow> v = JBool b"
  and normalize_number [simp]: "normalizeRouterSchemas native v = JNumber x \<longleftrightarrow> v = JNumber x"
  by (cases v; simp)+

lemma normalize_array:
  "normalizeRouterSchemas native v = JArray items \<longleftrightarrow>
     (\<exists>items'. v = JArray items' \<and> items = map (normalizeRouterSchemas native) items')"
  by (cases v) auto

lemma names_normalize [simp]: "names (map (normalizeRouterSchemas native) items) = names items"
proof (induction items)
  case (Cons v items)
  then show ?case by (cases v) auto
qed simp

definition bounds_ready :: "string \<Rightarrow> string \<Rightarrow> schema \<Rightarrow> bool" where
  "bounds_ready bound exclusive ms \<longleftrightarrow>
    map_of ms exclusive \<noteq> Some (JBool False) \<and>
    (map_of ms exclusive = Some (JBool True) \<longrightarrow> (\<forall>n. map_of ms bound \<noteq> Some (JNumber n)))"

definition required_ready :: "schema \<Rightarrow> bool" where
  "required_ready ms \<longleftrightarrow> (\<forall>items. map_of ms ''required'' = Some (JArray items) \<longrightarrow> distinct (names items))"

definition router_ready :: "bool \<Rightarrow> schema \<Rightarrow> bool" where
  "router_ready native ms \<longleftrightarrow>
    required_ready ms \<and>
    (if native then bounds_ready ''minimum'' ''exclusiveMinimum'' ms \<and> bounds_ready ''maximum'' ''exclusiveMaximum'' ms
     else map_of ms ''type'' \<noteq> Some (JString ''null''))"

lemma normalize_required_array:
  "map_of (normalize_required ms) ''required'' = Some (JArray items) \<Longrightarrow> \<exists>items'. items = dedup_names [] items'"
  by (auto simp: normalize_required_def split: option.splits json.splits)

lemma map_of_normalize_members:
  "map_of (map (\<lambda>(k, v). (k, normalizeRouterSchemas native v)) ms) k =
     map_option (normalizeRouterSchemas native) (map_of ms k)"
  by (simp add: map_of_map)

lemma normalize_bound_cases:
  obtains (dropped) "map_of ms x = Some (JBool False)" "normalize_bound b x ms = AList.delete x ms"
  | (merged) n where "map_of ms x = Some (JBool True)" "map_of ms b = Some (JNumber n)"
      "normalize_bound b x ms = AList.delete b (AList.update x (JNumber n) ms)"
  | (same) "normalize_bound b x ms = ms" "map_of ms x \<noteq> Some (JBool False)"
      "map_of ms x = Some (JBool True) \<longrightarrow> (\<forall>n. map_of ms b \<noteq> Some (JNumber n))"
proof (cases "map_of ms x")
  case None
  then show thesis using same by (simp add: normalize_bound_def)
next
  case (Some v)
  note x = this
  show thesis
  proof (cases "v = JBool False")
    case True
    then show thesis using x dropped by (simp add: normalize_bound_def)
  next
    case False
    show thesis
    proof (cases "v = JBool True \<and> (\<exists>n. map_of ms b = Some (JNumber n))")
      case True
      then show thesis using x merged by (auto simp: normalize_bound_def)
    next
      case other: False
      have "normalize_bound b x ms = ms"
        unfolding normalize_bound_def x using False other by (auto split: json.split option.split)
      then show thesis using same x False other by auto
    qed
  qed
qed

lemma map_of_normalize_bound_other:
  "k \<noteq> b \<Longrightarrow> k \<noteq> x \<Longrightarrow> map_of (normalize_bound b x ms) k = map_of ms k"
  by (cases rule: normalize_bound_cases[of ms x b]) (auto simp: delete_conv')

lemma bounds_ready_bound: "b \<noteq> x \<Longrightarrow> bounds_ready b x (normalize_bound b x ms)"
  by (cases rule: normalize_bound_cases[of ms x b]) (auto simp: bounds_ready_def delete_conv')

lemma bounds_ready_cong:
  "map_of ms b = map_of ms' b \<Longrightarrow> map_of ms x = map_of ms' x \<Longrightarrow> bounds_ready b x ms = bounds_ready b x ms'"
  by (simp add: bounds_ready_def)

lemma map_of_normalize_null_other:
  "k \<notin> {''type'', ''nullable'', ''enum''} \<Longrightarrow> map_of (normalize_null native ms) k = map_of ms k"
  by (auto simp: normalize_null_def Let_def delete_conv')

lemma map_of_normalize_type_other: "k \<noteq> ''type'' \<Longrightarrow> map_of (normalize_type ms) k = map_of ms k"
  by (auto simp: normalize_type_def split: option.split)

lemma common_type_not_null: "common_type c branches = Some t \<Longrightarrow> c \<noteq> ''null'' \<Longrightarrow> t \<noteq> ''null''"
  by (induction c branches rule: common_type.induct) (auto split: json.splits option.splits if_splits)

lemma normalize_type_not_null:
  assumes "map_of ms ''type'' \<noteq> Some (JString ''null'')"
  shows "map_of (normalize_type ms) ''type'' \<noteq> Some (JString ''null'')"
  using assms common_type_not_null[of "[]"]
  by (auto simp: normalize_type_def commonAnyOfType_def split: option.splits json.splits if_splits)

lemma normalize_null_not_null: "map_of (normalize_null False ms) ''type'' \<noteq> Some (JString ''null'')"
  by (auto simp: normalize_null_def Let_def delete_conv')

lemma router_ready_object: "router_ready native (normalize_object native ms)"
proof -
  have req: "map_of (normalize_object native ms) ''required'' = map_of (normalize_required ms) ''required''"
    by (simp add: normalize_object_def normalize_bounds_def map_of_normalize_type_other
        map_of_normalize_null_other map_of_normalize_bound_other)
  have "required_ready (normalize_object native ms)"
    using names_dedup[of "[]"] normalize_required_array by (fastforce simp: required_ready_def req)
  moreover have "bounds_ready ''minimum'' ''exclusiveMinimum'' (normalize_object True ms)"
    "bounds_ready ''maximum'' ''exclusiveMaximum'' (normalize_object True ms)"
    unfolding normalize_object_def normalize_bounds_def
    using bounds_ready_bound[of "''minimum''" "''exclusiveMinimum''" "normalize_required ms"]
      bounds_ready_bound[of "''maximum''" "''exclusiveMaximum''"]
    by (simp_all add: bounds_ready_def map_of_normalize_type_other map_of_normalize_null_other
        map_of_normalize_bound_other)
  moreover have "map_of (normalize_object False ms) ''type'' \<noteq> Some (JString ''null'')"
    unfolding normalize_object_def by (rule normalize_type_not_null[OF normalize_null_not_null])
  ultimately show ?thesis by (cases native) (simp_all add: router_ready_def)
qed

lemma router_ready_map:
  assumes "router_ready native ms"
  shows "router_ready native (map (\<lambda>(k, v). (k, normalizeRouterSchemas native v)) ms)"
  using assms
  by (cases native)
    (auto simp: router_ready_def required_ready_def bounds_ready_def map_of_normalize_members normalize_array)


subsection \<open>What the edits mean\<close>

text \<open>
  The constraint a pair of bounds puts on a number, in both dialects: a boolean exclusive bound
  changes the meaning of its partner, a numeric one is a bound of its own.  \<open>lt n x\<close> and \<open>le n x\<close>
  compare a literal with the number, in the direction of the bound.
\<close>

definition bound_ok ::
  "(string \<Rightarrow> 'x \<Rightarrow> bool) \<Rightarrow> (string \<Rightarrow> 'x \<Rightarrow> bool) \<Rightarrow> string \<Rightarrow> string \<Rightarrow> schema \<Rightarrow> 'x \<Rightarrow> bool" where
  "bound_ok lt le bound exclusive ms x =
    (let partner = (\<lambda>rel. case map_of ms bound of Some (JNumber n) \<Rightarrow> rel n x | _ \<Rightarrow> True)
     in (case map_of ms exclusive of
           Some (JNumber e) \<Rightarrow> lt e x \<and> partner le
         | Some (JBool True) \<Rightarrow> partner lt
         | _ \<Rightarrow> partner le))"

lemma bound_ok_cong:
  "map_of ms b = map_of ms' b \<Longrightarrow> map_of ms x = map_of ms' x \<Longrightarrow> bound_ok lt le b x ms v = bound_ok lt le b x ms' v"
  by (simp add: bound_ok_def)

lemma bound_ok_normalize: "b \<noteq> x \<Longrightarrow> bound_ok lt le b x (normalize_bound b x ms) v = bound_ok lt le b x ms v"
  by (cases rule: normalize_bound_cases[of ms x b]) (auto simp: bound_ok_def delete_conv')

lemma map_of_normalize_required_other: "k \<noteq> ''required'' \<Longrightarrow> map_of (normalize_required ms) k = map_of ms k"
  by (auto simp: normalize_required_def split: option.split json.split)

definition required_names :: "schema \<Rightarrow> string set" where
  "required_names ms = (case map_of ms ''required'' of Some (JArray items) \<Rightarrow> set (names items) | _ \<Rightarrow> {})"

text \<open>The types a schema admits through its own type and through the branches of its \<open>anyOf\<close>, for an
  instance that has the types in \<open>sat\<close>; no instance has the empty type.\<close>

definition own_type_ok :: "(string \<Rightarrow> bool) \<Rightarrow> schema \<Rightarrow> bool" where
  "own_type_ok sat ms =
    (case map_of ms ''type'' of Some (JString t) \<Rightarrow> t \<noteq> [] \<and> sat t | _ \<Rightarrow> True)"

definition types_ok :: "(string \<Rightarrow> bool) \<Rightarrow> schema \<Rightarrow> bool" where
  "types_ok sat ms \<longleftrightarrow> own_type_ok sat ms \<and>
    (case map_of ms ''anyOf'' of
       Some (JArray branches) \<Rightarrow>
         list_ex (\<lambda>b. case b of JObject object \<Rightarrow> own_type_ok sat object | _ \<Rightarrow> True) branches
     | _ \<Rightarrow> True)"

lemma common_type_branch:
  "common_type c branches = Some t \<Longrightarrow> b \<in> set branches \<Longrightarrow>
     \<exists>object bt. b = JObject object \<and> map_of object ''type'' = Some (JString bt) \<and> (bt = t \<or> bt = [])"
  and common_type_start: "common_type c branches = Some t \<Longrightarrow> c \<noteq> [] \<Longrightarrow> t = c"
proof -
  have start: "common_type c branches = Some t \<Longrightarrow> c \<noteq> [] \<Longrightarrow> t = c" for c branches
    by (induction c branches rule: common_type.induct) (auto split: json.splits option.splits if_splits)
  then show "common_type c branches = Some t \<Longrightarrow> c \<noteq> [] \<Longrightarrow> t = c" .
  show "common_type c branches = Some t \<Longrightarrow> b \<in> set branches \<Longrightarrow>
     \<exists>object bt. b = JObject object \<and> map_of object ''type'' = Some (JString bt) \<and> (bt = t \<or> bt = [])"
  proof (induction c branches rule: common_type.induct)
    case (2 c branch branches)
    then obtain object bt where br: "branch = JObject object" and ty: "map_of object ''type'' = Some (JString bt)"
      by (auto split: json.splits option.splits)
    show ?case
    proof (cases "b = branch")
      case True
      have "bt = t \<or> bt = []"
        using "2.prems"(1) br ty start[of bt branches] start[of c branches] by (auto split: if_splits)
      then show ?thesis using True br ty by auto
    next
      case False
      then have "b \<in> set branches" using "2.prems"(2) by simp
      then show ?thesis using 2 br ty by (auto split: if_splits)
    qed
  qed simp
qed

lemma types_ok_normalize_type: "types_ok sat (normalize_type ms) = types_ok sat ms"
proof (cases "map_of ms ''type'' = None \<and> (\<exists>t. commonAnyOfType (map_of ms ''anyOf'') = Some t)")
  case True
  then obtain t where t: "commonAnyOfType (map_of ms ''anyOf'') = Some t" by blast
  then obtain branches where br: "map_of ms ''anyOf'' = Some (JArray branches)"
    and ne: "branches \<noteq> []" and c: "common_type [] branches = Some t"
    by (auto simp: commonAnyOfType_def split: option.splits json.splits if_splits)
  have "list_ex (\<lambda>b. case b of JObject object \<Rightarrow> own_type_ok sat object | _ \<Rightarrow> True) branches \<Longrightarrow> t \<noteq> [] \<and> sat t"
    using common_type_branch[OF c] by (fastforce simp: list_ex_iff own_type_ok_def)
  then show ?thesis
    using True t br by (auto simp: types_ok_def own_type_ok_def normalize_type_def)
next
  case False
  then have "normalize_type ms = ms" by (auto simp: normalize_type_def split: option.split)
  then show ?thesis by simp
qed


end
