(* ===== verification/Gen_Embedded.thy ===== *)
theory Gen_Embedded
  imports Gen_Main Profile_Schema
begin

section \<open>The embedded document: from the generator to SpecJSON\<close>

text \<open>
  The generator writes the OpenAPI document into a string constant, compressed and in base64, and
  \<open>SpecJSON\<close> reads it from there when the program runs.  This theory shows that the source has
  exactly the intended lines and that the constant gives the document back.
\<close>

subsection \<open>The lines of the source\<close>

lemma visible_nat_digits: "visible (nat_digits n)"
proof (induction n rule: nat_digits.induct)
  case (1 n)
  have "32 \<le> byte_val (char_of (48 + d))" if "d < 10" for d :: nat
  proof -
    have "d \<in> set [0..<10]" using that by simp
    moreover have "list_all (\<lambda>d. 32 \<le> byte_val (char_of (48 + d))) [0..<10]" by code_simp
    ultimately show ?thesis by (simp only: list_all_iff)
  qed
  then show ?case using 1 by (subst nat_digits.simps) simp
qed

lemma visible_Itoa: "visible (Itoa n)"
  by (simp add: Itoa_def visible_nat_digits)

lemma visible_go_slice: "visible (go_slice pr values)"
  by (simp add: go_slice_def visible_join list_all_iff visible_Quote)

lemma visible_render_lines: "list_all visible (render_lines pr digest compressed pathCount operations inventory)"
proof -
  have "visible (go_operation pr operation)" for operation
    by (simp add: go_operation_def visible_Quote visible_go_slice visible_Itoa)
  moreover have "visible (go_event pr event)" for event
    by (simp add: go_event_def visible_Quote)
  ultimately show ?thesis
    by (auto simp: render_lines_def visible_Quote visible_Itoa list_all_iff)
qed

text \<open>A text of printable characters other than the quotation mark and the backslash is quoted as it is.\<close>

definition plain :: "char \<Rightarrow> bool" where
  "plain c \<longleftrightarrow> c \<noteq> CHR 0x22 \<and> c \<noteq> CHR 0x5C \<and> 32 \<le> byte_val c \<and> byte_val c < 127"

lemma quote_plain: "list_all plain s \<Longrightarrow> quote_runes pr s = s"
proof (induction s)
  case Nil
  then show ?case by (subst quote_runes.simps) simp
next
  case (Cons c s)
  have c: "c \<noteq> CHR 0x22" "c \<noteq> CHR 0x5C" "32 \<le> byte_val c" "byte_val c < 127"
    using Cons.prems by (simp_all add: plain_def)
  have "char_of (0x22 :: nat) = CHR 0x22" "char_of (0x5C :: nat) = CHR 0x5C" by code_simp+
  then have "byte_val c \<noteq> 0x22" "byte_val c \<noteq> 0x5C"
    using c(1,2) by (metis char_of_char)+
  then show ?case
    using Cons c by (subst quote_runes.simps)
      (simp add: ascii_def first_rune_def escape_rune_def rune_printable_def)
qed

lemma plain_base64: "list_all plain (base64_encode s)"
  using base64_encode_plain by (auto simp: list_all_iff plain_def)

lemma Quote_base64: "Quote pr (base64_encode s) = CHR 0x22 # base64_encode s @ [CHR 0x22]"
  by (simp add: Quote_def quote_plain[OF plain_base64])

lemma render_source:
  assumes "compress raw = Some gz"
  shows "\<exists>source. render pr compress digest gofmt raw pathCount operations inventory = gofmt source \<and>
    Split source newline =
      render_lines pr (digest raw) (base64_encode gz) pathCount operations inventory @ [[]]"
proof -
  let ?lines = "render_lines pr (digest raw) (base64_encode gz) pathCount operations inventory"
  have "list_all (\<lambda>l. newline \<notin> set l) ?lines"
    using visible_render_lines visible_no_newline by (fastforce simp: list_all_iff)
  from Split_lines[OF this] show ?thesis
    by (intro exI[of _ "concat (map (\<lambda>l. l @ [newline]) ?lines)"]) (simp add: render_def assms)
qed

text \<open>C15: the document a client of the profile reads is the document the generator was given.  The source
  that \<open>render\<close> hands to \<open>gofmt\<close> has exactly the intended lines, whatever the document contains; its
  seventh is the constant \<open>compressedSpecBase64\<close>, a literal without quotation marks or escapes in
  it; and for a decompressor that undoes the compression, \<open>SpecJSON\<close> turns that constant into
  the document, so \<open>RouterSpecJSON\<close> encodes its normal form.\<close>

theorem embedded_document_served:
  assumes "compress raw = Some gz" and "gunzip gz = Some (Some raw)"
  shows "\<exists>source text. render pr compress digest gofmt raw pathCount operations inventory = gofmt source \<and>
    Split source newline = render_lines pr (digest raw) text pathCount operations inventory @ [[]] \<and>
    Split source newline ! 6 = ''const compressedSpecBase64 = '' @ CHR 0x22 # text @ [CHR 0x22] \<and>
    CHR 0x22 \<notin> set text \<and> CHR 0x5C \<notin> set text \<and>
    SpecJSON text gunzip = Inr raw \<and>
    RouterSpecJSON (SpecJSON text gunzip) native =
      (case Unmarshal_any raw of
         None \<Rightarrow> Inl (Plain ''decode frozen OpenAPI document'')
       | Some value \<Rightarrow> Inr (Marshal (normalizeRouterSchemas native value)))"
proof -
  obtain source where source: "render pr compress digest gofmt raw pathCount operations inventory = gofmt source"
    and lines: "Split source newline =
      render_lines pr (digest raw) (base64_encode gz) pathCount operations inventory @ [[]]"
    using render_source[of compress raw gz] assms(1) by blast
  have spec: "SpecJSON (base64_encode gz) gunzip = Inr raw"
    by (simp add: SpecJSON_def DecodeString_encode assms(2))
  have "Split source newline ! 6 = ''const compressedSpecBase64 = '' @ Quote pr (base64_encode gz)"
    unfolding lines by (simp add: render_lines_def)
  moreover have "CHR 0x22 \<notin> set (base64_encode gz)" "CHR 0x5C \<notin> set (base64_encode gz)"
    using base64_encode_plain[of "CHR 0x22" gz] base64_encode_plain[of "CHR 0x5C" gz] by blast+
  ultimately show ?thesis
    using source lines by (intro exI[of _ source] exI[of _ "base64_encode gz"])
      (simp add: spec RouterSpecJSON_def Quote_base64)
qed

text \<open>An example with a stand-in for the compression, which only marks its output.\<close>

theorem embedded_document_served_witness:
  "\<exists>source text. render (\<lambda>r. True) (\<lambda>raw. Some (CHR 0x1F # raw)) (\<lambda>raw. ''00'') Some ''{}'' 0 [] \<lparr>SDK = [], Surfaces = []\<rparr> =
      Some source \<and>
    Split source newline ! 6 = ''const compressedSpecBase64 = '' @ CHR 0x22 # text @ [CHR 0x22] \<and>
    SpecJSON text (\<lambda>gz. Some (Some (tl gz))) = Inr ''{}''"
proof -
  let ?compress = "\<lambda>raw. Some (CHR 0x1F # raw)" and ?gunzip = "\<lambda>gz. Some (Some (tl gz))"
  have "?gunzip (CHR 0x1F # ''{}'') = Some (Some ''{}'')" by simp
  then show ?thesis
    using embedded_document_served[of ?compress "''{}''" "CHR 0x1F # ''{}''" ?gunzip "\<lambda>r. True" "\<lambda>raw. ''00''" Some
        0 "[]" "\<lparr>SDK = [], Surfaces = []\<rparr>" False, OF refl] by blast
qed

end
