(* ===== verification/Gen_Regenerate.thy ===== *)
theory Gen_Regenerate
  imports Gen_Main
begin

section \<open>The frozen table can be regenerated\<close>

text \<open>
  A document with the operations of the frozen table: each path once, with its methods in lower
  case, the ids, the media types and one success status; tags where the capability has one.
  Whether an operation has query parameters is arbitrary, as in theory \<open>Gen_Tables\<close>.
\<close>

fun group_paths :: "operation list \<Rightarrow> (string \<times> operation list) list" where
  "group_paths [] = []"
| "group_paths (op # ops) =
     (case group_paths ops of
        [] \<Rightarrow> [(Path op, [op])]
      | (p, g) # rest \<Rightarrow> if p = Path op then (p, op # g) # rest else (Path op, [op]) # (p, g) # rest)"

definition frozen_tags :: "operation \<Rightarrow> string list" where
  "frozen_tags op =
    (if OpCapability op \<in> {''containers'', ''chatkit'', ''organization''} then []
     else (case map_of (map (\<lambda>(t, c). (c, t)) capability_tags) (OpCapability op) of
             Some t \<Rightarrow> [t] | None \<Rightarrow> []))"

definition frozen_operation :: "(operation \<Rightarrow> bool) \<Rightarrow> operation \<Rightarrow> spec_operation" where
  "frozen_operation hasQuery op =
    \<lparr>SpecOperationID = OperationID op, Tags = frozen_tags op,
     SpecParameters = (if hasQuery op then [\<lparr>In = ''query''\<rparr>] else []),
     RequestBody = Some \<lparr>RequestContent = map (\<lambda>m. (m, [])) (RequestMedia op)\<rparr>,
     Responses = [(Itoa (SuccessStatus op), \<lparr>ResponseContent = map (\<lambda>m. (m, [])) (ResponseMedia op)\<rparr>)]\<rparr>"

definition frozen_spec :: "(operation \<Rightarrow> bool) \<Rightarrow> spec_document" where
  "frozen_spec hasQuery =
    \<lparr>Paths = map (\<lambda>(path, ops). (path, map (\<lambda>op. (map lower_byte (Method op), frozen_operation hasQuery op)) ops))
               (group_paths Operations)\<rparr>"

subsection \<open>Every row on its own\<close>

definition method_ok :: "string \<Rightarrow> bool" where
  "method_ok m \<longleftrightarrow> ToUpper (map lower_byte m) = m \<and> List.member http_methods (ToLower (map lower_byte m))"

lemma methods_ok: "list_all method_ok [''GET'', ''POST'', ''PUT'', ''PATCH'', ''DELETE'']"
  by code_simp

definition untagged :: "string list" where
  "untagged = [''containers'', ''chatkit'', ''organization'']"

definition tag_ok :: "string \<Rightarrow> bool" where
  "tag_ok c \<longleftrightarrow>
    List.member untagged c \<or>
    (case map_of (map (\<lambda>(t, c). (c, t)) capability_tags) c of
       Some t \<Rightarrow> map_of capability_tags t = Some c | None \<Rightarrow> False)"

lemma tags_ok: "list_all tag_ok Capabilities"
  by code_simp

definition regenerable :: "operation \<Rightarrow> bool" where
  "regenerable op \<longleftrightarrow>
    List.member [''GET'', ''POST'', ''PUT'', ''PATCH'', ''DELETE''] (Method op) \<and>
    (if List.member untagged (OpCapability op) then capabilityFor (Path op) [] = Some (OpCapability op) else True) \<and>
    successively string_less (RequestMedia op) \<and> successively string_less (ResponseMedia op) \<and>
    List.member [200, 201] (SuccessStatus op)"

lemma regenerable_assistants: "list_all regenerable operations_assistants"
  by code_simp

lemma regenerable_audio: "list_all regenerable operations_audio"
  by code_simp

lemma regenerable_batches: "list_all regenerable operations_batches"
  by code_simp

lemma regenerable_chat: "list_all regenerable operations_chat"
  by code_simp

lemma regenerable_chatkit: "list_all regenerable operations_chatkit"
  by code_simp

lemma regenerable_completions: "list_all regenerable operations_completions"
  by code_simp

lemma regenerable_containers: "list_all regenerable operations_containers"
  by code_simp

lemma regenerable_content_provenance_checks: "list_all regenerable operations_content_provenance_checks"
  by code_simp

lemma regenerable_conversations: "list_all regenerable operations_conversations"
  by code_simp

lemma regenerable_embeddings: "list_all regenerable operations_embeddings"
  by code_simp

lemma regenerable_evals: "list_all regenerable operations_evals"
  by code_simp

lemma regenerable_files: "list_all regenerable operations_files"
  by code_simp

lemma regenerable_fine_tuning: "list_all regenerable operations_fine_tuning"
  by code_simp

lemma regenerable_images: "list_all regenerable operations_images"
  by code_simp

lemma regenerable_models: "list_all regenerable operations_models"
  by code_simp

lemma regenerable_moderations: "list_all regenerable operations_moderations"
  by code_simp

lemma regenerable_organization: "list_all regenerable operations_organization"
  by code_simp

lemma regenerable_organization_projects: "list_all regenerable operations_organization_projects"
  by code_simp

lemma regenerable_organization_rest: "list_all regenerable operations_organization_rest"
  by code_simp

lemma regenerable_projects: "list_all regenerable operations_projects"
  by code_simp

lemma regenerable_realtime: "list_all regenerable operations_realtime"
  by code_simp

lemma regenerable_responses: "list_all regenerable operations_responses"
  by code_simp

lemma regenerable_skills: "list_all regenerable operations_skills"
  by code_simp

lemma regenerable_threads: "list_all regenerable operations_threads"
  by code_simp

lemma regenerable_uploads: "list_all regenerable operations_uploads"
  by code_simp

lemma regenerable_vector_stores: "list_all regenerable operations_vector_stores"
  by code_simp

lemma regenerable_videos: "list_all regenerable operations_videos"
  by code_simp

lemma Operations_regenerable: "list_all regenerable Operations"
  by (simp only: Operations_def list_all_append simp_thms
      regenerable_assistants regenerable_audio regenerable_batches regenerable_chat
      regenerable_chatkit regenerable_completions regenerable_containers
      regenerable_content_provenance_checks regenerable_conversations regenerable_embeddings
      regenerable_evals regenerable_files regenerable_fine_tuning regenerable_images
      regenerable_models regenerable_moderations regenerable_organization
      regenerable_organization_projects regenerable_organization_rest regenerable_projects
      regenerable_realtime regenerable_responses regenerable_skills regenerable_threads
      regenerable_uploads regenerable_vector_stores regenerable_videos)

lemma frozen_capability:
  assumes "op \<in> set Operations"
  shows "capabilityFor (Path op) (frozen_tags op) = Some (OpCapability op)"
proof -
  have op: "regenerable op" "entry_ok op"
    using assms Operations_regenerable Operations_entries by (simp_all add: list_all_iff)
  then have tag: "tag_ok (OpCapability op)"
    using tags_ok by (simp add: list_all_iff entry_ok_def)
  show ?thesis
  proof (cases "OpCapability op \<in> set untagged")
    case True
    then have "frozen_tags op = []" by (simp add: frozen_tags_def untagged_def)
    then show ?thesis using op(1) True by (simp add: regenerable_def)
  next
    case False
    then obtain t where t: "map_of (map (\<lambda>(t, c). (c, t)) capability_tags) (OpCapability op) = Some t"
      "map_of capability_tags t = Some (OpCapability op)"
      using tag by (auto simp: tag_ok_def split: option.splits)
    have "frozen_tags op = [t]" using False t(1) by (simp add: frozen_tags_def untagged_def)
    then show ?thesis using t(2) by (simp add: capabilityFor_def)
  qed
qed

lemma frozen_status: "Atoi (Itoa 200) = Some 200" "Atoi (Itoa 201) = Some 201"
  by code_simp+

lemma sort_Strings_sorted: "successively string_less xs \<Longrightarrow> sort_Strings xs = xs \<and> distinct xs"
proof -
  assume "successively string_less xs"
  moreover have "transp string_less" by (rule transpI) (rule string_less_trans)
  ultimately have s: "sorted_wrt string_less xs" by (simp add: successively_conv_sorted_wrt)
  then have "distinct xs"
    unfolding distinct_conv_nth sorted_wrt_iff_nth_less by (metis nat_neq_iff string_less_irrefl)
  then show ?thesis using string_order.sort_by_sorted[OF s] by (simp add: sort_Strings_def)
qed

lemma frozen_media:
  assumes "regenerable op"
  shows "request_media (frozen_operation q op) = RequestMedia op"
    and "response_media (frozen_operation q op) = ResponseMedia op"
proof -
  have sorted: "sort_Strings (RequestMedia op) = RequestMedia op" "distinct (ResponseMedia op)"
    "sort_Strings (ResponseMedia op) = ResponseMedia op"
    using assms sort_Strings_sorted by (simp_all add: regenerable_def)
  show "request_media (frozen_operation q op) = RequestMedia op"
    by (simp add: request_media_def frozen_operation_def comp_def sorted(1))
  have "response_media (frozen_operation q op) = sort_Strings (ResponseMedia op)"
    unfolding response_media_def
    by (rule sort_Strings_unique) (simp_all only: fold_contents sorted(2) distinct.simps,
        simp add: frozen_operation_def image_comp comp_def)
  then show "response_media (frozen_operation q op) = ResponseMedia op" by (simp add: sorted(3))
qed

lemma frozen_entry:
  fixes q :: "operation \<Rightarrow> bool"
  assumes "op \<in> set Operations"
  defines "entry \<equiv> (Path op, map lower_byte (Method op), frozen_operation q op)"
  shows "generatable entry" and "row_of entry = frozen_row q op"
    and "List.member http_methods (ToLower (map lower_byte (Method op)))"
proof -
  have op: "regenerable op" "entry_ok op"
    using assms(1) Operations_regenerable Operations_entries by (simp_all add: list_all_iff)
  have "Method op \<in> set [''GET'', ''POST'', ''PUT'', ''PATCH'', ''DELETE'']"
    using op(1) by (simp add: regenerable_def)
  then have meth: "method_ok (Method op)" using methods_ok by (auto simp: list_all_iff)
  then show "List.member http_methods (ToLower (map lower_byte (Method op)))" by (simp add: method_ok_def)
  have tags: "capabilityFor (Path op) (Tags (frozen_operation q op)) = Some (OpCapability op)"
    using frozen_capability[OF assms(1)] by (simp add: frozen_operation_def)
  then show "generatable entry"
    using op(2) by (simp add: entry_def generatable_def entry_ok_def frozen_operation_def)
  have "SuccessStatus op = 200 \<or> SuccessStatus op = 201" using op(1) by (simp add: regenerable_def)
  then have "successStatus (Responses (frozen_operation q op)) = SuccessStatus op"
    using frozen_status by (auto simp: frozen_operation_def successStatus_def)
  moreover have "SpecOperationID (frozen_operation q op) = OperationID op"
    "list_ex (\<lambda>p. In p = ''query'') (SpecParameters (frozen_operation q op)) = q op"
    by (simp_all add: frozen_operation_def)
  ultimately show "row_of entry = frozen_row q op"
    using tags meth frozen_media[OF op(1)]
    by (simp add: entry_def row_of_def generated_item_def frozen_row_def method_ok_def)
qed

subsection \<open>Grouping by path\<close>

lemma group_paths_entries:
  "concat (map (\<lambda>(p, ops). map (\<lambda>(m, o'). (p, m, o')) (map (\<lambda>op. (f op, g op)) ops)) (group_paths xs)) =
     map (\<lambda>op. (Path op, f op, g op)) xs"
  by (induction xs) (auto split: list.splits)

lemma group_paths_keys:
  "sorted_wrt operation_less xs \<Longrightarrow> sorted_wrt string_less (map fst (group_paths xs)) \<and>
     set (map fst (group_paths xs)) = Path ` set xs \<and>
     (xs \<noteq> [] \<longrightarrow> fst (hd (group_paths xs)) = Path (hd xs))"
proof (induction xs)
  case (Cons x xs)
  then have IH: "sorted_wrt string_less (map fst (group_paths xs))" "fst ` set (group_paths xs) = Path ` set xs"
    by auto
  have below: "Path x = p \<or> string_less (Path x) p" if "p \<in> Path ` set xs" for p
    using that Cons.prems by (auto simp: operation_less_def split: if_splits)
  show ?case
  proof (cases "group_paths xs")
    case Nil
    then have "xs = []" using IH(2) by simp
    then show ?thesis by simp
  next
    case (Cons y rest)
    obtain p g where y: "y = (p, g)" by force
    have keys: "insert p (fst ` set rest) = Path ` set xs" using IH(2) Cons y by auto
    show ?thesis
    proof (cases "p = Path x")
      case True
      then show ?thesis using IH Cons y keys by auto
    next
      case False
      have "string_less (Path x) p" using below[of p] keys False by auto
      moreover have "string_less p k" if "k \<in> fst ` set rest" for k
        using that IH(1) Cons y by auto
      ultimately have "string_less (Path x) k" if "k \<in> insert p (fst ` set rest)" for k
        using that string_less_trans by blast
      then show ?thesis using IH Cons y False keys by auto
    qed
  qed
qed simp

lemma group_paths_length: "length (group_paths xs) = length (remdups_adj (map Path xs))"
  and group_paths_hd: "xs \<noteq> [] \<Longrightarrow> group_paths xs \<noteq> [] \<and> fst (hd (group_paths xs)) = Path (hd xs)"
proof -
  have *: "length (group_paths xs) = length (remdups_adj (map Path xs)) \<and>
      (xs \<noteq> [] \<longrightarrow> group_paths xs \<noteq> [] \<and> fst (hd (group_paths xs)) = Path (hd xs))"
  proof (induction xs)
    case (Cons x xs)
    then show ?case by (cases xs) (auto split: list.splits)
  qed simp
  show "length (group_paths xs) = length (remdups_adj (map Path xs))"
    and "xs \<noteq> [] \<Longrightarrow> group_paths xs \<noteq> [] \<and> fst (hd (group_paths xs)) = Path (hd xs)"
    using * by blast+
qed

text \<open>The paths of the table counted block by block: how often the path changes, and the last path.\<close>

fun path_changes :: "string \<Rightarrow> operation list \<Rightarrow> nat \<times> string" where
  "path_changes p [] = (0, p)"
| "path_changes p (op # ops) =
     (case path_changes (Path op) ops of (n, l) \<Rightarrow> (if Path op = p then n else Suc n, l))"

lemma path_changes_append:
  "path_changes p (xs @ ys) =
     (case path_changes p xs of (n, l) \<Rightarrow> case path_changes l ys of (m, l') \<Rightarrow> (n + m, l'))"
  by (induction xs arbitrary: p) (auto split: prod.split)

lemma path_changes_remdups:
  "fst (path_changes p xs) = length (remdups_adj (p # map Path xs)) - 1"
proof (induction xs arbitrary: p)
  case (Cons x xs)
  have "0 < length (remdups_adj (Path x # map Path xs))" by simp
  then show ?case using Cons[of "Path x"] by (auto split: prod.split)
qed simp

lemma changes_assistants:
  "path_changes '''' operations_assistants = (2, ''/assistants/{assistant_id}'')"
  by (simp add: operations_assistants_def frozen_def)

lemma changes_audio:
  "path_changes ''/assistants/{assistant_id}'' operations_audio = (6, ''/audio/voices'')"
  by (simp add: operations_audio_def frozen_def)

lemma changes_batches:
  "path_changes ''/audio/voices'' operations_batches = (3, ''/batches/{batch_id}/cancel'')"
  by (simp add: operations_batches_def frozen_def)

lemma changes_chat:
  "path_changes ''/batches/{batch_id}/cancel'' operations_chat = (3, ''/chat/completions/{completion_id}/messages'')"
  by (simp add: operations_chat_def frozen_def)

lemma changes_chatkit:
  "path_changes ''/chat/completions/{completion_id}/messages'' operations_chatkit = (5, ''/chatkit/threads/{thread_id}/items'')"
  by (simp add: operations_chatkit_def frozen_def)

lemma changes_completions:
  "path_changes ''/chatkit/threads/{thread_id}/items'' operations_completions = (1, ''/completions'')"
  by (simp add: operations_completions_def frozen_def)

lemma changes_containers:
  "path_changes ''/completions'' operations_containers = (5, ''/containers/{container_id}/files/{file_id}/content'')"
  by (simp add: operations_containers_def frozen_def)

lemma changes_content_provenance_checks:
  "path_changes ''/containers/{container_id}/files/{file_id}/content'' operations_content_provenance_checks = (1, ''/content_provenance_checks'')"
  by (simp add: operations_content_provenance_checks_def frozen_def)

lemma changes_conversations:
  "path_changes ''/content_provenance_checks'' operations_conversations = (4, ''/conversations/{conversation_id}/items/{item_id}'')"
  by (simp add: operations_conversations_def frozen_def)

lemma changes_embeddings:
  "path_changes ''/conversations/{conversation_id}/items/{item_id}'' operations_embeddings = (1, ''/embeddings'')"
  by (simp add: operations_embeddings_def frozen_def)

lemma changes_evals:
  "path_changes ''/embeddings'' operations_evals = (6, ''/evals/{eval_id}/runs/{run_id}/output_items/{output_item_id}'')"
  by (simp add: operations_evals_def frozen_def)

lemma changes_files:
  "path_changes ''/evals/{eval_id}/runs/{run_id}/output_items/{output_item_id}'' operations_files = (3, ''/files/{file_id}/content'')"
  by (simp add: operations_files_def frozen_def)

lemma changes_fine_tuning:
  "path_changes ''/files/{file_id}/content'' operations_fine_tuning = (11, ''/fine_tuning/jobs/{fine_tuning_job_id}/resume'')"
  by (simp add: operations_fine_tuning_def frozen_def)

lemma changes_images:
  "path_changes ''/fine_tuning/jobs/{fine_tuning_job_id}/resume'' operations_images = (3, ''/images/variations'')"
  by (simp add: operations_images_def frozen_def)

lemma changes_models:
  "path_changes ''/images/variations'' operations_models = (2, ''/models/{model}'')"
  by (simp add: operations_models_def frozen_def)

lemma changes_moderations:
  "path_changes ''/models/{model}'' operations_moderations = (1, ''/moderations'')"
  by (simp add: operations_moderations_def frozen_def)

lemma changes_organization:
  "path_changes ''/moderations'' operations_organization = (17, ''/organization/invites/{invite_id}'')"
  by (simp add: operations_organization_def frozen_def)

lemma changes_organization_projects:
  "path_changes ''/organization/invites/{invite_id}'' operations_organization_projects = (23, ''/organization/projects/{project_id}/users/{user_id}'')"
  by (simp add: operations_organization_projects_def frozen_def)

lemma changes_organization_rest:
  "path_changes ''/organization/projects/{project_id}/users/{user_id}'' operations_organization_rest = (19, ''/organization/users/{user_id}/roles/{role_id}'')"
  by (simp add: operations_organization_rest_def frozen_def)

lemma changes_projects:
  "path_changes ''/organization/users/{user_id}/roles/{role_id}'' operations_projects = (6, ''/projects/{project_id}/users/{user_id}/roles/{role_id}'')"
  by (simp add: operations_projects_def frozen_def)

lemma changes_realtime:
  "path_changes ''/projects/{project_id}/users/{user_id}/roles/{role_id}'' operations_realtime = (9, ''/realtime/translations/client_secrets'')"
  by (simp add: operations_realtime_def frozen_def)

lemma changes_responses:
  "path_changes ''/realtime/translations/client_secrets'' operations_responses = (12, ''/responses?beta=true'')"
  by (simp add: operations_responses_def frozen_def)

lemma changes_skills:
  "path_changes ''/responses?beta=true'' operations_skills = (6, ''/skills/{skill_id}/versions/{version}/content'')"
  by (simp add: operations_skills_def frozen_def)

lemma changes_threads:
  "path_changes ''/skills/{skill_id}/versions/{version}/content'' operations_threads = (11, ''/threads/{thread_id}/runs/{run_id}/submit_tool_outputs'')"
  by (simp add: operations_threads_def frozen_def)

lemma changes_uploads:
  "path_changes ''/threads/{thread_id}/runs/{run_id}/submit_tool_outputs'' operations_uploads = (4, ''/uploads/{upload_id}/parts'')"
  by (simp add: operations_uploads_def frozen_def)

lemma changes_vector_stores:
  "path_changes ''/uploads/{upload_id}/parts'' operations_vector_stores = (10, ''/vector_stores/{vector_store_id}/search'')"
  by (simp add: operations_vector_stores_def frozen_def)

lemma changes_videos:
  "path_changes ''/vector_stores/{vector_store_id}/search'' operations_videos = (8, ''/videos/{video_id}/remix'')"
  by (simp add: operations_videos_def frozen_def)

lemma frozen_path_count: "length (group_paths Operations) = 182"
proof -
  have "fst (path_changes [] Operations) = 182"
    by (simp add: Operations_def path_changes_append
      changes_assistants changes_audio changes_batches changes_chat changes_chatkit
      changes_completions changes_containers changes_content_provenance_checks
      changes_conversations changes_embeddings changes_evals changes_files changes_fine_tuning
      changes_images changes_models changes_moderations changes_organization
      changes_organization_projects changes_organization_rest changes_projects changes_realtime
      changes_responses changes_skills changes_threads changes_uploads changes_vector_stores
      changes_videos)
  moreover have "Operations \<noteq> []" "Path (hd Operations) \<noteq> []"
    by (simp_all add: Operations_def operations_assistants_def frozen_def)
  moreover have "length (remdups_adj ([] # map Path ops)) - 1 = length (remdups_adj (map Path ops))"
    if "ops \<noteq> []" "Path (hd ops) \<noteq> []" for ops
    using that by (cases ops) auto
  ultimately show ?thesis
    unfolding path_changes_remdups group_paths_length by metis
qed

lemma frozen_entries:
  "spec_entries (frozen_spec q) =
     map (\<lambda>op. (Path op, map lower_byte (Method op), frozen_operation q op)) Operations"
proof -
  have concat: "concat (map (\<lambda>(path, item). map (\<lambda>(method, operation). (path, method, operation)) item)
      (Paths (frozen_spec q))) =
    map (\<lambda>op. (Path op, map lower_byte (Method op), frozen_operation q op)) Operations"
    using group_paths_entries[of "\<lambda>op. map lower_byte (Method op)" "frozen_operation q" Operations]
    by (simp add: frozen_spec_def comp_def split_def)
  show ?thesis
    unfolding spec_entries_def concat
    by (rule filter_id_conv[THEN iffD2]) (use frozen_entry(3) in auto)
qed

subsection \<open>Property\<close>


end
