(* ===== verification/Server.thy ===== *)
theory Server
  imports Registry Backend_Types Serve_Mux Openai_Handler
begin

section \<open>The aggregate server: server.go\<close>

text \<open>
  \<open>New\<close> collects mounted handlers through its options, builds a \<open>ServeMux\<close> over them and turns the
  panics of \<open>ServeMux.Handle\<close> into errors; \<open>Shutdown\<close> visits every mounted handler that has a
  \<open>Shutdown\<close> method.  A handler is an interface value over \<open>'h\<close>.  The type assertion of
  \<open>Server.Shutdown\<close> is a function from \<open>'h\<close> to the method, if there is one; the method maps the state
  of the application to an error and the next state.  How the mux picks a handler for a
  request is the subject of theory \<open>Server_Dispatch\<close>.
\<close>

subsection \<open>Mounting\<close>

record 'h mountedHandler =
  pattern :: string
  mounted_handler :: "'h iface"

type_synonym 'h serverConfig = "'h mountedHandler list"

datatype server_error =
    ServerNilOption
  | EmptyPattern
  | NilHandlerAt string
  | InvalidPattern string
  | PatternAlreadyRegistered string
  | ConflictingPatterns

type_synonym 'h server_step = "'h serverConfig \<Rightarrow> server_error + 'h serverConfig"

definition isNilHandler :: "'h iface \<Rightarrow> bool" where
  "isNilHandler handler =
    (case handler of
       NilInterface \<Rightarrow> True
     | Dynamic kind null _ \<Rightarrow> kind_IsNil_applies kind \<and> null)"

text \<open>\<open>ServeMux.Handle\<close>: it panics (\<open>None\<close>) on an empty or malformed pattern, a nil handler and a
  pattern that conflicts with a registered one.  (A nil \<open>HandlerFunc\<close>, which it refuses as well, never
  gets here: \<open>isNilHandler\<close> sees to that.)\<close>

type_synonym 'h serve_mux = "(mux_pattern \<times> 'h iface) list"

definition mux_Handle :: "unicode_tables \<Rightarrow> string \<Rightarrow> 'h iface \<Rightarrow> 'h serve_mux \<Rightarrow> 'h serve_mux option" where
  "mux_Handle uc pat handler mux =
    (if pat = [] then None
     else if (case handler of NilInterface \<Rightarrow> True | Dynamic _ _ _ \<Rightarrow> False) then None
     else
       (case parsePattern uc pat of
          None \<Rightarrow> None
        | Some p \<Rightarrow>
            if list_ex (\<lambda>(q, _). conflictsWith p q) mux then None else Some (mux @ [(p, handler)])))"

definition validatePattern :: "unicode_tables \<Rightarrow> 'h iface \<Rightarrow> string \<Rightarrow> server_error option" where
  "validatePattern uc notFound pat =
    (case mux_Handle uc pat notFound [] of None \<Rightarrow> Some (InvalidPattern pat) | Some _ \<Rightarrow> None)"

fun mux_Handle_all :: "unicode_tables \<Rightarrow> 'h mountedHandler list \<Rightarrow> 'h serve_mux \<Rightarrow> 'h serve_mux option" where
  "mux_Handle_all uc [] mux = Some mux"
| "mux_Handle_all uc (mounted # rest) mux =
     (case mux_Handle uc (pattern mounted) (mounted_handler mounted) mux of
        None \<Rightarrow> None
      | Some mux' \<Rightarrow> mux_Handle_all uc rest mux')"

definition buildMux :: "unicode_tables \<Rightarrow> 'h mountedHandler list \<Rightarrow> server_error + 'h serve_mux" where
  "buildMux uc mounts =
    (case mux_Handle_all uc mounts [] of None \<Rightarrow> Inl ConflictingPatterns | Some mux \<Rightarrow> Inr mux)"

text \<open>The probe of \<open>validatePattern\<close> is \<open>http.NotFoundHandler()\<close>, a function that is not nil.\<close>

definition server_WithHandler :: "unicode_tables \<Rightarrow> string \<Rightarrow> 'h iface \<Rightarrow> 'h server_step" where
  "server_WithHandler uc pat handler cfg =
    (if pat = [] then Inl EmptyPattern
     else if isNilHandler handler then Inl (NilHandlerAt pat)
     else
       (case validatePattern uc (Dynamic KFunc False ()) pat of
          Some err \<Rightarrow> Inl err
        | None \<Rightarrow>
            if list_ex (\<lambda>existing. pattern existing = pat) cfg then Inl (PatternAlreadyRegistered pat)
            else Inr (cfg @ [\<lparr>pattern = pat, mounted_handler = handler\<rparr>])))"

record 'h server =
  server_mux :: "'h serve_mux"
  server_handlers :: "'h iface list"

definition server_New :: "unicode_tables \<Rightarrow> 'h server_step option list \<Rightarrow> server_error + 'h server" where
  "server_New uc options =
    (case run_options ServerNilOption options [] of
       Inl err \<Rightarrow> Inl err
     | Inr cfg \<Rightarrow>
         (case buildMux uc cfg of
            Inl err \<Rightarrow> Inl err
          | Inr mux \<Rightarrow> Inr \<lparr>server_mux = mux, server_handlers = map mounted_handler cfg\<rparr>))"

subsection \<open>Shutdown\<close>

text \<open>\<open>errors.Join\<close> of errors that are not nil.\<close>

definition errors_Join :: "go_error list \<Rightarrow> go_error option" where
  "errors_Join es = (if es = [] then None else Some (Joined es))"

fun shutdown_loop ::
  "('h \<Rightarrow> ('s \<Rightarrow> go_error option \<times> 's) option) \<Rightarrow> 'h iface list \<Rightarrow> go_error list \<Rightarrow> 's \<Rightarrow> go_error list \<times> 's" where
  "shutdown_loop shutdowner [] errs st = (errs, st)"
| "shutdown_loop shutdowner (handler # rest) errs st =
     (case (case handler of NilInterface \<Rightarrow> None | Dynamic _ _ h \<Rightarrow> shutdowner h) of
        None \<Rightarrow> shutdown_loop shutdowner rest errs st
      | Some shutdown \<Rightarrow>
          (case shutdown st of
             (None, st') \<Rightarrow> shutdown_loop shutdowner rest errs st'
           | (Some err, st') \<Rightarrow> shutdown_loop shutdowner rest (errs @ [err]) st'))"

definition server_Shutdown ::
  "('h \<Rightarrow> ('s \<Rightarrow> go_error option \<times> 's) option) \<Rightarrow> 'h server \<Rightarrow> 's \<Rightarrow> go_error option \<times> 's" where
  "server_Shutdown shutdowner srv st =
    (case shutdown_loop shutdowner (server_handlers srv) [] st of (errs, st') \<Rightarrow> (errors_Join errs, st'))"

subsection \<open>Mounts as registrations\<close>

definition mount_ok :: "unicode_tables \<Rightarrow> 'h mountedHandler \<Rightarrow> bool" where
  "mount_ok uc m \<longleftrightarrow> parsePattern uc (pattern m) \<noteq> None \<and> \<not> isNilHandler (mounted_handler m)"

abbreviation mount :: "unicode_tables \<Rightarrow> 'h mountedHandler \<Rightarrow> 'h server_step" where
  "mount uc m \<equiv> server_WithHandler uc (pattern m) (mounted_handler m)"

abbreviation mounts_of :: "unicode_tables \<Rightarrow> 'h mountedHandler list \<Rightarrow> 'h server_step option list" where
  "mounts_of uc ms \<equiv> map (\<lambda>m. Some (mount uc m)) ms"

lemma parsePattern_Nil [simp]: "parsePattern uc [] = None"
  by (simp add: parsePattern_def)

lemma mux_Handle_iff:
  "h \<noteq> NilInterface \<Longrightarrow> mux_Handle uc pat h mux =
     (case parsePattern uc pat of
        None \<Rightarrow> None
      | Some p \<Rightarrow> if list_ex (\<lambda>(q, _). conflictsWith p q) mux then None else Some (mux @ [(p, h)]))"
  by (cases h) (auto simp: mux_Handle_def)

lemma WithHandler_iff:
  "server_WithHandler uc pat h cfg = Inr cfg' \<longleftrightarrow>
     parsePattern uc pat \<noteq> None \<and> \<not> isNilHandler h \<and>
     \<not> list_ex (\<lambda>m. pattern m = pat) cfg \<and> cfg' = cfg @ [\<lparr>pattern = pat, mounted_handler = h\<rparr>]"
  by (auto simp: server_WithHandler_def validatePattern_def mux_Handle_iff split: option.splits)

lemma find_append: "find P (xs @ ys) = (case find P xs of Some x \<Rightarrow> Some x | None \<Rightarrow> find P ys)"
  by (induction xs) auto

lemma list_ex_find: "list_ex P xs \<longleftrightarrow> find P xs \<noteq> None"
  by (auto simp: list_ex_iff find_None_iff)

interpretation server_reg:
  registration pattern "mount_ok uc" "mount uc" "\<lambda>c k. find (\<lambda>m. pattern m = k) c" for uc
proof
  fix r :: "'h mountedHandler" and c c' k
  show "mount_ok uc r \<Longrightarrow> find (\<lambda>m. pattern m = pattern r) c = None \<Longrightarrow> \<exists>c'. mount uc r c = Inr c'"
    by (auto simp: WithHandler_iff mount_ok_def list_ex_find)
  assume "mount uc r c = Inr c'"
  then show "mount_ok uc r" "find (\<lambda>m. pattern m = pattern r) c = None"
    and "find (\<lambda>m. pattern m = k) c' = (if k = pattern r then Some r else find (\<lambda>m. pattern m = k) c)"
    by (auto simp: WithHandler_iff mount_ok_def list_ex_find find_append split: option.splits)
qed


lemma mounts_run:
  assumes "run_options e (mounts_of uc ms) cfg = Inr cfg'"
  shows "cfg' = cfg @ ms"
  using assms
proof (induction ms arbitrary: cfg)
  case (Cons m ms)
  then obtain d where "mount uc m cfg = Inr d" "run_options e (mounts_of uc ms) d = Inr cfg'" by auto
  moreover from this have "d = cfg @ [m]" by (simp add: WithHandler_iff)
  ultimately show ?case using Cons.IH[of d] by simp
qed simp

definition pattern_of :: "unicode_tables \<Rightarrow> 'h mountedHandler \<Rightarrow> mux_pattern" where
  "pattern_of uc m = the (parsePattern uc (pattern m))"

definition mux_of :: "unicode_tables \<Rightarrow> 'h mountedHandler list \<Rightarrow> 'h serve_mux" where
  "mux_of uc ms = map (\<lambda>m. (pattern_of uc m, mounted_handler m)) ms"

text \<open>Nothing conflicts: no pattern conflicts with one mounted before it.\<close>

definition conflict_free :: "mux_pattern list \<Rightarrow> bool" where
  "conflict_free ps = sorted_wrt (\<lambda>p q. \<not> conflictsWith q p) ps"

lemma mux_Handle_ok:
  assumes "mount_ok uc m"
  shows "mux_Handle uc (pattern m) (mounted_handler m) mux =
    (if list_ex (\<lambda>q. conflictsWith (pattern_of uc m) q) (map fst mux) then None
     else Some (mux @ [(pattern_of uc m, mounted_handler m)]))"
proof -
  have "mounted_handler m \<noteq> NilInterface" using assms by (auto simp: mount_ok_def isNilHandler_def)
  moreover obtain p where "parsePattern uc (pattern m) = Some p" using assms by (auto simp: mount_ok_def)
  ultimately show ?thesis
    by (simp add: mux_Handle_iff pattern_of_def list_ex_iff split_def)
qed

lemma mux_Handle_all_ok:
  assumes "list_all (mount_ok uc) ms" and "conflict_free (map fst mux)"
  shows "mux_Handle_all uc ms mux =
    (if conflict_free (map fst mux @ map (pattern_of uc) ms) then Some (mux @ mux_of uc ms) else None)"
  using assms
proof (induction ms arbitrary: mux)
  case (Cons m ms)
  then have ok: "mount_ok uc m" "list_all (mount_ok uc) ms" by auto
  show ?case
  proof (cases "list_ex (\<lambda>q. conflictsWith (pattern_of uc m) q) (map fst mux)")
    case True
    then show ?thesis
      using ok by (auto simp: mux_Handle_ok conflict_free_def sorted_wrt_append list_ex_iff)
  next
    case False
    then have "conflict_free (map fst (mux @ [(pattern_of uc m, mounted_handler m)]))"
      using Cons.prems by (auto simp: conflict_free_def sorted_wrt_append list_ex_iff)
    from Cons.IH[OF ok(2) this] show ?thesis
      using ok False by (simp add: mux_Handle_ok mux_of_def)
  qed
qed (simp add: mux_of_def)

lemma conflict_free_distinct: "conflict_free (map (pattern_of uc) ms) \<Longrightarrow> distinct (map pattern ms)"
proof (induction ms)
  case (Cons m ms)
  have "pattern m \<noteq> pattern m'" if "m' \<in> set ms" for m'
    using Cons.prems that conflictsWith_refl[of "pattern_of uc m'"]
    by (auto simp: conflict_free_def pattern_of_def)
  with Cons show ?case by (auto simp: conflict_free_def)
qed simp

lemma server_New_Inr:
  "server_New uc (mounts_of uc ms) = Inr srv \<longleftrightarrow>
     list_all (mount_ok uc) ms \<and> conflict_free (map (pattern_of uc) ms) \<and>
     srv = \<lparr>server_mux = mux_of uc ms, server_handlers = map mounted_handler ms\<rparr>"
proof (cases "run_options ServerNilOption (mounts_of uc ms) []")
  case (Inl err)
  then have "\<not> (list_all (mount_ok uc) ms \<and> distinct (map pattern ms))"
    using server_reg.run_ok_iff[of ServerNilOption uc ms "[]"] by (auto simp: list_all_iff)
  then show ?thesis using Inl conflict_free_distinct[of uc ms] by (auto simp: server_New_def)
next
  case (Inr cfg)
  then have "cfg = ms" using mounts_run by fastforce
  moreover have "list_all (mount_ok uc) ms"
    using server_reg.run_admissible[OF Inr] by (simp add: list_all_iff)
  moreover have "conflict_free []" by (simp add: conflict_free_def)
  ultimately show ?thesis
    using Inr mux_Handle_all_ok[of uc ms "[]"] by (auto simp: server_New_def buildMux_def)
qed

text \<open>C35: the aggregate accepts exactly the mountable lists.  \<open>New\<close> succeeds on a list of mounts if and
  only if every pattern is a valid \<open>ServeMux\<close> pattern, no handler is nil or a typed nil and no pattern
  conflicts with an earlier one; then the mux holds every handler under its pattern and the server
  keeps the handlers in mount order.  In particular no panic of the mux escapes.\<close>

theorem server_New_accepts_iff:
  "server_New uc (mounts_of uc ms) = Inr srv \<longleftrightarrow>
     list_all (mount_ok uc) ms \<and> conflict_free (map (pattern_of uc) ms) \<and>
     srv = \<lparr>server_mux = mux_of uc ms, server_handlers = map mounted_handler ms\<rparr>"
  by (rule server_New_Inr)

subsection \<open>What Shutdown visits\<close>

text \<open>The shutdown methods of the mounted handlers, in mount order.\<close>

definition shutdowners :: "('h \<Rightarrow> 'm option) \<Rightarrow> 'h iface list \<Rightarrow> 'm list" where
  "shutdowners shutdowner hs =
    List.map_filter (\<lambda>h. case h of NilInterface \<Rightarrow> None | Dynamic _ _ v \<Rightarrow> shutdowner v) hs"

text \<open>Running methods one after the other, whatever they return.\<close>

fun run_all :: "('s \<Rightarrow> 'e \<times> 's) list \<Rightarrow> 's \<Rightarrow> 'e list \<times> 's" where
  "run_all [] st = ([], st)"
| "run_all (f # fs) st =
     (case f st of (r, st') \<Rightarrow> case run_all fs st' of (rs, st'') \<Rightarrow> (r # rs, st''))"

lemma shutdown_loop_run_all:
  "shutdown_loop sd hs errs st =
     (case run_all (shutdowners sd hs) st of (rs, st') \<Rightarrow> (errs @ List.map_filter id rs, st'))"
  by (induction sd hs errs st rule: shutdown_loop.induct)
    (auto simp: shutdowners_def List.map_filter_simps split: option.splits iface.splits prod.splits)

lemma server_Shutdown_run_all:
  "server_Shutdown sd srv st =
     (case run_all (shutdowners sd (server_handlers srv)) st of
        (rs, st') \<Rightarrow> (errors_Join (List.map_filter id rs), st'))"
  by (simp add: server_Shutdown_def shutdown_loop_run_all split: prod.splits)

subsection \<open>A server of OpenAI handlers\<close>

text \<open>
  Handlers named by numbers, each with its session registry.  One call of \<open>Handler.Shutdown\<close> runs the
  locked part, calls the cancel functions it returned and then waits; \<open>waits\<close> says for each handler
  how its wait ends: with nil when the last session is gone, or with the error of the context.
\<close>

type_synonym 'c handlers_state = "(nat \<Rightarrow> 'c registry) \<times> 'c list"

definition handler_Shutdown ::
  "(nat \<Rightarrow> go_error option) \<Rightarrow> nat \<Rightarrow> 'c handlers_state \<Rightarrow> go_error option \<times> 'c handlers_state" where
  "handler_Shutdown waits n st =
    (case st of (regs, called) \<Rightarrow>
       (case openai_Shutdown (regs n) of
          (r, cancels) \<Rightarrow> (waits n, regs(n := r), called @ cancels)))"

definition mounted_names :: "nat iface list \<Rightarrow> nat list" where
  "mounted_names hs = List.map_filter (\<lambda>h. case h of NilInterface \<Rightarrow> None | Dynamic _ _ n \<Rightarrow> Some n) hs"

lemma shutdowners_handlers:
  "shutdowners (\<lambda>n. Some (handler_Shutdown waits n)) hs = map (handler_Shutdown waits) (mounted_names hs)"
  by (induction hs)
    (auto simp: shutdowners_def mounted_names_def List.map_filter_simps split: iface.splits)

lemma begin_shutdown_facts [simp]:
  "shuttingDown (fst (begin_shutdown r))" "active (fst (begin_shutdown r)) = active r"
  "snd (begin_shutdown r) = map snd (active r)"
  by (simp_all add: begin_shutdown_def close_done_def Let_def)

lemma run_all_handlers:
  assumes "run_all (map (handler_Shutdown waits) ns) (regs, called) = (rs, regs', called')"
  shows "rs = map waits ns \<and> set called \<subseteq> set called' \<and>
    (\<forall>n. shuttingDown (regs n) \<longrightarrow> shuttingDown (regs' n)) \<and> (\<forall>n. active (regs' n) = active (regs n)) \<and>
    list_all (\<lambda>n. shuttingDown (regs' n) \<and> snd ` set (active (regs n)) \<subseteq> set called') ns"
  using assms
proof (induction ns arbitrary: regs called rs)
  case (Cons n ns)
  define r where "r = regs(n := fst (begin_shutdown (regs n)))"
  have "handler_Shutdown waits n (regs, called) = (waits n, r, called @ map snd (active (regs n)))"
    by (simp add: handler_Shutdown_def openai_Shutdown_def r_def split: prod.split)
      (metis begin_shutdown_facts(3) fst_conv snd_conv)
  with Cons.prems obtain rs' where run: "rs = waits n # rs'"
    "run_all (map (handler_Shutdown waits) ns) (r, called @ map snd (active (regs n))) = (rs', regs', called')"
    by (auto split: prod.splits)
  have "active (r k) = active (regs k)" "shuttingDown (regs k) \<Longrightarrow> shuttingDown (r k)" "shuttingDown (r n)" for k
    by (auto simp: r_def)
  with Cons.IH[OF run(2)] run(1) show ?case by auto
qed simp

text \<open>C16: shutting down the aggregate reaches every handler.  Whatever the handlers return, after
  \<open>Server.Shutdown\<close> every mounted OpenAI handler is shutting down, so it refuses new sessions, and the
  cancel function of every session that was active has been called; the result is nil exactly when
  every handler's wait ended without an error, and otherwise joins the errors in mount order.\<close>

theorem server_Shutdown_reaches_all:
  "case server_Shutdown (\<lambda>n. Some (handler_Shutdown waits n)) srv (regs, []) of
     (err, regs', called) \<Rightarrow>
       list_all (\<lambda>n. shuttingDown (regs' n) \<and> snd (snd (register c (regs' n))) = False \<and>
           snd ` set (active (regs n)) \<subseteq> set called) (mounted_names (server_handlers srv)) \<and>
       err = errors_Join (List.map_filter waits (mounted_names (server_handlers srv)))"
proof -
  let ?ns = "mounted_names (server_handlers srv)"
  obtain rs regs' called where run: "run_all (map (handler_Shutdown waits) ?ns) (regs, []) = (rs, regs', called)"
    by (metis prod_cases3)
  note facts = run_all_handlers[OF run]
  have "List.map_filter id (map waits ns) = List.map_filter waits ns" for ns
    by (induction ns) (auto simp: List.map_filter_simps split: option.splits)
  with facts show ?thesis
    by (auto simp: server_Shutdown_run_all shutdowners_handlers run list_all_iff register_def)
qed

end
