(* ===== verification/Mux_Match.thy ===== *)
theory Mux_Match
  imports Serve_Mux
begin

section \<open>net/http: how ServeMux chooses a pattern\<close>

text \<open>
  The routing tree of \<open>ServeMux\<close> and its search with backtracking: a literal child first, then the
  child of a single wildcard, then a wildcard for the rest of the path.  A node of the tree is the
  list of what the patterns that lead to it still have to match, so that a child is a list again and
  an empty list stands for no node.  The child with the empty key is shared by wildcards and empty
  literals, as in the code.
\<close>

subsection \<open>The search\<close>

definition firstSegment :: "string \<Rightarrow> string \<times> string" where
  "firstSegment path =
    (if path = ''/'' then (''/'', [])
     else (pathUnescape (takeWhile (\<lambda>c. c \<noteq> CHR ''/'') (drop 1 path)),
           dropWhile (\<lambda>c. c \<noteq> CHR ''/'') (drop 1 path)))"

definition seg_key :: "segment \<Rightarrow> string" where
  "seg_key s = (if seg_wild s then [] else seg_text s)"

type_synonym 'e mux_node = "(segment list \<times> 'e) list"

definition mux_child :: "string \<Rightarrow> 'e mux_node \<Rightarrow> 'e mux_node" where
  "mux_child key node =
    concat (map (\<lambda>(segs, e).
      case segs of
        [] \<Rightarrow> []
      | s # rest \<Rightarrow> if \<not> seg_multi s \<and> seg_key s = key then [(rest, e)] else []) node)"

definition mux_leaf :: "'e mux_node \<Rightarrow> 'e option" where
  "mux_leaf node = map_option snd (find (\<lambda>(segs, e). segs = []) node)"

definition mux_multi :: "'e mux_node \<Rightarrow> 'e option" where
  "mux_multi node =
    map_option snd (find (\<lambda>(segs, e). case segs of [s] \<Rightarrow> seg_multi s | _ \<Rightarrow> False) node)"

lemma firstSegment_shorter: "path \<noteq> [] \<Longrightarrow> length (snd (firstSegment path)) < length path"
  using length_dropWhile_le[of "\<lambda>c. c \<noteq> CHR ''/''" "drop 1 path"]
  by (cases path) (auto simp: firstSegment_def)

function matchPath :: "'e mux_node \<Rightarrow> string \<Rightarrow> 'e option" where
  "matchPath node path =
    (if path = [] then mux_leaf node
     else
       (case firstSegment path of
          (seg, rest) \<Rightarrow>
            (case matchPath (mux_child seg node) rest of
               Some e \<Rightarrow> Some e
             | None \<Rightarrow>
                 (case (if seg \<noteq> ''/'' then matchPath (mux_child [] node) rest else None) of
                    Some e \<Rightarrow> Some e
                  | None \<Rightarrow> mux_multi node))))"
  by pat_completeness auto
termination
  by (relation "measure (length \<circ> snd)") (auto, (metis firstSegment_shorter snd_conv)+)

declare matchPath.simps [simp del]

text \<open>The nodes at the third level of the tree, by host and method; a request without a method finds
  the patterns without one.\<close>

definition method_node :: "(mux_pattern \<times> 'h) list \<Rightarrow> string \<Rightarrow> string \<Rightarrow> (mux_pattern \<times> 'h) mux_node" where
  "method_node mux host meth =
    map (\<lambda>(p, h). (mp_segments p, (p, h))) (filter (\<lambda>(p, h). mp_host p = host \<and> mp_method p = meth) mux)"

definition matchMethodAndPath ::
  "(mux_pattern \<times> 'h) list \<Rightarrow> string \<Rightarrow> string \<Rightarrow> string \<Rightarrow> (mux_pattern \<times> 'h) option" where
  "matchMethodAndPath mux host meth path =
    (case matchPath (method_node mux host meth) path of
       Some e \<Rightarrow> Some e
     | None \<Rightarrow>
         (case (if meth = ''HEAD'' then matchPath (method_node mux host ''GET'') path else None) of
            Some e \<Rightarrow> Some e
          | None \<Rightarrow> matchPath (method_node mux host []) path))"

definition mux_match ::
  "(mux_pattern \<times> 'h) list \<Rightarrow> string \<Rightarrow> string \<Rightarrow> string \<Rightarrow> (mux_pattern \<times> 'h) option" where
  "mux_match mux host meth path =
    (case (if host \<noteq> [] then matchMethodAndPath mux host meth path else None) of
       Some e \<Rightarrow> Some e
     | None \<Rightarrow> matchMethodAndPath mux [] meth path)"

subsection \<open>What it means for a pattern to match\<close>

fun path_matches :: "segment list \<Rightarrow> string \<Rightarrow> bool" where
  "path_matches [] path = (path = [])"
| "path_matches (s # segs) path =
     (path \<noteq> [] \<and>
      (if seg_multi s then segs = []
       else (case firstSegment path of
               (seg, rest) \<Rightarrow> (seg_key s = seg \<or> seg_key s = [] \<and> seg \<noteq> ''/'') \<and> path_matches segs rest)))"

definition accepts :: "mux_pattern \<Rightarrow> string \<Rightarrow> string \<Rightarrow> string \<Rightarrow> bool" where
  "accepts p host meth path \<longleftrightarrow>
    (mp_host p = [] \<or> mp_host p = host) \<and>
    (mp_method p = [] \<or> mp_method p = meth \<or> meth = ''HEAD'' \<and> mp_method p = ''GET'') \<and>
    path_matches (mp_segments p) path"

subsection \<open>Soundness and completeness\<close>

lemma in_mux_child:
  "(rest, e) \<in> set (mux_child key node) \<longleftrightarrow>
     (\<exists>s. (s # rest, e) \<in> set node \<and> \<not> seg_multi s \<and> seg_key s = key)"
  by (force simp: mux_child_def split: list.splits if_splits)

lemma mux_leaf_Some: "mux_leaf node = Some e \<Longrightarrow> ([], e) \<in> set node"
  by (auto simp: mux_leaf_def find_Some_iff) (metis nth_mem)

lemma mux_leaf_None: "mux_leaf node = None \<longleftrightarrow> (\<forall>e. ([], e) \<notin> set node)"
  by (auto simp: mux_leaf_def find_None_iff)

lemma mux_multi_Some: "mux_multi node = Some e \<Longrightarrow> \<exists>s. seg_multi s \<and> ([s], e) \<in> set node"
  by (auto simp: mux_multi_def find_Some_iff split: list.splits) (metis nth_mem)

lemma mux_multi_None: "mux_multi node = None \<longleftrightarrow> (\<forall>s e. ([s], e) \<in> set node \<longrightarrow> \<not> seg_multi s)"
  by (fastforce simp: mux_multi_def find_None_iff split: list.splits)

text \<open>Segments from most to least preferred, and the order in which the search prefers patterns.\<close>

definition seg_rank :: "segment \<Rightarrow> nat" where
  "seg_rank s = (if seg_multi s then 2 else if seg_key s = [] then 1 else 0)"

fun prefers :: "segment list \<Rightarrow> segment list \<Rightarrow> bool" where
  "prefers (s # ss) (t # ts) = (seg_rank s < seg_rank t \<or> seg_rank s = seg_rank t \<and> prefers ss ts)"
| "prefers _ _ = True"

text \<open>One way to continue a match: through the child of a key.\<close>

lemma path_matches_child:
  assumes "path \<noteq> []" and "firstSegment path = (seg, rest)" and "(segs, e) \<in> set node"
  shows "path_matches segs path \<longleftrightarrow>
    (\<exists>s ss. segs = s # ss \<and>
      (seg_multi s \<and> ss = [] \<or>
       \<not> seg_multi s \<and> path_matches ss rest \<and>
         (seg_key s = seg \<and> (ss, e) \<in> set (mux_child seg node) \<or>
          seg_key s = [] \<and> seg \<noteq> ''/'' \<and> (ss, e) \<in> set (mux_child [] node))))"
  using assms by (cases segs) (auto simp: in_mux_child)

definition best_match :: "'e mux_node \<Rightarrow> string \<Rightarrow> 'e \<Rightarrow> bool" where
  "best_match node path e \<longleftrightarrow>
    (\<exists>segs. (segs, e) \<in> set node \<and> path_matches segs path \<and>
      (\<forall>(segs', e')\<in>set node. path_matches segs' path \<longrightarrow> prefers segs segs'))"

definition no_match :: "'e mux_node \<Rightarrow> string \<Rightarrow> bool" where
  "no_match node path \<longleftrightarrow> (\<forall>(segs, e)\<in>set node. \<not> path_matches segs path)"

lemma best_match_child:
  assumes "path \<noteq> []" and first: "firstSegment path = (seg, rest)" and "key = seg \<or> key = [] \<and> seg \<noteq> ''/''"
    and best: "best_match (mux_child key node) rest e"
    and others: "key = [] \<Longrightarrow> seg \<noteq> [] \<Longrightarrow> no_match (mux_child seg node) rest"
  shows "best_match node path e"
proof -
  obtain segs where segs: "(segs, e) \<in> set (mux_child key node)" "path_matches segs rest"
    "\<And>segs' e'. (segs', e') \<in> set (mux_child key node) \<Longrightarrow> path_matches segs' rest \<Longrightarrow> prefers segs segs'"
    using best by (auto simp: best_match_def)
  then obtain s where s: "(s # segs, e) \<in> set node" "\<not> seg_multi s" "seg_key s = key"
    by (auto simp: in_mux_child)
  have "path_matches (s # segs) path" using assms(1-3) s segs(2) by auto
  moreover have "prefers (s # segs) segs'" if other: "(segs', e') \<in> set node" "path_matches segs' path" for segs' e'
  proof -
    from other path_matches_child[OF assms(1) first other(1)] obtain t ts where t: "segs' = t # ts"
      "seg_multi t \<and> ts = [] \<or> \<not> seg_multi t \<and> path_matches ts rest \<and>
        (seg_key t = seg \<and> (ts, e') \<in> set (mux_child seg node) \<or>
         seg_key t = [] \<and> seg \<noteq> ''/'' \<and> (ts, e') \<in> set (mux_child [] node))" by blast
    show ?thesis
    proof (cases "seg_multi t \<or> seg_key t \<noteq> key")
      case True
      moreover have "seg_key t = [] \<or> key = [] \<and> seg \<noteq> [] \<and> path_matches ts rest \<and> (ts, e') \<in> set (mux_child seg node)"
        if "\<not> seg_multi t"
        using True t(2) assms(3) that by auto
      ultimately show ?thesis
        using t(1) s others by (auto simp: seg_rank_def no_match_def)
    next
      case False
      then have "(ts, e') \<in> set (mux_child key node)" "path_matches ts rest" using t(2) assms(3) by auto
      then show ?thesis using segs(3) False s t(1) by (simp add: seg_rank_def)
    qed
  qed
  ultimately show ?thesis using s(1) unfolding best_match_def by blast
qed

lemma no_match_split:
  assumes "path \<noteq> []" and "firstSegment path = (seg, rest)"
    and "no_match (mux_child seg node) rest" and "seg \<noteq> ''/'' \<Longrightarrow> no_match (mux_child [] node) rest"
    and "(segs, e) \<in> set node" and "path_matches segs path"
  shows "\<exists>s. seg_multi s \<and> segs = [s]"
  using path_matches_child[OF assms(1,2,5)] assms(3,4,6) by (auto simp: no_match_def)

lemma matchPath_spec:
  "(case matchPath node path of None \<Rightarrow> no_match node path | Some e \<Rightarrow> best_match node path e)"
proof (induction node path rule: matchPath.induct)
  case (1 node path)
  show ?case
  proof (cases "path = []")
    case True
    have "path_matches segs [] \<longleftrightarrow> segs = []" for segs by (cases segs) auto
    then show ?thesis
      using True mux_leaf_Some[of node]
      by (auto simp: matchPath.simps[of node] mux_leaf_None no_match_def best_match_def split: option.split)
  next
    case False
    obtain seg rest where first: "firstSegment path = (seg, rest)" by fastforce
    note step = matchPath.simps[of node path]
    show ?thesis
    proof (cases "matchPath (mux_child seg node) rest")
      case (Some e)
      then have "best_match (mux_child seg node) rest e" using 1(1)[OF False first[symmetric]] by simp
      then have "best_match node path e"
        using best_match_child[OF False first, of seg node e] by auto
      then show ?thesis using Some by (simp add: step False first)
    next
      case None
      then have lit: "no_match (mux_child seg node) rest" using 1(1)[OF False first[symmetric]] by simp
      show ?thesis
      proof (cases "if seg \<noteq> ''/'' then matchPath (mux_child [] node) rest else None")
        case (Some e)
        then have wild: "seg \<noteq> ''/''" "matchPath (mux_child [] node) rest = Some e" by (auto split: if_splits)
        then have "best_match (mux_child [] node) rest e"
          using 1(2)[OF False first[symmetric] None] by simp
        then have "best_match node path e"
          using best_match_child[OF False first, of "[]" node e] wild(1) lit by auto
        then show ?thesis using Some None by (simp add: step False first)
      next
        case no_wild: None
        then have wild: "seg \<noteq> ''/'' \<Longrightarrow> no_match (mux_child [] node) rest"
          using 1(2)[OF False first[symmetric] None] by simp
        have only_multi: "\<exists>s. seg_multi s \<and> segs = [s]" if "(segs, e) \<in> set node" "path_matches segs path" for segs e
          using no_match_split[OF False first lit wild that] by blast
        have result: "matchPath node path = mux_multi node" using None no_wild by (simp add: step False first)
        show ?thesis
        proof (cases "mux_multi node")
          case None
          then have "\<And>s e. ([s], e) \<in> set node \<Longrightarrow> \<not> seg_multi s" by (auto simp: mux_multi_None)
          then have "\<not> path_matches segs path" if "(segs, e) \<in> set node" for segs e
            using only_multi[OF that] that by blast
          then have "no_match node path" by (auto simp: no_match_def)
          then show ?thesis using None by (simp add: result)
        next
          case (Some e)
          then obtain s where s: "seg_multi s" "([s], e) \<in> set node" using mux_multi_Some[OF Some] by blast
          have "prefers [s] segs'" if "(segs', e') \<in> set node" "path_matches segs' path" for segs' e'
          proof -
            from only_multi[OF that] obtain t where "seg_multi t" "segs' = [t]" by blast
            then show ?thesis using s(1) by (simp add: seg_rank_def)
          qed
          moreover have "path_matches [s] path" using s False by simp
          ultimately have "best_match node path e" using s(2) unfolding best_match_def by blast
          then show ?thesis using Some by (simp add: result)
        qed
      qed
    qed
  qed
qed

subsection \<open>The most specific pattern\<close>

text \<open>Patterns whose literal segments are not empty, as all patterns with a clean path are.\<close>

definition named_literals :: "segment list \<Rightarrow> bool" where
  "named_literals segs \<longleftrightarrow> list_all (\<lambda>s. seg_wild s \<or> seg_text s \<noteq> []) segs"

lemma not_MoreSpecific:
  "r \<in> {MoreGeneral, Disjoint, Overlaps} \<Longrightarrow> combineRelationships r r' \<noteq> MoreSpecific"
  by (cases r') (auto simp: inverseRelationship_def)

lemma compare_from_not_MoreSpecific:
  "r \<in> {MoreGeneral, Disjoint, Overlaps} \<Longrightarrow> compare_from r m1 m2 ss ts \<noteq> MoreSpecific"
proof (induction r m1 m2 ss ts rule: compare_from.induct)
  case (1 rel m1 m2 s1 ss1 s2 ss2)
  have "combineRelationships rel (compareSegments s1 s2) \<in> {MoreGeneral, Disjoint, Overlaps}"
    using 1(2) by (cases "compareSegments s1 s2") (auto simp: inverseRelationship_def)
  then show ?case using 1(1) by (auto simp: Let_def)
qed (use not_MoreSpecific in auto)

lemma compareSegments_rank:
  assumes "seg_wild s \<or> seg_text s \<noteq> []" and "seg_wild t \<or> seg_text t \<noteq> []"
  shows "compareSegments s t = MoreSpecific \<Longrightarrow> seg_rank s < seg_rank t"
    and "compareSegments s t = Equivalent \<Longrightarrow> seg_rank s = seg_rank t"
  using assms by (auto simp: compareSegments_def seg_rank_def seg_key_def split: if_splits)

text \<open>The pattern that the search prefers is not the less specific one of two that match.\<close>

lemma preferred_not_less_specific:
  assumes "named_literals ss" and "named_literals ts" and "path_matches ss path" and "path_matches ts path"
    and "prefers ts ss"
  shows "compare_from Equivalent m1 m2 ss ts \<noteq> MoreSpecific"
  using assms
proof (induction ss arbitrary: ts path)
  case Nil
  then show ?case by (cases ts) (auto split: prod.splits)
next
  case (Cons s ss)
  then obtain t ts' where ts: "ts = t # ts'" by (cases ts) auto
  have named: "seg_wild s \<or> seg_text s \<noteq> []" "seg_wild t \<or> seg_text t \<noteq> []"
    using Cons.prems by (auto simp: named_literals_def ts)
  show ?case
  proof (cases "compareSegments s t")
    case Equivalent
    then have rank: "seg_rank s = seg_rank t" using compareSegments_rank(2)[OF named] by simp
    then have prefers: "prefers ts' ss" using Cons.prems(5) by (simp add: ts)
    show ?thesis
    proof (cases "seg_multi s")
      case True
      then have "seg_multi t" using rank by (auto simp: seg_rank_def split: if_splits)
      then show ?thesis using True Cons.prems Equivalent by (simp add: ts)
    next
      case False
      then have "\<not> seg_multi t" using rank by (auto simp: seg_rank_def split: if_splits)
      moreover obtain seg rest where "firstSegment path = (seg, rest)" by fastforce
      ultimately have "path_matches ss rest" "path_matches ts' rest"
        using Cons.prems(3,4) False by (simp_all add: ts)
      from Cons.IH[OF _ _ this prefers] show ?thesis
        using Cons.prems(1,2) Equivalent by (simp add: ts named_literals_def)
    qed
  next
    case MoreSpecific
    then have "seg_rank s < seg_rank t" using compareSegments_rank(1)[OF named] by simp
    then show ?thesis using Cons.prems(5) by (simp add: ts)
  qed (use compare_from_not_MoreSpecific in \<open>simp_all add: ts\<close>)
qed

lemma comparePaths_not_MoreSpecific:
  assumes "named_literals ss" and "named_literals ts" and "path_matches ss path" and "path_matches ts path"
    and "prefers ts ss"
  shows "comparePaths ss ts \<noteq> MoreSpecific"
  using preferred_not_less_specific[OF assms] by (auto simp: comparePaths_def Let_def)

text \<open>When a pattern beats another, by the documentation of \<open>ServeMux\<close>: a pattern with a host beats one
  without; otherwise the more specific one wins, as \<open>conflictsWith\<close> compares them.\<close>

definition beats :: "mux_pattern \<Rightarrow> mux_pattern \<Rightarrow> bool" where
  "beats p q \<longleftrightarrow>
    mp_host p \<noteq> [] \<and> mp_host q = [] \<or>
    mp_host p = mp_host q \<and>
    (let mrel = compareMethods (mp_method p) (mp_method q)
     in mrel \<noteq> Disjoint \<and> combineRelationships mrel (comparePaths (mp_segments p) (mp_segments q)) = MoreSpecific)"

lemma beats_cases:
  assumes "mp_host p = mp_host q" and "beats p q"
  shows "compareMethods (mp_method p) (mp_method q) = MoreSpecific \<or>
    mp_method p = mp_method q \<and> comparePaths (mp_segments p) (mp_segments q) = MoreSpecific"
  using assms not_MoreSpecific
  by (cases "compareMethods (mp_method p) (mp_method q)")
    (auto simp: beats_def Let_def compareMethods_def inverseRelationship_def split: if_splits)

lemma method_node_spec:
  "(case matchPath (method_node mux host meth) path of
      None \<Rightarrow> \<forall>(p, h)\<in>set mux. mp_host p = host \<and> mp_method p = meth \<longrightarrow> \<not> path_matches (mp_segments p) path
    | Some (p, h) \<Rightarrow> (p, h) \<in> set mux \<and> mp_host p = host \<and> mp_method p = meth \<and>
        path_matches (mp_segments p) path \<and>
        (\<forall>(q, k)\<in>set mux. mp_host q = host \<and> mp_method q = meth \<and> path_matches (mp_segments q) path \<longrightarrow>
           prefers (mp_segments p) (mp_segments q)))"
  using matchPath_spec[of "method_node mux host meth" path]
  by (fastforce simp: no_match_def best_match_def method_node_def split: option.splits)

definition method_ok :: "string \<Rightarrow> mux_pattern \<Rightarrow> bool" where
  "method_ok meth p \<longleftrightarrow> mp_method p = [] \<or> mp_method p = meth \<or> meth = ''HEAD'' \<and> mp_method p = ''GET''"

text \<open>A group of patterns with one host and one method.\<close>

definition group_matches :: "(mux_pattern \<times> 'h) list \<Rightarrow> string \<Rightarrow> string \<Rightarrow> string \<Rightarrow> mux_pattern \<Rightarrow> bool" where
  "group_matches mux host meth path p \<longleftrightarrow>
    p \<in> fst ` set mux \<and> mp_host p = host \<and> mp_method p = meth \<and> path_matches (mp_segments p) path"

lemma group_None:
  "matchPath (method_node mux host meth) path = None \<Longrightarrow> \<not> group_matches mux host meth path q"
  using method_node_spec[of mux host meth path] by (fastforce simp: group_matches_def)

lemma group_Some:
  assumes "matchPath (method_node mux host meth) path = Some (p, h)"
  shows "(p, h) \<in> set mux" and "group_matches mux host meth path p"
    and "group_matches mux host meth path q \<Longrightarrow> named_literals (mp_segments p) \<Longrightarrow>
      named_literals (mp_segments q) \<Longrightarrow> comparePaths (mp_segments q) (mp_segments p) \<noteq> MoreSpecific"
proof -
  have spec: "(p, h) \<in> set mux" "mp_host p = host" "mp_method p = meth" "path_matches (mp_segments p) path"
    "\<And>q k. (q, k) \<in> set mux \<Longrightarrow> mp_host q = host \<Longrightarrow> mp_method q = meth \<Longrightarrow> path_matches (mp_segments q) path \<Longrightarrow>
       prefers (mp_segments p) (mp_segments q)"
    using method_node_spec[of mux host meth path] by (auto simp: assms)
  then show "(p, h) \<in> set mux" "group_matches mux host meth path p"
    by (force simp: group_matches_def)+
  show "group_matches mux host meth path q \<Longrightarrow> named_literals (mp_segments p) \<Longrightarrow>
      named_literals (mp_segments q) \<Longrightarrow> comparePaths (mp_segments q) (mp_segments p) \<noteq> MoreSpecific"
    using spec(4,5) by (intro comparePaths_not_MoreSpecific[of _ _ path]) (auto simp: group_matches_def)
qed

text \<open>The groups a request with this method may be served from, best first.\<close>

definition groups :: "string \<Rightarrow> string list" where
  "groups meth = meth # (if meth = ''HEAD'' then [''GET''] else []) @ [[]]"

fun search_groups ::
  "(mux_pattern \<times> 'h) list \<Rightarrow> string \<Rightarrow> string \<Rightarrow> string list \<Rightarrow> (mux_pattern \<times> 'h) option" where
  "search_groups mux host path [] = None"
| "search_groups mux host path (g # gs) =
     (case matchPath (method_node mux host g) path of Some e \<Rightarrow> Some e | None \<Rightarrow> search_groups mux host path gs)"

lemma matchMethodAndPath_groups: "matchMethodAndPath mux host meth path = search_groups mux host path (groups meth)"
  by (simp add: matchMethodAndPath_def groups_def split: option.split)

lemma search_groups_None:
  "search_groups mux host path gs = None \<longleftrightarrow> (\<forall>g\<in>set gs. \<forall>q. \<not> group_matches mux host g path q)"
proof (induction gs)
  case (Cons g gs)
  show ?case
  proof (cases "matchPath (method_node mux host g) path")
    case None
    then show ?thesis using Cons group_None[OF None] by auto
  next
    case (Some e)
    then show ?thesis using group_Some(2)[of mux host g path "fst e" "snd e"] by auto
  qed
qed simp

lemma search_groups_Some:
  assumes "search_groups mux host path gs = Some (p, h)"
  shows "\<exists>g earlier later. gs = earlier @ g # later \<and> (\<forall>g'\<in>set earlier. \<forall>q. \<not> group_matches mux host g' path q) \<and>
    matchPath (method_node mux host g) path = Some (p, h)"
  using assms
proof (induction gs)
  case (Cons g gs)
  show ?case
  proof (cases "matchPath (method_node mux host g) path")
    case None
    then obtain g' earlier later where "gs = earlier @ g' # later"
      "\<forall>g\<in>set earlier. \<forall>q. \<not> group_matches mux host g path q" "matchPath (method_node mux host g') path = Some (p, h)"
      using Cons by auto
    then show ?thesis using group_None[OF None] by (intro exI[of _ g'] exI[of _ "g # earlier"] exI[of _ later]) auto
  next
    case (Some e)
    then show ?thesis using Cons.prems by (intro exI[of _ g] exI[of _ "[]"] exI[of _ gs]) simp
  qed
qed simp

lemma groups_method_ok: "mp_method p \<in> set (groups meth) \<longleftrightarrow> method_ok meth p"
  by (auto simp: groups_def method_ok_def)

text \<open>A more specific method comes earlier.\<close>

lemma groups_order:
  assumes "groups meth = earlier @ g # later" and "compareMethods m g = MoreSpecific" and "m \<in> set (groups meth)"
  shows "m \<in> set earlier"
proof -
  have "g = [] \<and> m \<noteq> [] \<or> g = ''GET'' \<and> m = ''HEAD''"
    using assms(2) by (auto simp: compareMethods_def split: if_splits)
  then show ?thesis
    using assms(1,3) by (cases earlier) (auto simp: groups_def Cons_eq_append_conv append_eq_Cons_conv split: if_splits)
qed

lemma matchMethodAndPath_None:
  "matchMethodAndPath mux host meth path = None \<longleftrightarrow>
     (\<forall>(q, k)\<in>set mux. \<not> (mp_host q = host \<and> method_ok meth q \<and> path_matches (mp_segments q) path))"
  unfolding matchMethodAndPath_groups search_groups_None
  by (force simp: group_matches_def groups_method_ok[symmetric])

lemma matchMethodAndPath_Some:
  assumes "matchMethodAndPath mux host meth path = Some (p, h)"
  shows "(p, h) \<in> set mux" and "mp_host p = host" and "method_ok meth p" and "path_matches (mp_segments p) path"
    and "\<lbrakk>\<forall>(q, k)\<in>set mux. named_literals (mp_segments q); (q, k) \<in> set mux; mp_host q = host;
      method_ok meth q; path_matches (mp_segments q) path\<rbrakk> \<Longrightarrow> \<not> beats q p"
proof -
  obtain g earlier later where g: "groups meth = earlier @ g # later"
    and none: "\<And>g' q. g' \<in> set earlier \<Longrightarrow> \<not> group_matches mux host g' path q"
    and found: "matchPath (method_node mux host g) path = Some (p, h)"
    using search_groups_Some[OF assms[unfolded matchMethodAndPath_groups]] by blast
  note p = group_Some(1,2)[OF found]
  have "mp_method p = g" using p(2) by (simp add: group_matches_def)
  moreover have "g \<in> set (groups meth)" by (simp add: g)
  ultimately show "(p, h) \<in> set mux" "mp_host p = host" "method_ok meth p" "path_matches (mp_segments p) path"
    using p groups_method_ok[of p meth] by (auto simp: group_matches_def)
  assume named: "\<forall>(q, k)\<in>set mux. named_literals (mp_segments q)" and q: "(q, k) \<in> set mux" "mp_host q = host"
    "method_ok meth q" "path_matches (mp_segments q) path"
  have member: "group_matches mux host (mp_method q) path q"
    using q by (force simp: group_matches_def)
  have literals: "named_literals (mp_segments p)" "named_literals (mp_segments q)"
    using named p(1) q(1) by blast+
  show "\<not> beats q p"
  proof
    assume "beats q p"
    moreover have "mp_host q = mp_host p" using q(2) \<open>mp_host p = host\<close> by simp
    ultimately consider "compareMethods (mp_method q) g = MoreSpecific"
      | "mp_method q = g" "comparePaths (mp_segments q) (mp_segments p) = MoreSpecific"
      using beats_cases \<open>mp_method p = g\<close> by metis
    then show False
    proof cases
      case 1
      then have "mp_method q \<in> set earlier"
        using groups_order[OF g] q(3) groups_method_ok by blast
      then show False using none member by blast
    next
      case 2
      then show False using group_Some(3)[OF found _ literals] member by simp
    qed
  qed
qed

text \<open>The whole search: no pattern is found exactly when none accepts the request, and the one found
  accepts it and no other accepting pattern beats it.\<close>

lemma mux_match_Some:
  assumes "mux_match mux host meth path = Some (p, h)"
  shows "(p, h) \<in> set mux" and "accepts p host meth path"
    and "\<lbrakk>\<forall>(q, k)\<in>set mux. named_literals (mp_segments q); (q, k) \<in> set mux; accepts q host meth path\<rbrakk> \<Longrightarrow> \<not> beats q p"
proof -
  consider "host \<noteq> []" "matchMethodAndPath mux host meth path = Some (p, h)"
    | "host \<noteq> [] \<longrightarrow> matchMethodAndPath mux host meth path = None" "matchMethodAndPath mux [] meth path = Some (p, h)"
    using assms by (auto simp: mux_match_def split: if_splits option.splits)
  note cases = this
  show "(p, h) \<in> set mux" by (cases rule: cases) (auto dest: matchMethodAndPath_Some(1))
  show "accepts p host meth path"
    by (cases rule: cases) (auto simp: accepts_def method_ok_def[symmetric] dest: matchMethodAndPath_Some(2-4))
  assume named: "\<forall>(q, k)\<in>set mux. named_literals (mp_segments q)" and q: "(q, k) \<in> set mux" "accepts q host meth path"
  have ok: "method_ok meth q" "path_matches (mp_segments q) path" "mp_host q = [] \<or> mp_host q = host"
    using q(2) by (auto simp: accepts_def method_ok_def)
  show "\<not> beats q p"
  proof (cases rule: cases)
    case 1
    show ?thesis
    proof (cases "mp_host q = host")
      case True
      then show ?thesis using matchMethodAndPath_Some(5)[OF 1(2) named q(1)] ok by blast
    next
      case False
      then have "mp_host q = []" "mp_host p \<noteq> []" using ok 1 matchMethodAndPath_Some(2)[OF 1(2)] by auto
      then show ?thesis by (simp add: beats_def)
    qed
  next
    case 2
    have "mp_host q = []"
    proof (rule ccontr)
      assume "mp_host q \<noteq> []"
      then have "host \<noteq> []" "mp_host q = host" using ok(3) by auto
      then show False using 2(1) q(1) ok(1,2) by (auto simp: matchMethodAndPath_None)
    qed
    then show ?thesis using matchMethodAndPath_Some(5)[OF 2(2) named q(1)] ok by blast
  qed
qed

lemma mux_match_None:
  "mux_match mux host meth path = None \<longleftrightarrow> (\<forall>(q, k)\<in>set mux. \<not> accepts q host meth path)"
proof (cases "mux_match mux host meth path")
  case None
  then have "host \<noteq> [] \<longrightarrow> matchMethodAndPath mux host meth path = None" "matchMethodAndPath mux [] meth path = None"
    by (auto simp: mux_match_def split: if_splits option.splits)
  then show ?thesis
    using None by (auto simp: matchMethodAndPath_None accepts_def method_ok_def)
next
  case (Some e)
  then have "(fst e, snd e) \<in> set mux" "accepts (fst e) host meth path"
    using mux_match_Some(1,2)[of mux host meth path "fst e" "snd e"] by simp_all
  then show ?thesis using Some by (auto simp: case_prod_beta)
qed

end
