(* ===== verification/Server_Dispatch.thy ===== *)
theory Server_Dispatch
  imports Server Mux_Match Go_Sort
begin

section \<open>Serving requests: Server.ServeHTTP in server.go\<close>

text \<open>
  \<open>Server.ServeHTTP\<close> hands the request to its \<open>ServeMux\<close>.  The mux is the one of \<open>net/http\<close> as of
  Go 1.24, without the setting that brings the older matching back: it refuses \<open>*\<close>, cleans the path, redirects to the clean
  path or to the path with a trailing slash, runs the handler of the most specific pattern, and
  otherwise answers 405 with the methods that would match, or 404.
\<close>

subsection \<open>Requests\<close>

record server_request = http_request +
  sr_RequestURI :: string
  sr_Host :: string
  sr_URLHost :: string
  sr_EscapedPath :: string
  sr_RawQuery :: string

text \<open>What the mux does with a request: refuse it with 400, run a handler, redirect to a path with a
  query, or answer 405 or 404 itself.\<close>

datatype 'h dispatch =
    BadStar
  | HandledBy mux_pattern "'h iface"
  | RedirectTo string string
  | MethodNotAllowed "string list"
  | PageNotFound

definition HasSuffix :: "string \<Rightarrow> string \<Rightarrow> bool" where
  "HasSuffix s q \<longleftrightarrow> snd (CutSuffix s q)"

subsection \<open>Hosts\<close>

text \<open>\<open>net.SplitHostPort\<close>, the host only; \<open>None\<close> is an error.\<close>

definition before_last :: "char \<Rightarrow> string \<Rightarrow> string" where
  "before_last c s = rev (drop 1 (dropWhile (\<lambda>d. d \<noteq> c) (rev s)))"

definition SplitHostPort :: "string \<Rightarrow> string option" where
  "SplitHostPort hostport =
    (let colon = length (before_last (CHR '':'') hostport) in
     if CHR '':'' \<notin> set hostport then None
     else if hd hostport = CHR ''['' then
       (if CHR '']'' \<notin> set hostport then None
        else
          (let close = length (takeWhile (\<lambda>c. c \<noteq> CHR '']'') hostport) in
           if close + 1 \<noteq> colon then None
           else if CHR ''['' \<in> set (drop 1 hostport) \<or> CHR '']'' \<in> set (drop (close + 1) hostport) then None
           else Some (drop 1 (take close hostport))))
     else
       (let host = take colon hostport in
        if CHR '':'' \<in> set host \<or> CHR ''['' \<in> set hostport \<or> CHR '']'' \<in> set hostport then None
        else Some host))"

definition stripHostPort :: "string \<Rightarrow> string" where
  "stripHostPort h =
    (if CHR '':'' \<notin> set h then h
     else (case SplitHostPort h of None \<Rightarrow> h | Some host \<Rightarrow> host))"

subsection \<open>Finding a handler\<close>

definition exactMatch :: "(mux_pattern \<times> 'h) option \<Rightarrow> string \<Rightarrow> bool" where
  "exactMatch n path =
    (case n of
       None \<Rightarrow> False
     | Some (p, _) \<Rightarrow>
         if \<not> seg_multi (last (mp_segments p)) then True
         else if path \<noteq> [] \<and> last path \<noteq> CHR ''/'' then False
         else length (mp_segments p) = count_list path (CHR ''/''))"

text \<open>The match and, if the request is to be sent to its path with a trailing slash, that path.\<close>

definition matchOrRedirect ::
  "(mux_pattern \<times> 'h) list \<Rightarrow> string \<Rightarrow> string \<Rightarrow> string \<Rightarrow> string option \<Rightarrow>
   (mux_pattern \<times> 'h) option \<times> string option" where
  "matchOrRedirect mux host meth path urlPath =
    (let n = mux_match mux host meth path in
     case urlPath of
       None \<Rightarrow> (n, None)
     | Some u \<Rightarrow>
         if \<not> exactMatch n path \<and> \<not> HasSuffix path ''/'' \<and> path \<noteq> [] then
           (let n2 = mux_match mux host meth (path @ ''/'') in
            if exactMatch n2 (path @ ''/'') then (n2, Some (cleanPath u @ ''/'')) else (n, None))
         else (n, None))"

text \<open>The methods of the patterns for a host that match a path.\<close>

definition host_methods :: "(mux_pattern \<times> 'h) list \<Rightarrow> string \<Rightarrow> string \<Rightarrow> string list" where
  "host_methods mux host path =
    filter (\<lambda>m. m \<noteq> [] \<and> matchPath (method_node mux host m) path \<noteq> None)
      (remdups (map (\<lambda>(p, _). mp_method p) mux))"

definition tree_methods :: "(mux_pattern \<times> 'h) list \<Rightarrow> string \<Rightarrow> string \<Rightarrow> string list" where
  "tree_methods mux host path =
    (let ms = (if host \<noteq> [] then host_methods mux host path else []) @ host_methods mux [] path
     in if ''GET'' \<in> set ms then ''HEAD'' # ms else ms)"

definition matchingMethods :: "(mux_pattern \<times> 'h) list \<Rightarrow> string \<Rightarrow> string \<Rightarrow> string list" where
  "matchingMethods mux host path =
    sort_Strings (remdups (tree_methods mux host path @
      (if HasSuffix path ''/'' then [] else tree_methods mux host (path @ ''/''))))"

definition answer_unmatched :: "(mux_pattern \<times> 'h iface) list \<Rightarrow> string \<Rightarrow> string \<Rightarrow> 'h dispatch" where
  "answer_unmatched mux host path =
    (let allowed = matchingMethods mux host path
     in if allowed \<noteq> [] then MethodNotAllowed allowed else PageNotFound)"

definition findHandler :: "'h serve_mux \<Rightarrow> server_request \<Rightarrow> 'h dispatch" where
  "findHandler mux r =
    (if req_Method r = ''CONNECT'' then
       (case snd (matchOrRedirect mux (sr_URLHost r) (req_Method r) (sr_EscapedPath r) (Some (req_Path r))) of
          Some u \<Rightarrow> RedirectTo u (sr_RawQuery r)
        | None \<Rightarrow>
            (case fst (matchOrRedirect mux (sr_Host r) (req_Method r) (sr_EscapedPath r) None) of
               Some (p, h) \<Rightarrow> HandledBy p h
             | None \<Rightarrow> answer_unmatched mux (sr_URLHost r) (sr_EscapedPath r)))
     else
       (let host = stripHostPort (sr_Host r); path = cleanPath (sr_EscapedPath r) in
        case matchOrRedirect mux host (req_Method r) path (Some (req_Path r)) of
          (_, Some u) \<Rightarrow> RedirectTo u (sr_RawQuery r)
        | (n, None) \<Rightarrow>
            if path \<noteq> sr_EscapedPath r then RedirectTo path (sr_RawQuery r)
            else (case n of Some (p, h) \<Rightarrow> HandledBy p h | None \<Rightarrow> answer_unmatched mux host path)))"

definition mux_ServeHTTP :: "'h serve_mux \<Rightarrow> server_request \<Rightarrow> 'h dispatch" where
  "mux_ServeHTTP mux r = (if sr_RequestURI r = ''*'' then BadStar else findHandler mux r)"

definition server_ServeHTTP :: "'h server \<Rightarrow> server_request \<Rightarrow> 'h dispatch" where
  "server_ServeHTTP srv r = mux_ServeHTTP (server_mux srv) r"

subsection \<open>What the choice means\<close>

lemma matchOrRedirect_handles:
  assumes "matchOrRedirect mux host meth path u = (n, None)"
  shows "n = mux_match mux host meth path"
  using assms by (auto simp: matchOrRedirect_def Let_def split: option.splits if_splits)

lemma host_methods_iff:
  "m \<in> set (host_methods mux host path) \<longleftrightarrow> m \<noteq> [] \<and> (\<exists>p. group_matches mux host m path p)"
proof -
  have "matchPath (method_node mux host m) path \<noteq> None \<longleftrightarrow> (\<exists>p. group_matches mux host m path p)"
  proof (cases "matchPath (method_node mux host m) path")
    case None
    then show ?thesis using group_None[OF None] by simp
  next
    case (Some e)
    then show ?thesis using group_Some(2)[of mux host m path "fst e" "snd e"] by auto
  qed
  moreover have "m \<in> set (map (\<lambda>(p, _). mp_method p) mux)" if "group_matches mux host m path p" for p
    using that by (force simp: group_matches_def)
  ultimately show ?thesis by (auto simp: host_methods_def)
qed

text \<open>A method with which the path, or the path with a trailing slash, would be served.\<close>

definition method_serves :: "mux_pattern \<Rightarrow> string \<Rightarrow> bool" where
  "method_serves p m \<longleftrightarrow> mp_method p \<noteq> [] \<and> (m = mp_method p \<or> m = ''HEAD'' \<and> mp_method p = ''GET'')"

definition served_with :: "(mux_pattern \<times> 'h) list \<Rightarrow> string \<Rightarrow> string \<Rightarrow> string \<Rightarrow> bool" where
  "served_with mux host path m \<longleftrightarrow>
    (\<exists>p\<in>fst ` set mux. method_serves p m \<and> (mp_host p = [] \<or> mp_host p = host) \<and>
       (path_matches (mp_segments p) path \<or>
        \<not> HasSuffix path ''/'' \<and> path_matches (mp_segments p) (path @ ''/'')))"

lemma methods_served:
  "m \<noteq> [] \<and> (\<exists>p\<in>S. mp_method p = m \<and> Q p) \<or> m = hd' \<and> (\<exists>p\<in>S. mp_method p = gt \<and> Q p) \<longleftrightarrow>
     (\<exists>p\<in>S. (mp_method p \<noteq> [] \<and> (m = mp_method p \<or> m = hd' \<and> mp_method p = gt)) \<and> Q p)"
  if "gt \<noteq> []"
  using that by auto

lemma tree_methods_iff:
  "m \<in> set (tree_methods mux host path) \<longleftrightarrow>
    (\<exists>p\<in>fst ` set mux. method_serves p m \<and> (mp_host p = [] \<or> mp_host p = host) \<and>
       path_matches (mp_segments p) path)"
proof -
  let ?ms = "(if host \<noteq> [] then host_methods mux host path else []) @ host_methods mux [] path"
  have ms: "k \<in> set ?ms \<longleftrightarrow> k \<noteq> [] \<and>
      (\<exists>p\<in>fst ` set mux. mp_method p = k \<and> (mp_host p = [] \<or> mp_host p = host) \<and> path_matches (mp_segments p) path)" for k
    unfolding set_append Un_iff host_methods_iff group_matches_def
    by (cases "host = []") (simp_all add: host_methods_iff group_matches_def, blast+)
  have "m \<in> set (tree_methods mux host path) \<longleftrightarrow> m \<in> set ?ms \<or> m = ''HEAD'' \<and> ''GET'' \<in> set ?ms"
    by (auto simp: tree_methods_def Let_def)
  also have "\<dots> \<longleftrightarrow> (\<exists>p\<in>fst ` set mux. method_serves p m \<and> (mp_host p = [] \<or> mp_host p = host) \<and>
       path_matches (mp_segments p) path)"
    using methods_served[of "''GET''" m "fst ` set mux" "\<lambda>p. (mp_host p = [] \<or> mp_host p = host) \<and>
        path_matches (mp_segments p) path" "''HEAD''"]
    unfolding ms method_serves_def by simp
  finally show ?thesis .
qed

lemma matchingMethods_iff: "m \<in> set (matchingMethods mux host path) \<longleftrightarrow> served_with mux host path m"
proof -
  have "m \<in> set (matchingMethods mux host path) \<longleftrightarrow> m \<in> set (tree_methods mux host path) \<or>
      \<not> HasSuffix path ''/'' \<and> m \<in> set (tree_methods mux host (path @ ''/''))"
    by (simp add: matchingMethods_def)
  then show ?thesis unfolding tree_methods_iff served_with_def by blast
qed

text \<open>The reference: what the documentation of \<open>ServeMux\<close> says of a request with a clean path.\<close>

definition chosen :: "(mux_pattern \<times> 'h) list \<Rightarrow> string \<Rightarrow> string \<Rightarrow> string \<Rightarrow> mux_pattern \<Rightarrow> 'h \<Rightarrow> bool" where
  "chosen mux host meth path p h \<longleftrightarrow>
    (p, h) \<in> set mux \<and> accepts p host meth path \<and>
    (\<forall>(q, k)\<in>set mux. accepts q host meth path \<longrightarrow> \<not> beats q p)"

definition unserved :: "(mux_pattern \<times> 'h) list \<Rightarrow> string \<Rightarrow> string \<Rightarrow> string \<Rightarrow> bool" where
  "unserved mux host meth path \<longleftrightarrow> (\<forall>(q, k)\<in>set mux. \<not> accepts q host meth path)"

subsection \<open>The dispatch of a server\<close>

text \<open>The patterns and handlers of a list of mounts, as the documentation of \<open>ServeMux\<close> speaks of them.\<close>

definition clean_request :: "server_request \<Rightarrow> bool" where
  "clean_request r \<longleftrightarrow> sr_RequestURI r \<noteq> ''*'' \<and> req_Method r \<noteq> ''CONNECT'' \<and> cleanPath (sr_EscapedPath r) = sr_EscapedPath r"

abbreviation host_of :: "server_request \<Rightarrow> string" where
  "host_of r \<equiv> stripHostPort (sr_Host r)"

text \<open>What a server does with a request: the outcome against the reference.\<close>

definition dispatch_correct :: "(mux_pattern \<times> 'h iface) list \<Rightarrow> server_request \<Rightarrow> 'h dispatch \<Rightarrow> bool" where
  "dispatch_correct mux r outcome \<longleftrightarrow>
    (let meth = req_Method r; path = sr_EscapedPath r in
     case outcome of
       BadStar \<Rightarrow> False
     | HandledBy p h \<Rightarrow> chosen mux (host_of r) meth path p h
     | RedirectTo u q \<Rightarrow>
         u = cleanPath (req_Path r) @ ''/'' \<and> q = sr_RawQuery r \<and> \<not> HasSuffix path ''/'' \<and>
         (\<exists>p h. chosen mux (host_of r) meth (path @ ''/'') p h)
     | MethodNotAllowed methods \<Rightarrow>
         unserved mux (host_of r) meth path \<and> methods \<noteq> [] \<and>
         (\<forall>m. m \<in> set methods \<longleftrightarrow> served_with mux (host_of r) path m)
     | PageNotFound \<Rightarrow>
         unserved mux (host_of r) meth path \<and> (\<forall>m. \<not> served_with mux (host_of r) path m))"

lemma mux_match_chosen:
  assumes "mux_match mux host meth path = Some (p, h)" and "\<forall>(q, k)\<in>set mux. named_literals (mp_segments q)"
  shows "chosen mux host meth path p h"
  using mux_match_Some[OF assms(1)] assms(2) unfolding chosen_def by blast

lemma findHandler_correct:
  assumes "clean_request r" and "\<forall>(q, k)\<in>set mux. named_literals (mp_segments q)"
  shows "dispatch_correct mux r (mux_ServeHTTP mux r)"
proof -
  let ?host = "host_of r" and ?meth = "req_Method r" and ?path = "sr_EscapedPath r"
  have clean: "cleanPath ?path = ?path" "sr_RequestURI r \<noteq> ''*''" "?meth \<noteq> ''CONNECT''"
    using assms(1) by (simp_all add: clean_request_def)
  obtain n u where m: "matchOrRedirect mux ?host ?meth ?path (Some (req_Path r)) = (n, u)" by fastforce
  show ?thesis
  proof (cases u)
    case (Some u')
    then have "mux_ServeHTTP mux r = RedirectTo u' (sr_RawQuery r)"
      using clean m by (simp add: mux_ServeHTTP_def findHandler_def)
    moreover have "exactMatch (mux_match mux ?host ?meth (?path @ ''/'')) (?path @ ''/'')"
      "\<not> HasSuffix ?path ''/''" "u' = cleanPath (req_Path r) @ ''/''"
      using m Some by (auto simp: matchOrRedirect_def Let_def split: if_splits)
    moreover from this(1) obtain p h where "mux_match mux ?host ?meth (?path @ ''/'') = Some (p, h)"
      by (cases "mux_match mux ?host ?meth (?path @ ''/'')") (auto simp: exactMatch_def)
    then have "chosen mux ?host ?meth (?path @ ''/'') p h" by (rule mux_match_chosen[OF _ assms(2)])
    then have "\<exists>p h. chosen mux ?host ?meth (?path @ ''/'') p h" by blast
    ultimately show ?thesis by (simp add: dispatch_correct_def)
  next
    case None
    then have n: "n = mux_match mux ?host ?meth ?path" using matchOrRedirect_handles m by blast
    show ?thesis
    proof (cases n)
      case (Some e)
      obtain p h where "e = (p, h)" by fastforce
      moreover from this have "mux_ServeHTTP mux r = HandledBy p h"
        using Some None m clean by (simp add: mux_ServeHTTP_def findHandler_def)
      moreover have "chosen mux ?host ?meth ?path p h"
        using mux_match_chosen[OF _ assms(2)] n Some calculation(1) by simp
      ultimately show ?thesis by (simp add: dispatch_correct_def)
    next
      case no_match: None
      then have "unserved mux ?host ?meth ?path" using n by (simp add: unserved_def mux_match_None)
      moreover have "mux_ServeHTTP mux r = answer_unmatched mux ?host ?path"
        using no_match None m clean by (simp add: mux_ServeHTTP_def findHandler_def)
      moreover have "matchingMethods mux ?host ?path = [] \<longleftrightarrow> (\<forall>m. \<not> served_with mux ?host ?path m)"
        unfolding matchingMethods_iff[symmetric] by (metis last_in_set list.set(1) empty_iff)
      ultimately show ?thesis
        by (simp add: dispatch_correct_def answer_unmatched_def matchingMethods_iff)
    qed
  qed
qed


definition sample_mounts :: "nat mountedHandler list" where
  "sample_mounts =
    [\<lparr>pattern = ''/v1/'', mounted_handler = Dynamic KPointer False 1\<rparr>,
     \<lparr>pattern = ''GET /v1/{name}'', mounted_handler = Dynamic KPointer False 2\<rparr>,
     \<lparr>pattern = ''GET /v1/models'', mounted_handler = Dynamic KPointer False 3\<rparr>]"

definition no_letters :: unicode_tables where
  "no_letters r = (False, False)"

definition sample_server_request :: "string \<Rightarrow> string \<Rightarrow> server_request" where
  "sample_server_request meth path =
    \<lparr>req_Method = meth, req_Path = path, req_Query = [], req_Header = [], req_Body = [], req_BodyError = None,
     sr_RequestURI = path, sr_Host = ''localhost:8080'', sr_URLHost = [], sr_EscapedPath = path, sr_RawQuery = []\<rparr>"

definition sample_models_pattern :: mux_pattern where
  "sample_models_pattern =
    \<lparr>mp_method = ''GET'', mp_host = [], mp_segments = [Seg ''v1'' False False, Seg ''models'' False False]\<rparr>"

lemma sample_mounts_accepted:
  "\<exists>srv. server_New no_letters (mounts_of no_letters sample_mounts) = Inr srv"
proof -
  have "list_all (mount_ok no_letters) sample_mounts" by code_simp
  moreover have "conflict_free (map (pattern_of no_letters) sample_mounts)" by code_simp
  ultimately show ?thesis by (simp add: server_New_Inr)
qed


end
