(* ===== verification/Examples.thy ===== *)
theory Examples
  imports Server_Dispatch Openai_Properties Rest_Responses
begin

section \<open>Whole programs: examples/aggregate, examples/minimal\<close>

text \<open>
  The two example programs up to \<open>http.ListenAndServe\<close>, with the adapter of \<open>backend/handler.go\<close> and
  the decoders that \<open>internal/rest/body_decoders.go\<close> registers when the program starts.  \<open>log.Fatal\<close>,
  which ends the program, is an error value that names the call that failed.
\<close>

subsection \<open>Function adapters and the request body decoders\<close>

text \<open>\<open>HandlerFunc\<close>: a function is a handler that calls it.\<close>

definition HandlerFunc_Handle :: "backend_handler \<Rightarrow> backend_handler" where
  "HandlerFunc_Handle f req = f req"

definition HandlerFunc :: "bool \<Rightarrow> backend_handler \<Rightarrow> backend_handler iface" where
  "HandlerFunc is_nil f = Dynamic KFunc is_nil (HandlerFunc_Handle f)"

datatype body_decoder = PlainBodyDecoder | FileBodyDecoder | OtherBodyDecoder string

definition RegisterBodyDecoder :: "string \<Rightarrow> body_decoder \<Rightarrow> (string, body_decoder) gomap \<Rightarrow> (string, body_decoder) gomap" where
  "RegisterBodyDecoder mediaType decoder decoders = AList.update mediaType decoder decoders"

definition file_media_types :: "string list" where
  "file_media_types =
    [''audio/mpeg'', ''audio/mp4'', ''audio/wav'', ''image/jpeg'', ''image/png'', ''video/mp4'']"

definition init_body_decoders :: "(string, body_decoder) gomap \<Rightarrow> (string, body_decoder) gomap" where
  "init_body_decoders decoders =
    fold (\<lambda>mediaType. RegisterBodyDecoder mediaType FileBodyDecoder) file_media_types
      (RegisterBodyDecoder ''application/sdp'' PlainBodyDecoder decoders)"

text \<open>SDP bodies are decoded as text, the SDK's media types as files, and no other decoder changes.\<close>

lemma init_body_decoders_lookup:
  "map_of (init_body_decoders decoders) mediaType =
    (if mediaType \<in> set file_media_types then Some FileBodyDecoder
     else if mediaType = ''application/sdp'' then Some PlainBodyDecoder
     else map_of decoders mediaType)"
  by (simp add: init_body_decoders_def RegisterBodyDecoder_def file_media_types_def)

subsection \<open>The aggregate example\<close>

datatype main_error = ServicesFatal | HandlerFatal | ServerFatal server_error

type_synonym 'd load_function = "string \<Rightarrow> string \<Rightarrow> go_error + ('d document \<times> 'd router)"

definition aggregate_main ::
  "unicode_tables \<Rightarrow> (go_error + string) \<Rightarrow> 'd load_function \<Rightarrow>
   main_error + ('d, 's) openai_handler server" where
  "aggregate_main uc routerSpec load =
    (case NewServices [] of
       Inl _ \<Rightarrow> Inl ServicesFatal
     | Inr services \<Rightarrow>
         (case NewHandler routerSpec load services [] of
            Inl _ \<Rightarrow> Inl HandlerFatal
          | Inr openAIHandler \<Rightarrow>
              (case server_New uc [Some (server_WithHandler uc ''/v1/'' (Dynamic KPointer False openAIHandler))] of
                 Inl err \<Rightarrow> Inl (ServerFatal err)
               | Inr shell \<Rightarrow> Inr shell)))"

abbreviation v1_pattern :: mux_pattern where
  "v1_pattern \<equiv> \<lparr>mp_method = [], mp_host = [], mp_segments = [Seg ''v1'' False False, Seg [] True True]\<rparr>"

lemma parse_v1: "parsePattern uc ''/v1/'' = Some v1_pattern"
  by (simp add: parsePattern_def blank_def pathUnescape_def HasPrefix_def Let_def)

lemma NewServices_empty: "NewServices [] = Inr \<lparr>defaultHandler = NilInterface, handlers = [], sessions = []\<rparr>"
  by (simp add: NewServices_def)

lemma server_New_v1:
  assumes "\<not> isNilHandler h"
  shows "server_New uc [Some (server_WithHandler uc ''/v1/'' h)] =
    Inr \<lparr>server_mux = [(v1_pattern, h)], server_handlers = [h]\<rparr>"
proof -
  let ?ms = "[\<lparr>pattern = ''/v1/'', mounted_handler = h\<rparr>]"
  have "list_all (mount_ok uc) ?ms" "conflict_free (map (pattern_of uc) ?ms)"
    using assms by (simp_all add: mount_ok_def parse_v1 conflict_free_def)
  then have "server_New uc (mounts_of uc ?ms) =
      Inr \<lparr>server_mux = mux_of uc ?ms, server_handlers = map mounted_handler ?ms\<rparr>"
    by (subst server_New_Inr) simp
  then show ?thesis by (simp add: mux_of_def pattern_of_def parse_v1)
qed

lemma aggregate_main_Inr:
  "aggregate_main uc routerSpec load = Inr srv \<longleftrightarrow>
     (\<exists>h. NewHandler routerSpec load \<lparr>defaultHandler = NilInterface, handlers = [], sessions = []\<rparr> [] = Inr h \<and>
        srv = \<lparr>server_mux = [(v1_pattern, Dynamic KPointer False h)],
               server_handlers = [Dynamic KPointer False h]\<rparr>)"
  by (auto simp: aggregate_main_def NewServices_empty server_New_v1 isNilHandler_def split: sum.splits)

text \<open>What the only pattern of the aggregate accepts.\<close>

lemma v1_accepts:
  "accepts v1_pattern host meth path \<longleftrightarrow>
     path \<noteq> [] \<and> fst (firstSegment path) = ''v1'' \<and> snd (firstSegment path) \<noteq> []"
  by (cases "firstSegment path") (auto simp: accepts_def seg_key_def)

lemma PathUnescape_plain: "CHR ''%'' \<notin> set s \<Longrightarrow> PathUnescape s = Some s"
  by (induction s rule: PathUnescape.induct) auto

lemma firstSegment_v1:
  assumes "HasPrefix path ''/v1/''"
  shows "fst (firstSegment path) = ''v1'' \<and> snd (firstSegment path) \<noteq> []"
proof -
  obtain rest where "path = ''/v1/'' @ rest" using assms by (auto simp: HasPrefix_iff)
  then show ?thesis by (simp add: firstSegment_def pathUnescape_def)
qed

lemma firstSegment_outside:
  assumes "HasPrefix path ''/''" and "CHR ''%'' \<notin> set path" and "\<not> HasPrefix path ''/v1/''"
  shows "\<not> (fst (firstSegment path) = ''v1'' \<and> snd (firstSegment path) \<noteq> [])"
proof
  assume v1: "fst (firstSegment path) = ''v1'' \<and> snd (firstSegment path) \<noteq> []"
  obtain s where path: "path = CHR ''/'' # s" using assms(1) by (auto simp: HasPrefix_iff)
  let ?t = "takeWhile (\<lambda>c. c \<noteq> CHR ''/'') s" and ?d = "dropWhile (\<lambda>c. c \<noteq> CHR ''/'') s"
  have "s \<noteq> []" using v1 by (auto simp: firstSegment_def path)
  have "CHR ''%'' \<notin> set ?t" using assms(2) path by (auto dest: set_takeWhileD)
  then have "?t = ''v1''" "?d \<noteq> []"
    using v1 \<open>s \<noteq> []\<close> by (simp_all add: firstSegment_def path pathUnescape_def PathUnescape_plain)
  moreover from this(2) have "hd ?d = CHR ''/''" using hd_dropWhile by blast
  ultimately have "s = ''v1/'' @ tl ?d"
    using takeWhile_dropWhile_id[of "\<lambda>c. c \<noteq> CHR ''/''" s] by (cases ?d) auto
  then have "path = ''/v1/'' @ tl ?d" using path by simp
  then have "HasPrefix path ''/v1/''" by (simp only: HasPrefix_iff) blast
  then show False using assms(3) by simp
qed

lemma HasSuffix_slash: "HasSuffix s ''/'' \<longleftrightarrow> (\<exists>r. s = r @ ''/'')"
  by (cases s rule: rev_cases) (auto simp: HasSuffix_def CutSuffix_def)

text \<open>Without backends no request passes the guards of the REST handler.\<close>

lemma no_services_no_backend:
  assumes "rh_services h = \<lparr>defaultHandler = NilInterface, handlers = [], sessions = []\<rparr>"
  shows "\<exists>status\<in>{400, 401, 404, 405, 413, 501}.
    response_status (out_writer (rest_ServeHTTP ext h req)) = status \<and> out_effects (rest_ServeHTTP ext h req) = []"
proof -
  have "first_failing (rest_guards ext h req) \<noteq> None"
  proof
    assume "first_failing (rest_guards ext h req) = None"
    then show False
    proof (rule rest_ServeHTTP_admits)
      fix op
      assume "snd (HandlerFor (rh_services h) (OpCapability op))"
      then show False by (simp add: assms HandlerFor_def)
    qed
  qed
  then obtain status where status: "first_failing (rest_guards ext h req) = Some status" by blast
  have range: "status \<in> {400, 401, 404, 405, 413, 501}" by (rule first_failing_statuses[OF status])
  then have "200 \<le> status" "bodyAllowedForStatus status" by (auto simp: bodyAllowedForStatus_def)
  from rejection_response[OF rest_ServeHTTP_rejects[OF status] this] range show ?thesis by blast
qed

lemma no_services_no_session:
  assumes "wh_services h = \<lparr>defaultHandler = NilInterface, handlers = [], sessions = []\<rparr>"
  shows "SessionOpened sreq \<notin> set (wo_effects (snd (ws_ServeHTTP ext h r c req)))"
proof
  have closed: "SessionOpened sreq \<notin> set (wo_effects (ws_open ext h req rid caller))" for rid caller
    using assms by (simp add: ws_open_def ws_fail_def SessionFor_def Let_def)
  assume "SessionOpened sreq \<in> set (wo_effects (snd (ws_ServeHTTP ext h r c req)))"
  then show False
    using closed by (auto simp: ws_ServeHTTP_def ws_fail_def Let_def split: prod.splits sum.splits if_splits)
qed

lemma v1_match:
  "mux_match [(v1_pattern, h)] host meth path =
     (if accepts v1_pattern host meth path then Some (v1_pattern, h) else None)"
proof (cases "mux_match [(v1_pattern, h)] host meth path")
  case None
  then show ?thesis by (simp add: mux_match_None)
next
  case (Some e)
  then show ?thesis using mux_match_Some(1,2)[of "[(v1_pattern, h)]" host meth path "fst e" "snd e"] by auto
qed

lemma v1_unmatched:
  assumes "\<not> accepts v1_pattern host meth path" and "\<not> accepts v1_pattern host meth (path @ ''/'')"
  shows "answer_unmatched [(v1_pattern, h)] host path = PageNotFound"
proof -
  have "\<not> served_with [(v1_pattern, h)] host path m" for m
    by (simp add: served_with_def method_serves_def)
  then have "matchingMethods [(v1_pattern, h)] host path = []"
    using matchingMethods_iff[of _ "[(v1_pattern, h)]" host path] by (metis last_in_set)
  then show ?thesis by (simp add: answer_unmatched_def)
qed

lemma v1_handled:
  assumes "clean_request r" and "HasPrefix (sr_EscapedPath r) ''/v1/''"
  shows "mux_ServeHTTP [(v1_pattern, h)] r = HandledBy v1_pattern h"
proof -
  let ?path = "sr_EscapedPath r"
  have "?path \<noteq> []" using assms(2) by (auto simp: HasPrefix_iff)
  then have path: "accepts v1_pattern (host_of r) (req_Method r) ?path"
    using firstSegment_v1[OF assms(2)] by (simp add: v1_accepts)
  have suffix: "\<not> exactMatch (Some (v1_pattern, h)) (?path @ ''/'')" if no_slash: "\<not> HasSuffix ?path ''/''"
  proof -
    obtain rest where rest: "?path = ''/v1/'' @ rest" using assms(2) by (auto simp: HasPrefix_iff)
    then have "count_list (?path @ ''/'') (CHR ''/'') \<ge> 3" by (simp add: count_list_append)
    then show ?thesis by (simp add: exactMatch_def)
  qed
  have "accepts v1_pattern (host_of r) (req_Method r) (?path @ ''/'')"
  proof -
    have "HasPrefix (?path @ ''/'') ''/v1/''" using assms(2) by (auto simp: HasPrefix_iff)
    then show ?thesis using firstSegment_v1 by (simp add: v1_accepts)
  qed
  then have "matchOrRedirect [(v1_pattern, h)] (host_of r) (req_Method r) ?path (Some (req_Path r)) =
      (Some (v1_pattern, h), None)"
    using path suffix by (simp add: matchOrRedirect_def v1_match Let_def)
  then show ?thesis
    using assms(1) by (simp add: mux_ServeHTTP_def findHandler_def clean_request_def)
qed

lemma v1_redirected:
  assumes "clean_request r" and "sr_EscapedPath r = ''/v1''"
  shows "mux_ServeHTTP [(v1_pattern, h)] r = RedirectTo (cleanPath (req_Path r) @ ''/'') (sr_RawQuery r)"
proof -
  have no: "\<not> accepts v1_pattern (host_of r) (req_Method r) ''/v1''"
    by (simp add: v1_accepts firstSegment_def)
  have yes: "accepts v1_pattern (host_of r) (req_Method r) ''/v1/''"
    using firstSegment_v1[of "''/v1/''"] by (simp add: v1_accepts HasPrefix_def)
  have "matchOrRedirect [(v1_pattern, h)] (host_of r) (req_Method r) ''/v1'' (Some (req_Path r)) =
      (Some (v1_pattern, h), Some (cleanPath (req_Path r) @ ''/''))"
    using no yes by (simp add: matchOrRedirect_def v1_match exactMatch_def HasSuffix_def CutSuffix_def Let_def)
  then show ?thesis
    using assms by (simp add: mux_ServeHTTP_def findHandler_def clean_request_def)
qed

lemma v1_not_found:
  assumes "clean_request r" and "CHR ''%'' \<notin> set (sr_EscapedPath r)"
    and "\<not> HasPrefix (sr_EscapedPath r) ''/v1/''" and "sr_EscapedPath r \<noteq> ''/v1''"
    and "HasPrefix (sr_EscapedPath r) ''/''"
  shows "mux_ServeHTTP [(v1_pattern, h)] r = PageNotFound"
proof -
  let ?path = "sr_EscapedPath r"
  have no: "\<not> accepts v1_pattern (host_of r) (req_Method r) ?path"
    using firstSegment_outside[OF assms(5,2,3)] by (simp add: v1_accepts)
  have "\<not> HasPrefix (?path @ ''/'') ''/v1/''"
  proof
    assume "HasPrefix (?path @ ''/'') ''/v1/''"
    then obtain rest where rest: "?path @ ''/'' = ''/v1/'' @ rest" by (auto simp: HasPrefix_iff)
    show False
    proof (cases rest rule: rev_cases)
      case Nil
      then have "?path = ''/v1''" using rest by simp
      then show False using assms(4) by simp
    next
      case (snoc init c)
      then have "?path = ''/v1/'' @ init" using rest by (metis append_assoc append1_eq_conv)
      then have "HasPrefix ?path ''/v1/''" unfolding HasPrefix_iff by blast
      then show False using assms(3) by simp
    qed
  qed
  moreover have "HasPrefix (?path @ ''/'') ''/''" using assms(5) by (auto simp: HasPrefix_iff)
  ultimately have no2: "\<not> accepts v1_pattern (host_of r) (req_Method r) (?path @ ''/'')"
    using firstSegment_outside[of "?path @ ''/''"] assms(2) by (simp add: v1_accepts)
  have "matchOrRedirect [(v1_pattern, h)] (host_of r) (req_Method r) ?path (Some (req_Path r)) = (None, None)"
    using no no2 by (simp add: matchOrRedirect_def v1_match exactMatch_def Let_def)
  then show ?thesis
    using assms(1) v1_unmatched[OF no no2] by (simp add: mux_ServeHTTP_def findHandler_def clean_request_def)
qed

lemma cleanPath_rooted: "HasPrefix (cleanPath p) ''/''"
proof (cases "p = []")
  case False
  let ?p = "if HasPrefix p ''/'' then p else ''/'' @ p"
  have rooted: "HasPrefix ?p ''/''" by (simp add: HasPrefix_iff)
  then obtain es where "Clean ?p = ''/'' @ join_with ''/'' es" by (rule Clean_rooted)
  then have "HasPrefix (Clean ?p) ''/''" "HasPrefix (Clean ?p @ ''/'') ''/''" by (simp_all add: HasPrefix_iff)
  then show ?thesis using False rooted by (simp add: cleanPath_def Let_def)
qed (simp add: cleanPath_def HasPrefix_iff)

text \<open>C31: what the aggregate example serves.  When its \<open>main\<close> gets as far as listening, a request with a
  clean path under \<open>/v1/\<close> runs the OpenAI handler, \<open>/v1\<close> is redirected to \<open>/v1/\<close>, every other path
  without escapes is a 404; and since no backend is registered, no request that reaches the OpenAI
  handler, REST or WebSocket, shows a caller to any application.\<close>

theorem aggregate_serves_v1:
  assumes "aggregate_main uc routerSpec load = Inr srv" and "clean_request r"
  shows "\<exists>h. server_handlers srv = [Dynamic KPointer False h] \<and>
    (HasPrefix (sr_EscapedPath r) ''/v1/'' \<longrightarrow> server_ServeHTTP srv r = HandledBy v1_pattern (Dynamic KPointer False h)) \<and>
    (sr_EscapedPath r = ''/v1'' \<longrightarrow>
       server_ServeHTTP srv r = RedirectTo (cleanPath (req_Path r) @ ''/'') (sr_RawQuery r)) \<and>
    (CHR ''%'' \<notin> set (sr_EscapedPath r) \<and> \<not> HasPrefix (sr_EscapedPath r) ''/v1/'' \<and> sr_EscapedPath r \<noteq> ''/v1'' \<longrightarrow>
       server_ServeHTTP srv r = PageNotFound) \<and>
    shown_callers (openai_ServeHTTP ext wext h rg c (http_request.truncate r)) = {}"
proof -
  let ?none = "\<lparr>defaultHandler = NilInterface, handlers = [], sessions = []\<rparr>"
  obtain h where new: "NewHandler routerSpec load ?none [] = Inr h"
    and srv: "srv = \<lparr>server_mux = [(v1_pattern, Dynamic KPointer False h)], server_handlers = [Dynamic KPointer False h]\<rparr>"
    using assms(1) aggregate_main_Inr by blast
  have services: "rh_services (oh_rest h) = ?none" "wh_services (oh_websocket h) = ?none"
    using NewHandler_Inr[OF new] by metis+
  have rooted: "HasPrefix (sr_EscapedPath r) ''/''"
    using assms(2) cleanPath_rooted[of "sr_EscapedPath r"] by (simp add: clean_request_def)
  have "out_effects (rest_ServeHTTP ext (oh_rest h) req) = []" for req
    using no_services_no_backend[OF services(1)] by blast
  moreover have "SessionOpened q \<notin> set (wo_effects out)"
    if "ws_ServeHTTP wext (oh_websocket h) rg c req = (rg', out)" for q req rg' out
    using no_services_no_session[OF services(2), of q wext rg c req] that by simp
  ultimately have "shown_callers (openai_ServeHTTP ext wext h rg c req) = {}" for req
    by (auto simp: openai_ServeHTTP_def shown_callers_def split: prod.splits)
  then show ?thesis
    using v1_handled[OF assms(2), of "Dynamic KPointer False h"]
      v1_redirected[OF assms(2), of "Dynamic KPointer False h"]
      v1_not_found[OF assms(2) _ _ _ rooted, of "Dynamic KPointer False h"]
    by (intro exI[of _ h]) (simp add: srv server_ServeHTTP_def)
qed

theorem aggregate_serves_v1_witness:
  "\<exists>srv h. (aggregate_main no_letters (Inr []) sample_load :: main_error + (unit, nat) openai_handler server) = Inr srv \<and>
     server_ServeHTTP srv (sample_server_request ''GET'' ''/v1/models'') = HandledBy v1_pattern (Dynamic KPointer False h) \<and>
     server_ServeHTTP srv (sample_server_request ''GET'' ''/health'') = PageNotFound"
proof -
  have "\<exists>h. NewHandler (Inr []) sample_load \<lparr>defaultHandler = NilInterface, handlers = [], sessions = []\<rparr> [] = Inr h"
    by (simp add: NewHandler_def run_settings_def)
  then obtain srv where srv: "aggregate_main no_letters (Inr []) sample_load = Inr (srv :: (unit, nat) openai_handler server)"
    using aggregate_main_Inr by blast
  have "clean_request (sample_server_request ''GET'' ''/v1/models'')" "clean_request (sample_server_request ''GET'' ''/health'')"
    by code_simp+
  from this[THEN aggregate_serves_v1[OF srv]] srv show ?thesis
    by (fastforce simp: sample_server_request_def HasPrefix_iff)
qed

subsection \<open>The minimal example\<close>

definition app_Handle :: backend_handler where
  "app_Handle request =
    (if Operation request = ''listModels'' then
       Inr \<lparr>StatusCode = 0, ResponseMetadata = [], ResponseMediaType = [],
            ResponseJSON = quoted ''{`object`:`list`,`data`:[]}'', Body = NilInterface, Stream = NilInterface\<rparr>
     else Inl (BackendPtr (Some (new_error ErrorUnsupported ''operation is not implemented''))))"

definition minimal_main ::
  "(go_error + string) \<Rightarrow> 'd load_function \<Rightarrow> main_error + ('d, 's) openai_handler" where
  "minimal_main routerSpec load =
    (case NewServices [Some (WithModels (Dynamic KPointer False app_Handle))] of
       Inl _ \<Rightarrow> Inl ServicesFatal
     | Inr services \<Rightarrow>
         (case NewHandler routerSpec load services [] of
            Inl _ \<Rightarrow> Inl HandlerFatal
          | Inr handler \<Rightarrow> Inr handler))"

lemma NewServices_models:
  "NewServices [Some (WithModels (Dynamic KPointer False f))] =
     Inr \<lparr>defaultHandler = NilInterface, handlers = [(CapabilityModels, Dynamic KPointer False f)], sessions = []\<rparr>"
  by (simp add: NewServices_def WithModels_def WithCapability_def validCapability_def Capabilities_def)

lemma models_success:
  assumes "op \<in> set Operations" and "OpCapability op = ''models''"
  shows "SuccessStatus op = 200"
proof -
  have "list_all (\<lambda>op. OpCapability op = ''models'' \<longrightarrow> SuccessStatus op = 200) Operations"
    by (simp add: Operations_def operation_tables frozen_def)
  then show ?thesis using assms by (simp add: list_all_iff)
qed

text \<open>How the example's backend is served.\<close>

lemma app_served:
  assumes "\<And>vi s hd body. ext_ValidateResponse ext vi s hd body = None" and "SuccessStatus op = 200"
  shows "let out = serve_backend ext h vi op rid (start_writer ext req) app_Handle breq in
    response_status (out_writer out) = (if Operation breq = ''listModels'' then 200 else 501) \<and>
    (Operation breq = ''listModels'' \<longrightarrow> w_body (out_writer out) = quoted ''{`object`:`list`,`data`:[]}'')"
proof (cases "Operation breq = ''listModels''")
  case True
  define result :: backend_response where
    "result = \<lparr>StatusCode = 0, ResponseMetadata = [], ResponseMediaType = [],
       ResponseJSON = quoted ''{`object`:`list`,`data`:[]}'', Body = NilInterface, Stream = NilInterface\<rparr>"
  have result: "\<not> nonNilInterface (Stream result)" "effective_status op result = 200" "responseModeCount result \<le> 1"
    "response_accepted ext h vi result" "expected_body result = quoted ''{`object`:`list`,`data`:[]}''"
    using assms
    by (simp_all add: result_def nonNilInterface_def effective_status_def responseModeCount_def
        response_accepted_def expected_body_def)
  have "app_Handle breq = Inr result" using True by (simp add: app_Handle_def result_def)
  then show ?thesis
    using True result serve_response_delivers[of result op ext h vi "start_writer ext req" rid]
    by (simp add: serve_backend_def fresh_writer_def bodyAllowedForStatus_def Let_def)
next
  case False
  let ?e = "new_error ErrorUnsupported ''operation is not implemented''"
  have status: "errorStatus ?e = 501" by (simp add: errorStatus_def error_kind_defs)
  have "app_Handle breq = Inl (BackendPtr (Some ?e))" using False by (simp add: app_Handle_def)
  then have "out_writer (serve_backend ext h vi op rid (start_writer ext req) app_Handle breq) =
      writeErrorStatus (start_writer ext req) rid 501 ?e"
    by (simp add: serve_backend_def writeBackendError_def writeError_def status)
  then show ?thesis
    using False writeErrorStatus_committed(1)[of "start_writer ext req" 501 rid ?e]
    by (simp add: fresh_writer_def bodyAllowedForStatus_def)
qed


definition minimal_sample :: "(unit, nat) openai_handler" where
  "minimal_sample =
    (let services = \<lparr>defaultHandler = NilInterface, handlers = [(CapabilityModels, Dynamic KPointer False app_Handle)],
                     sessions = []\<rparr>
     in \<lparr>oh_basePath = ''/v1'',
         oh_rest = rest_New services [] (rh_FindRoute (sample_rest 100 (Inl ContextCanceled)))
           (internal_config default_settings),
         oh_websocket = \<lparr>wh_services = services, wh_config = internal_config default_settings\<rparr>\<rparr>)"

lemma minimal_sample_main: "minimal_main (Inr []) sample_load = Inr minimal_sample"
  by (simp add: minimal_main_def NewServices_models NewHandler_def run_settings_def minimal_sample_def Let_def)
    (simp add: default_settings_def)

lemma minimal_sample_resolved:
  "\<exists>r route ps. resolved (oh_rest minimal_sample) (sample_request ''GET'' '''') = Some (r, route, ps, listModels)"
  "first_failing (rest_guards sample_ext (oh_rest minimal_sample) (sample_request ''GET'' '''')) = None"
proof -
  let ?h = "oh_rest minimal_sample" and ?req = "sample_request ''GET'' ''''"
  note sample = minimal_sample_def Let_def rest_New_def internal_config_def default_settings_def sample_defs
    authenticate_with_def
  have read: "body_read ?h ?req = Some ''''"
    by (simp add: body_read_def read_limited_def sample)
  then have res: "resolved ?h ?req = Some (delivered ?h ?req '''',
        \<lparr>RoutePath = ''/models'', RouteMethod = ''GET'', RoutePathItem = (),
         RouteOperation = \<lparr>DocOperationID = ''listModels'', HasRequestBody = False\<rparr>\<rparr>, [], listModels)"
    by (simp add: resolved_def routed_def delivered_def sample resolve_listModels)
  then show "\<exists>r route ps. resolved ?h ?req = Some (r, route, ps, listModels)" by blast
  show "first_failing (rest_guards sample_ext ?h ?req) = None"
    using read res
    by (simp add: rest_guards_def routed_def delivered_def sample HandlerFor_def listModels_def frozen_def
        CapabilityModels_def defaultMaxBodyBytes_def)
qed


end
