(* ===== verification/Fake_Session.thy ===== *)
theory Fake_Session
  imports Ws_Session
begin

section \<open>The scripted session: internal/testutil/fake_session.go\<close>

text \<open>
  A session that answers client events with fixed server events.  \<open>Handle\<close> puts them into one
  buffered channel and a goroutine moves them to the channel the WebSocket handler reads; \<open>Close\<close>
  closes a third channel that ends both.  What \<open>Handle\<close> sends is a function of the event; how the
  calls, the goroutine, the reader and \<open>Close\<close> interleave is a step relation.
\<close>

subsection \<open>Raw JSON members\<close>

text \<open>
  The bytes of the members of an object that \<open>json.Unmarshal\<close> has accepted, for a field of type
  \<open>json.RawMessage\<close>: a nested value up to its closing bracket, a string up to its closing quotation
  mark, any other literal up to a separator.
\<close>

fun raw_nested :: "nat \<Rightarrow> bool \<Rightarrow> string \<Rightarrow> string \<times> string" where
  "raw_nested depth within [] = ([], [])"
| "raw_nested depth within (c # s) =
     (if within then
        (if c = CHR 0x5C then
           (case s of [] \<Rightarrow> ([c], []) | d # r \<Rightarrow> apfst (\<lambda>raw. c # d # raw) (raw_nested depth True r))
         else apfst ((#) c) (raw_nested depth (c \<noteq> CHR 0x22) s))
      else if c = CHR ''['' \<or> c = CHR ''{'' then apfst ((#) c) (raw_nested (Suc depth) False s)
      else if c = CHR '']'' \<or> c = CHR ''}'' then
        (if depth \<le> 1 then ([c], s) else apfst ((#) c) (raw_nested (depth - 1) False s))
      else apfst ((#) c) (raw_nested depth (c = CHR 0x22) s))"

definition raw_literal :: "char \<Rightarrow> bool" where
  "raw_literal c \<longleftrightarrow> \<not> json_space c \<and> c \<notin> set '',]}:''"

definition raw_value :: "string \<Rightarrow> string \<times> string" where
  "raw_value s =
    (case s of
       [] \<Rightarrow> ([], [])
     | c # r \<Rightarrow>
         if c = CHR ''['' \<or> c = CHR ''{'' then raw_nested 0 False s
         else if c = CHR 0x22 then
           (case scan_string r of Some (raw, rest) \<Rightarrow> (c # raw @ [c], rest) | None \<Rightarrow> (s, []))
         else (takeWhile raw_literal s, dropWhile raw_literal s))"

lemma raw_nested_length: "length (snd (raw_nested depth within s)) \<le> length s"
proof (induction s arbitrary: depth within rule: length_induct)
  case (1 s)
  show ?case
  proof (cases s)
    case (Cons c r)
    have r: "length (snd (raw_nested d w r)) \<le> Suc (length r)" for d w
      using 1 Cons by (simp add: le_SucI)
    have "length (snd (raw_nested d w r')) \<le> Suc (Suc (length r'))" if "r = x # r'" for d w x r'
      using 1 Cons that by (simp add: le_SucI)
    then show ?thesis using r by (simp add: Cons split: list.split)
  qed simp
qed

lemma raw_value_length: "length (snd (raw_value s)) \<le> length s"
proof -
  have "length (dropWhile raw_literal s) \<le> length s" by (rule length_dropWhile_le)
  then show ?thesis
    using raw_nested_length[of 0 False s]
    by (auto simp: raw_value_def simp del: raw_nested.simps dropWhile.simps
        dest!: scan_string_length split: list.splits option.splits)
qed

definition skip_space :: "string \<Rightarrow> string" where
  "skip_space s = dropWhile json_space s"

function raw_members :: "string \<Rightarrow> (string \<times> string) list" where
  "raw_members s =
    (case raw_value (skip_space s) of
       (key, s1) \<Rightarrow>
         (case raw_value (skip_space (drop 1 (skip_space s1))) of
            (v, s2) \<Rightarrow>
              (case skip_space s2 of
                 [] \<Rightarrow> [(key, v)]
               | c # s3 \<Rightarrow> if c = CHR '','' then (key, v) # raw_members s3 else [(key, v)])))"
  by pat_completeness auto
termination
proof (relation "measure length")
  fix s key s1 v s2 d s3
  assume v: "(key, s1) = raw_value (skip_space s)" "(v, s2) = raw_value (skip_space (drop 1 (skip_space s1)))"
    and rest: "skip_space s2 = d # s3"
  have space: "length (skip_space u) \<le> length u" for u by (simp add: skip_space_def length_dropWhile_le)
  have "length (d # s3) \<le> length s2" using rest space[of s2] by simp
  also have "\<dots> \<le> length (skip_space (drop 1 (skip_space s1)))"
    using raw_value_length[of "skip_space (drop 1 (skip_space s1))"] v(2)[symmetric] by simp
  also have "\<dots> \<le> length s1"
    using space[of "drop 1 (skip_space s1)"] space[of s1] by simp
  also have "\<dots> \<le> length s" using raw_value_length[of "skip_space s"] v(1)[symmetric] space[of s] by simp
  finally show "(s3, s) \<in> measure length" by simp
qed simp

declare raw_members.simps [simp del]

definition object_members :: "string \<Rightarrow> (string \<times> string) list" where
  "object_members data =
    (case skip_space data of
       c # r \<Rightarrow> if c = CHR ''{'' \<and> (case skip_space r of d # _ \<Rightarrow> d \<noteq> CHR ''}'' | [] \<Rightarrow> False)
              then raw_members r else []
     | [] \<Rightarrow> [])"

definition decode_raw :: "string \<Rightarrow> (string \<times> string) list \<Rightarrow> string" where
  "decode_raw name members =
    fold (\<lambda>(key, v) field.
        case parse_json key of
          Some (JString k) \<Rightarrow> if EqualFold k name then v else field
        | _ \<Rightarrow> field) members []"

subsection \<open>What Handle sends\<close>

definition fake_event :: "string \<Rightarrow> string \<Rightarrow> event" where
  "fake_event eventType data = \<lparr>Type = eventType, ID = [], Data = data\<rparr>"

definition session_created :: event where
  "session_created = fake_event ''session.created'' (quoted
    ''{`type`:`session.created`,`event_id`:`event_test`,`session`:{`id`:`sess_test`,`object`:`realtime.session`,`type`:`realtime`}}'')"

definition session_updated :: event where
  "session_updated = fake_event ''session.updated'' (quoted
    ''{`type`:`session.updated`,`event_id`:`event_updated`,`session`:{`id`:`sess_test`,`object`:`realtime.session`,`type`:`realtime`}}'')"

definition response_done :: event where
  "response_done = fake_event ''response.done'' (quoted
    ''{`type`:`response.done`,`event_id`:`event_done`,`response`:{`id`:`resp_test`,`object`:`realtime.response`,`status`:`completed`,`status_details`:null,`output`:[]}}'')"

definition response_created :: event where
  "response_created = fake_event ''response.created'' (quoted
    ''{`type`:`response.created`,`sequence_number`:0,`response`:{`id`:`resp_test`,`object`:`response`,`status`:`in_progress`,`output`:[]}}'')"

definition response_completed :: event where
  "response_completed = fake_event ''response.completed'' (quoted
    ''{`type`:`response.completed`,`sequence_number`:1,`response`:{`id`:`resp_test`,`object`:`response`,`status`:`completed`,`output`:[]}}'')"

lemmas fake_event_defs =
  session_created_def session_updated_def response_done_def response_created_def
  response_completed_def fake_event_def

text \<open>The fixture that a client event may carry: \<open>None\<close> when \<open>json.Unmarshal\<close> returns an error.\<close>

definition decode_fixture :: "string \<Rightarrow> (string \<times> string) option" where
  "decode_fixture data =
    (case parse_json data of
       Some JNull \<Rightarrow> Some ([], [])
     | Some (JObject members) \<Rightarrow>
         map_option (\<lambda>t. (t, decode_raw ''fixture_server_payload'' (object_members data)))
           (decode_field ''fixture_server_type'' members)
     | _ \<Rightarrow> None)"

text \<open>The answers to a client event without a fixture.\<close>

definition fake_answers :: "session_surface \<Rightarrow> string \<Rightarrow> event list" where
  "fake_answers surface eventType =
    (if surface = SessionRealtime then
       (if eventType = ''session.update'' then [session_updated]
        else if eventType = ''response.create'' then [response_done]
        else [])
     else if eventType = ''response.create'' then [response_created, response_completed]
     else [])"

text \<open>The events that \<open>Handle\<close> sends, one after the other, unless one send fails.\<close>

definition fake_Handle :: "session_surface \<Rightarrow> event \<Rightarrow> event list" where
  "fake_Handle surface clientEvent =
    (case decode_fixture (Data clientEvent) of
       Some (serverType, serverPayload) \<Rightarrow>
         if serverType \<noteq> [] \<and> serverPayload \<noteq> [] then [fake_event serverType serverPayload]
         else fake_answers surface (Type clientEvent)
     | None \<Rightarrow> fake_answers surface (Type clientEvent))"

subsection \<open>The goroutines\<close>

text \<open>
  The channels and the goroutine of one session, a phase for every call of \<open>Handle\<close>, and a
  history: the events that entered the queue and those that the reader of \<open>Events\<close> took.  \<open>fs_done\<close>
  and \<open>fs_ended\<close> count how often \<open>done\<close> and \<open>events\<close> were closed, since a second close panics.
\<close>

datatype run_phase = Selecting | Forwarding event | RunReturned

datatype call_phase = NoCall | Sending "event list" | HandleReturned "go_error option"

record fake_session =
  fs_surface :: session_surface
  fs_queue :: "event list"
  fs_events :: "event list"
  fs_done :: nat
  fs_once :: bool
  fs_run :: run_phase
  fs_ended :: nat
  fs_calls :: "nat \<Rightarrow> call_phase"
  fs_sent :: "event list"
  fs_received :: "event list"

definition channel_capacity :: nat where
  "channel_capacity = 8"

definition fake_OpenSession :: "session_surface \<Rightarrow> fake_session" where
  "fake_OpenSession surface =
    (let first = (if surface = SessionRealtime then [session_created] else [])
     in \<lparr>fs_surface = surface, fs_queue = first, fs_events = [], fs_done = 0, fs_once = False,
         fs_run = Selecting, fs_ended = 0, fs_calls = (\<lambda>_. NoCall), fs_sent = first, fs_received = []\<rparr>)"

definition fs_init :: "fake_session \<Rightarrow> bool" where
  "fs_init s \<longleftrightarrow> (\<exists>surface. s = fake_OpenSession surface)"

definition next_send :: "event list \<Rightarrow> call_phase" where
  "next_send events = (if events = [] then HandleReturned None else Sending events)"

definition fs_Close :: "fake_session \<Rightarrow> fake_session" where
  "fs_Close s = (if fs_once s then s else s\<lparr>fs_once := True, fs_done := Suc (fs_done s)\<rparr>)"

definition finish_run :: "fake_session \<Rightarrow> fake_session" where
  "finish_run s = s\<lparr>fs_run := RunReturned, fs_ended := Suc (fs_ended s)\<rparr>"

text \<open>One step of a call of \<open>Handle\<close> (the first four rules: its beginning and the three cases of the
  select in \<open>send\<close>), of the goroutine \<open>run\<close> (four rules), of the reader, or a call of \<open>Close\<close>.\<close>

inductive fs_step :: "fake_session \<Rightarrow> fake_session \<Rightarrow> bool" where
  call: "fs_calls s i = NoCall \<Longrightarrow>
    fs_step s (s\<lparr>fs_calls := (fs_calls s)(i := next_send (fake_Handle (fs_surface s) clientEvent))\<rparr>)"
| enqueue: "fs_calls s i = Sending (v # vs) \<Longrightarrow> length (fs_queue s) < channel_capacity \<Longrightarrow>
    fs_step s (s\<lparr>fs_queue := fs_queue s @ [v], fs_sent := fs_sent s @ [v],
      fs_calls := (fs_calls s)(i := next_send vs)\<rparr>)"
| send_closed: "fs_calls s i = Sending vs \<Longrightarrow> 0 < fs_done s \<Longrightarrow>
    fs_step s (s\<lparr>fs_calls := (fs_calls s)(i := HandleReturned (Some ContextCanceled))\<rparr>)"
| send_context: "fs_calls s i = Sending vs \<Longrightarrow> err \<in> {ContextCanceled, DeadlineExceeded} \<Longrightarrow>
    fs_step s (s\<lparr>fs_calls := (fs_calls s)(i := HandleReturned (Some err))\<rparr>)"
| take: "fs_run s = Selecting \<Longrightarrow> fs_queue s = v # q \<Longrightarrow>
    fs_step s (s\<lparr>fs_queue := q, fs_run := Forwarding v\<rparr>)"
| run_closed: "fs_run s = Selecting \<Longrightarrow> 0 < fs_done s \<Longrightarrow> fs_step s (finish_run s)"
| forward: "fs_run s = Forwarding v \<Longrightarrow> length (fs_events s) < channel_capacity \<Longrightarrow>
    fs_step s (s\<lparr>fs_events := fs_events s @ [v], fs_run := Selecting\<rparr>)"
| forward_closed: "fs_run s = Forwarding v \<Longrightarrow> 0 < fs_done s \<Longrightarrow> fs_step s (finish_run s)"
| receive: "fs_events s = v # vs \<Longrightarrow>
    fs_step s (s\<lparr>fs_events := vs, fs_received := fs_received s @ [v]\<rparr>)"
| close: "fs_step s (fs_Close s)"

inductive_cases fs_stepE: "fs_step s t"

interpretation fs: transition_system fs_init fs_step
  by unfold_locales (auto simp: fs_init_def)

subsection \<open>The invariant of the session\<close>

text \<open>What is between the goroutine's two channels; after the goroutine has returned, at most one
  event that it still held is lost.\<close>

definition fs_ok :: "fake_session \<Rightarrow> bool" where
  "fs_ok s \<longleftrightarrow>
    length (fs_queue s) \<le> channel_capacity \<and> length (fs_events s) \<le> channel_capacity \<and>
    (\<exists>held. fs_sent s = fs_received s @ fs_events s @ held @ fs_queue s \<and>
      (case fs_run s of Selecting \<Rightarrow> held = [] | Forwarding v \<Rightarrow> held = [v] | RunReturned \<Rightarrow> length held \<le> 1)) \<and>
    fs_done s = (if fs_once s then 1 else 0) \<and>
    fs_ended s = (if fs_run s = RunReturned then 1 else 0) \<and>
    (fs_run s = RunReturned \<longrightarrow> 0 < fs_done s)"

lemma fs_ok_init: "fs_init s \<Longrightarrow> fs_ok s"
  by (auto simp: fs_init_def fake_OpenSession_def fs_ok_def channel_capacity_def Let_def)

lemma fs_ok_step: "fs_step s t \<Longrightarrow> fs_ok s \<Longrightarrow> fs_ok t"
  by (erule fs_stepE)
    (auto simp: fs_ok_def finish_run_def fs_Close_def split: run_phase.splits)

lemma fs_ok_reachable: "fs.reachable s \<Longrightarrow> fs_ok s"
  by (rule fs.invariant) (auto intro: fs_ok_init fs_ok_step)

subsection \<open>The specification: a bounded pipe\<close>

text \<open>What a client of the session may rely on: a bounded pipe that delivers in order and may lose an
  event only once it is closed.\<close>

record pipe =
  pipe_items :: "event list"
  pipe_delivered :: "event list"
  pipe_closed :: bool

inductive pipe_step :: "nat \<Rightarrow> pipe \<Rightarrow> pipe \<Rightarrow> bool" for capacity where
  put: "length (pipe_items p) < capacity \<Longrightarrow>
    pipe_step capacity p (p\<lparr>pipe_items := pipe_items p @ [v]\<rparr>)"
| get: "pipe_items p = v # vs \<Longrightarrow>
    pipe_step capacity p (p\<lparr>pipe_items := vs, pipe_delivered := pipe_delivered p @ [v]\<rparr>)"
| shut: "pipe_step capacity p (p\<lparr>pipe_closed := True\<rparr>)"
| lose: "pipe_closed p \<Longrightarrow> pipe_items p = vs @ v # ws \<Longrightarrow>
    pipe_step capacity p (p\<lparr>pipe_items := vs @ ws\<rparr>)"

definition in_flight :: "fake_session \<Rightarrow> event list" where
  "in_flight s = fs_events s @ (case fs_run s of Forwarding v \<Rightarrow> [v] | _ \<Rightarrow> []) @ fs_queue s"

definition pipe_of :: "fake_session \<Rightarrow> pipe" where
  "pipe_of s = \<lparr>pipe_items = in_flight s, pipe_delivered = fs_received s, pipe_closed = (0 < fs_done s)\<rparr>"

definition pipe_capacity :: nat where
  "pipe_capacity = 2 * channel_capacity + 1"

text \<open>An example session: \<open>session.created\<close> has been read, an update has been answered and is in the
  hands of the goroutine when the session is closed.\<close>

definition fs_sample :: "nat \<Rightarrow> fake_session" where
  "fs_sample n =
    (let s = fake_OpenSession SessionRealtime;
         s1 = s\<lparr>fs_queue := [], fs_run := Forwarding session_created\<rparr>;
         s2 = s1\<lparr>fs_events := [session_created], fs_run := Selecting\<rparr>;
         s3 = s2\<lparr>fs_events := [], fs_received := [session_created]\<rparr>;
         s4 = s3\<lparr>fs_calls := (fs_calls s3)(0 := Sending [session_updated])\<rparr>;
         s5 = s4\<lparr>fs_queue := [session_updated], fs_sent := [session_created, session_updated],
               fs_calls := (fs_calls s4)(0 := HandleReturned None)\<rparr>;
         s6 = s5\<lparr>fs_queue := [], fs_run := Forwarding session_updated\<rparr>;
         s7 = fs_Close s6
     in if n < 8 then [s, s1, s2, s3, s4, s5, s6, s7] ! n else finish_run s7)"

definition update_event :: event where
  "update_event = fake_event ''session.update'' (quoted ''{`type`:`session.update`}'')"

lemma fake_Handle_update: "fake_Handle SessionRealtime update_event = [session_updated]"
  by code_simp

lemma fs_sample_step: "n < 8 \<Longrightarrow> fs_step (fs_sample n) (fs_sample (Suc n))"
proof -
  note defs = fs_sample_def fake_OpenSession_def Let_def channel_capacity_def
  have "fs_step (fs_sample 0) (fs_sample 1)"
    using fs_step.take[of "fs_sample 0" session_created "[]"] by (simp add: defs)
  moreover have "fs_step (fs_sample 1) (fs_sample 2)"
    using fs_step.forward[of "fs_sample 1" session_created] by (simp add: defs)
  moreover have "fs_step (fs_sample 2) (fs_sample 3)"
    using fs_step.receive[of "fs_sample 2" session_created "[]"] by (simp add: defs)
  moreover have "fs_step (fs_sample 3) (fs_sample 4)"
    using fs_step.call[of "fs_sample 3" 0 update_event] fake_Handle_update by (simp add: defs next_send_def)
  moreover have "fs_step (fs_sample 4) (fs_sample 5)"
    using fs_step.enqueue[of "fs_sample 4" 0 session_updated "[]"] by (simp add: defs next_send_def)
  moreover have "fs_step (fs_sample 5) (fs_sample 6)"
    using fs_step.take[of "fs_sample 5" session_updated "[]"] by (simp add: defs)
  moreover have "fs_step (fs_sample 6) (fs_sample 7)"
    using fs_step.close[of "fs_sample 6"] by (simp add: defs)
  moreover have "fs_step (fs_sample 7) (fs_sample 8)"
    using fs_step.forward_closed[of "fs_sample 7" session_updated] by (simp add: defs fs_Close_def)
  moreover assume "n < 8"
  ultimately show ?thesis
    by (auto simp: less_Suc_eq eval_nat_numeral)
qed

end
