(* ===== verification/Fake_Session_Properties.thy ===== *)
theory Fake_Session_Properties
  imports Fake_Session
begin

section \<open>What the scripted session guarantees\<close>

text \<open>
  In every interleaving the session is a bounded pipe that keeps the order; closing it ends its
  goroutine and every blocked call; and what it answers passes the WebSocket handler.
\<close>

subsection \<open>The example\<close>

lemma fs_sample_reachable: "n \<le> 8 \<Longrightarrow> fs.reachable (fs_sample n)"
proof (induction n)
  case 0
  have "fs_init (fs_sample 0)" by (auto simp: fs_init_def fs_sample_def Let_def)
  then show ?case by (rule fs.reachable_init)
next
  case (Suc n)
  then show ?case using fs_sample_step[of n] fs.reachable_step by simp
qed

lemma fs_sample_after: "8 \<le> n \<Longrightarrow> fs_sample n = fs_sample 8"
  by (simp add: fs_sample_def Let_def)

subsection \<open>Order and loss\<close>

text \<open>C14: the session keeps the order and loses nothing while it is open.  In every reachable state,
  whatever the interleaving of calls, goroutine, reader and \<open>Close\<close>, the events delivered are a
  prefix of the events accepted, at most 17 are under way, and before \<open>Close\<close> exactly the events
  under way are missing.  No channel is closed twice, so nothing panics.\<close>

theorem fake_session_fifo:
  assumes "fs.reachable s"
  shows "(\<exists>rest. fs_sent s = fs_received s @ rest) \<and> length (in_flight s) \<le> pipe_capacity \<and>
    (fs_done s = 0 \<longrightarrow> fs_sent s = fs_received s @ in_flight s) \<and> fs_done s \<le> 1 \<and> fs_ended s \<le> 1"
  using fs_ok_reachable[OF assms]
  by (auto simp: fs_ok_def in_flight_def pipe_capacity_def split: run_phase.splits)

theorem fake_session_fifo_witness:
  "fs_received (fs_sample 7) = [session_created] \<and> in_flight (fs_sample 7) = [session_updated] \<and>
     (\<exists>rest. fs_sent (fs_sample 7) = fs_received (fs_sample 7) @ rest)"
  using fake_session_fifo[OF fs_sample_reachable[of 7]]
  by (simp add: fs_sample_def fs_Close_def fake_OpenSession_def in_flight_def Let_def)

text \<open>C18: the session implements a bounded pipe.  Every step of the session, seen through the events
  under way, the events delivered and whether it is closed, is a step of the pipe of capacity 17 or
  leaves the pipe as it is.\<close>

theorem fake_session_refines_pipe:
  assumes "fs.reachable s" and "fs_step s t"
  shows "pipe_of t = pipe_of s \<or> pipe_step pipe_capacity (pipe_of s) (pipe_of t)"
  using assms(2)
proof cases
  case (enqueue i v vs)
  have "length (in_flight s) < pipe_capacity"
    using fs_ok_reachable[OF assms(1)] enqueue(3)
    by (auto simp: fs_ok_def in_flight_def pipe_capacity_def split: run_phase.splits)
  then show ?thesis
    using pipe_step.put[of "pipe_of s" pipe_capacity v] enqueue
    by (simp add: pipe_of_def in_flight_def)
next
  case (receive v vs)
  then show ?thesis
    using pipe_step.get[of "pipe_of s" v "in_flight t" pipe_capacity]
    by (simp add: pipe_of_def in_flight_def)
next
  case (forward_closed v)
  then show ?thesis
    using pipe_step.lose[of "pipe_of s" "fs_events s" v "fs_queue s" pipe_capacity]
    by (simp add: pipe_of_def in_flight_def finish_run_def)
next
  case close
  then show ?thesis
    using pipe_step.shut[of pipe_capacity "pipe_of s"]
    by (auto simp: pipe_of_def in_flight_def fs_Close_def)
qed (simp_all add: pipe_of_def in_flight_def finish_run_def)

theorem fake_session_refines_pipe_witness:
  "pipe_step pipe_capacity (pipe_of (fs_sample 7)) (pipe_of (fs_sample 8))"
proof -
  have "fs.reachable (fs_sample 7)" "fs_step (fs_sample 7) (fs_sample 8)"
    using fs_sample_reachable[of 7] fs_sample_step[of 7] by simp_all
  then have "pipe_of (fs_sample 8) = pipe_of (fs_sample 7) \<or>
      pipe_step pipe_capacity (pipe_of (fs_sample 7)) (pipe_of (fs_sample 8))"
    by (rule fake_session_refines_pipe)
  moreover have "pipe_of (fs_sample 8) \<noteq> pipe_of (fs_sample 7)"
    by (simp add: pipe_of_def in_flight_def fs_sample_def finish_run_def fs_Close_def fake_OpenSession_def Let_def)
  ultimately show ?thesis by simp
qed

subsection \<open>Runs\<close>

text \<open>A run: every state follows from the one before by a step or is the same.\<close>

definition fs_runs :: "(nat \<Rightarrow> fake_session) \<Rightarrow> bool" where
  "fs_runs r \<longleftrightarrow> fs.reachable (r 0) \<and> (\<forall>n. r (Suc n) = r n \<or> fs_step (r n) (r (Suc n)))"

lemma fs_runs_reachable: "fs_runs r \<Longrightarrow> fs.reachable (r n)"
  by (induction n) (auto simp: fs_runs_def dest: fs.reachable_step, metis fs.reachable_step)

lemma fs_done_step: "fs_step s t \<Longrightarrow> 0 < fs_done s \<Longrightarrow> 0 < fs_done t"
  by (erule fs_stepE) (auto simp: finish_run_def fs_Close_def)

lemma fs_returned_step: "fs_step s t \<Longrightarrow> fs_run s = RunReturned \<Longrightarrow> fs_run t = RunReturned"
  by (erule fs_stepE) (auto simp: finish_run_def fs_Close_def)

text \<open>A fact that every step keeps holds from then on in a run.\<close>

lemma fs_runs_stable:
  assumes "fs_runs r" and "\<And>s t. fs_step s t \<Longrightarrow> P s \<Longrightarrow> P t" and "P (r n)" and "n \<le> m"
  shows "P (r m)"
  using assms(4)
proof (induction m rule: dec_induct)
  case (step m)
  then show ?case using assms(1) assms(2)[of "r m" "r (Suc m)"] unfolding fs_runs_def by metis
qed (rule assms(3))

text \<open>The first change of a quantity between two states.\<close>

lemma first_change:
  assumes "f m \<noteq> f n" and "(n::nat) \<le> m"
  obtains j where "n \<le> j" "f j = f n" "f (Suc j) \<noteq> f n"
proof -
  have "\<exists>j\<ge>n. f j = f n \<and> f (Suc j) \<noteq> f n"
    using assms(2,1)
  proof (induction m rule: dec_induct)
    case (step m)
    then show ?case by (cases "f m = f n") auto
  qed simp
  then show thesis using that by blast
qed

subsection \<open>Closing ends the calls\<close>

lemma call_progress:
  assumes "fs_step s t" and "fs_calls s i = Sending vs" and "fs_calls t i \<noteq> fs_calls s i"
  shows "(\<exists>err. fs_calls t i = HandleReturned err) \<or>
    (\<exists>ws. fs_calls t i = Sending ws \<and> length ws < length vs)"
  using assms
  by (cases rule: fs_step.cases) (auto simp: next_send_def finish_run_def fs_Close_def split: if_splits)

lemma returned_stays:
  "fs_step s t \<Longrightarrow> fs_calls s i = HandleReturned err \<Longrightarrow> fs_calls t i = HandleReturned err"
  by (erule fs_stepE) (auto simp: finish_run_def fs_Close_def)

lemma fs_runs_change:
  assumes "fs_runs r" and "n \<le> m" and "f (r m) \<noteq> f (r n)"
  obtains j where "n \<le> j" "f (r j) = f (r n)" "f (r (Suc j)) \<noteq> f (r j)" "fs_step (r j) (r (Suc j))"
proof -
  obtain j where j: "n \<le> j" "f (r j) = f (r n)" "f (r (Suc j)) \<noteq> f (r n)"
    using first_change[of "\<lambda>k. f (r k)" m n] assms(2,3) by metis
  moreover from this have "fs_step (r j) (r (Suc j))" using assms(1) unfolding fs_runs_def by metis
  ultimately show thesis using that by metis
qed

text \<open>Closing the session ends every call of \<open>Handle\<close>.  In every run in which a call that could
  proceed is not ignored forever, a call that is sending when the session is closed returns,
  although nobody reads from the session.\<close>

theorem fake_session_close_unblocks:
  assumes "fs_runs r"
    and "\<And>n. 0 < fs_done (r n) \<Longrightarrow> (\<exists>vs. fs_calls (r n) i = Sending vs) \<Longrightarrow>
      \<exists>m\<ge>n. fs_calls (r m) i \<noteq> fs_calls (r n) i"
    and "fs_calls (r n) i = Sending vs" and "0 < fs_done (r n)"
  shows "\<exists>m\<ge>n. \<exists>err. fs_calls (r m) i = HandleReturned err"
  using assms(3,4)
proof (induction vs arbitrary: n rule: length_induct)
  case (1 vs)
  obtain m where "n \<le> m" "fs_calls (r m) i \<noteq> fs_calls (r n) i" using assms(2)[of n] 1 by blast
  then obtain j where j: "n \<le> j" "fs_calls (r j) i = fs_calls (r n) i"
    "fs_calls (r (Suc j)) i \<noteq> fs_calls (r j) i" "fs_step (r j) (r (Suc j))"
    using fs_runs_change[OF assms(1), of n m "\<lambda>s. fs_calls s i"] by metis
  have "0 < fs_done (r (Suc j))"
    using fs_runs_stable[OF assms(1), of "\<lambda>s. 0 < fs_done s" n "Suc j"] fs_done_step 1 j(1) by simp
  moreover from call_progress[OF j(4) _ j(3), of vs] j(2) 1(2)
  have "(\<exists>err. fs_calls (r (Suc j)) i = HandleReturned err) \<or>
      (\<exists>ws. fs_calls (r (Suc j)) i = Sending ws \<and> length ws < length vs)" by simp
  moreover have "n \<le> Suc j" using j(1) by simp
  ultimately show ?case using 1(1) le_trans by metis
qed

text \<open>A run in which the session is closed while a call is about to send.\<close>

definition fs_closing :: "nat \<Rightarrow> fake_session" where
  "fs_closing n =
    (let s = fs_sample 4; s1 = fs_Close s;
         s2 = s1\<lparr>fs_calls := (fs_calls s1)(0 := HandleReturned (Some ContextCanceled))\<rparr>
     in if n = 0 then s else if n = 1 then s1 else if n = 2 then s2 else finish_run s2)"

lemmas fs_closing_defs = fs_closing_def fs_sample_def fs_Close_def finish_run_def fake_OpenSession_def Let_def

lemma fs_closing_step: "fs_closing (Suc n) = fs_closing n \<or> fs_step (fs_closing n) (fs_closing (Suc n))"
proof -
  have 0: "fs_step (fs_closing 0) (fs_closing 1)"
    using fs_step.close[of "fs_closing 0"] by (simp add: fs_closing_def)
  have 1: "fs_step (fs_closing 1) (fs_closing 2)"
    using fs_step.send_closed[of "fs_closing 1" 0 "[session_updated]"] by (simp add: fs_closing_defs)
  have 2: "fs_step (fs_closing 2) (fs_closing 3)"
    using fs_step.run_closed[of "fs_closing 2"] by (simp add: fs_closing_defs)
  consider "n = 0" | "n = 1" | "n = 2" | "3 \<le> n" by linarith
  then show ?thesis
  proof cases
    case 4
    then show ?thesis by (simp add: fs_closing_def)
  qed (use 0 1 2 in \<open>simp_all add: numeral_2_eq_2 numeral_3_eq_3\<close>)
qed

lemma fs_closing_runs: "fs_runs fs_closing"
  using fs_closing_step fs_sample_reachable[of 4] by (simp add: fs_runs_def fs_closing_def)

theorem fake_session_close_unblocks_witness:
  "\<exists>m\<ge>1. \<exists>err. fs_calls (fs_closing m) 0 = HandleReturned err"
proof (rule fake_session_close_unblocks[OF fs_closing_runs])
  fix n
  assume "\<exists>vs. fs_calls (fs_closing n) 0 = Sending vs"
  moreover have "fs_calls (fs_closing (n + 2)) 0 = HandleReturned (Some ContextCanceled)"
    by (simp add: fs_closing_defs)
  ultimately show "\<exists>m\<ge>n. fs_calls (fs_closing m) 0 \<noteq> fs_calls (fs_closing n) 0"
    by (intro exI[of _ "n + 2"]) auto
qed (simp_all add: fs_closing_defs)

subsection \<open>Closing ends the goroutine\<close>

definition busy :: "fake_session \<Rightarrow> nat set" where
  "busy s = {i. fs_calls s i \<noteq> NoCall}"

definition unsent :: "call_phase \<Rightarrow> nat" where
  "unsent c = (case c of Sending vs \<Rightarrow> length vs | _ \<Rightarrow> 0)"

text \<open>How many steps the goroutine can take before it has to stop.\<close>

definition work_left :: "nat set \<Rightarrow> fake_session \<Rightarrow> nat" where
  "work_left A s = 2 * ((\<Sum>i\<in>A. unsent (fs_calls s i)) + length (fs_queue s)) +
    (case fs_run s of Forwarding v \<Rightarrow> 1 | _ \<Rightarrow> 0)"

lemma busy_iff: "i \<in> busy s \<longleftrightarrow> fs_calls s i \<noteq> NoCall"
  by (simp add: busy_def)

lemma one_call_steps: "fs_step s t \<Longrightarrow> \<exists>i c. fs_calls t = (fs_calls s)(i := c)"
  by (cases rule: fs_step.cases)
    (auto simp: finish_run_def fs_Close_def, (metis fun_upd_triv)+)

lemma finite_busy: "fs.reachable s \<Longrightarrow> finite (busy s)"
proof (rule fs.invariant)
  show "fs_init s \<Longrightarrow> finite (busy s)" for s
    by (auto simp: fs_init_def fake_OpenSession_def busy_def Let_def)
next
  fix s t
  assume "finite (busy s)" "fs_step s t"
  moreover obtain i c where "fs_calls t = (fs_calls s)(i := c)"
    using one_call_steps[OF \<open>fs_step s t\<close>] by blast
  then have "busy t \<subseteq> insert i (busy s)" by (auto simp: busy_def)
  ultimately show "finite (busy t)" using finite_subset by blast
qed assumption

lemma sum_unsent_upd:
  assumes "finite A" and "i \<in> A"
  shows "(\<Sum>k\<in>A. unsent ((calls(i := c)) k)) + unsent (calls i) = (\<Sum>k\<in>A. unsent (calls k)) + unsent c"
  using assms by (simp add: sum.remove[of A i])

lemma work_step:
  assumes "fs_step s t" and "finite A" and "busy s = A" and "busy t = A"
  shows "work_left A t \<le> work_left A s \<and>
    (fs_run t \<noteq> fs_run s \<longrightarrow> fs_run t = RunReturned \<or> work_left A t < work_left A s)"
  using assms(1)
proof cases
  case (enqueue i v vs)
  then have "i \<in> A" unfolding assms(3)[symmetric] by (simp add: busy_iff)
  from sum_unsent_upd[OF assms(2) this, of "fs_calls s" "next_send vs"] show ?thesis
    using enqueue by (simp add: work_left_def unsent_def next_send_def split: if_splits)
next
  case (call i clientEvent)
  then have "i \<notin> busy s" "i \<in> busy t" by (auto simp: busy_iff next_send_def)
  then show ?thesis using assms by simp
next
  case (send_closed i vs)
  then have "i \<in> A" unfolding assms(3)[symmetric] by (simp add: busy_iff)
  from sum_unsent_upd[OF assms(2) this, of "fs_calls s" "HandleReturned (Some ContextCanceled)"] show ?thesis
    using send_closed by (simp add: work_left_def unsent_def)
next
  case (send_context i vs err)
  then have "i \<in> A" unfolding assms(3)[symmetric] by (simp add: busy_iff)
  from sum_unsent_upd[OF assms(2) this, of "fs_calls s" "HandleReturned (Some err)"] show ?thesis
    using send_context by (simp add: work_left_def unsent_def)
qed (simp_all add: work_left_def finish_run_def fs_Close_def)

text \<open>C25: closing the session ends its stream.  In every run in which, after \<open>Close\<close>, no new call of
  \<open>Handle\<close> begins and the goroutine is not ignored forever while it can proceed, the goroutine
  returns and closes the channel of \<open>Events\<close>, exactly once, however its selects choose between the
  queue and \<open>done\<close> and although nobody reads.\<close>

theorem fake_session_close_ends_stream:
  assumes "fs_runs r" and "0 < fs_done (r n)"
    and "\<And>m. n \<le> m \<Longrightarrow> busy (r m) = busy (r n)"
    and "\<And>m. n \<le> m \<Longrightarrow> fs_run (r m) \<noteq> RunReturned \<Longrightarrow> \<exists>k\<ge>m. fs_run (r k) \<noteq> fs_run (r m)"
  shows "\<exists>m\<ge>n. \<forall>k\<ge>m. fs_run (r k) = RunReturned \<and> fs_ended (r k) = 1"
proof -
  let ?A = "busy (r n)"
  have finite: "finite ?A" using finite_busy[OF fs_runs_reachable[OF assms(1)]] .
  have step: "r (Suc m) = r m \<or> fs_step (r m) (r (Suc m))" for m using assms(1) by (simp add: fs_runs_def)
  have less: "work_left ?A (r (Suc m)) \<le> work_left ?A (r m)" if "n \<le> m" for m
    using step[of m] work_step[OF _ finite, of "r m" "r (Suc m)"] assms(3)[of m] assms(3)[of "Suc m"] that by auto
  have mono: "work_left ?A (r k) \<le> work_left ?A (r m)" if "n \<le> m" "m \<le> k" for m k
    using that(2) by (induction k rule: dec_induct) (use less that(1) in \<open>auto intro: le_trans\<close>)
  have "\<exists>k\<ge>m. fs_run (r k) = RunReturned" if "n \<le> m" for m
    using that
  proof (induction "work_left ?A (r m)" arbitrary: m rule: less_induct)
    case less
    show ?case
    proof (cases "fs_run (r m) = RunReturned")
      case False
      then obtain k where "m \<le> k" "fs_run (r k) \<noteq> fs_run (r m)" using assms(4) less.prems by blast
      then obtain j where j: "m \<le> j" "fs_run (r (Suc j)) \<noteq> fs_run (r j)" "fs_step (r j) (r (Suc j))"
        using fs_runs_change[OF assms(1), of m k fs_run] by metis
      from work_step[OF j(3) finite] j(1,2) less.prems assms(3)[of j] assms(3)[of "Suc j"]
      have "fs_run (r (Suc j)) = RunReturned \<or> work_left ?A (r (Suc j)) < work_left ?A (r j)" by auto
      then show ?thesis
      proof
        assume "work_left ?A (r (Suc j)) < work_left ?A (r j)"
        then have "work_left ?A (r (Suc j)) < work_left ?A (r m)"
          using mono[OF less.prems j(1)] by simp
        from less.hyps[OF this] j(1) less.prems show ?thesis
          by (meson le_SucI le_trans)
      qed (use j(1) le_SucI in blast)
    qed auto
  qed
  then obtain m where m: "n \<le> m" "fs_run (r m) = RunReturned" by blast
  have "fs_run (r k) = RunReturned \<and> fs_ended (r k) = 1" if "m \<le> k" for k
  proof -
    have "fs_run (r k) = RunReturned"
      using fs_runs_stable[OF assms(1), of "\<lambda>s. fs_run s = RunReturned" m k] fs_returned_step m(2) that by simp
    then show ?thesis
      using fs_ok_reachable[OF fs_runs_reachable[OF assms(1)], of k] by (simp add: fs_ok_def)
  qed
  then show ?thesis using m(1) by blast
qed

theorem fake_session_close_ends_stream_witness:
  "\<exists>m\<ge>1. \<forall>k\<ge>m. fs_run (fs_closing k) = RunReturned \<and> fs_ended (fs_closing k) = 1"
proof (rule fake_session_close_ends_stream[OF fs_closing_runs])
  fix m :: nat
  show "1 \<le> m \<Longrightarrow> busy (fs_closing m) = busy (fs_closing 1)"
    by (auto simp: busy_def fs_closing_defs)
  assume "fs_run (fs_closing m) \<noteq> RunReturned"
  moreover have "fs_run (fs_closing (m + 3)) = RunReturned" by (simp add: fs_closing_defs)
  ultimately show "\<exists>k\<ge>m. fs_run (fs_closing k) \<noteq> fs_run (fs_closing m)"
    by (intro exI[of _ "m + 3"]) auto
qed (simp add: fs_closing_defs)

subsection \<open>With the WebSocket handler\<close>

text \<open>The frame the handler sends for an event.\<close>

definition frame_of :: "event \<Rightarrow> string" where
  "frame_of event = (case encodeEvent event of Some (Inr data) \<Rightarrow> data | _ \<Rightarrow> [])"

definition fake_server_events :: "session_surface \<Rightarrow> event list" where
  "fake_server_events surface =
    (if surface = SessionRealtime then [session_created, session_updated, response_done]
     else [response_created, response_completed])"

text \<open>An event whose payload is an object with the event's own type, and so can be sent.\<close>

definition well_typed :: "event \<Rightarrow> bool" where
  "well_typed e \<longleftrightarrow> TrimSpace (Type e) \<noteq> [] \<and> Data e \<noteq> [] \<and>
    (case Unmarshal_map (Data e) of
       Some (Some ms) \<Rightarrow> map_of ms ''type'' = Some (JString (Type e))
     | _ \<Rightarrow> False)"

lemma well_typed_encodes: "well_typed e \<Longrightarrow> \<exists>data. encodeEvent e = Some (Inr data)"
  by (auto simp: well_typed_def encodeEvent_def Let_def split: option.splits)

lemma session_created_well_typed: "well_typed session_created" by code_simp
lemma session_updated_well_typed: "well_typed session_updated" by code_simp
lemma response_done_well_typed: "well_typed response_done" by code_simp
lemma response_created_well_typed: "well_typed response_created" by code_simp
lemma response_completed_well_typed: "well_typed response_completed" by code_simp

lemmas fake_events_well_typed =
  session_created_well_typed session_updated_well_typed response_done_well_typed
  response_created_well_typed response_completed_well_typed

lemma fake_events_allowed:
  "v \<in> set (fake_server_events surface) \<Longrightarrow> surface = SessionRealtime \<or> surface = SessionResponsesSocket \<Longrightarrow>
     eventAllowed surface ''server'' (Type v)"
  by (subst eventAllowed_frozen)
    (auto simp: fake_server_events_def frozen_event_def profile_surfaces_def fake_event_defs
      Events_def event_tables image_iff split: if_splits)

lemma fake_server_events_well_typed: "v \<in> set (fake_server_events surface) \<Longrightarrow> well_typed v"
  using fake_events_well_typed by (auto simp: fake_server_events_def split: if_splits)

lemma writeLoop_sends:
  assumes "list_all (\<lambda>v. eventAllowed surface ''server'' (Type v) \<and> well_typed v) events"
  shows "writeLoop surface (map (\<lambda>v. SessionEvent v None) events @ [SessionEventsClosed]) =
    (map frame_of events, WriteReturned None)"
  using assms by (induction events) (auto simp: frame_of_def dest!: well_typed_encodes)

text \<open>Only unscripted events: no client event that was handled carries a fixture.\<close>

definition unscripted :: "event \<Rightarrow> bool" where
  "unscripted clientEvent \<longleftrightarrow>
    \<not> (\<exists>t d. decode_fixture (Data clientEvent) = Some (t, d) \<and> t \<noteq> [] \<and> d \<noteq> [])"

lemma fake_Handle_unscripted:
  "unscripted clientEvent \<Longrightarrow> set (fake_Handle surface clientEvent) \<subseteq> set (fake_server_events surface)"
  by (auto simp: fake_Handle_def fake_answers_def unscripted_def fake_server_events_def
      split: option.splits if_splits)

text \<open>C34: the fake session speaks the protocol.  Whatever client events without fixtures an OpenAI
  session handles, in whatever order, the WebSocket handler's write loop accepts every answer: it
  sends one frame for each event, in order, and ends without an error when the session ends.\<close>

theorem fake_session_speaks_profile:
  assumes "surface = SessionRealtime \<or> surface = SessionResponsesSocket" and "list_all unscripted clientEvents"
  shows "let events = fs_sent (fake_OpenSession surface) @ concat (map (fake_Handle surface) clientEvents)
    in writeLoop surface (map (\<lambda>v. SessionEvent v None) events @ [SessionEventsClosed]) =
         (map frame_of events, WriteReturned None)"
proof -
  have "set (fs_sent (fake_OpenSession surface)) \<subseteq> set (fake_server_events surface)"
    by (simp add: fake_OpenSession_def fake_server_events_def Let_def)
  moreover have "set (concat (map (fake_Handle surface) clientEvents)) \<subseteq> set (fake_server_events surface)"
    using assms(2) fake_Handle_unscripted by (fastforce simp: list_all_iff)
  ultimately have "list_all (\<lambda>v. eventAllowed surface ''server'' (Type v) \<and> well_typed v)
      (fs_sent (fake_OpenSession surface) @ concat (map (fake_Handle surface) clientEvents))"
    using fake_events_allowed[OF _ assms(1)] fake_server_events_well_typed
    by (fastforce simp: list_all_iff)
  then show ?thesis unfolding Let_def by (rule writeLoop_sends)
qed

theorem fake_session_speaks_profile_witness:
  "writeLoop SessionRealtime
     [SessionEvent session_created None, SessionEvent session_updated None, SessionEventsClosed] =
   ([frame_of session_created, frame_of session_updated], WriteReturned None)"
proof -
  have "unscripted update_event"
  proof -
    have "decode_fixture (Data update_event) = Some ([], [])" by code_simp
    then show ?thesis by (simp add: unscripted_def)
  qed
  then show ?thesis
    using fake_session_speaks_profile[of SessionRealtime "[update_event]"]
    by (simp add: fake_OpenSession_def fake_Handle_update Let_def del: writeLoop.simps)
qed

end
