(* ===== verification/Fake_Backend.thy ===== *)
theory Fake_Backend
  imports Registry Backend_Types Json_Parse Go_Sort Go_Base64 Ws_Codec
begin

section \<open>The scripted backend: internal/testutil/fake_backend.go, fixtures.go, scripted_stream.go\<close>

text \<open>
  A backend that records every request and answers from fixtures that name the request they expect.
  Decoding a multipart body is the work of \<open>mime\<close> and \<open>mime/multipart\<close>; here it comes in as
  functions from the content type to the boundary and from body and boundary to the parts.  The two
  locked sections of \<open>Handle\<close> are folded into one state change, since nothing between them depends
  on the state.
\<close>

subsection \<open>Scripted streams (scripted_stream.go)\<close>

text \<open>The buffered channel of a stream: the events it holds and whether it is closed.\<close>

record scripted_stream =
  ss_events :: "event list"
  ss_closed :: bool

definition NewScriptedStream :: "event list \<Rightarrow> scripted_stream" where
  "NewScriptedStream events =
    (let stream = fold (\<lambda>e stream. stream\<lparr>ss_events := ss_events stream @ [e]\<rparr>) events
           \<lparr>ss_events = [], ss_closed = False\<rparr>
     in stream\<lparr>ss_closed := True\<rparr>)"

definition ScriptedStream_Close :: "scripted_stream \<Rightarrow> scripted_stream" where
  "ScriptedStream_Close stream = stream"

type_synonym fake_response = "(string, scripted_stream) response"

definition empty_response :: fake_response where
  "empty_response =
    \<lparr>StatusCode = 0, ResponseMetadata = [], ResponseMediaType = [], ResponseJSON = [],
     Body = NilInterface, Stream = NilInterface\<rparr>"

subsection \<open>Fixtures (fixtures.go)\<close>

definition caseHeader :: string where
  "caseHeader = ''X-Ai-Shell-Case''"

record semantic_fixture =
  fx_operation :: string
  fx_capability :: string
  fx_request_media :: string
  fx_parameters :: "(string, string) gomap"
  fx_body_json :: string
  fx_body_fields :: "string list"
  fx_response_status :: int
  fx_response_media :: string
  fx_response_body :: string

datatype fixture_error =
    FixtureRejected string
  | UnknownCase string
  | WrongOperation string capability string
  | WrongMedia string string string
  | WrongParameterCount string
  | WrongParameter string string
  | WrongBody string string string
  | BadContentType string string
  | MultipartBroken string
  | EmptyField string string
  | MissingField string string
  | EmptyBinary string
  | BadResponseEncoding string
  | BadResponseJSON string

definition firstHeader :: "request \<Rightarrow> string \<Rightarrow> string" where
  "firstHeader request name =
    (case map_of (Extensions (Metadata request)) name of Some (v # _) \<Rightarrow> v | _ \<Rightarrow> [])"

text \<open>\<open>reflect.DeepEqual\<close> of decoded JSON: maps are equal whatever their order, and a \<open>float64\<close>, held
  as its shortest text, equals another one with that text or if both are zeros.\<close>

function deep_equal :: "json \<Rightarrow> json \<Rightarrow> bool" where
  "deep_equal JNull v = (v = JNull)"
| "deep_equal (JBool a) v = (v = JBool a)"
| "deep_equal (JNumber a) v =
     (case v of JNumber b \<Rightarrow> a = b \<or> (a \<in> {''0'', ''-0''} \<and> b \<in> {''0'', ''-0''}) | _ \<Rightarrow> False)"
| "deep_equal (JString a) v = (v = JString a)"
| "deep_equal (JArray as) v =
     (case v of
        JArray bs \<Rightarrow> length as = length bs \<and> list_all (\<lambda>(a, b). deep_equal a b) (zip as bs)
      | _ \<Rightarrow> False)"
| "deep_equal (JObject ms) v =
     (case v of
        JObject ns \<Rightarrow>
          length ms = length ns \<and>
          list_all (\<lambda>(k, a). case map_of ns k of Some b \<Rightarrow> deep_equal a b | None \<Rightarrow> False) ms
      | _ \<Rightarrow> False)"
  by pat_completeness auto
termination
proof (relation "measure (size \<circ> fst)")
  fix as bs :: "json list" and x a b
  assume "x \<in> set (zip as bs)" "(a, b) = x"
  then have "a \<in> set as" by (auto dest: set_zip_leftD)
  then show "((a, b), JArray as, v) \<in> measure (size \<circ> fst)" for v
    using size_list_estimation'[of a as "size a" size] by simp
next
  fix ms :: "(string \<times> json) list" and x k a b
  assume "x \<in> set ms" "(k, a) = x"
  then have "size a \<le> size_list (size_prod (\<lambda>_. 0) size) ms"
    using size_list_estimation'[of x ms "size a" "size_prod (\<lambda>_. 0) size"] by auto
  then show "((a, b), JObject ms, v) \<in> measure (size \<circ> fst)" for v by simp
qed simp

definition same_json :: "string \<Rightarrow> string \<Rightarrow> bool" where
  "same_json want got =
    (case (Unmarshal_any want, Unmarshal_any got) of
       (Some v, Some w) \<Rightarrow> deep_equal v w
     | _ \<Rightarrow> False)"

text \<open>\<open>json.Unmarshal\<close> into an empty string variable; a null leaves it empty.\<close>

definition Unmarshal_string :: "string \<Rightarrow> string option" where
  "Unmarshal_string data =
    (case parse_json data of Some (JString s) \<Rightarrow> Some s | Some JNull \<Rightarrow> Some [] | _ \<Rightarrow> None)"

definition parameter_bytes :: "(string, string) gomap \<Rightarrow> string \<Rightarrow> string" where
  "parameter_bytes params name = (case map_of params name of Some v \<Rightarrow> v | None \<Rightarrow> [])"

fun check_parameters :: "string \<Rightarrow> (string, string) gomap \<Rightarrow> (string, string) gomap \<Rightarrow> fixture_error option" where
  "check_parameters case_name params [] = None"
| "check_parameters case_name params ((name, want) # rest) =
     (if Unmarshal_string (parameter_bytes params name) \<noteq> Some want then Some (WrongParameter case_name name)
      else check_parameters case_name params rest)"

definition assertParameters :: "semantic_fixture \<Rightarrow> request \<Rightarrow> fixture_error option" where
  "assertParameters f request =
    (if length (Parameters request) \<noteq> length (fx_parameters f) then
       Some (WrongParameterCount (fx_operation f))
     else check_parameters (fx_operation f) (Parameters request) (fx_parameters f))"

text \<open>A part as its form name and what reading it gives (\<open>None\<close> for an error); \<open>ml_parts\<close> also says
  whether the parts end with the end of the input.\<close>

record multipart_library =
  ml_boundary :: "string \<Rightarrow> string option"
  ml_parts :: "string \<Rightarrow> string \<Rightarrow> (string \<times> string option) list \<times> bool"

definition field_name :: "string \<Rightarrow> string" where
  "field_name form_name = fst (Cut (TrimSuffix form_name ''[]'') (CHR ''[''))"

fun read_parts ::
  "string \<Rightarrow> (string \<times> string option) list \<Rightarrow> bool \<Rightarrow> string list \<Rightarrow> fixture_error + string list" where
  "read_parts case_name [] at_end seen = (if at_end then Inr seen else Inl (MultipartBroken case_name))"
| "read_parts case_name ((form_name, data) # rest) at_end seen =
     (let name = field_name form_name in
      if data = None \<or> data = Some [] then Inl (EmptyField case_name name)
      else read_parts case_name rest at_end (name # seen))"

fun missing_field :: "string \<Rightarrow> string list \<Rightarrow> string list \<Rightarrow> fixture_error option" where
  "missing_field case_name seen [] = None"
| "missing_field case_name seen (name # names) =
     (if name \<notin> set seen then Some (MissingField case_name name) else missing_field case_name seen names)"

definition assertMultipartFields ::
  "multipart_library \<Rightarrow> semantic_fixture \<Rightarrow> request \<Rightarrow> fixture_error option" where
  "assertMultipartFields lib f request =
    (let contentType = firstHeader request ''Content-Type'' in
     case ml_boundary lib contentType of
       None \<Rightarrow> Some (BadContentType (fx_operation f) contentType)
     | Some boundary \<Rightarrow>
         if boundary = [] then Some (BadContentType (fx_operation f) contentType)
         else
           (case ml_parts lib (Bytes (Input request)) boundary of
              (parts, at_end) \<Rightarrow>
                (case read_parts (fx_operation f) parts at_end [] of
                   Inl err \<Rightarrow> Some err
                 | Inr seen \<Rightarrow> missing_field (fx_operation f) seen (sort_Strings (fx_body_fields f)))))"

definition assertRequest ::
  "multipart_library \<Rightarrow> semantic_fixture \<Rightarrow> request \<Rightarrow> fixture_error option" where
  "assertRequest lib f request =
    (let name = fx_operation f; input = Input request in
     if Operation request \<noteq> fx_operation f \<or> Capability request \<noteq> fx_capability f then
       Some (WrongOperation name (Capability request) (Operation request))
     else if MediaType input \<noteq> fx_request_media f then
       Some (WrongMedia name (MediaType input) (fx_request_media f))
     else
       (case assertParameters f request of
          Some err \<Rightarrow> Some err
        | None \<Rightarrow>
            if fx_body_json f \<noteq> [] \<and> \<not> same_json (fx_body_json f) (Bytes input) then
              Some (WrongBody name (Bytes input) (fx_body_json f))
            else
              (case (if fx_body_fields f \<noteq> [] then assertMultipartFields lib f request else None) of
                 Some err \<Rightarrow> Some err
               | None \<Rightarrow>
                   if fx_request_media f \<noteq> [] \<and> \<not> Contains (fx_request_media f) ''json'' \<and>
                      fx_request_media f \<noteq> ''multipart/form-data'' \<and> Bytes input = []
                   then Some (EmptyBinary name) else None)))"

text \<open>A body is the \<open>io.NopCloser\<close> of a reader over the bytes.\<close>

definition fixture_response :: "semantic_fixture \<Rightarrow> fixture_error + fake_response" where
  "fixture_response f =
    (case DecodeString (fx_response_body f) of
       None \<Rightarrow> Inl (BadResponseEncoding (fx_operation f))
     | Some body \<Rightarrow>
         let response = empty_response\<lparr>StatusCode := fx_response_status f, ResponseMediaType := fx_response_media f\<rparr>
         in if body = [] then Inr response
            else if Contains (fx_response_media f) ''json'' then
              (if parse_json body = None then Inl (BadResponseJSON (fx_operation f))
               else Inr (response\<lparr>ResponseJSON := body\<rparr>))
            else Inr (response\<lparr>Body := Dynamic KStruct False body\<rparr>))"

subsection \<open>The backend (fake_backend.go)\<close>

record fake_backend =
  fb_requests :: "request list"
  fb_fixtures :: "(string, semantic_fixture) gomap"
  fb_errors :: "fixture_error list"

fun install_fixtures ::
  "semantic_fixture list \<Rightarrow> (string, semantic_fixture) gomap \<Rightarrow> fixture_error + (string, semantic_fixture) gomap" where
  "install_fixtures [] installed = Inr installed"
| "install_fixtures (fixture # rest) installed =
     (if fx_operation fixture = [] \<or>
         (case map_of installed (fx_operation fixture) of Some f \<Rightarrow> fx_operation f \<noteq> [] | None \<Rightarrow> False)
      then Inl (FixtureRejected (fx_operation fixture))
      else install_fixtures rest (AList.update (fx_operation fixture) fixture installed))"

definition NewFakeBackend :: "semantic_fixture list \<Rightarrow> fixture_error + fake_backend" where
  "NewFakeBackend fixtures =
    (case install_fixtures fixtures [] of
       Inl err \<Rightarrow> Inl err
     | Inr installed \<Rightarrow> Inr \<lparr>fb_requests = [], fb_fixtures = installed, fb_errors = []\<rparr>)"

definition basic_stream_events :: "event list" where
  "basic_stream_events =
    [\<lparr>Type = ''response.created'', ID = [], Data = quoted
       ''{`type`:`response.created`,`sequence_number`:0,`response`:{`id`:`resp_stream`,`object`:`response`,`status`:`in_progress`,`output`:[]}}''\<rparr>,
     \<lparr>Type = ''response.output_text.delta'', ID = [], Data = quoted
       ''{`type`:`response.output_text.delta`,`sequence_number`:1,`response_id`:`resp_stream`,`item_id`:`item_stream`,`output_index`:0,`content_index`:0,`delta`:`hello`}''\<rparr>,
     \<lparr>Type = ''response.completed'', ID = [], Data = quoted
       ''{`type`:`response.completed`,`sequence_number`:2,`response`:{`id`:`resp_stream`,`object`:`response`,`status`:`completed`,`output`:[]}}''\<rparr>]"

text \<open>What \<open>Handle\<close> answers, for the fixtures it was built with.\<close>

definition fake_answer ::
  "multipart_library \<Rightarrow> (string, semantic_fixture) gomap \<Rightarrow> request \<Rightarrow> fixture_error + fake_response" where
  "fake_answer lib fixtures request =
    (if firstHeader request ''X-Ai-Shell-Stream-Case'' = ''responses.basic'' \<and>
        Operation request = ''createResponse''
     then Inr (empty_response\<lparr>StatusCode := 200,
            Stream := Dynamic KPointer False (NewScriptedStream basic_stream_events)\<rparr>)
     else
       (let caseName = firstHeader request caseHeader in
        case map_of fixtures caseName of
          None \<Rightarrow> Inl (UnknownCase caseName)
        | Some fixture \<Rightarrow>
            (case assertRequest lib fixture request of
               Some err \<Rightarrow> Inl err
             | None \<Rightarrow> fixture_response fixture)))"

definition recordError :: "fixture_error \<Rightarrow> fake_backend \<Rightarrow> fake_backend" where
  "recordError err b = b\<lparr>fb_errors := fb_errors b @ [err]\<rparr>"

definition FakeBackend_Handle ::
  "multipart_library \<Rightarrow> request \<Rightarrow> fake_backend \<Rightarrow> (fixture_error + fake_response) \<times> fake_backend" where
  "FakeBackend_Handle lib request b =
    (let b = b\<lparr>fb_requests := fb_requests b @ [request]\<rparr> in
     case fake_answer lib (fb_fixtures b) request of
       Inl err \<Rightarrow> (Inl err, recordError err b)
     | Inr response \<Rightarrow> (Inr response, b))"

definition FakeBackend_Requests :: "fake_backend \<Rightarrow> request list" where
  "FakeBackend_Requests b = fb_requests b"

definition FakeBackend_Errors :: "fake_backend \<Rightarrow> fixture_error list" where
  "FakeBackend_Errors b = fb_errors b"

subsection \<open>Fixtures as registrations\<close>

text \<open>\<open>NewFakeBackend\<close> has the contract of the program's option functions: a fixture fills the free slot
  of its operation.\<close>

definition install :: "semantic_fixture \<Rightarrow> (string, semantic_fixture) gomap \<Rightarrow> fixture_error + (string, semantic_fixture) gomap" where
  "install f installed = install_fixtures [f] installed"

definition installed_at :: "(string, semantic_fixture) gomap \<Rightarrow> string \<Rightarrow> semantic_fixture option" where
  "installed_at installed name =
    (case map_of installed name of Some f \<Rightarrow> if fx_operation f = [] then None else Some f | None \<Rightarrow> None)"

interpretation fixture_reg: registration fx_operation "\<lambda>f. fx_operation f \<noteq> []" install installed_at
  by unfold_locales (auto simp: install_def installed_at_def split: option.splits if_splits)

lemma install_fixtures_run:
  "install_fixtures fs installed = run_options e (map (\<lambda>f. Some (install f)) fs) installed"
  by (induction fs arbitrary: installed) (auto simp: install_def)

end
