(* ===== verification/Fake_Backend_Properties.thy ===== *)
theory Fake_Backend_Properties
  imports Fake_Backend Rest_Responses
begin

section \<open>What the scripted backend guarantees\<close>

text \<open>
  Which fixtures are accepted, which requests a fixture accepts, what is recorded, and how the
  answers travel through the REST handler to the client.
\<close>

subsection \<open>Fixtures\<close>

text \<open>The backend accepts exactly the fixtures that can be told apart.  \<open>NewFakeBackend\<close> succeeds if
  and only if every fixture names an operation and no two name the same; then each case name finds
  the fixture of that operation and nothing else is found.\<close>

theorem NewFakeBackend_accepts_iff:
  "NewFakeBackend fs = Inr b \<longleftrightarrow>
     list_all (\<lambda>f. fx_operation f \<noteq> []) fs \<and> distinct (map fx_operation fs) \<and>
     fb_requests b = [] \<and> fb_errors b = [] \<and>
     install_fixtures fs [] = Inr (fb_fixtures b) \<and>
     (\<forall>name. map_of (fb_fixtures b) name = find (\<lambda>f. fx_operation f = name) fs)"
proof -
  have installed: "map_of m name = find (\<lambda>f. fx_operation f = name) fs"
    if "install_fixtures fs [] = Inr m" for m name
  proof -
    have run: "run_options undefined (map (\<lambda>f. Some (install f)) fs) [] = Inr m"
      using that install_fixtures_run by metis
    have keys: "\<forall>(k, f)\<in>set m. k = fx_operation f \<and> k \<noteq> []"
      by (rule run_options_invariant[OF run, where I = "\<lambda>m. \<forall>(k, f)\<in>set m. k = fx_operation f \<and> k \<noteq> []"])
        (use set_update_subset in \<open>fastforce simp: install_def split: if_splits\<close>)+
    then have "installed_at m name = map_of m name"
      by (auto simp: installed_at_def dest: map_of_SomeD split: option.splits)
    then show ?thesis
      using fixture_reg.run_get[OF run, of name] by (simp add: installed_at_def split: option.splits)
  qed
  have "(\<exists>m. install_fixtures fs [] = Inr m) \<longleftrightarrow>
      list_all (\<lambda>f. fx_operation f \<noteq> []) fs \<and> distinct (map fx_operation fs)"
    using fixture_reg.run_ok_iff[of undefined fs "[]"] install_fixtures_run[of fs "[]" undefined]
    by (simp add: list_all_iff installed_at_def)
  then show ?thesis
    using installed by (cases b) (auto simp: NewFakeBackend_def split: sum.splits)
qed

subsection \<open>Equality of decoded JSON\<close>

text \<open>Objects with distinct members, as decoding yields them.\<close>

fun proper_any :: "json \<Rightarrow> bool" where
  "proper_any (JArray vs) = list_all proper_any vs"
| "proper_any (JObject ms) = (distinct (map fst ms) \<and> list_all (\<lambda>(k, v). proper_any v) ms)"
| "proper_any _ = True"

lemma deep_equal_refl: "proper_any v \<Longrightarrow> deep_equal v v"
proof (induction v rule: proper_any.induct)
  case (1 vs)
  then show ?case by (auto simp: list_all_iff zip_same_conv_map)
next
  case (2 ms)
  then show ?case by (fastforce simp: list_all_iff)
qed simp_all

lemma those_Some: "those xs = Some ys \<longleftrightarrow> xs = map Some ys"
  by (induction xs arbitrary: ys) (auto split: option.splits)

lemma fold_update_proper:
  assumes "distinct (map fst m)" and "list_all (\<lambda>(k, v). P v) m" and "list_all (\<lambda>(k, v). P v) kvs"
  shows "distinct (map fst (fold (\<lambda>(k, v). AList.update k v) kvs m)) \<and>
    list_all (\<lambda>(k, v). P v) (fold (\<lambda>(k, v). AList.update k v) kvs m)"
  using assms
proof (induction kvs arbitrary: m)
  case (Cons kv kvs)
  obtain k v where kv: "kv = (k, v)" by (cases kv)
  have "list_all (\<lambda>(k, v). P v) (AList.update k v m)"
    using Cons.prems set_update_subset[of k v m] by (auto simp: kv list_all_iff)
  then show ?case using Cons by (simp add: kv distinct_update)
qed simp

lemma to_any_proper: "to_any v = Some w \<Longrightarrow> proper_any w"
proof (induction v arbitrary: w rule: to_any.induct)
  case (2 vs)
  then obtain ws where ws: "w = JArray ws" "map to_any vs = map Some ws" by (auto simp: those_Some)
  have "proper_any x" if "x \<in> set ws" for x
  proof -
    have "Some x \<in> set (map to_any vs)" using that ws(2) by auto
    then show ?thesis using 2 by auto
  qed
  then show ?case by (simp add: ws list_all_iff)
next
  case (3 ms)
  then obtain kvs where w: "w = JObject (fold (\<lambda>(k, v). AList.update k v) kvs [])"
    and kvs: "map (\<lambda>(k, v). map_option (Pair k) (to_any v)) ms = map Some kvs"
    by (auto simp: those_Some)
  have "proper_any x" if "(k, x) \<in> set kvs" for k x
  proof -
    have "Some (k, x) \<in> set (map (\<lambda>(k, v). map_option (Pair k) (to_any v)) ms)"
      using that unfolding kvs by auto
    then obtain a b where ab: "(a, b) \<in> set ms" "Some (k, x) = map_option (Pair a) (to_any b)" by auto
    from ab(2) have "to_any b = Some x" by (cases "to_any b") auto
    then show ?thesis using "3.IH" ab(1) by blast
  qed
  then have "list_all (\<lambda>(k, v). proper_any v) kvs" by (auto simp: list_all_iff)
  then show ?case using fold_update_proper[of "[]" proper_any kvs] by (simp add: w)
qed auto

text \<open>A body always equals itself, and members may come in any order.\<close>

lemma same_json_refl: "Unmarshal_any data \<noteq> None \<Longrightarrow> same_json data data"
  using to_any_proper deep_equal_refl
  by (auto simp: same_json_def Unmarshal_any_def split: option.splits)

lemma same_json_reordered:
  "same_json (quoted ''{`model`:`m`,`n`:1.0}'') (quoted '' {`n`:1e0, `model`:`m`}'')"
  by code_simp

subsection \<open>Which requests a fixture accepts\<close>

text \<open>The parameters of a request decode to exactly those of the fixture.\<close>

definition parameters_match :: "(string, string) gomap \<Rightarrow> (string, string) gomap \<Rightarrow> bool" where
  "parameters_match params want \<longleftrightarrow>
    (\<forall>name. map_option Unmarshal_string (map_of params name) = map_option Some (map_of want name))"

lemma check_parameters_iff:
  "check_parameters c params want = None \<longleftrightarrow>
     (\<forall>(name, v)\<in>set want. Unmarshal_string (parameter_bytes params name) = Some v)"
  by (induction c params want rule: check_parameters.induct) auto

lemma Unmarshal_string_Nil: "Unmarshal_string [] = None"
  by code_simp

lemma parameter_lookup:
  "Unmarshal_string (parameter_bytes params name) = Some v \<longleftrightarrow>
     (\<exists>raw. map_of params name = Some raw \<and> Unmarshal_string raw = Some v)"
  by (auto simp: parameter_bytes_def Unmarshal_string_Nil split: option.splits)

lemma assertParameters_iff:
  assumes "distinct (map fst (Parameters r))" and "distinct (map fst (fx_parameters f))"
  shows "assertParameters f r = None \<longleftrightarrow> parameters_match (Parameters r) (fx_parameters f)"
proof
  assume "assertParameters f r = None"
  then have len: "length (Parameters r) = length (fx_parameters f)"
    and checked: "check_parameters (fx_operation f) (Parameters r) (fx_parameters f) = None"
    by (simp_all add: assertParameters_def split: if_splits)
  have vals: "\<exists>raw. map_of (Parameters r) name = Some raw \<and> Unmarshal_string raw = Some v"
    if "(name, v) \<in> set (fx_parameters f)" for name v
    using bspec[OF iffD1[OF check_parameters_iff checked] that] by (simp add: parameter_lookup)
  have "set (map fst (fx_parameters f)) \<subseteq> set (map fst (Parameters r))"
  proof
    fix name
    assume "name \<in> set (map fst (fx_parameters f))"
    then obtain v where "(name, v) \<in> set (fx_parameters f)" by auto
    from vals[OF this] show "name \<in> set (map fst (Parameters r))"
      by (auto dest!: map_of_SomeD intro: rev_image_eqI)
  qed
  moreover have "card (set (map fst (fx_parameters f))) = card (set (map fst (Parameters r)))"
    using len distinct_card[OF assms(1)] distinct_card[OF assms(2)] by simp
  ultimately have "fst ` set (Parameters r) = fst ` set (fx_parameters f)"
    using card_subset_eq[OF finite_set] by (metis set_map)
  then have "map_of (fx_parameters f) name = None \<longleftrightarrow> map_of (Parameters r) name = None" for name
    by (simp add: map_of_eq_None_iff)
  moreover have "\<exists>raw. map_of (Parameters r) name = Some raw \<and> Unmarshal_string raw = Some v"
    if "map_of (fx_parameters f) name = Some v" for name v
    using vals[OF map_of_SomeD[OF that]] .
  ultimately have "map_option Unmarshal_string (map_of (Parameters r) name) =
      map_option Some (map_of (fx_parameters f) name)" for name
    by (cases "map_of (fx_parameters f) name") (simp, fastforce)
  then show "parameters_match (Parameters r) (fx_parameters f)"
    by (simp add: parameters_match_def)
next
  assume m: "parameters_match (Parameters r) (fx_parameters f)"
  then have "map_of (fx_parameters f) name = None \<longleftrightarrow> map_of (Parameters r) name = None" for name
    by (metis parameters_match_def map_option_is_None)
  then have "fst ` set (Parameters r) = fst ` set (fx_parameters f)"
    by (auto simp: map_of_eq_None_iff)
  then have "length (Parameters r) = length (fx_parameters f)"
    using distinct_card[OF assms(1)] distinct_card[OF assms(2)] by simp
  moreover have "Unmarshal_string (parameter_bytes (Parameters r) name) = Some v"
    if "(name, v) \<in> set (fx_parameters f)" for name v
  proof -
    have "map_of (fx_parameters f) name = Some v" using that assms(2) by simp
    then have "map_option Unmarshal_string (map_of (Parameters r) name) = Some (Some v)"
      using m by (simp add: parameters_match_def)
    then show ?thesis by (auto simp: parameter_bytes_def)
  qed
  ultimately show "assertParameters f r = None"
    by (auto simp: assertParameters_def check_parameters_iff)
qed

lemma read_parts_iff:
  "read_parts c parts at_end seen = Inr names \<longleftrightarrow>
     at_end \<and> list_all (\<lambda>(n, data). data \<noteq> None \<and> data \<noteq> Some []) parts \<and>
     names = rev (map (\<lambda>(n, data). field_name n) parts) @ seen"
  by (induction c parts at_end seen rule: read_parts.induct) (auto simp: Let_def)

lemma missing_field_iff: "missing_field c seen names = None \<longleftrightarrow> set names \<subseteq> set seen"
  by (induction c seen names rule: missing_field.induct) auto

text \<open>A multipart body that can be read to its end, has no empty part and has every wanted field.\<close>

definition fields_match :: "multipart_library \<Rightarrow> request \<Rightarrow> string list \<Rightarrow> bool" where
  "fields_match lib r want \<longleftrightarrow>
    (\<exists>boundary parts. ml_boundary lib (firstHeader r ''Content-Type'') = Some boundary \<and> boundary \<noteq> [] \<and>
      ml_parts lib (Bytes (Input r)) boundary = (parts, True) \<and>
      list_all (\<lambda>(n, data). data \<noteq> None \<and> data \<noteq> Some []) parts \<and>
      set want \<subseteq> (\<lambda>(n, data). field_name n) ` set parts)"

lemma assertMultipartFields_iff:
  "assertMultipartFields lib f r = None \<longleftrightarrow> fields_match lib r (fx_body_fields f)"
proof (cases "ml_boundary lib (firstHeader r ''Content-Type'')")
  case (Some boundary)
  obtain parts at_end where parts: "ml_parts lib (Bytes (Input r)) boundary = (parts, at_end)" by fastforce
  let ?good = "at_end \<and> list_all (\<lambda>(n, data). data \<noteq> None \<and> data \<noteq> Some []) parts"
  show ?thesis
  proof (cases ?good)
    case True
    then have "read_parts (fx_operation f) parts at_end [] = Inr (rev (map (\<lambda>(n, data). field_name n) parts))"
      by (simp add: read_parts_iff)
    then show ?thesis
      using True by (simp add: assertMultipartFields_def fields_match_def Some parts missing_field_iff)
  next
    case False
    then have "\<exists>err. read_parts (fx_operation f) parts at_end [] = Inl err"
      by (cases "read_parts (fx_operation f) parts at_end []") (auto simp: read_parts_iff)
    then show ?thesis
      using False by (auto simp: assertMultipartFields_def fields_match_def Some parts)
  qed
qed (simp add: assertMultipartFields_def fields_match_def)

text \<open>What a fixture expects of a request.\<close>

definition expects :: "multipart_library \<Rightarrow> semantic_fixture \<Rightarrow> request \<Rightarrow> bool" where
  "expects lib f r \<longleftrightarrow>
    Operation r = fx_operation f \<and> Capability r = fx_capability f \<and>
    MediaType (Input r) = fx_request_media f \<and>
    parameters_match (Parameters r) (fx_parameters f) \<and>
    (fx_body_json f = [] \<or> same_json (fx_body_json f) (Bytes (Input r))) \<and>
    (fx_body_fields f = [] \<or> fields_match lib r (fx_body_fields f)) \<and>
    (Bytes (Input r) = [] \<longrightarrow> fx_request_media f = [] \<or> Contains (fx_request_media f) ''json'' \<or>
       fx_request_media f = ''multipart/form-data'')"

lemma assertRequest_iff:
  assumes "distinct (map fst (Parameters r))" and "distinct (map fst (fx_parameters f))"
  shows "assertRequest lib f r = None \<longleftrightarrow> expects lib f r"
  using assertParameters_iff[OF assms] assertMultipartFields_iff[of lib f r]
  unfolding assertRequest_def expects_def Let_def
  by (cases "assertParameters f r"; cases "assertMultipartFields lib f r") (simp_all del: Contains.simps, argo+)

text \<open>C33: a fixture accepts exactly the requests it describes.  For a request and a fixture whose
  parameters are maps, \<open>assertRequest\<close> finds nothing to object to if and only if the operation, the
  capability and the media type agree, the request's parameters decode to exactly the fixture's, a
  JSON body means the same value (whatever the order of members), a multipart body has all
  fields and no empty one, and a binary body is not empty.  No order of a map matters.\<close>

theorem fixture_accepts_iff:
  assumes "distinct (map fst (Parameters r))" and "distinct (map fst (fx_parameters f))"
  shows "assertRequest lib f r = None \<longleftrightarrow> expects lib f r"
  by (rule assertRequest_iff[OF assms])

definition sample_fixture :: semantic_fixture where
  "sample_fixture =
    \<lparr>fx_operation = ''createEmbedding'', fx_capability = ''embeddings'', fx_request_media = ''application/json'',
     fx_parameters = [(''model'', ''m''), (''limit'', ''2'')],
     fx_body_json = quoted ''{`model`:`m`,`n`:1.0}'', fx_body_fields = [], fx_response_status = 0,
     fx_response_media = ''application/json'', fx_response_body = base64_encode ''{}''\<rparr>"

definition sample_fake_request :: request where
  "sample_fake_request =
    \<lparr>Capability = ''embeddings'', Operation = ''createEmbedding'',
     Metadata = \<lparr>RequestID = ''r'', CallerID = ''c'', Protocol = ''openai'',
                 Extensions = [(caseHeader, [''createEmbedding''])]\<rparr>,
     Parameters = [(''limit'', quoted ''`2`''), (''model'', quoted ''`m`'')],
     Input = \<lparr>MediaType = ''application/json'', JSON = quoted '' {`n`:1e0, `model`:`m`}'',
              Bytes = quoted '' {`n`:1e0, `model`:`m`}''\<rparr>\<rparr>"

definition no_multipart :: multipart_library where
  "no_multipart = \<lparr>ml_boundary = (\<lambda>_. None), ml_parts = (\<lambda>_ _. ([], True))\<rparr>"

lemma sample_expects: "expects no_multipart sample_fixture sample_fake_request"
proof -
  have strings: "Unmarshal_string (quoted ''`2`'') = Some ''2''" "Unmarshal_string (quoted ''`m`'') = Some ''m''"
    by code_simp+
  show ?thesis
    using same_json_reordered strings
    by (simp add: expects_def sample_fixture_def sample_fake_request_def parameters_match_def quoted_def)
qed

theorem fixture_accepts_iff_witness: "assertRequest no_multipart sample_fixture sample_fake_request = None"
proof -
  have "distinct (map fst (Parameters sample_fake_request))" "distinct (map fst (fx_parameters sample_fixture))"
    by (simp_all add: sample_fake_request_def sample_fixture_def)
  from fixture_accepts_iff[OF this, of no_multipart] show ?thesis using sample_expects by simp
qed

subsection \<open>What is recorded\<close>

definition handle_all :: "multipart_library \<Rightarrow> request list \<Rightarrow> fake_backend \<Rightarrow> fake_backend" where
  "handle_all lib rs b = fold (\<lambda>r b. snd (FakeBackend_Handle lib r b)) rs b"

definition failure_of :: "multipart_library \<Rightarrow> (string, semantic_fixture) gomap \<Rightarrow> request \<Rightarrow> fixture_error option" where
  "failure_of lib fixtures r = (case fake_answer lib fixtures r of Inl err \<Rightarrow> Some err | Inr _ \<Rightarrow> None)"

text \<open>Nothing is forgotten: after any sequence of calls \<open>Requests\<close> lists all requests in the order of the
  calls, failed ones included, and \<open>Errors\<close> the failures in that order.\<close>

theorem fake_backend_records:
  "FakeBackend_Requests (handle_all lib rs b) = FakeBackend_Requests b @ rs \<and>
   FakeBackend_Errors (handle_all lib rs b) =
     FakeBackend_Errors b @ List.map_filter (failure_of lib (fb_fixtures b)) rs \<and>
   fb_fixtures (handle_all lib rs b) = fb_fixtures b"
proof (induction rs arbitrary: b)
  case (Cons r rs)
  have "handle_all lib (r # rs) b = handle_all lib rs (snd (FakeBackend_Handle lib r b))"
    by (simp add: handle_all_def)
  then show ?case
    using Cons[of "snd (FakeBackend_Handle lib r b)"]
    by (auto simp: FakeBackend_Handle_def FakeBackend_Requests_def FakeBackend_Errors_def recordError_def
        failure_of_def List.map_filter_simps Let_def split: sum.splits)
qed (simp add: handle_all_def List.map_filter_simps)

subsection \<open>Through the REST handler\<close>

text \<open>The rounds of the event loop over a scripted stream when nothing interrupts it, and the fake as a
  backend of the REST handler; \<open>text\<close> stands for the texts of the errors.\<close>

definition stream_rounds :: "scripted_stream \<Rightarrow> sse_select list" where
  "stream_rounds stream =
    map (\<lambda>e. EventReceived e None) (ss_events stream) @ (if ss_closed stream then [EventsClosed] else [])"

definition as_backend_response :: "fake_response \<Rightarrow> backend_response" where
  "as_backend_response r =
    \<lparr>StatusCode = StatusCode r, ResponseMetadata = ResponseMetadata r,
     ResponseMediaType = ResponseMediaType r, ResponseJSON = ResponseJSON r, Body = Body r,
     Stream = map_iface stream_rounds (Stream r)\<rparr>"

definition fake_handler ::
  "(fixture_error \<Rightarrow> string) \<Rightarrow> multipart_library \<Rightarrow> (string, semantic_fixture) gomap \<Rightarrow> backend_handler" where
  "fake_handler text lib fixtures r =
    (case fake_answer lib fixtures r of
       Inl err \<Rightarrow> Inl (Plain (text err))
     | Inr response \<Rightarrow> Inr (as_backend_response response))"

lemma NewScriptedStream_events: "NewScriptedStream es = \<lparr>ss_events = es, ss_closed = True\<rparr>"
proof -
  have "fold (\<lambda>e stream. stream\<lparr>ss_events := ss_events stream @ [e]\<rparr>) es s = s\<lparr>ss_events := ss_events s @ es\<rparr>"
    for s :: scripted_stream
    by (induction es arbitrary: s) simp_all
  then show ?thesis by (simp add: NewScriptedStream_def Let_def)
qed

definition fixture_result :: "semantic_fixture \<Rightarrow> string \<Rightarrow> backend_response" where
  "fixture_result f body =
    \<lparr>StatusCode = fx_response_status f, ResponseMetadata = [], ResponseMediaType = fx_response_media f,
     ResponseJSON = (if Contains (fx_response_media f) ''json'' then body else []),
     Body = (if body = [] \<or> Contains (fx_response_media f) ''json'' then NilInterface else Dynamic KStruct False body),
     Stream = NilInterface\<rparr>"

lemma fake_handler_fixture:
  assumes "map_of fixtures (firstHeader r caseHeader) = Some f"
    and "firstHeader r ''X-Ai-Shell-Stream-Case'' \<noteq> ''responses.basic''"
    and "assertRequest lib f r = None" and "DecodeString (fx_response_body f) = Some body"
    and "\<not> Contains (fx_response_media f) ''json'' \<or> body = [] \<or> parse_json body \<noteq> None"
  shows "fake_handler text lib fixtures r = Inr (fixture_result f body)"
  using assms
  by (auto simp: fake_handler_def fake_answer_def Let_def fixture_response_def as_backend_response_def
      empty_response_def fixture_result_def simp del: Contains.simps)



text \<open>The scripted stream arrives.  A \<open>createResponse\<close> request for the basic stream case, served over a
  connection that can flush, ends with status 200 and a body from which a standard event stream
  reader recovers the three scripted events, in order and with their data; the stream is closed once.\<close>

theorem fake_stream_arrives:
  assumes "firstHeader r ''X-Ai-Shell-Stream-Case'' = ''responses.basic''" and "Operation r = ''createResponse''"
    and "ext_flushable ext" and "w_committed w = None" and "w_body w = []"
  shows "let out = serve_backend ext h vi op rid w (fake_handler text lib fixtures) r in
    response_status (out_writer out) = 200 \<and>
    sse_parse (w_body (out_writer out)) = map (\<lambda>e. (Type e, [], Data e)) basic_stream_events \<and>
    out_effects out = [BackendCalled r, StreamClosed] \<and> out_ending out = Returned"
proof -
  let ?result = "as_backend_response (empty_response\<lparr>StatusCode := 200,
      Stream := Dynamic KPointer False (NewScriptedStream basic_stream_events)\<rparr>)"
  have answer: "fake_handler text lib fixtures r = Inr ?result"
    using assms(1,2) by (simp add: fake_handler_def fake_answer_def)
  have result: "present (Stream ?result) = Some (map (\<lambda>e. EventReceived e None) basic_stream_events @ [EventsClosed])"
    "responseModeCount ?result = 1" "effective_status op ?result = 200" "ResponseMetadata ?result = []"
    "\<not> nonNilInterface (Body ?result)"
    by (simp_all add: as_backend_response_def empty_response_def stream_rounds_def NewScriptedStream_events
        present_def nonNilInterface_def responseModeCount_def effective_status_def)
  have events: "list_all (\<lambda>e. CHR 0x0D \<notin> set (sse_data e) \<and> CHR 0x00 \<notin> set (ID e)) basic_stream_events"
    "sse_expected [] basic_stream_events = map (\<lambda>e. (Type e, [], Data e)) basic_stream_events"
    by code_simp+
  have "w_committed (w\<lparr>w_header := copySafeHeaders (w_header w) []\<rparr>) = None" "w_body (w\<lparr>w_header := copySafeHeaders (w_header w) []\<rparr>) = []"
    using assms(4,5) by simp_all
  from writeSSE_reads_back[OF events(1) this, of 200 rid] events(2)
  obtain w' where w': "writeSSE (w\<lparr>w_header := copySafeHeaders (w_header w) []\<rparr>) True rid 200
      (map (\<lambda>e. EventReceived e None) basic_stream_events @ [EventsClosed]) = (w', True)"
    "response_status w' = 200" "sse_parse (w_body w') = map (\<lambda>e. (Type e, [], Data e)) basic_stream_events"
    by (auto simp: bodyAllowedForStatus_def)
  then show ?thesis
    using answer result assms(3)
    by (simp add: serve_backend_def serve_response_def serve_stream_def closeResponse_def Let_def)
qed

definition sample_stream_request :: request where
  "sample_stream_request = sample_fake_request
    \<lparr>Operation := ''createResponse'',
     Metadata := (Metadata sample_fake_request)\<lparr>Extensions := [(''X-Ai-Shell-Stream-Case'', [''responses.basic''])]\<rparr>\<rparr>"

theorem fake_stream_arrives_witness:
  "map fst (sse_parse (w_body (out_writer (serve_backend sample_ext (sample_rest 100 (Inl ContextCanceled))
     sample_vi listModels ''r'' fresh_writer (fake_handler (\<lambda>_. []) no_multipart []) sample_stream_request)))) =
   [''response.created'', ''response.output_text.delta'', ''response.completed'']"
proof -
  have "firstHeader sample_stream_request ''X-Ai-Shell-Stream-Case'' = ''responses.basic''"
    "Operation sample_stream_request = ''createResponse''"
    by (simp_all add: firstHeader_def sample_stream_request_def)
  then show ?thesis
    using fake_stream_arrives[of sample_stream_request sample_ext fresh_writer
        "sample_rest 100 (Inl ContextCanceled)" sample_vi listModels "''r''" "\<lambda>_. []" no_multipart "[]"]
    by (simp add: sample_ext_def fresh_writer_def Let_def basic_stream_events_def)
qed

end
