(* ===== verification/Spec2Isabelle.thy ===== *)
theory Spec2Isabelle
  imports Openai_Properties Gen_Embedded Gen_Regenerate Examples Fake_Session_Properties
    Fake_Backend_Properties
begin

text \<open>
  A model of ai-server-shell: an HTTP shell that speaks the OpenAI API to its clients and hands each
  request, translated into a protocol-neutral form, to an application backend.

  \<^bold>\<open>The parts of the program and how they interact.\<close>
  An application registers its backends with \<open>backend.NewServices\<close> (\<open>src/backend\<close>), builds an OpenAI
  handler over them with \<open>openai.NewHandler\<close> (\<open>src/openai\<close>) and mounts it, possibly beside handlers of
  other protocols, in the aggregate \<open>aiservershell.New\<close> (\<open>src/server.go\<close>).  The OpenAI handler
  authenticates and dispatches a request to the REST handler or the WebSocket handler.  The REST
  handler looks the operation up in the frozen profile, has the OpenAPI validator check the request,
  calls the backend once and writes its response, as JSON, bytes or server-sent events.  The
  WebSocket handler opens a session of the application and runs a read and a write loop until one
  ends; a registry of sessions lets \<open>Shutdown\<close> cancel and await all of them.  The frozen profile is
  Go code written by the generator \<open>src/internal/cmd/openai-gen\<close> from an OpenAPI document.
  \<open>src/internal/testutil\<close> holds a backend and a session that answer from JSON fixtures, and
  \<open>src/examples\<close> two complete servers.

  \<^bold>\<open>Conventions.\<close>
  Go strings and byte slices are \<open>string\<close>, a list of bytes; functions on runes recognise UTF-8.  A Go
  map is an association list with distinct keys in the order a \<open>range\<close> loop visits it, so a theorem
  about all lists covers every order.  Interface values tell nil from typed nil (\<open>iface\<close>).  Errors are
  \<open>Inl\<close> of a sum or \<open>None\<close>; panics are values too (\<open>None\<close> or a constructor).  Sizes that the code may
  overflow are \<open>64 word\<close>.  Third-party code (the OpenAPI router and validator, the decoding of the
  compressed document, \<open>websocket.Accept\<close>, gofmt) is an argument of the definitions that use it.
  What goroutines meet outside, such as the outcome of each \<open>select\<close>, is an input list or a step
  relation, never a fixed schedule.

  \<^bold>\<open>The Go library.\<close>
  \<open>Prelude\<close> holds maps, interface values and the loop over options that the three constructors share;
  \<open>Go_Strings\<close>, \<open>Go_Sort\<close>, \<open>Go_Path\<close> and \<open>Go_Mime\<close> model what is used of \<open>strings\<close>, \<open>net/url\<close>,
  \<open>net/textproto\<close>, \<open>sort\<close>, \<open>path\<close> and \<open>mime\<close>; \<open>Json\<close>, \<open>Json_Parse\<close> and \<open>Json_Roundtrip\<close> model
  \<open>encoding/json\<close> with a proof that encoded text parses back; \<open>Float64\<close> models how numbers pass
  through \<open>float64\<close>; \<open>Go_Base64\<close> decodes standard base64 and inverts the encoding; \<open>Http\<close> is the
  response writer of \<open>net/http\<close>, \<open>Serve_Mux\<close> the patterns of its mux, and \<open>Mux_Match\<close> the search of
  the mux for the most specific of them, shown to find the one that beats every other that matches.

  \<^bold>\<open>The interfaces.\<close>
  \<open>Registry\<close> has the locales \<open>registration\<close> (an option that fills one free slot with an admissible
  value; interpreted in \<open>Backend_Services\<close>, \<open>Server\<close> and \<open>Fake_Backend\<close>) and \<open>configuration\<close> (options that keep an
  invariant; interpreted in \<open>Openai_Options\<close>).  \<open>Go_Sort\<close> has \<open>strict_weak_order\<close>, the contract of a
  comparison, interpreted in \<open>Go_Sort\<close>, \<open>Gen_Evidence\<close> and \<open>Gen_Operations\<close>.  \<open>Transitions\<close> has \<open>transition_system\<close>
  with invariants and stability, interpreted on the session registry in \<open>Ws_Lifecycle\<close> and on the fake session in
  \<open>Fake_Session\<close>.

  \<^bold>\<open>The components.\<close>
  \<^item> \<open>Backend_Types\<close>: the data of \<open>src/backend\<close>.  \<open>Backend_Services\<close>: \<open>services.go\<close>; a list of
    registrations is accepted exactly when each is admissible and no slot is taken twice, and
    lookups implement ``registered, else default''.
  \<^item> \<open>Contract\<close>, \<open>Rest_Errors\<close>, \<open>Rest_Stream\<close>, \<open>Rest_Handler\<close>: \<open>internal/contract\<close> and
    \<open>internal/rest\<close>, every guard, helper and panic of \<open>ServeHTTP\<close>.  \<open>Rest_Errors\<close> shows that causes never
    leak; \<open>Rest_Stream\<close> that a standard event stream reader gets the backend's events back and when the
    writer returns; \<open>Rest_Properties\<close> the order of the guards, that the backend is called once with a
    trusted request and that its resources are closed; \<open>Rest_Responses\<close> what the client receives.
  \<^item> \<open>Profile_Tables\<close>: the 288 operations and the events of \<open>profile.gen.go\<close>.  \<open>Profile\<close>,
    \<open>Profile_Route\<close>, \<open>Profile_Ids\<close>: the lookups of \<open>profile.go\<close>, shown equal to plain table lookups and
    complete.  \<open>Profile_Schema\<close>: the normalisation of the document for the router, with what it
    establishes and what it preserves.
  \<^item> \<open>Ws_Lifecycle\<close>: \<open>register\<close>, \<open>unregister\<close> and \<open>Shutdown\<close> of \<open>internal/websocket/handler.go\<close> as an
    interleaving of connections and shutdown calls (any number of both), with safety invariants and
    the liveness of \<open>Shutdown\<close>.  \<open>Ws_Codec\<close>: decoding and encoding of events.  \<open>Ws_Session\<close>: the two loops,
    the close reason and \<open>ServeHTTP\<close>.  \<open>Ws_Properties\<close>: its guards, the profile check of everything that
    passes, and the release of sessions and registrations.
  \<^item> \<open>Openai_Options\<close>, \<open>Openai_Handler\<close>: \<open>options.go\<close>, \<open>auth.go\<close> and \<open>handler.go\<close>.
    \<open>Openai_Properties\<close>: the configuration every handler has, and that every caller id an application
    sees comes from the authenticator.
  \<^item> \<open>Server\<close>: \<open>New\<close> and \<open>Shutdown\<close> of \<open>server.go\<close>; which mounts are accepted, and that \<open>Shutdown\<close>
    reaches every handler.  \<open>Server_Dispatch\<close>: its \<open>ServeHTTP\<close> with the redirects and refusals of the
    mux; a clean path reaches the handler of the most specific mount.
  \<^item> \<open>Fake_Session\<close>: \<open>fake_session.go\<close> as an interleaving of a caller, a writer, an answering
    goroutine and \<open>Close\<close>; \<open>Fake_Session_Properties\<close>: events come out in the order they were answered,
    the session refines a bounded pipe, and \<open>Close\<close> unblocks everyone.
  \<^item> \<open>Fake_Backend\<close>: \<open>fake_backend.go\<close>, \<open>fixtures.go\<close> and \<open>scripted_stream.go\<close>;
    \<open>Fake_Backend_Properties\<close>: which fixture sets and which requests are accepted, and what a client
    of the REST handler reads when a fixture answers.
  \<^item> \<open>Examples\<close>: \<open>backend/handler.go\<close>, \<open>body_decoders.go\<close> and the \<open>main\<close> functions of
    \<open>src/examples\<close> up to listening, with what each of the two servers answers.
  \<^item> \<open>Gen_Operations\<close>, \<open>Gen_Evidence\<close>, \<open>Gen_Render\<close>, \<open>Gen_Main\<close>: the generator from its decoded input to
    the files it writes.  \<open>Gen_Determinism\<close>: the rows do not depend on map order.  \<open>Gen_Tables\<close>: the
    checked-in tables carry valid evidence.  \<open>Gen_Regenerate\<close>: a document with the frozen operations
    yields exactly the frozen table.  \<open>Gen_Embedded\<close>: the source has exactly the intended lines, and
    \<open>SpecJSON\<close> gets the document back that the generator embedded.

  \<^bold>\<open>Bounds and fuel.\<close>
  Loops are structural recursion or functions with a measure.  Three take a number of rounds:
  \<open>media_params_err\<close>, where each round consumes input, so that its length is enough
  (\<open>media_params_err_rounds\<close>), \<open>fewest_digits\<close> in \<open>Float64\<close>, which stops after 17 digits because 17
  always identify a \<open>float64\<close>, and \<open>leading_zeros\<close>, where 400 rounds are enough because a \<open>float64\<close>
  is not below ten to the minus 324.

  \<^bold>\<open>Not modelled.\<close>
  Listeners, TLS and goroutine scheduling of \<open>net/http\<close>, with the \<open>GODEBUG\<close> setting that restores its
  old patterns; the bytes of the compressed OpenAPI document, its decoding and the third-party router
  and validator over it; the parsing of multipart bodies by \<open>mime/multipart\<close>, the argument
  \<open>multipart_library\<close>; the tests.
\<close>

end
